(* ===== verification/Go_Prelude.thy ===== *)
theory Go_Prelude
  imports Main "HOL-Library.AList"
begin

text \<open>
  The part of the Go language and of its standard library that the modelled code uses:
  strings as byte strings (package \<open>strings\<close>), decimal conversion and \<open>ParseBool\<close>
  (package \<open>strconv\<close>), slash-separated paths (package \<open>path\<close>), maps with an iteration
  order, and the collections of simplification rules that the component theories share.

  A Go map is an association list with distinct keys. The order of the list is the order
  in which one run of the program iterates over the map; a theorem about all lists is
  therefore a theorem about every iteration order. White space and letter case are those
  of ASCII.
\<close>

named_theorems go_defs \<open>definitions of the standard library model\<close>
named_theorems io_simps \<open>unfolding of effectful steps\<close>

type_synonym 'v gomap = "(string \<times> 'v) list"

section \<open>Strings\<close>

definition HasPrefix :: "string \<Rightarrow> string \<Rightarrow> bool" where
  "HasPrefix s p \<longleftrightarrow> take (length p) s = p"

definition HasSuffix :: "string \<Rightarrow> string \<Rightarrow> bool" where
  "HasSuffix s p \<longleftrightarrow> length p \<le> length s \<and> drop (length s - length p) s = p"

definition TrimPrefix :: "string \<Rightarrow> string \<Rightarrow> string" where
  "TrimPrefix s p = (if HasPrefix s p then drop (length p) s else s)"

fun Contains :: "string \<Rightarrow> string \<Rightarrow> bool" where
  "Contains [] p \<longleftrightarrow> p = []"
| "Contains (c # s) p \<longleftrightarrow> HasPrefix (c # s) p \<or> Contains s p"

fun Split :: "string \<Rightarrow> char \<Rightarrow> string list" where
  "Split [] c = [[]]"
| "Split (x # xs) c =
     (if x = c then [] # Split xs c
      else (case Split xs c of [] \<Rightarrow> [[x]] | h # t \<Rightarrow> (x # h) # t))"

fun Join :: "string list \<Rightarrow> string \<Rightarrow> string" where
  "Join [] sep = []"
| "Join [s] sep = s"
| "Join (s # ss) sep = s @ sep @ Join ss sep"

text \<open>\<open>strings.Cut\<close> at a single byte: before, after, found.\<close>

definition Cut :: "string \<Rightarrow> char \<Rightarrow> string \<times> string \<times> bool" where
  "Cut s c = (takeWhile (\<lambda>x. x \<noteq> c) s, tl (dropWhile (\<lambda>x. x \<noteq> c) s), c \<in> set s)"

definition is_space :: "char \<Rightarrow> bool" where
  "is_space c \<longleftrightarrow> of_char c \<in> {9, 10, 11, 12, 13, 32 :: nat}"

definition TrimSpace :: "string \<Rightarrow> string" where
  "TrimSpace s = rev (dropWhile is_space (rev (dropWhile is_space s)))"

text \<open>\<open>strings.Fields\<close>: the maximal runs of non-space bytes; the first argument is the
  current run, reversed.\<close>

fun fields_from :: "string \<Rightarrow> string \<Rightarrow> string list" where
  "fields_from cur [] = (if cur = [] then [] else [rev cur])"
| "fields_from cur (c # s) =
     (if is_space c then (if cur = [] then fields_from [] s else rev cur # fields_from [] s)
      else fields_from (c # cur) s)"

definition Fields :: "string \<Rightarrow> string list" where
  "Fields s = fields_from [] s"

definition is_letter :: "char \<Rightarrow> bool" where
  "is_letter c \<longleftrightarrow> (65 \<le> (of_char c :: nat) \<and> of_char c \<le> (90 :: nat)) \<or>
     (97 \<le> (of_char c :: nat) \<and> of_char c \<le> (122 :: nat))"

definition to_lower :: "char \<Rightarrow> char" where
  "to_lower c = (if 65 \<le> (of_char c :: nat) \<and> of_char c \<le> (90 :: nat)
                 then char_of (of_char c + 32 :: nat) else c)"

definition ToLower :: "string \<Rightarrow> string" where
  "ToLower = map to_lower"

text \<open>\<open>strconv.Quote\<close> (the verb \<open>%q\<close>) on printable ASCII text, and on a list of such.\<close>

definition Quote :: "string \<Rightarrow> string" where
  "Quote s = [CHR 0x22] @ concat (map (\<lambda>c. if c = CHR 0x22 \<or> c = CHR 0x5C then [CHR 0x5C, c] else [c]) s) @ [CHR 0x22]"

definition Quote_list :: "string list \<Rightarrow> string" where
  "Quote_list ss = ''['' @ Join (map Quote ss) '' '' @ '']''"

lemma HasPrefix_append [simp]: "HasPrefix (p @ s) p"
  by (simp add: HasPrefix_def)

lemma HasPrefix_Nil [simp]: "HasPrefix s []"
  by (simp add: HasPrefix_def)

lemma HasPrefix_iff: "HasPrefix s p \<longleftrightarrow> (\<exists>t. s = p @ t)"
  unfolding HasPrefix_def by (metis append_eq_conv_conj append_take_drop_id)

lemma TrimPrefix_append [simp]: "TrimPrefix (p @ s) p = s"
  by (simp add: TrimPrefix_def)

lemma Contains_prefix: "HasPrefix s p \<Longrightarrow> Contains s p"
  by (cases s) (auto simp: HasPrefix_def)

lemma Contains_append [simp]: "Contains (a @ p @ b) p"
  by (induction a) (auto intro: Contains_prefix)

lemma Split_not_Nil [simp]: "Split s c \<noteq> []"
  by (induction s) (auto split: list.splits)

lemma Split_no_sep [simp]: "c \<notin> set s \<Longrightarrow> Split s c = [s]"
  by (induction s) auto

lemma Split_append_sep: "c \<notin> set a \<Longrightarrow> Split (a @ c # b) c = a # Split b c"
  by (induction a) auto

lemma Join_Split: "Join (Split s c) [c] = s"
proof (induction s)
  case (Cons x xs)
  show ?case
  proof (cases "Split xs c")
    case (Cons h t)
    with \<open>Join (Split xs c) [c] = xs\<close> show ?thesis
      by (cases t) auto
  qed simp
qed simp

lemma Split_parts_no_sep: "p \<in> set (Split s c) \<Longrightarrow> c \<notin> set p"
  by (induction s arbitrary: p) (auto split: if_splits list.splits)

lemma length_Split: "length (Split s c) = Suc (count_list s c)"
  by (induction s) (auto split: list.splits)

lemma Fields_not_empty: "f \<in> set (Fields s) \<Longrightarrow> f \<noteq> []"
proof -
  have "f \<in> set (fields_from cur s) \<Longrightarrow> f \<noteq> []" for cur
    by (induction cur s rule: fields_from.induct) (auto split: if_splits)
  then show "f \<in> set (Fields s) \<Longrightarrow> f \<noteq> []"
    by (simp add: Fields_def)
qed

section \<open>Decimal numbers and booleans\<close>

definition digit_char :: "nat \<Rightarrow> char" where
  "digit_char d = char_of (48 + d)"

definition digit_val :: "char \<Rightarrow> nat" where
  "digit_val c = of_char c - 48"

definition is_digit :: "char \<Rightarrow> bool" where
  "is_digit c \<longleftrightarrow> 48 \<le> (of_char c :: nat) \<and> (of_char c :: nat) \<le> 57"

fun dec_digits :: "nat \<Rightarrow> string" where
  "dec_digits n = (if n < 10 then [digit_char n]
                   else dec_digits (n div 10) @ [digit_char (n mod 10)])"

declare dec_digits.simps [simp del]

definition dec_val :: "string \<Rightarrow> nat" where
  "dec_val s = foldl (\<lambda>a c. 10 * a + digit_val c) 0 s"

definition Itoa :: "int \<Rightarrow> string" where
  "Itoa i = (if i < 0 then ''-'' @ dec_digits (nat (- i)) else dec_digits (nat i))"

text \<open>\<open>strconv.ParseUint(s, 10, bits)\<close>; \<open>None\<close> is a non-nil error.\<close>

definition ParseUint :: "nat \<Rightarrow> string \<Rightarrow> nat option" where
  "ParseUint bits s =
     (if s = [] \<or> \<not> list_all is_digit s then None
      else if 2 ^ bits \<le> dec_val s then None else Some (dec_val s))"

text \<open>Its error: the digits are read until one makes the value too large or is no digit.\<close>

definition ParseUint_error :: "nat \<Rightarrow> string \<Rightarrow> string" where
  "ParseUint_error bits s =
     ''strconv.ParseUint: parsing '' @ Quote s @ '': '' @
     (if 2 ^ bits \<le> dec_val (takeWhile is_digit s) then ''value out of range'' else ''invalid syntax'')"

text \<open>\<open>strconv.ParseInt(s, 10, bits)\<close>: an optional sign, then digits, in range.\<close>

definition ParseInt :: "nat \<Rightarrow> string \<Rightarrow> int option" where
  "ParseInt bits s =
     (let neg = HasPrefix s ''-'';
          mag = (if neg \<or> HasPrefix s ''+'' then tl s else s)
      in if mag = [] \<or> \<not> list_all is_digit mag then None
         else let v = (if neg then - int (dec_val mag) else int (dec_val mag))
              in if - (2 ^ (bits - 1)) \<le> v \<and> v < 2 ^ (bits - 1) then Some v else None)"

text \<open>\<open>strconv.Atoi\<close> on a 64-bit platform.\<close>

definition Atoi :: "string \<Rightarrow> int option" where
  "Atoi s = ParseInt 64 s"

definition ParseBool :: "string \<Rightarrow> bool option" where
  "ParseBool s =
     (if s \<in> {''1'', ''t'', ''T'', ''true'', ''TRUE'', ''True''} then Some True
      else if s \<in> {''0'', ''f'', ''F'', ''false'', ''FALSE'', ''False''} then Some False
      else None)"

lemma digit_char_digit [simp]: "d < 10 \<Longrightarrow> is_digit (digit_char d)"
  by (simp add: is_digit_def digit_char_def of_char_of)

lemma digit_val_char [simp]: "d < 10 \<Longrightarrow> digit_val (digit_char d) = d"
  by (simp add: digit_val_def digit_char_def of_char_of)

lemma dec_val_snoc [simp]: "dec_val (s @ [c]) = 10 * dec_val s + digit_val c"
  by (simp add: dec_val_def)

lemma dec_val_Nil [simp]: "dec_val [] = 0"
  by (simp add: dec_val_def)

lemma dec_digits_facts:
  "dec_digits n \<noteq> [] \<and> list_all is_digit (dec_digits n) \<and> dec_val (dec_digits n) = n"
proof (induction n rule: dec_digits.induct)
  case (1 n)
  show ?case
  proof (cases "n < 10")
    case True
    then show ?thesis
      by (simp add: dec_digits.simps [of n] dec_val_def)
  next
    case False
    with 1 show ?thesis
      by (simp add: dec_digits.simps [of n])
  qed
qed

lemmas dec_digits_ne [simp] = dec_digits_facts [THEN conjunct1]
lemmas dec_digits_digits [simp] = dec_digits_facts [THEN conjunct2, THEN conjunct1]
lemmas dec_val_dec_digits [simp] = dec_digits_facts [THEN conjunct2, THEN conjunct2]

lemma dec_digits_sign:
  "\<not> HasPrefix (dec_digits n) ''-''" "\<not> HasPrefix (dec_digits n) ''+''"
proof -
  obtain c s where cs: "dec_digits n = c # s"
    by (cases "dec_digits n") auto
  with dec_digits_digits [of n] have "is_digit c" by simp
  then show "\<not> HasPrefix (dec_digits n) ''-''" "\<not> HasPrefix (dec_digits n) ''+''"
    by (auto simp: cs HasPrefix_def is_digit_def)
qed

lemma ParseInt_Itoa:
  assumes "- (2 ^ (bits - 1)) \<le> i" "i < 2 ^ (bits - 1)"
  shows "ParseInt bits (Itoa i) = Some i"
proof (cases "i < 0")
  case True
  then have "ParseInt bits (Itoa i) = ParseInt bits (CHR ''-'' # dec_digits (nat (- i)))"
    by (simp add: Itoa_def)
  also have "\<dots> = Some i"
    using True assms by (simp add: ParseInt_def HasPrefix_def)
  finally show ?thesis .
next
  case False
  then show ?thesis
    using assms dec_digits_sign by (simp add: ParseInt_def Itoa_def)
qed

lemma Atoi_Itoa [simp]: "- (2 ^ 63) \<le> i \<Longrightarrow> i < 2 ^ 63 \<Longrightarrow> Atoi (Itoa i) = Some i"
  using ParseInt_Itoa [of 64 i] by (simp add: Atoi_def)

lemma Itoa_inject:
  assumes "- (2 ^ 63) \<le> i" "i < 2 ^ 63" "- (2 ^ 63) \<le> j" "j < 2 ^ 63" "Itoa i = Itoa j"
  shows "i = j"
  using assms by (metis Atoi_Itoa option.inject)

text \<open>Wrap-around of \<open>int\<close> on a 64-bit platform.\<close>

definition wrap64 :: "int \<Rightarrow> int" where
  "wrap64 i = (i + 2 ^ 63) mod 2 ^ 64 - 2 ^ 63"

lemma wrap64_id [simp]: "- (2 ^ 63) \<le> i \<Longrightarrow> i < 2 ^ 63 \<Longrightarrow> wrap64 i = i"
  by (simp add: wrap64_def)

lemma ParseInt_range: "ParseInt bits s = Some i \<Longrightarrow> - (2 ^ (bits - 1)) \<le> i \<and> i < 2 ^ (bits - 1)"
  by (auto simp: ParseInt_def Let_def split: if_splits)

lemma Atoi_range: "Atoi s = Some i \<Longrightarrow> - (2 ^ 63) \<le> i \<and> i < 2 ^ 63"
  using ParseInt_range [of 64 s i] by (simp add: Atoi_def)

section \<open>Maps\<close>

definition map_put :: "string \<Rightarrow> 'v \<Rightarrow> 'v gomap \<Rightarrow> 'v gomap" where
  "map_put k v m = AList.update k v m"

definition map_del :: "string \<Rightarrow> 'v gomap \<Rightarrow> 'v gomap" where
  "map_del k m = AList.delete k m"

text \<open>Indexing a string map: the zero value for a missing key.\<close>

definition map_str :: "string gomap \<Rightarrow> string \<Rightarrow> string" where
  "map_str m k = (case map_of m k of None \<Rightarrow> [] | Some v \<Rightarrow> v)"

abbreviation gomap_ok :: "'v gomap \<Rightarrow> bool" where
  "gomap_ok m \<equiv> distinct (map fst m)"

lemma map_of_put [simp]: "map_of (map_put k v m) k' = (if k' = k then Some v else map_of m k')"
  by (simp add: map_put_def update_conv')

lemma map_of_del [simp]: "map_of (map_del k m) k' = (if k' = k then None else map_of m k')"
  by (simp add: map_del_def delete_conv')

lemma gomap_ok_put [simp]: "gomap_ok m \<Longrightarrow> gomap_ok (map_put k v m)"
  by (simp add: map_put_def distinct_update)

lemma map_str_put [simp]: "map_str (map_put k v m) k' = (if k' = k then v else map_str m k')"
  by (simp add: map_str_def)

section \<open>Slash-separated paths\<close>

text \<open>\<open>path.Clean\<close> on the list of the path's elements: empty and \<open>.\<close> elements go, \<open>..\<close>
  cancels the element before it, and a rooted path has no leading \<open>..\<close>.\<close>

fun clean_elems :: "bool \<Rightarrow> string list \<Rightarrow> string list \<Rightarrow> string list" where
  "clean_elems rooted acc [] = rev acc"
| "clean_elems rooted acc (e # es) =
     (if e = [] \<or> e = ''.'' then clean_elems rooted acc es
      else if e = ''..'' then
        (case acc of
           [] \<Rightarrow> if rooted then clean_elems rooted [] es else clean_elems rooted [''..''] es
         | a # as \<Rightarrow> if a = ''..'' then clean_elems rooted (''..'' # acc) es
                     else clean_elems rooted as es)
      else clean_elems rooted (e # acc) es)"

definition Clean :: "string \<Rightarrow> string" where
  "Clean p =
     (let rooted = HasPrefix p ''/'';
          es = clean_elems rooted [] (Split p (CHR ''/''))
      in if rooted then ''/'' @ Join es ''/''
         else if es = [] then ''.'' else Join es ''/'')"

text \<open>\<open>path.Split\<close> at the last slash: the directory with its slash, and the rest.\<close>

definition path_Split :: "string \<Rightarrow> string \<times> string" where
  "path_Split p = (rev (dropWhile (\<lambda>c. c \<noteq> CHR ''/'') (rev p)),
                   rev (takeWhile (\<lambda>c. c \<noteq> CHR ''/'') (rev p)))"

definition Dir :: "string \<Rightarrow> string" where
  "Dir p = Clean (fst (path_Split p))"

definition Base :: "string \<Rightarrow> string" where
  "Base p =
     (if p = [] then ''.''
      else let q = rev (dropWhile (\<lambda>c. c = CHR ''/'') (rev p))
           in if q = [] then ''/'' else snd (path_Split q))"

text \<open>\<open>path.Join\<close>: the non-empty elements joined by a slash and cleaned.\<close>

definition path_Join :: "string list \<Rightarrow> string" where
  "path_Join es = (let ne = filter (\<lambda>e. e \<noteq> []) es in if ne = [] then [] else Clean (Join ne ''/''))"

text \<open>\<open>filepath.Ext\<close>: from the last dot of the last element on.\<close>

definition path_Ext :: "string \<Rightarrow> string" where
  "path_Ext p =
     (let b = snd (path_Split p)
      in if CHR ''.'' \<in> set b
         then CHR ''.'' # rev (takeWhile (\<lambda>c. c \<noteq> CHR ''.'') (rev b)) else [])"

section \<open>JSON values and the map utility\<close>

text \<open>The value a JSON text denotes (package \<open>encoding/json\<close>); numbers are integers.\<close>

datatype json = JNull | JBool bool | JNum int | JStr string | JArr "json list" | JObj "(string \<times> json) list"

text \<open>\<open>src/pkg/utility/maputility/utility.go\<close>\<close>

definition KeyEqualsValueFormat :: "string \<Rightarrow> string \<Rightarrow> string" where
  "KeyEqualsValueFormat key v = key @ ''='' @ v"

definition Flatten :: "string gomap \<Rightarrow> (string \<Rightarrow> string \<Rightarrow> string) \<Rightarrow> string list" where
  "Flatten kvMap format = fold (\<lambda>(k, v) acc. acc @ [format k v]) kvMap []"

end
