(* ===== verification/Errdefs.thy ===== *)
theory Errdefs
  imports Go_Prelude
begin

text \<open>
  Go errors and the domain error types of \<open>src/pkg/errdefs/errdefs.go\<close>, together with
  the result type that the other theories use for fallible and effectful code.

  An error value is a message, a value made by code outside the repository (with the
  classes that code's own predicates report for it), a domain-typed wrapper
  (\<open>errWithType\<close>) or an \<open>fmt.Errorf\<close> with one \<open>%w\<close> verb.
\<close>

section \<open>Error values\<close>

datatype errType = unknown | unauthenticated | notFound | invalidFormat | conflict
  | notModified | wrongSemantics | forbidden

text \<open>Classes of errors made outside the repository, as the predicates of containerd
  (\<open>cerrdefs\<close>), of the resolver, of nerdctl, of \<open>os\<close> and of the iptables package see them.\<close>

datatype ext_kind = XNotFound | XInvalidArgument | XAlreadyExists | XInvalidAuthorization
  | XUnexpectedStatus int | XContainerStatus | XNotExist | XExist | XIptables int | XEINTR

datatype gerr =
    ErrMsg string
  | ErrExt "ext_kind list" string
  | ErrWithType errType gerr
  | ErrWrap string gerr string

fun Error :: "gerr \<Rightarrow> string" where
  "Error (ErrMsg m) = m"
| "Error (ErrExt ks m) = m"
| "Error (ErrWithType t e) = Error e"
| "Error (ErrWrap pre e post) = pre @ Error e @ post"

fun Unwrap :: "gerr \<Rightarrow> gerr option" where
  "Unwrap (ErrMsg m) = None"
| "Unwrap (ErrExt ks m) = None"
| "Unwrap (ErrWithType t e) = Some e"
| "Unwrap (ErrWrap pre e post) = Some e"

definition create_err :: "errType \<Rightarrow> gerr \<Rightarrow> gerr" where
  "create_err t err = ErrWithType t err"

text \<open>\<open>errors.As(err, &ewt)\<close>: the first \<open>errWithType\<close> of the chain.\<close>

fun as_errWithType :: "gerr \<Rightarrow> errType option" where
  "as_errWithType (ErrMsg m) = None"
| "as_errWithType (ErrExt ks m) = None"
| "as_errWithType (ErrWithType t e) = Some t"
| "as_errWithType (ErrWrap pre e post) = as_errWithType e"

definition isType :: "errType \<Rightarrow> gerr \<Rightarrow> bool" where
  "isType t err = (case as_errWithType err of Some t' \<Rightarrow> t' = t | None \<Rightarrow> False)"

definition NewUnauthenticated :: "gerr \<Rightarrow> gerr" where
  "NewUnauthenticated err = create_err unauthenticated err"
definition IsUnauthenticated :: "gerr \<Rightarrow> bool" where
  "IsUnauthenticated err = isType unauthenticated err"
definition NewNotFound :: "gerr \<Rightarrow> gerr" where
  "NewNotFound err = create_err notFound err"
definition IsNotFound :: "gerr \<Rightarrow> bool" where
  "IsNotFound err = isType notFound err"
definition NewInvalidFormat :: "gerr \<Rightarrow> gerr" where
  "NewInvalidFormat err = create_err invalidFormat err"
definition IsInvalidFormat :: "gerr \<Rightarrow> bool" where
  "IsInvalidFormat err = isType invalidFormat err"
definition NewConflict :: "gerr \<Rightarrow> gerr" where
  "NewConflict err = create_err conflict err"
definition IsConflict :: "gerr \<Rightarrow> bool" where
  "IsConflict err = isType conflict err"
definition NewNotModified :: "gerr \<Rightarrow> gerr" where
  "NewNotModified err = create_err notModified err"
definition IsNotModified :: "gerr \<Rightarrow> bool" where
  "IsNotModified err = isType notModified err"
definition NewWrongSemantics :: "gerr \<Rightarrow> gerr" where
  "NewWrongSemantics err = create_err wrongSemantics err"
definition IsWrongSemantics :: "gerr \<Rightarrow> bool" where
  "IsWrongSemantics err = isType wrongSemantics err"
definition NewForbidden :: "gerr \<Rightarrow> gerr" where
  "NewForbidden err = create_err forbidden err"
definition IsForbiddenError :: "gerr \<Rightarrow> bool" where
  "IsForbiddenError err = isType forbidden err"

lemmas errdefs_defs = create_err_def isType_def
  NewUnauthenticated_def IsUnauthenticated_def NewNotFound_def IsNotFound_def
  NewInvalidFormat_def IsInvalidFormat_def NewConflict_def IsConflict_def
  NewNotModified_def IsNotModified_def NewWrongSemantics_def IsWrongSemantics_def
  NewForbidden_def IsForbiddenError_def

text \<open>The predicates of third-party packages walk the chain to the value made outside
  (\<open>errors.Is\<close>, \<open>errors.As\<close>); those of \<open>os\<close> and a type assertion look at the value itself.\<close>

fun ext_kinds :: "gerr \<Rightarrow> ext_kind list" where
  "ext_kinds (ErrMsg m) = []"
| "ext_kinds (ErrExt ks m) = ks"
| "ext_kinds (ErrWithType t e) = ext_kinds e"
| "ext_kinds (ErrWrap pre e post) = ext_kinds e"

definition cerr_IsNotFound :: "gerr \<Rightarrow> bool" where
  "cerr_IsNotFound e \<longleftrightarrow> XNotFound \<in> set (ext_kinds e)"
definition cerr_IsInvalidArgument :: "gerr \<Rightarrow> bool" where
  "cerr_IsInvalidArgument e \<longleftrightarrow> XInvalidArgument \<in> set (ext_kinds e)"
definition cerr_IsAlreadyExists :: "gerr \<Rightarrow> bool" where
  "cerr_IsAlreadyExists e \<longleftrightarrow> XAlreadyExists \<in> set (ext_kinds e)"

fun own_kinds :: "gerr \<Rightarrow> ext_kind list" where
  "own_kinds (ErrExt ks m) = ks"
| "own_kinds (ErrMsg m) = []"
| "own_kinds (ErrWithType t e) = []"
| "own_kinds (ErrWrap pre e post) = []"

definition os_IsNotExist :: "gerr \<Rightarrow> bool" where
  "os_IsNotExist e \<longleftrightarrow> XNotExist \<in> set (own_kinds e)"

definition os_IsExist :: "gerr \<Rightarrow> bool" where
  "os_IsExist e \<longleftrightarrow> XExist \<in> set (own_kinds e)"

section \<open>Results and effects\<close>

text \<open>
  What a call can do: return a value, return an error, panic, or never return.
  An effectful call takes the state of everything outside the process (the world) and
  gives the world it leaves.
\<close>

datatype 'a res = Ok 'a | Err gerr | Panic string | Hang

type_synonym ('w, 'a) io = "'w \<Rightarrow> 'a res \<times> 'w"

text \<open>\<open>x, err := m(); if err != nil { return err }; k(x)\<close>\<close>

definition and_then :: "('w, 'a) io \<Rightarrow> ('a \<Rightarrow> ('w, 'b) io) \<Rightarrow> ('w, 'b) io" where
  "and_then m k w =
     (case m w of
        (Ok x, w1) \<Rightarrow> k x w1
      | (Err e, w1) \<Rightarrow> (Err e, w1)
      | (Panic p, w1) \<Rightarrow> (Panic p, w1)
      | (Hang, w1) \<Rightarrow> (Hang, w1))"

text \<open>\<open>x, err := m(); if err != nil { return h(err) }; k(x)\<close>, where \<open>h\<close> translates or
  handles the error.\<close>

definition or_else :: "('w, 'a) io \<Rightarrow> (gerr \<Rightarrow> ('w, 'b) io) \<Rightarrow> ('a \<Rightarrow> ('w, 'b) io) \<Rightarrow> ('w, 'b) io" where
  "or_else m h k w =
     (case m w of
        (Ok x, w1) \<Rightarrow> k x w1
      | (Err e, w1) \<Rightarrow> h e w1
      | (Panic p, w1) \<Rightarrow> (Panic p, w1)
      | (Hang, w1) \<Rightarrow> (Hang, w1))"

definition ret :: "'a \<Rightarrow> ('w, 'a) io" where
  "ret x w = (Ok x, w)"

definition fail :: "gerr \<Rightarrow> ('w, 'a) io" where
  "fail e w = (Err e, w)"

definition panic :: "string \<Rightarrow> ('w, 'a) io" where
  "panic p w = (Panic p, w)"

definition lift_res :: "'a res \<Rightarrow> ('w, 'a) io" where
  "lift_res r w = (r, w)"

lemmas io_defs = and_then_def or_else_def ret_def fail_def panic_def lift_res_def

lemma and_then_Ok [io_simps]: "m w = (Ok x, w1) \<Longrightarrow> and_then m k w = k x w1"
  by (simp add: and_then_def)

lemma and_then_Err [io_simps]: "m w = (Err e, w1) \<Longrightarrow> and_then m k w = (Err e, w1)"
  by (simp add: and_then_def)

lemma or_else_Ok [io_simps]: "m w = (Ok x, w1) \<Longrightarrow> or_else m h k w = k x w1"
  by (simp add: or_else_def)

lemma or_else_Err [io_simps]: "m w = (Err e, w1) \<Longrightarrow> or_else m h k w = h e w1"
  by (simp add: or_else_def)

lemma ret_eq [simp]: "ret x w = (Ok x, w)"
  by (simp add: ret_def)

lemma fail_eq [simp]: "fail e w = (Err e, w)"
  by (simp add: fail_def)

lemma panic_eq [simp]: "panic p w = (Panic p, w)"
  by (simp add: panic_def)

lemma lift_res_eq [simp]: "lift_res r w = (r, w)"
  by (simp add: lift_res_def)

lemma and_then_ret [simp]: "and_then (ret x) k = k x"
  by (rule ext) (simp add: and_then_def)

lemma and_then_fail [simp]: "and_then (fail e) k = fail e"
  by (rule ext) (simp add: and_then_def)

lemma and_then_or_else: "and_then m k = or_else m fail k"
  by (rule ext) (auto simp: and_then_def or_else_def fail_def split: prod.splits res.splits)

lemma and_then_OkD:
  "and_then m k w = (Ok y, w2) \<Longrightarrow> \<exists>x w1. m w = (Ok x, w1) \<and> k x w1 = (Ok y, w2)"
  by (auto simp: and_then_def split: prod.splits res.splits)

lemma or_else_OkD:
  "or_else m h k w = (Ok y, w2) \<Longrightarrow>
     (\<exists>x w1. m w = (Ok x, w1) \<and> k x w1 = (Ok y, w2)) \<or> (\<exists>e w1. m w = (Err e, w1) \<and> h e w1 = (Ok y, w2))"
  by (auto simp: or_else_def split: prod.splits res.splits)

text \<open>An effect that leaves the world as it is.\<close>

definition pure_io :: "('w, 'a) io \<Rightarrow> bool" where
  "pure_io m \<longleftrightarrow> (\<forall>w. snd (m w) = w)"

lemma pure_ioD: "pure_io m \<Longrightarrow> m w = (r, w') \<Longrightarrow> w' = w"
  unfolding pure_io_def by (metis snd_conv)

lemma pure_io_and_then [intro]:
  assumes "pure_io m" and "\<And>x. pure_io (k x)"
  shows "pure_io (and_then m k)"
  using assms unfolding pure_io_def and_then_def
  by (auto split: prod.splits res.splits) (metis snd_conv)+

lemma pure_io_or_else [intro]:
  assumes "pure_io m" and "\<And>x. pure_io (k x)" and "\<And>e. pure_io (h e)"
  shows "pure_io (or_else m h k)"
  using assms unfolding pure_io_def or_else_def
  by (auto split: prod.splits res.splits) (metis snd_conv)+

lemma pure_io_basic [intro, simp]:
  "pure_io (ret x)" "pure_io (fail e)" "pure_io (panic p)" "pure_io (lift_res r)"
  by (simp_all add: pure_io_def)

section \<open>Properties of the domain error types\<close>

lemma isType_ErrWrap [simp]: "isType t (ErrWrap pre e post) = isType t e"
  by (simp add: isType_def)

lemma isType_ErrMsg [simp]: "\<not> isType t (ErrMsg m)"
  by (simp add: isType_def)

lemma isType_ErrExt [simp]: "\<not> isType t (ErrExt ks m)"
  by (simp add: isType_def)

lemma isType_ErrWithType [simp]: "isType t (ErrWithType t' e) \<longleftrightarrow> t' = t"
  by (simp add: isType_def)

lemma isType_unique: "isType t e \<Longrightarrow> isType t' e \<Longrightarrow> t = t'"
  by (auto simp: isType_def split: option.splits)

lemma isType_iff_Unwrap:
  "isType t e \<longleftrightarrow> (\<exists>e'. e = ErrWithType t e') \<or>
     ((\<nexists>t' e'. e = ErrWithType t' e') \<and> (\<exists>e'. Unwrap e = Some e' \<and> isType t e'))"
  by (cases e) auto

text \<open>An error is never of two domain types, so the order of the cases in a handler's
  \<open>switch\<close> over them does not matter.\<close>

lemma domain_types_exclusive:
  "\<not> (IsNotFound e \<and> IsConflict e)" "\<not> (IsNotFound e \<and> IsInvalidFormat e)"
  "\<not> (IsNotFound e \<and> IsNotModified e)" "\<not> (IsNotFound e \<and> IsForbiddenError e)"
  "\<not> (IsNotFound e \<and> IsUnauthenticated e)" "\<not> (IsConflict e \<and> IsInvalidFormat e)"
  using isType_unique [of _ e] unfolding errdefs_defs by (auto split: option.splits)

text \<open>
  The domain type of an error is the one given by the outermost constructor, it
  survives any number of \<open>fmt.Errorf("...%w...")\<close> wrappings, an inner type never shows
  through an outer one, and the message is that of the wrapped error.
\<close>

theorem errdefs_classification:
  "(isType t (fold (\<lambda>(pre, post) e. ErrWrap pre e post) ws (create_err t' err)) \<longleftrightarrow> t = t') \<and>
   Error (create_err t' err) = Error err \<and> Unwrap (create_err t' err) = Some err \<and>
   ((\<exists>t. isType t err) \<longleftrightarrow> as_errWithType err \<noteq> None)"
proof (intro conjI)
  have wrap: "isType t (fold (\<lambda>(pre, post) e. ErrWrap pre e post) ws e) = isType t e" for e
    by (induction ws arbitrary: e) (auto simp: case_prod_unfold)
  show "isType t (fold (\<lambda>(pre, post) e. ErrWrap pre e post) ws (create_err t' err)) \<longleftrightarrow> t = t'"
    unfolding wrap by (auto simp: create_err_def)
qed (auto simp: create_err_def isType_def split: option.splits)

end
