(* ===== verification/Response.thy ===== *)
theory Response
  imports Errdefs
begin

text \<open>
  HTTP responses: \<open>http.ResponseWriter\<close> as the handlers use it, and the helpers of
  \<open>src/api/response\<close> (\<open>json.go\<close>, \<open>error.go\<close>, \<open>streamwriter.go\<close>).

  A response writer holds the header map, what has been sent (the status code with the
  header as it was at that moment; the first \<open>WriteHeader\<close> wins), and the body as the
  list of values encoded into it. A broken connection makes every write fail.
\<close>

section \<open>The response writer\<close>

record resp_error = Message :: string

text \<open>\<open>StreamResponse\<close>; \<open>SError\<close> is the \<open>errorDetail\<close> (code and message).\<close>

record stream_response =
  Stream :: string
  SError :: "(int \<times> string) option"
  ErrorMessage :: string
  Aux :: "string option"

datatype 'a chunk = CErr resp_error | CData 'a | CStream stream_response | CRaw string

record 'a respw =
  w_header :: "string gomap"
  w_sent :: "(int \<times> string gomap) option"
  w_body :: "'a chunk list"
  w_broken :: "gerr option"
  w_flusher :: bool

definition new_respw :: "bool \<Rightarrow> 'a respw" where
  "new_respw fl = \<lparr>w_header = [], w_sent = None, w_body = [], w_broken = None, w_flusher = fl\<rparr>"

definition header_set :: "string \<Rightarrow> string \<Rightarrow> 'a respw \<Rightarrow> 'a respw" where
  "header_set k v w = w\<lparr>w_header := map_put k v (w_header w)\<rparr>"

definition WriteHeader :: "int \<Rightarrow> 'a respw \<Rightarrow> 'a respw" where
  "WriteHeader code w =
     (case w_sent w of None \<Rightarrow> w\<lparr>w_sent := Some (code, w_header w)\<rparr> | Some _ \<Rightarrow> w)"

text \<open>\<open>json.NewEncoder(w).Encode(v)\<close> and \<open>w.Write\<close>: a write sends status 200 first when
  nothing has been sent.\<close>

definition put_chunk :: "'a chunk \<Rightarrow> 'a respw \<Rightarrow> gerr option \<times> 'a respw" where
  "put_chunk c w =
     (let w1 = WriteHeader 200 w
      in case w_broken w1 of
           Some e \<Rightarrow> (Some e, w1)
         | None \<Rightarrow> (None, w1\<lparr>w_body := w_body w1 @ [c]\<rparr>))"

definition status_of :: "'a respw \<Rightarrow> int option" where
  "status_of w = map_option fst (w_sent w)"

lemma status_WriteHeader [simp]:
  "status_of (WriteHeader c w) = (case status_of w of None \<Rightarrow> Some c | Some d \<Rightarrow> Some d)"
  by (auto simp: status_of_def WriteHeader_def split: option.splits)

lemma status_header_set [simp]: "status_of (header_set k v w) = status_of w"
  by (simp add: status_of_def header_set_def)

lemma status_put_chunk [simp]:
  "status_of (snd (put_chunk c w)) = (case status_of w of None \<Rightarrow> Some 200 | Some d \<Rightarrow> Some d)"
proof -
  have "status_of (snd (put_chunk c w)) = status_of (WriteHeader 200 w)"
    by (auto simp: put_chunk_def Let_def status_of_def split: option.splits)
  then show ?thesis by simp
qed

section \<open>json.go and error.go\<close>

definition Status :: "int \<Rightarrow> 'a respw \<Rightarrow> 'a respw" where
  "Status code w = WriteHeader code w"

definition JSON :: "int \<Rightarrow> 'a chunk \<Rightarrow> 'a respw \<Rightarrow> 'a respw" where
  "JSON code data w =
     snd (put_chunk data (WriteHeader code (header_set ''Content-Type'' ''application/json'' w)))"

definition NewError :: "gerr \<Rightarrow> resp_error" where
  "NewError err = \<lparr>Message = Error err\<rparr>"

definition NewErrorFromMsg :: "string \<Rightarrow> resp_error" where
  "NewErrorFromMsg msg = \<lparr>Message = msg\<rparr>"

definition SendErrorResponse :: "int \<Rightarrow> gerr \<Rightarrow> 'a respw \<Rightarrow> 'a respw" where
  "SendErrorResponse code err w =
     (if code = 304 then WriteHeader code w else JSON code (CErr (NewError err)) w)"

definition SendErrorAsInStreamResponse :: "int \<Rightarrow> gerr \<Rightarrow> 'a respw \<Rightarrow> gerr option \<times> 'a respw" where
  "SendErrorAsInStreamResponse code err w =
     put_chunk (CStream \<lparr>Stream = [], SError = Some (code, Error err), ErrorMessage = Error err, Aux = None\<rparr>) w"

lemma status_JSON [simp]:
  "status_of (JSON c d w) = (case status_of w of None \<Rightarrow> Some c | Some d \<Rightarrow> Some d)"
  by (simp add: JSON_def split: option.splits)

lemma status_SendErrorResponse [simp]:
  "status_of (SendErrorResponse c e w) = (case status_of w of None \<Rightarrow> Some c | Some d \<Rightarrow> Some d)"
  by (auto simp: SendErrorResponse_def)

text \<open>What a handler that answers once leaves: the status, the body and nothing else.\<close>

lemma JSON_fresh:
  assumes "w_sent w = None" and "w_broken w = None"
  shows "status_of (JSON c d w) = Some c \<and> w_body (JSON c d w) = w_body w @ [d]"
  using assms by (simp add: JSON_def put_chunk_def WriteHeader_def header_set_def status_of_def)

lemma SendErrorResponse_body:
  assumes "w_sent w = None" and "w_broken w = None"
  shows "w_body (SendErrorResponse c e w) =
           (if c = 304 then w_body w else w_body w @ [CErr (NewError e)])"
  using assms by (simp add: SendErrorResponse_def JSON_fresh WriteHeader_def)

section \<open>streamwriter.go\<close>

text \<open>\<open>sw_init\<close> records that the \<open>sync.Once\<close> has run.\<close>

record 'a stream_writer =
  responseWriter :: "'a respw"
  flusher :: bool
  sw_init :: bool

definition NewStreamWriter :: "'a respw \<Rightarrow> 'a stream_writer" where
  "NewStreamWriter w = \<lparr>responseWriter = w, flusher = w_flusher w, sw_init = False\<rparr>"

definition sw_begin :: "'a stream_writer \<Rightarrow> 'a stream_writer" where
  "sw_begin sw =
     (if sw_init sw then sw
      else sw\<lparr>sw_init := True, responseWriter :=
             WriteHeader 200 (header_set ''Content-Type'' ''application/json'' (responseWriter sw))\<rparr>)"

definition sw_encode :: "stream_response \<Rightarrow> 'a stream_writer \<Rightarrow> gerr option \<times> 'a stream_writer" where
  "sw_encode m sw =
     (case put_chunk (CStream m) (responseWriter sw) of (err, w) \<Rightarrow> (err, sw\<lparr>responseWriter := w\<rparr>))"

definition stream_text :: "string \<Rightarrow> stream_response" where
  "stream_text b = \<lparr>Stream = b, SError = None, ErrorMessage = [], Aux = None\<rparr>"

definition stream_error :: "int \<Rightarrow> gerr \<Rightarrow> stream_response" where
  "stream_error code err =
     \<lparr>Stream = [], SError = Some (code, Error err), ErrorMessage = Error err, Aux = None\<rparr>"

definition stream_aux :: "string \<Rightarrow> stream_response" where
  "stream_aux d = \<lparr>Stream = [], SError = None, ErrorMessage = [], Aux = Some d\<rparr>"

text \<open>\<open>Write\<close> gives the number of bytes and the error; a flush has no observable effect
  on the response.\<close>

definition sw_Write :: "string \<Rightarrow> 'a stream_writer \<Rightarrow> (nat \<times> gerr option) \<times> 'a stream_writer" where
  "sw_Write b sw =
     (case sw_encode (stream_text b) (sw_begin sw) of
        (Some e, sw1) \<Rightarrow> ((0, Some e), sw1)
      | (None, sw1) \<Rightarrow> ((length b, None), sw1))"

definition sw_WriteError :: "int \<Rightarrow> gerr \<Rightarrow> 'a stream_writer \<Rightarrow> gerr option \<times> 'a stream_writer" where
  "sw_WriteError code err sw =
     (if sw_init sw then sw_encode (stream_error code err) sw
      else (None, sw\<lparr>sw_init := True,
              responseWriter := SendErrorResponse code err (responseWriter sw)\<rparr>))"

text \<open>The argument is the raw JSON text, valid as \<open>json.Marshal\<close> made it.\<close>

definition sw_WriteAux :: "string \<Rightarrow> 'a stream_writer \<Rightarrow> gerr option \<times> 'a stream_writer" where
  "sw_WriteAux data sw = sw_encode (stream_aux data) (sw_begin sw)"

record 'a pull_writer =
  pw_stream :: "'a stream_writer"
  resolved :: bool

definition NewPullJobWriter :: "'a respw \<Rightarrow> 'a pull_writer" where
  "NewPullJobWriter w = \<lparr>pw_stream = NewStreamWriter w, resolved = False\<rparr>"

definition IsResolved :: "'a pull_writer \<Rightarrow> bool" where
  "IsResolved pw = resolved pw"

definition Resolve :: "'a pull_writer \<Rightarrow> 'a pull_writer" where
  "Resolve pw = pw\<lparr>resolved := True\<rparr>"

definition pw_Write :: "string \<Rightarrow> 'a pull_writer \<Rightarrow> (nat \<times> gerr option) \<times> 'a pull_writer" where
  "pw_Write b pw =
     (if \<not> IsResolved pw \<and> \<not> Contains b ''resolved'' then ((0, None), pw)
      else let pw1 = (if IsResolved pw then pw else Resolve pw)
           in case sw_Write b (pw_stream pw1) of (r, sw) \<Rightarrow> (r, pw1\<lparr>pw_stream := sw\<rparr>))"

definition pw_WriteError :: "int \<Rightarrow> gerr \<Rightarrow> 'a pull_writer \<Rightarrow> gerr option \<times> 'a pull_writer" where
  "pw_WriteError code err pw =
     (case sw_WriteError code err (pw_stream pw) of (r, sw) \<Rightarrow> (r, pw\<lparr>pw_stream := sw\<rparr>))"

section \<open>One status line per response\<close>

text \<open>
  The contract of a writer that owns a response: an operation either is silent or
  proposes a status; the first proposal is the status of the response for good.
\<close>

locale status_once =
  fixes wr :: "'op \<Rightarrow> 's \<Rightarrow> 's"
    and status :: "'s \<Rightarrow> int option"
    and proposal :: "'op \<Rightarrow> 's \<Rightarrow> int option"
  assumes silent: "proposal op s = None \<Longrightarrow> status (wr op s) = status s"
    and first: "proposal op s = Some c \<Longrightarrow> status s = None \<Longrightarrow> status (wr op s) = Some c"
    and later: "status s = Some c \<Longrightarrow> status (wr op s) = Some c"
begin

lemma stable: "status s = Some c \<Longrightarrow> status (fold wr ops s) = Some c"
  by (induction ops arbitrary: s) (auto simp: later)

lemma first_proposal:
  assumes "status s = None" and "proposal op s = Some c"
  shows "status (fold wr (op # ops) s) = Some c"
  using assms by (simp add: first stable)

end

datatype sw_op = WriteOp string | ErrorOp int gerr | AuxOp string

fun sw_run1 :: "sw_op \<Rightarrow> 'a stream_writer \<Rightarrow> 'a stream_writer" where
  "sw_run1 (WriteOp b) sw = snd (sw_Write b sw)"
| "sw_run1 (ErrorOp c e) sw = snd (sw_WriteError c e sw)"
| "sw_run1 (AuxOp d) sw = snd (sw_WriteAux d sw)"

fun op_code :: "sw_op \<Rightarrow> int" where
  "op_code (WriteOp b) = 200"
| "op_code (ErrorOp c e) = c"
| "op_code (AuxOp d) = 200"

text \<open>What an operation adds to the body when it is the first one, and when it is not.\<close>

fun first_chunk :: "sw_op \<Rightarrow> 'a chunk list" where
  "first_chunk (WriteOp b) = [CStream (stream_text b)]"
| "first_chunk (ErrorOp c e) = (if c = 304 then [] else [CErr (NewError e)])"
| "first_chunk (AuxOp d) = [CStream (stream_aux d)]"

fun next_chunk :: "sw_op \<Rightarrow> 'a chunk" where
  "next_chunk (WriteOp b) = CStream (stream_text b)"
| "next_chunk (ErrorOp c e) = CStream (stream_error c e)"
| "next_chunk (AuxOp d) = CStream (stream_aux d)"

lemma put_chunk_sent:
  "w_sent w \<noteq> None \<Longrightarrow> w_broken w = None \<Longrightarrow>
     put_chunk c w = (None, w\<lparr>w_body := w_body w @ [c]\<rparr>)"
  by (auto simp: put_chunk_def WriteHeader_def Let_def split: option.splits)

lemma sw_Write_state: "snd (sw_Write b sw) = snd (sw_encode (stream_text b) (sw_begin sw))"
  by (auto simp: sw_Write_def split: prod.splits option.splits)

lemma sw_encode_status [simp]:
  "status_of (responseWriter (snd (sw_encode m sw))) =
     (case status_of (responseWriter sw) of None \<Rightarrow> Some 200 | Some d \<Rightarrow> Some d)"
  using status_put_chunk [of "CStream m" "responseWriter sw"]
  by (simp add: sw_encode_def case_prod_unfold)

lemma sw_begin_status [simp]:
  "status_of (responseWriter (sw_begin sw)) =
     (if sw_init sw then status_of (responseWriter sw)
      else case status_of (responseWriter sw) of None \<Rightarrow> Some 200 | Some d \<Rightarrow> Some d)"
  by (simp add: sw_begin_def)

definition sw_status :: "'a stream_writer \<Rightarrow> int option" where
  "sw_status sw = status_of (responseWriter sw)"

definition sw_proposal :: "sw_op \<Rightarrow> 'a stream_writer \<Rightarrow> int option" where
  "sw_proposal op sw = Some (if sw_init sw then 200 else op_code op)"

interpretation sw: status_once sw_run1 sw_status sw_proposal
proof
  fix op and s :: "'a stream_writer" and c
  show "sw_proposal op s = None \<Longrightarrow> sw_status (sw_run1 op s) = sw_status s"
    by (simp add: sw_proposal_def)
  show "sw_proposal op s = Some c \<Longrightarrow> sw_status s = None \<Longrightarrow> sw_status (sw_run1 op s) = Some c"
    by (cases op)
      (auto simp: sw_proposal_def sw_status_def sw_Write_state sw_WriteAux_def sw_WriteError_def
        split: if_splits)
  show "sw_status s = Some c \<Longrightarrow> sw_status (sw_run1 op s) = Some c"
    by (cases op)
      (auto simp: sw_status_def sw_Write_state sw_WriteAux_def sw_WriteError_def split: if_splits)
qed

text \<open>After the first operation the writer is initialised and the connection still works.\<close>

lemma sw_run_initialised:
  assumes "sw_init sw" and "w_sent (responseWriter sw) \<noteq> None" and "w_broken (responseWriter sw) = None"
  shows "w_body (responseWriter (fold sw_run1 ops sw)) = w_body (responseWriter sw) @ map next_chunk ops"
  using assms
proof (induction ops arbitrary: sw)
  case (Cons op ops)
  have step: "sw_run1 op sw = sw\<lparr>responseWriter := (responseWriter sw)
      \<lparr>w_body := w_body (responseWriter sw) @ [next_chunk op]\<rparr>\<rparr>"
    using Cons.prems
    by (cases op) (auto simp: sw_Write_state sw_WriteAux_def sw_WriteError_def sw_begin_def
        sw_encode_def put_chunk_sent)
  show ?case
    using Cons.prems Cons.IH [of "sw_run1 op sw"] by (simp add: step)
qed simp

lemma sw_run_first:
  assumes "\<not> sw_init sw" and "w_sent (responseWriter sw) = None" and "w_broken (responseWriter sw) = None"
  shows "sw_init (sw_run1 op sw) \<and> w_sent (responseWriter (sw_run1 op sw)) \<noteq> None \<and>
    w_broken (responseWriter (sw_run1 op sw)) = None \<and>
    w_body (responseWriter (sw_run1 op sw)) = w_body (responseWriter sw) @ first_chunk op"
  using assms
  by (cases op) (auto simp: sw_Write_state sw_WriteAux_def sw_WriteError_def sw_begin_def
      sw_encode_def put_chunk_def WriteHeader_def header_set_def Let_def SendErrorResponse_def JSON_def)

text \<open>
  C37: A \<open>StreamWriter\<close> over a fresh response answers any non-empty sequence of \<open>Write\<close>,
  \<open>WriteError\<close> and \<open>WriteAux\<close> calls with exactly one status line, the one of the first
  call (200, or the error's code when the first call is \<open>WriteError\<close>), and the body
  is the message of every call in order, an error being a plain JSON error only when it
  comes first and an in-stream \<open>errorDetail\<close> otherwise.
\<close>

theorem stream_writer_response:
  fixes w :: "'a respw"
  assumes "w_sent w = None" and "w_broken w = None"
  shows "let w' = responseWriter (fold sw_run1 (op # ops) (NewStreamWriter w))
         in status_of w' = Some (op_code op) \<and> w_body w' = w_body w @ first_chunk op @ map next_chunk ops"
proof -
  let ?sw = "NewStreamWriter w" and ?sw1 = "sw_run1 op (NewStreamWriter w)"
  have fresh: "\<not> sw_init ?sw" "w_sent (responseWriter ?sw) = None" "w_broken (responseWriter ?sw) = None"
    using assms by (simp_all add: NewStreamWriter_def)
  have "sw_status (fold sw_run1 (op # ops) ?sw) = Some (op_code op)"
    by (rule sw.first_proposal)
      (use assms in \<open>simp_all add: sw_status_def status_of_def NewStreamWriter_def sw_proposal_def\<close>)
  moreover have "w_body (responseWriter (fold sw_run1 ops ?sw1)) = w_body (responseWriter ?sw1) @ map next_chunk ops"
    using sw_run_first [OF fresh, of op] by (intro sw_run_initialised) simp_all
  ultimately show ?thesis
    using sw_run_first [OF fresh, of op] by (simp add: sw_status_def NewStreamWriter_def Let_def)
qed

theorem stream_writer_response_witness:
  "let w' = responseWriter (fold sw_run1 [WriteOp ''step 1'', ErrorOp 500 (ErrMsg ''boom'')]
              (NewStreamWriter (new_respw True :: unit respw)))
   in status_of w' = Some 200 \<and>
      w_body w' = [CStream (stream_text ''step 1''), CStream (stream_error 500 (ErrMsg ''boom''))]"
  using stream_writer_response [of "new_respw True :: unit respw" "WriteOp ''step 1''"
      "[ErrorOp 500 (ErrMsg ''boom'')]"]
  by (simp add: new_respw_def)

section \<open>The writer of image pulls\<close>

datatype pw_op = PwWrite string | PwError int gerr

fun pw_run1 :: "pw_op \<Rightarrow> 'a pull_writer \<Rightarrow> 'a pull_writer" where
  "pw_run1 (PwWrite b) pw = snd (pw_Write b pw)"
| "pw_run1 (PwError c e) pw = snd (pw_WriteError c e pw)"

definition pw_status :: "'a pull_writer \<Rightarrow> int option" where
  "pw_status pw = sw_status (pw_stream pw)"

fun pw_proposal :: "pw_op \<Rightarrow> 'a pull_writer \<Rightarrow> int option" where
  "pw_proposal (PwWrite b) pw = (if resolved pw \<or> Contains b ''resolved'' then Some 200 else None)"
| "pw_proposal (PwError c e) pw = Some (if sw_init (pw_stream pw) then 200 else c)"

lemma pw_Write_state:
  "snd (pw_Write b pw) =
     (if \<not> resolved pw \<and> \<not> Contains b ''resolved'' then pw
      else pw\<lparr>resolved := True, pw_stream := snd (sw_Write b (pw_stream pw))\<rparr>)"
  by (auto simp: pw_Write_def IsResolved_def Resolve_def split: prod.splits)

lemma pw_WriteError_state:
  "snd (pw_WriteError c e pw) = pw\<lparr>pw_stream := snd (sw_WriteError c e (pw_stream pw))\<rparr>"
  by (auto simp: pw_WriteError_def split: prod.splits)

interpretation pw: status_once pw_run1 pw_status pw_proposal
proof
  fix op and s :: "'a pull_writer" and c
  show "pw_proposal op s = None \<Longrightarrow> pw_status (pw_run1 op s) = pw_status s"
    by (cases op) (auto simp: pw_Write_state split: if_splits)
  show "pw_proposal op s = Some c \<Longrightarrow> pw_status s = None \<Longrightarrow> pw_status (pw_run1 op s) = Some c"
    using sw.first [of "WriteOp _" "pw_stream s"] sw.first [of "ErrorOp _ _" "pw_stream s"]
    by (cases op) (auto simp: pw_status_def pw_Write_state pw_WriteError_state sw_proposal_def split: if_splits)
  show "pw_status s = Some c \<Longrightarrow> pw_status (pw_run1 op s) = Some c"
    using sw.later [of "pw_stream s" c "WriteOp _"] sw.later [of "pw_stream s" c "ErrorOp _ _"]
    by (cases op) (auto simp: pw_status_def pw_Write_state pw_WriteError_state)
qed

lemma pw_writes_unresolved:
  "\<not> resolved pw \<Longrightarrow> \<forall>b\<in>set bs. \<not> Contains b ''resolved'' \<Longrightarrow>
     fold pw_run1 (map PwWrite bs) pw = pw"
  by (induction bs arbitrary: pw) (auto simp: pw_Write_state)

text \<open>
  Until the image is resolved the pull writer leaves the response untouched, so an
  error at that point is the plain HTTP error response with its own status code; once a
  progress line contains "resolved" the status is 200 for good and a later error is
  sent in the stream.
\<close>

theorem pull_writer_errors:
  fixes w :: "'a respw"
  assumes "w_sent w = None" and "\<forall>b\<in>set bs. \<not> Contains b ''resolved''"
    and "Contains b ''resolved''"
  shows "responseWriter (pw_stream (fold pw_run1 (map PwWrite bs @ [PwError c e]) (NewPullJobWriter w)))
           = SendErrorResponse c e w \<and>
         status_of (responseWriter (pw_stream (fold pw_run1
           (map PwWrite bs @ PwWrite b # ops) (NewPullJobWriter w)))) = Some 200"
proof -
  let ?pw = "NewPullJobWriter w"
  have quiet: "fold pw_run1 (map PwWrite bs) ?pw = ?pw"
    using assms(2) by (intro pw_writes_unresolved) (simp_all add: NewPullJobWriter_def)
  have "pw_status (fold pw_run1 (PwWrite b # ops) ?pw) = Some 200"
    by (rule pw.first_proposal)
      (use assms in \<open>simp_all add: pw_status_def sw_status_def status_of_def NewPullJobWriter_def NewStreamWriter_def\<close>)
  moreover have "responseWriter (pw_stream (pw_run1 (PwError c e) ?pw)) = SendErrorResponse c e w"
    by (simp add: pw_WriteError_state sw_WriteError_def NewPullJobWriter_def NewStreamWriter_def)
  ultimately show ?thesis
    by (simp add: quiet pw_status_def sw_status_def)
qed

theorem pull_writer_errors_witness:
  "responseWriter (pw_stream (fold pw_run1 (map PwWrite [''waiting''] @ [PwError 404 (ErrMsg ''gone'')])
     (NewPullJobWriter (new_respw True :: unit respw)))) = SendErrorResponse 404 (ErrMsg ''gone'') (new_respw True)"
  by (rule pull_writer_errors [where b = "''resolved x''", THEN conjunct1])
    (simp_all add: new_respw_def HasPrefix_def)

end
