(* ===== verification/Handlers.thy ===== *)
theory Handlers
  imports Response
begin

text \<open>
  What all HTTP handlers share: a handler takes a response writer and runs one call of its
  service; the outcome decides the status and the body. The errors of a service are mapped to status codes by
  a \<open>switch\<close> over the domain types; the interface of such a mapping is the locale
  \<open>status_map\<close>, interpreted for each handler.

  A request is its path variables, query parameters, headers and body; the decoding of a
  JSON body into the handler's structure is a result.
\<close>

type_synonym ('w, 'a) handler = "'a respw \<Rightarrow> ('w, 'a respw) io"

definition serve :: "('w, 'x) io \<Rightarrow> ('x \<Rightarrow> 'a respw \<Rightarrow> 'a respw) \<Rightarrow> (gerr \<Rightarrow> 'a respw \<Rightarrow> 'a respw) \<Rightarrow>
    ('w, 'a) handler" where
  "serve m ok err rw = or_else m (\<lambda>e. ret (err e rw)) (\<lambda>x. ret (ok x rw))"

record http_req =
  vars :: "string gomap"
  query :: "string list gomap"
  req_header :: "string gomap"

text \<open>\<open>r.URL.Query().Get(k)\<close>: the first value, or the empty string.\<close>

definition query_get :: "http_req \<Rightarrow> string \<Rightarrow> string" where
  "query_get r k = (case map_of (query r) k of Some (v # _) \<Rightarrow> v | _ \<Rightarrow> [])"

definition mux_var :: "http_req \<Rightarrow> string \<Rightarrow> string" where
  "mux_var r k = map_str (vars r) k"

section \<open>Mapping errors to status codes\<close>

text \<open>The promise of a handler's error switch: an error without a domain type is an internal
  error, a missing object is 404, and every code is a redirection-free error (or 304).\<close>

locale status_map =
  fixes code :: "gerr \<Rightarrow> int"
  assumes untyped: "as_errWithType e = None \<Longrightarrow> code e = 500"
    and missing: "IsNotFound e \<Longrightarrow> code e = 404"
    and range: "code e = 304 \<or> (400 \<le> code e \<and> code e \<le> 599)"
begin

lemma never_success: "code e \<noteq> 200 \<and> code e \<noteq> 201 \<and> code e \<noteq> 204"
  using range [of e] by auto

text \<open>A fresh response to a failed call has exactly that code and the error as its body.\<close>

lemma failed_call:
  assumes "m w = (Err e, w1)" and "w_sent rw = None" and "w_broken rw = None"
  shows "\<exists>rw'. serve m ok (\<lambda>e. SendErrorResponse (code e) e) rw w = (Ok rw', w1) \<and>
    status_of rw' = Some (code e) \<and>
    w_body rw' = w_body rw @ (if code e = 304 then [] else [CErr (NewError e)])"
  using assms by (simp add: serve_def or_else_def SendErrorResponse_body) (simp add: status_of_def)

lemma failed_never_success:
  assumes "m w = (Err e, w1)" and "w_sent rw = None" and "w_broken rw = None"
  shows "status_of (case serve m ok (\<lambda>e. SendErrorResponse (code e) e) rw w of (Ok rw', _) \<Rightarrow> rw' | _ \<Rightarrow> rw)
    \<notin> {None, Some 200, Some 201, Some 204}"
  using failed_call [of m w e w1 rw ok, OF assms] never_success [of e] by auto

end

text \<open>\<open>response.JSON(w, code, NewError(err))\<close> is the same response as \<open>SendErrorResponse\<close>
  for a code other than 304.\<close>

lemma JSON_NewError: "c \<noteq> 304 \<Longrightarrow> JSON c (CErr (NewError e)) = SendErrorResponse c e"
  by (rule ext) (simp add: SendErrorResponse_def)

end
