(* ===== verification/Iptables.thy ===== *)
theory Iptables
  imports Errdefs
begin

text \<open>
  The packet filter rules of isolated bridges
  (\<open>src/internal/service/network/driver/iptables.go\<close>).

  The iptables package is outside the repository: its client is a record of effectful
  functions over a world \<open>'w\<close> (\<open>ipt\<close>, the methods of \<open>IPTablesWrapper\<close>), and what its
  documentation promises is the predicate \<open>ipt_ok\<close> on the rules \<open>view p w\<close> of each
  protocol. A rule is its list of words, a chain the list of its rules.
\<close>

section \<open>The wrapper\<close>

datatype protocol = ProtocolIPv4 | ProtocolIPv6

type_synonym rulespec = "string list"

record 'w ipt =
  ChainExists :: "string \<Rightarrow> string \<Rightarrow> ('w, bool) io"
  NewChain :: "string \<Rightarrow> string \<Rightarrow> ('w, unit) io"
  InsertUnique :: "string \<Rightarrow> string \<Rightarrow> nat \<Rightarrow> rulespec \<Rightarrow> ('w, unit) io"
  AppendUnique :: "string \<Rightarrow> string \<Rightarrow> rulespec \<Rightarrow> ('w, unit) io"
  DeleteIfExists :: "string \<Rightarrow> string \<Rightarrow> rulespec \<Rightarrow> ('w, unit) io"
  DeleteChain :: "string \<Rightarrow> string \<Rightarrow> ('w, unit) io"

abbreviation (input) statusChainExists :: int where "statusChainExists \<equiv> 1"

definition FilterTableName :: string where "FilterTableName = ''filter''"
definition ForwardChainName :: string where "ForwardChainName = ''FORWARD''"
definition FinchIsolateChain :: string where "FinchIsolateChain = ''FINCH-ISOLATE-CHAIN''"

text \<open>The map from protocols to clients, in the order a run ranges over it; a client may
  be nil.\<close>

type_synonym 'w iptablesCommand = "(protocol \<times> 'w ipt option) list"

fun new_protos :: "(protocol \<Rightarrow> ('w, 'w ipt) io) \<Rightarrow> protocol list \<Rightarrow> 'w iptablesCommand \<Rightarrow>
    ('w, 'w iptablesCommand) io" where
  "new_protos NewWithProtocol [] protos = ret protos"
| "new_protos NewWithProtocol (proto # ps) protos =
     or_else (NewWithProtocol proto)
       (\<lambda>err. fail (ErrWrap (''could not initialize iptables protocol '' @
          (case proto of ProtocolIPv4 \<Rightarrow> ''0'' | ProtocolIPv6 \<Rightarrow> ''1'') @ '': '') err []))
       (\<lambda>ipt. new_protos NewWithProtocol ps (protos @ [(proto, Some ipt)]))"

definition newIptablesCommand :: "(protocol \<Rightarrow> ('w, 'w ipt) io) \<Rightarrow> bool \<Rightarrow> ('w, 'w iptablesCommand) io" where
  "newIptablesCommand NewWithProtocol ipv6 =
     new_protos NewWithProtocol ([ProtocolIPv4] @ (if ipv6 then [ProtocolIPv6] else [])) []"

text \<open>\<open>err.(*iptables.Error)\<close> and \<open>ExitStatus\<close>: the status of an error made by the package.\<close>

fun iptables_Error :: "gerr \<Rightarrow> int option" where
  "iptables_Error e = (case [c. XIptables c \<leftarrow> own_kinds e] of [] \<Rightarrow> None | c # _ \<Rightarrow> Some c)"

definition ensureChain :: "'w ipt option \<Rightarrow> string \<Rightarrow> string \<Rightarrow> ('w, unit) io" where
  "ensureChain ipt table chain =
     (case ipt of
        None \<Rightarrow> fail (ErrMsg ''failed to ensure iptable chain: IPTables was nil'')
      | Some i \<Rightarrow>
          or_else (ChainExists i table chain)
            (\<lambda>err. fail (ErrMsg (''failed to check if iptables '' @ chain @ '' exists: '' @ Error err)))
            (\<lambda>exists.
               if exists then ret ()
               else or_else (NewChain i table chain)
                 (\<lambda>err. case iptables_Error err of
                     None \<Rightarrow> fail (ErrWrap (''failed to create '' @ chain @ '' chain: '') err [])
                   | Some status \<Rightarrow>
                       if status \<noteq> statusChainExists
                       then fail (ErrWrap (''failed to create '' @ chain @ '' chain: '') err [])
                       else ret ())
                 (\<lambda>_. ret ())))"

text \<open>Best-effort calls: the error is dropped.\<close>

definition ignore_err :: "('w, unit) io \<Rightarrow> ('w, unit) io" where
  "ignore_err m = or_else m (\<lambda>_. ret ()) (\<lambda>_. ret ())"

definition cleanupChain :: "'w ipt option \<Rightarrow> string \<Rightarrow> string \<Rightarrow> ('w, unit) io" where
  "cleanupChain ipt tableName chainName =
     (case ipt of None \<Rightarrow> panic ''nil pointer dereference''
      | Some i \<Rightarrow> ignore_err (DeleteChain i tableName chainName))"

definition jumpRule :: rulespec where "jumpRule = [''-j'', FinchIsolateChain]"
definition returnRule :: rulespec where "returnRule = [''-j'', ''RETURN'']"

definition setupChains :: "'w ipt option \<Rightarrow> ('w, unit) io" where
  "setupChains ipt =
     or_else (ensureChain ipt FilterTableName FinchIsolateChain)
       (\<lambda>err. and_then (cleanupChain ipt FilterTableName FinchIsolateChain) (\<lambda>_. fail err))
       (\<lambda>_. case ipt of None \<Rightarrow> panic ''nil pointer dereference''
          | Some i \<Rightarrow>
              or_else (InsertUnique i FilterTableName ForwardChainName 1 jumpRule)
                (\<lambda>err. fail (ErrMsg (''failed to add jump rule to FINCH-ISOLATE-CHAIN chain: '' @ Error err)))
                (\<lambda>_. or_else (AppendUnique i FilterTableName FinchIsolateChain returnRule)
                  (\<lambda>err. fail (ErrMsg (''failed to add RETURN rule in FINCH-ISOLATE-CHAIN chain: '' @ Error err)))
                  (\<lambda>_. ret ())))"

definition cleanupRules :: "'w ipt \<Rightarrow> string \<Rightarrow> string \<Rightarrow> rulespec \<Rightarrow> ('w, unit) io" where
  "cleanupRules i tableName chainName rule = ignore_err (DeleteIfExists i tableName chainName rule)"

definition addRule :: "'w ipt option \<Rightarrow> rulespec \<Rightarrow> ('w, unit) io" where
  "addRule ipt rule =
     and_then (setupChains ipt)
       (\<lambda>_. case ipt of None \<Rightarrow> panic ''nil pointer dereference''
          | Some i \<Rightarrow>
              or_else (InsertUnique i FilterTableName FinchIsolateChain 1 rule)
                (\<lambda>err. and_then (cleanupRules i FilterTableName FinchIsolateChain rule)
                   (\<lambda>_. fail (ErrWrap ''failed to add iptables rule: '' err [])))
                (\<lambda>_. ret ()))"

fun AddRule :: "'w iptablesCommand \<Rightarrow> rulespec \<Rightarrow> ('w, unit) io" where
  "AddRule [] rule = ret ()"
| "AddRule ((_, ipt) # ps) rule = and_then (addRule ipt rule) (\<lambda>_. AddRule ps rule)"

definition delRule :: "'w ipt option \<Rightarrow> rulespec \<Rightarrow> ('w, unit) io" where
  "delRule ipt rule =
     (case ipt of None \<Rightarrow> panic ''nil pointer dereference''
      | Some i \<Rightarrow> DeleteIfExists i FilterTableName FinchIsolateChain rule)"

fun DelRule :: "'w iptablesCommand \<Rightarrow> rulespec \<Rightarrow> ('w, unit) io" where
  "DelRule [] rule = ret ()"
| "DelRule ((_, ipt) # ps) rule = and_then (delRule ipt rule) (\<lambda>_. DelRule ps rule)"

section \<open>What the iptables package promises\<close>

text \<open>The chains of the filter table of one protocol: chain name to rules.\<close>

type_synonym chains = "string \<Rightarrow> rulespec list option"
type_synonym 'w ipt_view = "protocol \<Rightarrow> 'w \<Rightarrow> chains"

text \<open>An operation of the client for protocol \<open>p\<close> either fails and changes nothing, or
  succeeds and makes the change \<open>f\<close> where its guard holds; it never touches another protocol and
  never panics.\<close>

definition ipt_op_ok :: "'w ipt_view \<Rightarrow> protocol \<Rightarrow> ('w, unit) io \<Rightarrow> (chains \<Rightarrow> chains option) \<Rightarrow> bool" where
  "ipt_op_ok view p m f \<longleftrightarrow> (\<forall>w. case m w of
       (Ok _, w') \<Rightarrow> f (view p w) = Some (view p w') \<and> (\<forall>q. q \<noteq> p \<longrightarrow> view q w' = view q w)
     | (Err e, w') \<Rightarrow> \<forall>q. view q w' = view q w
     | (Panic _, _) \<Rightarrow> False
     | (Hang, _) \<Rightarrow> False)"

definition upd_chain :: "string \<Rightarrow> (rulespec list \<Rightarrow> rulespec list) \<Rightarrow> chains \<Rightarrow> chains option" where
  "upd_chain chain f cs = (case cs chain of None \<Rightarrow> None | Some rs \<Rightarrow> Some (cs(chain \<mapsto> f rs)))"

definition insert_unique :: "rulespec \<Rightarrow> rulespec list \<Rightarrow> rulespec list" where
  "insert_unique r rs = (if r \<in> set rs then rs else r # rs)"

definition append_unique :: "rulespec \<Rightarrow> rulespec list \<Rightarrow> rulespec list" where
  "append_unique r rs = (if r \<in> set rs then rs else rs @ [r])"

text \<open>\<open>DeleteIfExists\<close> removes one occurrence of the rule, and nothing when there is none.\<close>

definition ipt_ok :: "'w ipt_view \<Rightarrow> protocol \<Rightarrow> 'w ipt \<Rightarrow> bool" where
  "ipt_ok view p i \<longleftrightarrow>
     (\<forall>c w. case ChainExists i FilterTableName c w of
          (Ok b, w') \<Rightarrow> b = (view p w c \<noteq> None) \<and> (\<forall>q. view q w' = view q w)
        | (Err e, w') \<Rightarrow> (\<forall>q. view q w' = view q w)
        | (Panic _, _) \<Rightarrow> False | (Hang, _) \<Rightarrow> False) \<and>
     (\<forall>c w e w'. NewChain i FilterTableName c w = (Err e, w') \<longrightarrow>
          iptables_Error e = Some statusChainExists \<longrightarrow> view p w' c \<noteq> None) \<and>
     (\<forall>c. ipt_op_ok view p (NewChain i FilterTableName c)
          (\<lambda>cs. if cs c = None then Some (cs(c \<mapsto> [])) else None)) \<and>
     (\<forall>c r. ipt_op_ok view p (InsertUnique i FilterTableName c 1 r) (upd_chain c (insert_unique r))) \<and>
     (\<forall>c r. ipt_op_ok view p (AppendUnique i FilterTableName c r) (upd_chain c (append_unique r))) \<and>
     (\<forall>c r. ipt_op_ok view p (DeleteIfExists i FilterTableName c r)
          (\<lambda>cs. case cs c of None \<Rightarrow> Some cs | Some rs \<Rightarrow> Some (cs(c \<mapsto> remove1 r rs)))) \<and>
     (\<forall>c. ipt_op_ok view p (DeleteChain i FilterTableName c)
          (\<lambda>cs. if cs c = Some [] then Some (cs(c := None)) else None))"

text \<open>A concrete packet filter with one table per protocol, which keeps the promises.\<close>

type_synonym ipt_world = "protocol \<Rightarrow> chains"

definition sim_op :: "protocol \<Rightarrow> (chains \<Rightarrow> chains option) \<Rightarrow> (ipt_world, unit) io" where
  "sim_op p f w = (case f (w p) of
      Some cs \<Rightarrow> (Ok (), w(p := cs)) | None \<Rightarrow> (Err (ErrExt [XIptables 2] ''iptables failed''), w))"

definition sim_ipt :: "protocol \<Rightarrow> ipt_world ipt" where
  "sim_ipt p = \<lparr>ChainExists = (\<lambda>t c w. (Ok (w p c \<noteq> None), w)),
     NewChain = (\<lambda>t c. sim_op p (\<lambda>cs. if cs c = None then Some (cs(c \<mapsto> [])) else None)),
     InsertUnique = (\<lambda>t c pos r. sim_op p (upd_chain c (insert_unique r))),
     AppendUnique = (\<lambda>t c r. sim_op p (upd_chain c (append_unique r))),
     DeleteIfExists = (\<lambda>t c r. sim_op p (\<lambda>cs. case cs c of None \<Rightarrow> Some cs | Some rs \<Rightarrow> Some (cs(c \<mapsto> remove1 r rs)))),
     DeleteChain = (\<lambda>t c. sim_op p (\<lambda>cs. if cs c = Some [] then Some (cs(c := None)) else None))\<rparr>"

abbreviation sim_view :: "ipt_world ipt_view" where "sim_view \<equiv> \<lambda>p w. w p"

lemma sim_op_ok: "ipt_op_ok sim_view p (sim_op p f) f"
  by (auto simp: ipt_op_ok_def sim_op_def split: option.splits)

lemma sim_ipt_ok: "ipt_ok sim_view p (sim_ipt p)"
  unfolding ipt_ok_def sim_ipt_def
  by (auto simp: sim_op_ok) (auto simp: sim_op_def split: option.splits if_splits)

section \<open>The isolation chain\<close>

text \<open>The isolation chain, when it exists, is empty (its set-up was interrupted) or is a
  list of distinct rules followed by the one rule that returns to \<open>FORWARD\<close>.\<close>

definition iso_rules :: "chains \<Rightarrow> rulespec list" where
  "iso_rules cs = (case cs FinchIsolateChain of None \<Rightarrow> [] | Some rs \<Rightarrow> filter (\<lambda>r. r \<noteq> returnRule) rs)"

definition iso_complete :: "chains \<Rightarrow> bool" where
  "iso_complete cs \<longleftrightarrow> distinct (iso_rules cs) \<and> cs FinchIsolateChain = Some (iso_rules cs @ [returnRule])"

definition iso_ok :: "chains \<Rightarrow> bool" where
  "iso_ok cs \<longleftrightarrow> cs FinchIsolateChain = None \<or> cs FinchIsolateChain = Some [] \<or> iso_complete cs"

definition jumps :: "chains \<Rightarrow> bool" where
  "jumps cs \<longleftrightarrow> (\<exists>fw. cs ForwardChainName = Some fw \<and> jumpRule \<in> set fw)"

lemma chain_names [simp]: "ForwardChainName \<noteq> FinchIsolateChain" "FinchIsolateChain \<noteq> ForwardChainName"
  by (simp_all add: ForwardChainName_def FinchIsolateChain_def)

text \<open>What one call may leave: its own protocol changed as \<open>P\<close> says on success and as \<open>Q\<close>
  on an error, every other protocol as it was.\<close>

definition ipt_post :: "'w ipt_view \<Rightarrow> protocol \<Rightarrow> 'w \<Rightarrow> (chains \<Rightarrow> bool) \<Rightarrow> (chains \<Rightarrow> bool) \<Rightarrow>
    unit res \<times> 'w \<Rightarrow> bool" where
  "ipt_post view p w P Q rw \<longleftrightarrow> (\<forall>q. q \<noteq> p \<longrightarrow> view q (snd rw) = view q w) \<and>
     (case fst rw of Ok _ \<Rightarrow> P (view p (snd rw)) | Err _ \<Rightarrow> Q (view p (snd rw))
      | Panic _ \<Rightarrow> False | Hang \<Rightarrow> False)"

lemma ipt_op_okD:
  assumes "ipt_op_ok view p m f"
  shows "ipt_post view p w (\<lambda>cs. f (view p w) = Some cs) (\<lambda>cs. cs = view p w) (m w)"
  using assms [unfolded ipt_op_ok_def, rule_format, of w] unfolding ipt_post_def
  by (auto split: prod.splits res.splits)

lemma ipt_post_or_else:
  assumes "ipt_post view p w P Q (m w)"
    and "\<And>w1. P (view p w1) \<Longrightarrow> ipt_post view p w1 P' Q' (k () w1)"
    and "\<And>e w1. Q (view p w1) \<Longrightarrow> ipt_post view p w1 P' Q' (h e w1)"
  shows "ipt_post view p w P' Q' (or_else m h k w)"
proof (cases "m w")
  case (Pair r w1)
  have frame: "ipt_post view p w P' Q' rw"
    if "ipt_post view p w1 P' Q' rw" "\<forall>q. q \<noteq> p \<longrightarrow> view q w1 = view q w" for rw
    using that by (auto simp: ipt_post_def)
  show ?thesis
  proof (cases r)
    case (Ok x)
    with Pair assms(1) show ?thesis
      by (auto simp: or_else_def ipt_post_def [of view p w P Q] intro!: frame assms(2))
  next
    case (Err e)
    with Pair assms(1) show ?thesis
      by (auto simp: or_else_def ipt_post_def [of view p w P Q] intro!: frame assms(3))
  qed (use Pair assms(1) in \<open>auto simp: ipt_post_def\<close>)
qed

lemma ipt_post_ret [simp]: "ipt_post view p w P Q (Ok x, w) \<longleftrightarrow> P (view p w)"
  by (simp add: ipt_post_def)

lemma ipt_post_fail [simp]: "ipt_post view p w P Q (Err e, w) \<longleftrightarrow> Q (view p w)"
  by (simp add: ipt_post_def)

lemma ipt_post_mono:
  "ipt_post view p w P Q rw \<Longrightarrow> (\<And>cs. P cs \<Longrightarrow> P' cs) \<Longrightarrow> (\<And>cs. Q cs \<Longrightarrow> Q' cs) \<Longrightarrow>
     ipt_post view p w P' Q' rw"
  by (auto simp: ipt_post_def split: res.splits)

lemma ensureChain_post:
  assumes ok: "ipt_ok view p i" and iso: "iso_ok (view p w)"
  shows "ipt_post view p w (\<lambda>cs. iso_ok cs \<and> cs FinchIsolateChain \<noteq> None \<and> iso_rules cs = iso_rules (view p w))
     (\<lambda>cs. cs = view p w) (ensureChain (Some i) FilterTableName FinchIsolateChain w)"
proof (cases "ChainExists i FilterTableName FinchIsolateChain w")
  case (Pair r w1)
  have ce: "case r of Ok b \<Rightarrow> b = (view p w FinchIsolateChain \<noteq> None) \<and> (\<forall>q. view q w1 = view q w)
      | Err e \<Rightarrow> (\<forall>q. view q w1 = view q w) | Panic _ \<Rightarrow> False | Hang \<Rightarrow> False"
    using ok [unfolded ipt_ok_def, THEN conjunct1, THEN spec [where x = FinchIsolateChain], THEN spec [where x = w]] Pair
    by (auto split: res.splits)
  have nc: "ipt_op_ok view p (NewChain i FilterTableName FinchIsolateChain)
      (\<lambda>cs. if cs FinchIsolateChain = None then Some (cs(FinchIsolateChain \<mapsto> [])) else None)"
    and race: "NewChain i FilterTableName FinchIsolateChain w2 = (Err e, w3) \<Longrightarrow>
      iptables_Error e = Some statusChainExists \<Longrightarrow> view p w3 FinchIsolateChain \<noteq> None" for w2 w3 e
    using ok unfolding ipt_ok_def by blast+
  show ?thesis
  proof (cases r)
    case (Ok b)
    show ?thesis
    proof (cases b)
      case True
      with Ok ce Pair iso show ?thesis
        by (auto simp: ensureChain_def or_else_def ipt_post_def)
    next
      case False
      then have none: "view p w1 FinchIsolateChain = None" and same: "\<forall>q. view q w1 = view q w"
        using Ok ce by auto
      obtain r2 w2 where r2: "NewChain i FilterTableName FinchIsolateChain w1 = (r2, w2)"
        by fastforce
      have post: "ipt_post view p w1 (\<lambda>cs. (view p w)(FinchIsolateChain \<mapsto> []) = cs) (\<lambda>cs. cs = view p w) (r2, w2)"
        using ipt_op_okD [OF nc, of w1] r2 none same by simp
      show ?thesis
      proof (cases r2)
        case r2Ok: (Ok u)
        with post have w2: "view p w2 = (view p w)(FinchIsolateChain \<mapsto> [])" by (simp add: ipt_post_def)
        with False Ok r2Ok Pair r2 post same none show ?thesis
          by (simp add: ensureChain_def or_else_def ipt_post_def iso_ok_def iso_rules_def)
      next
        case (Err e)
        with post have w2: "view p w2 = view p w" by (simp add: ipt_post_def)
        with race [of w1 e w2] r2 Err none same have "iptables_Error e \<noteq> Some statusChainExists" by auto
        with False Ok Err Pair r2 post w2 same show ?thesis
          by (auto simp: ensureChain_def or_else_def ipt_post_def simp del: iptables_Error.simps split: option.splits)
      qed (use post in \<open>auto simp: ipt_post_def\<close>)
    qed
  qed (use ce Pair in \<open>auto simp: ensureChain_def or_else_def ipt_post_def\<close>)
qed

lemma ipt_ok_ops:
  assumes "ipt_ok view p i"
  shows "ipt_op_ok view p (InsertUnique i FilterTableName c 1 r) (upd_chain c (insert_unique r))"
    and "ipt_op_ok view p (AppendUnique i FilterTableName c r) (upd_chain c (append_unique r))"
    and "ipt_op_ok view p (DeleteIfExists i FilterTableName c r)
          (\<lambda>cs. case cs c of None \<Rightarrow> Some cs | Some rs \<Rightarrow> Some (cs(c \<mapsto> remove1 r rs)))"
    and "ipt_op_ok view p (DeleteChain i FilterTableName c)
          (\<lambda>cs. if cs c = Some [] then Some (cs(c := None)) else None)"
  using assms unfolding ipt_ok_def by blast+

lemma iso_rules_complete:
  "returnRule \<notin> set ds \<Longrightarrow> cs FinchIsolateChain = Some (ds @ [returnRule]) \<Longrightarrow> iso_rules cs = ds"
  by (simp add: iso_rules_def) (rule filter_True, auto)

lemma iso_completeI:
  "returnRule \<notin> set ds \<Longrightarrow> distinct ds \<Longrightarrow> cs FinchIsolateChain = Some (ds @ [returnRule]) \<Longrightarrow>
     iso_complete cs \<and> iso_rules cs = ds"
  by (simp add: iso_complete_def iso_rules_complete)

lemma iso_completeE:
  assumes "iso_complete cs"
  obtains ds where "returnRule \<notin> set ds" and "distinct ds"
    and "cs FinchIsolateChain = Some (ds @ [returnRule])" and "iso_rules cs = ds"
proof -
  have "returnRule \<notin> set (iso_rules cs)" by (auto simp: iso_rules_def split: option.splits)
  with assms that show ?thesis by (auto simp: iso_complete_def)
qed

lemma append_return:
  assumes "iso_ok cs" and upd: "upd_chain FinchIsolateChain (append_unique returnRule) cs = Some cs'"
  shows "iso_complete cs' \<and> iso_rules cs' = iso_rules cs \<and> cs' ForwardChainName = cs ForwardChainName"
proof -
  consider "cs FinchIsolateChain = Some []" | "iso_complete cs"
    using assms by (auto simp: iso_ok_def upd_chain_def)
  then show ?thesis
  proof cases
    case 1
    with upd iso_completeI [of "[]" cs'] show ?thesis
      by (auto simp: upd_chain_def append_unique_def iso_rules_def)
  next
    case 2
    then obtain ds where ds: "returnRule \<notin> set ds" "distinct ds"
      "cs FinchIsolateChain = Some (ds @ [returnRule])" "iso_rules cs = ds" by (rule iso_completeE)
    with upd iso_completeI [of ds cs'] show ?thesis
      by (auto simp: upd_chain_def append_unique_def)
  qed
qed

lemma iso_cong:
  assumes "cs' FinchIsolateChain = cs FinchIsolateChain"
  shows "iso_rules cs' = iso_rules cs" and "iso_complete cs' = iso_complete cs" and "iso_ok cs' = iso_ok cs"
  using assms by (simp_all add: iso_rules_def iso_complete_def iso_ok_def)

lemma insert_jump:
  assumes "upd_chain ForwardChainName (insert_unique jumpRule) cs = Some cs'"
  shows "jumps cs' \<and> cs' FinchIsolateChain = cs FinchIsolateChain"
  using assms by (auto simp: upd_chain_def insert_unique_def jumps_def split: option.splits)

lemma delete_empty:
  "(if cs FinchIsolateChain = Some [] then Some (cs(FinchIsolateChain := None)) else None) = Some cs' \<Longrightarrow>
     iso_ok cs'"
  by (auto simp: iso_ok_def split: if_splits)

lemma setupChains_post:
  assumes ok: "ipt_ok view p i" and iso: "iso_ok (view p w)"
  shows "ipt_post view p w
     (\<lambda>cs. iso_complete cs \<and> iso_rules cs = iso_rules (view p w) \<and> jumps cs) iso_ok (setupChains (Some i) w)"
  unfolding setupChains_def
proof (rule ipt_post_or_else, rule ensureChain_post [OF ok iso], goal_cases)
  case (1 w1)
  show ?case unfolding option.case
  proof (rule ipt_post_or_else, rule ipt_op_okD [OF ipt_ok_ops(1) [OF ok]], goal_cases)
    case ins: (1 w2)
    then have w2: "iso_ok (view p w2)" "iso_rules (view p w2) = iso_rules (view p w)" "jumps (view p w2)"
      using 1 insert_jump [OF ins] iso_cong [of "view p w2" "view p w1"] by simp_all
    show ?case
    proof (rule ipt_post_or_else, rule ipt_op_okD [OF ipt_ok_ops(2) [OF ok]], goal_cases)
      case (1 w3)
      then show ?case using append_return [OF w2(1) 1] w2 by (simp add: jumps_def)
    qed (use w2 in simp)
  qed (use 1 in simp)
next
  case (2 e w1)
  then have w1: "iso_ok (view p w1)" using iso by simp
  show ?case
    unfolding cleanupChain_def option.case ignore_err_def and_then_or_else
    by (rule ipt_post_or_else [where P = iso_ok and Q = iso_ok])
       (rule ipt_post_or_else, rule ipt_op_okD [OF ipt_ok_ops(4) [OF ok]],
        use w1 delete_empty [of "view p w1"] in auto)
qed

lemma insert_rule:
  assumes "iso_complete cs" and r: "r \<noteq> returnRule"
    and upd: "upd_chain FinchIsolateChain (insert_unique r) cs = Some cs'"
  shows "iso_complete cs' \<and> iso_rules cs' = insert_unique r (iso_rules cs) \<and>
    cs' ForwardChainName = cs ForwardChainName"
proof -
  obtain ds where ds: "returnRule \<notin> set ds" "distinct ds"
    "cs FinchIsolateChain = Some (ds @ [returnRule])" "iso_rules cs = ds"
    using assms(1) by (rule iso_completeE)
  with upd r have "cs' FinchIsolateChain = Some (insert_unique r ds @ [returnRule])"
    "cs' ForwardChainName = cs ForwardChainName"
    by (auto simp: upd_chain_def insert_unique_def)
  moreover have "returnRule \<notin> set (insert_unique r ds)" "distinct (insert_unique r ds)"
    using ds r by (auto simp: insert_unique_def)
  ultimately show ?thesis
    using iso_completeI [of "insert_unique r ds" cs'] ds(4) by simp
qed

lemma delete_rule:
  assumes "iso_ok cs" and r: "r \<noteq> returnRule"
    and upd: "(case cs FinchIsolateChain of None \<Rightarrow> Some cs
          | Some rs \<Rightarrow> Some (cs(FinchIsolateChain \<mapsto> remove1 r rs))) = Some cs'"
  shows "iso_ok cs' \<and> iso_rules cs' = filter (\<lambda>x. x \<noteq> r) (iso_rules cs)"
proof (cases "iso_complete cs")
  case True
  then obtain ds where ds: "returnRule \<notin> set ds" "distinct ds"
    "cs FinchIsolateChain = Some (ds @ [returnRule])" "iso_rules cs = ds" by (rule iso_completeE)
  have rem: "remove1 r (ds @ [returnRule]) = filter (\<lambda>x. x \<noteq> r) ds @ [returnRule]" if "distinct ds" for ds
    using that r by (induction ds) (auto intro: filter_True [symmetric])
  have "cs' FinchIsolateChain = Some (filter (\<lambda>x. x \<noteq> r) ds @ [returnRule])"
    using upd unfolding ds(3) option.case rem [OF ds(2)] by auto
  with ds iso_completeI [of "filter (\<lambda>x. x \<noteq> r) ds" cs'] show ?thesis
    by (simp add: iso_ok_def)
next
  case False
  with assms show ?thesis
    by (auto simp: iso_ok_def iso_rules_def)
qed

text \<open>Adding a rule: on success it is in front of the chain that all forwarded packets
  pass; on an error the chain is still well formed.\<close>

lemma addRule_post:
  assumes ok: "ipt_ok view p i" and iso: "iso_ok (view p w)" and r: "r \<noteq> returnRule"
  shows "ipt_post view p w
     (\<lambda>cs. iso_complete cs \<and> iso_rules cs = insert_unique r (iso_rules (view p w)) \<and> jumps cs)
     iso_ok (addRule (Some i) r w)"
  unfolding addRule_def and_then_or_else [of "setupChains _"]
proof (rule ipt_post_or_else, rule setupChains_post [OF ok iso], goal_cases)
  case (1 w1)
  show ?case unfolding option.case
  proof (rule ipt_post_or_else, rule ipt_op_okD [OF ipt_ok_ops(1) [OF ok]], goal_cases)
    case (1 w2)
    then show ?case using insert_rule [OF _ r 1] \<open>_ \<and> _\<close> by (simp add: jumps_def)
  next
    case (2 e w2)
    then have w2: "iso_ok (view p w2)" using 1 by (simp add: iso_ok_def)
    show ?case
      unfolding cleanupRules_def ignore_err_def and_then_or_else
      by (rule ipt_post_or_else [where P = iso_ok and Q = iso_ok])
         (rule ipt_post_or_else, rule ipt_op_okD [OF ipt_ok_ops(3) [OF ok]],
          use w2 delete_rule [OF w2 r] in auto)
  qed
qed simp

lemma delRule_post:
  assumes ok: "ipt_ok view p i" and iso: "iso_ok (view p w)" and r: "r \<noteq> returnRule"
  shows "ipt_post view p w
     (\<lambda>cs. iso_ok cs \<and> iso_rules cs = filter (\<lambda>x. x \<noteq> r) (iso_rules (view p w)))
     (\<lambda>cs. cs = view p w) (delRule (Some i) r w)"
  unfolding delRule_def option.case
  by (rule ipt_post_mono [OF ipt_op_okD [OF ipt_ok_ops(3) [OF ok]]])
     (use delete_rule [OF iso r] in auto)

section \<open>All protocols\<close>

definition protos_of :: "'w iptablesCommand \<Rightarrow> protocol set" where
  "protos_of ps = fst ` set ps"

lemma protos_of_simps [simp]: "protos_of [] = {}" "protos_of ((p, i) # ps) = insert p (protos_of ps)"
  by (simp_all add: protos_of_def)

definition protos_ok :: "'w ipt_view \<Rightarrow> 'w iptablesCommand \<Rightarrow> bool" where
  "protos_ok view ps \<longleftrightarrow> distinct (map fst ps) \<and>
     (\<forall>(p, i)\<in>set ps. case i of None \<Rightarrow> False | Some j \<Rightarrow> ipt_ok view p j)"

lemma protos_ok_Cons:
  "protos_ok view ((p, i) # ps) \<longleftrightarrow>
     p \<notin> protos_of ps \<and> protos_ok view ps \<and> (\<exists>j. i = Some j \<and> ipt_ok view p j)"
  by (auto simp: protos_ok_def protos_of_def split: option.splits)

text \<open>The outcome of a call over all protocols.\<close>

definition all_post :: "'w ipt_view \<Rightarrow> 'w \<Rightarrow> (protocol \<Rightarrow> chains \<Rightarrow> bool) \<Rightarrow> unit res \<times> 'w \<Rightarrow> bool" where
  "all_post view w P rw \<longleftrightarrow> (\<forall>q. iso_ok (view q (snd rw))) \<and>
     (case fst rw of Ok _ \<Rightarrow> (\<forall>q. P q (view q (snd rw))) | Err _ \<Rightarrow> True | Panic _ \<Rightarrow> False | Hang \<Rightarrow> False)"

lemma AddRule_post:
  assumes "protos_ok view ps" and "\<forall>p. iso_ok (view p w)" and r: "r \<noteq> returnRule"
  shows "all_post view w
    (\<lambda>q cs. if q \<in> protos_of ps
            then iso_complete cs \<and> iso_rules cs = insert_unique r (iso_rules (view q w)) \<and> jumps cs
            else cs = view q w) (AddRule ps r w)"
  using assms(1,2)
proof (induction ps arbitrary: w)
  case Nil
  then show ?case by (simp add: all_post_def)
next
  case (Cons pi ps)
  obtain p i where pi: "pi = (p, i)" by fastforce
  with Cons.prems obtain j where j: "i = Some j" "ipt_ok view p j" "p \<notin> protos_of ps" "protos_ok view ps"
    by (auto simp: protos_ok_Cons)
  obtain r1 w1 where r1: "addRule (Some j) r w = (r1, w1)" by fastforce
  have post: "ipt_post view p w
     (\<lambda>cs. iso_complete cs \<and> iso_rules cs = insert_unique r (iso_rules (view p w)) \<and> jumps cs) iso_ok (r1, w1)"
    using addRule_post [OF j(2) _ r, of w] Cons.prems r1 by simp
  show ?case
  proof (cases r1)
    case (Ok u)
    then have "iso_ok (view p w1)" "\<forall>q. q \<noteq> p \<longrightarrow> view q w1 = view q w"
      using post by (simp_all add: ipt_post_def iso_ok_def)
    then have iso1: "\<forall>q. iso_ok (view q w1)" using Cons.prems(2) by metis
    show ?thesis
      using Cons.IH [OF j(4) iso1] post Ok j(1,3) r1
      by (auto simp: pi and_then_def ipt_post_def all_post_def split: res.splits)
  next
    case (Err e)
    then have "iso_ok (view p w1)" "\<forall>q. q \<noteq> p \<longrightarrow> view q w1 = view q w"
      using post by (simp_all add: ipt_post_def)
    then have "\<forall>q. iso_ok (view q w1)" using Cons.prems(2) by metis
    with Err j r1 show ?thesis by (simp add: pi and_then_def all_post_def)
  qed (use post in \<open>auto simp: ipt_post_def\<close>)
qed

lemma DelRule_post:
  assumes "protos_ok view ps" and "\<forall>p. iso_ok (view p w)" and r: "r \<noteq> returnRule"
  shows "all_post view w
    (\<lambda>q cs. if q \<in> protos_of ps then iso_rules cs = filter (\<lambda>x. x \<noteq> r) (iso_rules (view q w))
            else cs = view q w) (DelRule ps r w)"
  using assms(1,2)
proof (induction ps arbitrary: w)
  case Nil
  then show ?case by (simp add: all_post_def)
next
  case (Cons pi ps)
  obtain p i where pi: "pi = (p, i)" by fastforce
  with Cons.prems obtain j where j: "i = Some j" "ipt_ok view p j" "p \<notin> protos_of ps" "protos_ok view ps"
    by (auto simp: protos_ok_Cons)
  obtain r1 w1 where r1: "delRule (Some j) r w = (r1, w1)" by fastforce
  have post: "ipt_post view p w (\<lambda>cs. iso_ok cs \<and> iso_rules cs = filter (\<lambda>x. x \<noteq> r) (iso_rules (view p w)))
     (\<lambda>cs. cs = view p w) (r1, w1)"
    using delRule_post [OF j(2) _ r, of w] Cons.prems r1 by simp
  then have "iso_ok (view p w1)" "\<forall>q. q \<noteq> p \<longrightarrow> view q w1 = view q w"
    using Cons.prems(2) by (auto simp: ipt_post_def split: res.splits)
  then have iso1: "\<forall>q. iso_ok (view q w1)" using Cons.prems(2) by metis
  show ?case
  proof (cases r1)
    case (Ok u)
    then show ?thesis
      using Cons.IH [OF j(4) iso1] post j(1,3) r1
      by (auto simp: pi and_then_def ipt_post_def all_post_def split: res.splits)
  next
    case (Err e)
    with iso1 j r1 show ?thesis by (simp add: pi and_then_def all_post_def)
  qed (use post in \<open>auto simp: ipt_post_def\<close>)
qed

text \<open>
  C7: \<open>AddRule\<close> never panics and, over an iptables package that behaves as documented and
  in every order of the protocols: when it succeeds, each protocol's isolation chain
  holds the new rule in front of the old ones with the single \<open>RETURN\<close> rule last, and
  \<open>FORWARD\<close> jumps to it; when it fails, each isolation chain is still well formed.
\<close>

theorem add_rule_isolates:
  assumes "protos_ok view ps" and "\<forall>p. iso_ok (view p w)" and "r \<noteq> returnRule"
  shows "case AddRule ps r w of
     (Ok _, w') \<Rightarrow> (\<forall>p\<in>protos_of ps. jumps (view p w') \<and>
        view p w' FinchIsolateChain = Some (insert_unique r (iso_rules (view p w)) @ [returnRule]))
   | (Err _, w') \<Rightarrow> (\<forall>p. iso_ok (view p w'))
   | (Panic _, _) \<Rightarrow> False
   | (Hang, _) \<Rightarrow> False"
  using AddRule_post [OF assms]
  by (auto simp: all_post_def iso_complete_def split: prod.splits res.splits if_splits)

definition ipt_world0 :: ipt_world where
  "ipt_world0 = (\<lambda>p. [ForwardChainName \<mapsto> []])"

definition sim_cmd :: "ipt_world iptablesCommand" where
  "sim_cmd = [(ProtocolIPv6, Some (sim_ipt ProtocolIPv6)), (ProtocolIPv4, Some (sim_ipt ProtocolIPv4))]"

lemma sim_cmd_ok: "protos_ok sim_view sim_cmd"
  by (simp add: protos_ok_def sim_cmd_def sim_ipt_ok)

lemma ipt_world0_ok: "\<forall>p. iso_ok (ipt_world0 p)"
  by (simp add: iso_ok_def ipt_world0_def)

theorem add_rule_isolates_witness:
  "case AddRule sim_cmd [''-j'', ''DROP''] ipt_world0 of
     (Ok _, w') \<Rightarrow> (\<forall>p\<in>protos_of sim_cmd. jumps (w' p) \<and>
        w' p FinchIsolateChain = Some (insert_unique [''-j'', ''DROP''] (iso_rules (ipt_world0 p)) @ [returnRule]))
   | (Err _, w') \<Rightarrow> (\<forall>p. iso_ok (w' p))
   | (Panic _, _) \<Rightarrow> False
   | (Hang, _) \<Rightarrow> False"
  using add_rule_isolates [where view = sim_view and w = ipt_world0, OF sim_cmd_ok ipt_world0_ok, of "[''-j'', ''DROP'']"]
  by (simp add: returnRule_def)

text \<open>
  Whatever rule is added, removing it again with \<open>DelRule\<close> leaves in each protocol's isolation
  chain exactly the other rules that were there before, in their order.
\<close>

theorem add_del_rule:
  assumes "protos_ok view ps" and "\<forall>p. iso_ok (view p w)" and "r \<noteq> returnRule"
    and "AddRule ps r w = (Ok (), w1)" and "DelRule ps' r w1 = (Ok (), w2)"
    and "protos_ok view ps'" and "protos_of ps' = protos_of ps"
  shows "\<forall>p\<in>protos_of ps. iso_rules (view p w2) = filter (\<lambda>x. x \<noteq> r) (iso_rules (view p w))"
proof -
  have 1: "all_post view w
    (\<lambda>q cs. if q \<in> protos_of ps
            then iso_complete cs \<and> iso_rules cs = insert_unique r (iso_rules (view q w)) \<and> jumps cs
            else cs = view q w) (Ok (), w1)"
    using AddRule_post [OF assms(1-3)] assms(4) by simp
  then have "\<forall>p. iso_ok (view p w1)" by (simp add: all_post_def)
  from DelRule_post [OF assms(6) this assms(3)] assms(5,7)
  have "\<forall>p\<in>protos_of ps. iso_rules (view p w2) = filter (\<lambda>x. x \<noteq> r) (iso_rules (view p w1))"
    by (auto simp: all_post_def split: if_splits)
  with 1 show ?thesis by (auto simp: all_post_def insert_unique_def split: if_splits)
qed

theorem add_del_rule_witness:
  "iso_rules (snd (DelRule sim_cmd [''-j'', ''DROP''] (snd (AddRule sim_cmd [''-j'', ''DROP''] ipt_world0))) ProtocolIPv6) = []"
proof -
  let ?r = "[''-j'', ''DROP'']"
  have "AddRule sim_cmd ?r ipt_world0 = (Ok (), snd (AddRule sim_cmd ?r ipt_world0))"
    and "DelRule sim_cmd ?r (snd (AddRule sim_cmd ?r ipt_world0)) =
      (Ok (), snd (DelRule sim_cmd ?r (snd (AddRule sim_cmd ?r ipt_world0))))"
    by (simp_all add: sim_cmd_def sim_ipt_def ipt_world0_def addRule_def delRule_def setupChains_def
        ensureChain_def sim_op_def io_defs upd_chain_def insert_unique_def append_unique_def)
  from add_del_rule [where view = sim_view and w = ipt_world0, OF sim_cmd_ok ipt_world0_ok _ this sim_cmd_ok] show ?thesis
    by (simp add: returnRule_def sim_cmd_def ipt_world0_def iso_rules_def)
qed

end
