(* ===== verification/Bridge.thy ===== *)
theory Bridge
  imports Iptables
begin

text \<open>
  The bridge driver (\<open>src/internal/service/network/driver/bridge.go\<close>) and the data of the
  network service that it shares with it.

  Everything outside the process is reached through the record \<open>net_env\<close> of effectful
  functions: nerdctl's network client, the CNI configuration files (a file is the JSON value
  it holds), \<open>flock\<close>, and the iptables package. Loggers have no effect on the model.
\<close>

section \<open>Data\<close>

text \<open>\<open>netutil.NetworkConfig\<close>: the bytes of a plugin are the JSON value they decode to, if any.\<close>

record plugin_conf =
  plug_Type :: string
  plug_Bytes :: "json option"

record net_config =
  nc_Name :: string
  NerdctlID :: "string option"
  NerdctlLabels :: "string gomap option"
  nc_File :: string
  nc_Plugins :: "plugin_conf list"

record ipam =
  ipam_Driver :: string
  ipam_Config :: "string gomap list"
  ipam_Options :: "string gomap"

record NetworkCreateRequest =
  req_Name :: string
  req_CheckDuplicate :: bool
  req_Driver :: string
  req_Internal :: bool
  req_Attachable :: bool
  req_Ingress :: bool
  req_IPAM :: ipam
  req_EnableIPv6 :: bool
  req_Options :: "string gomap"
  req_Labels :: "string gomap"

text \<open>Requests built from options, each of which sets one field; the later of two for the same field wins.\<close>

type_synonym NetworkCreateOption = "NetworkCreateRequest \<Rightarrow> NetworkCreateRequest"

definition NewCreateNetworkRequest :: "string \<Rightarrow> NetworkCreateOption list \<Rightarrow> NetworkCreateRequest" where
  "NewCreateNetworkRequest name opts =
     fold (\<lambda>opt request. opt request) opts
       \<lparr>req_Name = name, req_CheckDuplicate = False, req_Driver = [], req_Internal = False, req_Attachable = False, req_Ingress = False,
        req_IPAM = \<lparr>ipam_Driver = [], ipam_Config = [], ipam_Options = []\<rparr>, req_EnableIPv6 = False, req_Options = [], req_Labels = []\<rparr>"

definition WithDriver :: "string \<Rightarrow> NetworkCreateOption" where
  "WithDriver driver r = r\<lparr>req_Driver := driver\<rparr>"

definition WithInternal :: "bool \<Rightarrow> NetworkCreateOption" where
  "WithInternal isInternal r = r\<lparr>req_Internal := isInternal\<rparr>"

definition WithAttachable :: "bool \<Rightarrow> NetworkCreateOption" where
  "WithAttachable isAttachable r = r\<lparr>req_Attachable := isAttachable\<rparr>"

definition WithIngress :: "bool \<Rightarrow> NetworkCreateOption" where
  "WithIngress isIngress r = r\<lparr>req_Ingress := isIngress\<rparr>"

definition WithIPAM :: "ipam \<Rightarrow> NetworkCreateOption" where
  "WithIPAM ipam r = r\<lparr>req_IPAM := ipam\<rparr>"

definition WithEnableIPv6 :: "bool \<Rightarrow> NetworkCreateOption" where
  "WithEnableIPv6 isIPv6 r = r\<lparr>req_EnableIPv6 := isIPv6\<rparr>"

definition WithOptions :: "string gomap \<Rightarrow> NetworkCreateOption" where
  "WithOptions options r = r\<lparr>req_Options := options\<rparr>"

definition WithLabels :: "string gomap \<Rightarrow> NetworkCreateOption" where
  "WithLabels lbls r = r\<lparr>req_Labels := lbls\<rparr>"

text \<open>nerdctl's \<open>NetworkCreateOptions\<close>.\<close>

record net_options =
  o_Name :: string
  o_Driver :: string
  o_Options :: "string gomap"
  o_IPAMDriver :: string
  o_IPAMOptions :: "string gomap"
  o_Subnets :: "string list"
  o_Gateway :: string
  o_IPRange :: string
  o_Labels :: "string list"
  o_IPv6 :: bool

record 'w net_env =
  NetworkList :: "('w, net_config list) io"
  nc_CreateNetwork :: "net_options \<Rightarrow> ('w, net_config option) io"
  nc_RemoveNetwork :: "net_config \<Rightarrow> ('w, unit) io"
  UsedNetworks :: "('w, string list gomap) io"
  NetconfPath :: string
  Namespace :: string
  DefaultNetworkName :: string
  NewWithProtocol :: "protocol \<Rightarrow> ('w, 'w ipt) io"
  range_protos :: "'w iptablesCommand \<Rightarrow> 'w iptablesCommand"
  open_dir :: "string \<Rightarrow> ('w, unit) io"
  unix_Flock :: "string \<Rightarrow> bool \<Rightarrow> ('w, unit) io"
  os_Stat :: "string \<Rightarrow> ('w, nat) io"
  read_json :: "string \<Rightarrow> ('w, json) io"
  write_json :: "string \<Rightarrow> json \<Rightarrow> nat \<Rightarrow> ('w, unit) io"

text \<open>\<open>FilterNetworks\<close> of \<open>src/internal/backend/network.go\<close>.\<close>

definition FilterNetworks :: "'w net_env \<Rightarrow> (net_config \<Rightarrow> bool) \<Rightarrow> ('w, net_config list) io" where
  "FilterNetworks env filterf = and_then (NetworkList env) (\<lambda>ns. ret (filter filterf ns))"

section \<open>Create options\<close>

definition FinchICCLabelIPv4 :: string where "FinchICCLabelIPv4 = ''finch.network.bridge.enable_icc.ipv4''"
definition FinchICCLabelIPv6 :: string where "FinchICCLabelIPv6 = ''finch.network.bridge.enable_icc.ipv6''"
definition BridgeICCOption :: string where "BridgeICCOption = ''com.docker.network.bridge.enable_icc''"
definition BridgeHostBindingIpv4Option :: string where
  "BridgeHostBindingIpv4Option = ''com.docker.network.bridge.host_binding_ipv4''"
definition BridgeNameOption :: string where "BridgeNameOption = ''com.docker.network.bridge.name''"

lemmas bridge_option_names = BridgeICCOption_def BridgeHostBindingIpv4Option_def BridgeNameOption_def

record bridgeDriver =
  bridgeName :: string
  disableICC :: bool
  bd_IPv6 :: bool

definition NewBridgeDriver :: "bool \<Rightarrow> bridgeDriver" where
  "NewBridgeDriver ipv6 = \<lparr>bridgeName = [], disableICC = False, bd_IPv6 = ipv6\<rparr>"

text \<open>One iteration of the loop over the request's options.\<close>

fun process_option :: "string \<times> string \<Rightarrow> bridgeDriver \<times> string gomap \<Rightarrow> bridgeDriver \<times> string gomap" where
  "process_option (k, v) (bd, opts) =
     (if k = BridgeHostBindingIpv4Option then (bd, opts)
      else if k = BridgeICCOption then
        (case ParseBool v of
           None \<Rightarrow> (bd, opts)
         | Some iccOption \<Rightarrow> (bd\<lparr>disableICC := \<not> iccOption\<rparr>, opts))
      else if k = BridgeNameOption then (bd\<lparr>bridgeName := v\<rparr>, opts)
      else (bd, map_put k v opts))"

definition processUnsupportedOptions :: "string gomap \<Rightarrow> bridgeDriver \<Rightarrow> bridgeDriver \<times> string gomap" where
  "processUnsupportedOptions original bd = fold process_option original (bd, [])"

definition HandleCreateOptions :: "bridgeDriver \<Rightarrow> NetworkCreateRequest \<Rightarrow> net_options \<Rightarrow>
    bridgeDriver \<times> net_options" where
  "HandleCreateOptions bd request options =
     (case processUnsupportedOptions (req_Options request) bd of
        (bd1, opts) \<Rightarrow>
          let options1 = options\<lparr>o_Options := opts\<rparr>
          in if disableICC bd1
             then let finchICCLabel = (if bd_IPv6 bd1 then FinchICCLabelIPv6 else FinchICCLabelIPv4)
                  in (bd1, options1\<lparr>o_Labels := o_Labels options1 @ [finchICCLabel @ ''=false'']\<rparr>)
             else (bd1, options1))"

section \<open>The directory lock\<close>

text \<open>\<open>flock\<close> retries while the system call is interrupted; \<open>None\<close> is a loop that never ends.\<close>

partial_function (option) flock_loop :: "('w, unit) io \<Rightarrow> 'w \<Rightarrow> (unit res \<times> 'w) option" where
  "flock_loop sys w =
     (case sys w of
        (Err e, w1) \<Rightarrow> if XEINTR \<in> set (own_kinds e) then flock_loop sys w1 else Some (Err e, w1)
      | (r, w1) \<Rightarrow> Some (r, w1))"

definition flock :: "'w net_env \<Rightarrow> string \<Rightarrow> bool \<Rightarrow> ('w, unit) io" where
  "flock env dir lock w =
     (case flock_loop (unix_Flock env dir lock) w of None \<Rightarrow> (Hang, w) | Some rw \<Rightarrow> rw)"

text \<open>The deferred unlock runs when the function returns or panics; its error is logged.\<close>

definition unlock_after :: "'w net_env \<Rightarrow> string \<Rightarrow> ('w, 'a) io \<Rightarrow> ('w, 'a) io" where
  "unlock_after env dir fn w =
     (case fn w of
        (Hang, w1) \<Rightarrow> (Hang, w1)
      | (r, w1) \<Rightarrow>
          (case flock env dir False w1 of
             (Panic p, w2) \<Rightarrow> (Panic p, w2)
           | (Hang, w2) \<Rightarrow> (Hang, w2)
           | (_, w2) \<Rightarrow> (r, w2)))"

definition withDirLock :: "'w net_env \<Rightarrow> string \<Rightarrow> ('w, 'a) io \<Rightarrow> ('w, 'a) io" where
  "withDirLock env dir fn =
     and_then (open_dir env dir)
       (\<lambda>_. or_else (flock env dir True)
          (\<lambda>e. fail (ErrWrap (''failed to lock '' @ Quote dir @ '': '') e []))
          (\<lambda>_. unlock_after env dir fn))"

section \<open>Configuration files\<close>

definition getDirForNetworkName :: "'w net_env \<Rightarrow> string \<Rightarrow> string" where
  "getDirForNetworkName env netName =
     (if netName = DefaultNetworkName env \<or> Namespace env = [] then NetconfPath env
      else path_Join [NetconfPath env, Namespace env])"

definition conflist :: "string \<Rightarrow> string" where
  "conflist netName = ''nerdctl-'' @ netName @ ''.conflist''"

definition getConfigPathForNetworkName :: "'w net_env \<Rightarrow> string \<Rightarrow> ('w, string) io" where
  "getConfigPathForNetworkName env netName =
     (let namespacedPath = path_Join [getDirForNetworkName env netName, conflist netName];
          legacyPath = path_Join [NetconfPath env, conflist netName]
      in or_else (os_Stat env namespacedPath)
           (\<lambda>_. or_else (os_Stat env legacyPath)
              (\<lambda>_. fail (ErrMsg (''network config file not found for network '' @ netName)))
              (\<lambda>_. ret legacyPath))
           (\<lambda>_. ret namespacedPath))"

text \<open>The plugins of a configuration that are objects of type bridge.\<close>

fun bridge_plugin :: "json \<Rightarrow> json gomap option" where
  "bridge_plugin (JObj p) = (if map_of p ''type'' = Some (JStr ''bridge'') then Some p else None)"
| "bridge_plugin _ = None"

fun find_bridge :: "json list \<Rightarrow> json gomap option" where
  "find_bridge [] = None"
| "find_bridge (p # ps) = (case bridge_plugin p of Some m \<Rightarrow> Some m | None \<Rightarrow> find_bridge ps)"

definition bridge_of_config :: "string \<Rightarrow> json \<Rightarrow> (json gomap \<times> json gomap) res" where
  "bridge_of_config configFilename netJSON =
     (case netJSON of
        JObj netMap \<Rightarrow>
          (case map_of netMap ''plugins'' of
             None \<Rightarrow> Err (ErrMsg (''could not find plugins in network config file '' @ configFilename))
           | Some (JArr plugins) \<Rightarrow>
               (case find_bridge plugins of
                  Some pluginMap \<Rightarrow> Ok (netMap, pluginMap)
                | None \<Rightarrow> Err (ErrMsg (''bridge plugin not found in network config file '' @ configFilename)))
           | Some _ \<Rightarrow> Err (ErrMsg (''could not parse plugins in network config file '' @ configFilename)))
      | _ \<Rightarrow> Err (ErrMsg (''network config file '' @ configFilename @ '' is not a valid map'')))"

definition parseBridgeConfig :: "'w net_env \<Rightarrow> string \<Rightarrow> ('w, json gomap \<times> json gomap) io" where
  "parseBridgeConfig env configFilename =
     and_then (read_json env configFilename) (\<lambda>j. lift_res (bridge_of_config configFilename j))"

text \<open>\<open>json.Unmarshal(plugin.Bytes, &bridgePlugin)\<close> with the variable declared outside the
  loop: a missing or null \<open>bridge\<close> key keeps the value of an earlier plugin, a key of another type
  is an error. The result is the new value and whether the call succeeded.\<close>

definition unmarshal_bridge :: "json option \<Rightarrow> string \<Rightarrow> string \<times> bool" where
  "unmarshal_bridge bytes cur =
     (case bytes of
        Some (JObj m) \<Rightarrow>
          (let t_ok = (case map_of m ''type'' of None \<Rightarrow> True | Some JNull \<Rightarrow> True | Some (JStr _) \<Rightarrow> True | _ \<Rightarrow> False)
           in (case map_of m ''bridge'' of
                 None \<Rightarrow> (cur, t_ok)
               | Some JNull \<Rightarrow> (cur, t_ok)
               | Some (JStr b) \<Rightarrow> (b, t_ok)
               | Some _ \<Rightarrow> (cur, False)))
      | Some JNull \<Rightarrow> (cur, True)
      | _ \<Rightarrow> (cur, False))"

fun scan_plugins :: "string \<Rightarrow> plugin_conf list \<Rightarrow> string \<Rightarrow> string \<times> bool" where
  "scan_plugins name [] cur = (cur, False)"
| "scan_plugins name (p # ps) cur =
     (if plug_Type p \<noteq> ''bridge'' then scan_plugins name ps cur
      else case unmarshal_bridge (plug_Bytes p) cur of
             (cur1, ok) \<Rightarrow> if \<not> ok then scan_plugins name ps cur1
                          else if cur1 = name then (cur1, True)
                          else scan_plugins name ps cur1)"

fun scan_networks :: "string \<Rightarrow> net_config list \<Rightarrow> string \<Rightarrow> net_config option" where
  "scan_networks name [] cur = None"
| "scan_networks name (n # ns) cur =
     (case scan_plugins name (nc_Plugins n) cur of
        (cur1, True) \<Rightarrow> Some n
      | (cur1, False) \<Rightarrow> scan_networks name ns cur1)"

definition getNetworkByBridgeName :: "'w net_env \<Rightarrow> string \<Rightarrow> ('w, net_config option) io" where
  "getNetworkByBridgeName env name =
     and_then (FilterNetworks env (\<lambda>_. True)) (\<lambda>ns. ret (scan_networks name ns []))"

text \<open>The plugin list with the first bridge plugin replaced.\<close>

fun replace_bridge :: "json gomap \<Rightarrow> json list \<Rightarrow> json list" where
  "replace_bridge m [] = []"
| "replace_bridge m (p # ps) = (if bridge_plugin p \<noteq> None then JObj m # ps else p # replace_bridge m ps)"

definition set_bridge_json :: "string \<Rightarrow> json gomap \<Rightarrow> json gomap \<Rightarrow> json res" where
  "set_bridge_json name netMap bridgePlugin =
     (case map_of netMap ''plugins'' of
        Some (JArr plugins) \<Rightarrow>
          Ok (JObj (map_put ''plugins'' (JArr (replace_bridge (map_put ''bridge'' (JStr name) bridgePlugin) plugins)) netMap))
      | _ \<Rightarrow> Panic ''interface conversion'')"

definition setBridgeName :: "'w net_env \<Rightarrow> net_config \<Rightarrow> string \<Rightarrow> ('w, unit) io" where
  "setBridgeName env net name =
     withDirLock env (getDirForNetworkName env [])
       (and_then (getNetworkByBridgeName env name)
          (\<lambda>bridgeNet. case bridgeNet of
             Some n \<Rightarrow> fail (ErrMsg (''bridge name '' @ name @ '' already in use by network '' @ nc_Name n))
           | None \<Rightarrow>
              and_then (getConfigPathForNetworkName env (nc_Name net))
                (\<lambda>configFilename. and_then (parseBridgeConfig env configFilename)
                  (\<lambda>(netMap, bridgePlugin). and_then (lift_res (set_bridge_json name netMap bridgePlugin))
                    (\<lambda>data. and_then (os_Stat env configFilename)
                      (\<lambda>perm. write_json env configFilename data perm))))))"

definition getBridgeName :: "'w net_env \<Rightarrow> net_config \<Rightarrow> ('w, string) io" where
  "getBridgeName env net =
     withDirLock env (getDirForNetworkName env [])
       (and_then (getConfigPathForNetworkName env (nc_Name net))
          (\<lambda>configFilename. and_then (parseBridgeConfig env configFilename)
             (\<lambda>(_, bridgePlugin). case map_of bridgePlugin ''bridge'' of
                  Some (JStr bridge) \<Rightarrow> ret bridge
                | _ \<Rightarrow> fail (ErrMsg (''bridge name in config file '' @ configFilename @ '' is not a string'')))))"

section \<open>Inter-container connectivity\<close>

definition iccDropRule :: "string \<Rightarrow> rulespec" where
  "iccDropRule bridgeIface = [''-i'', bridgeIface, ''-o'', bridgeIface, ''-j'', ''DROP'']"

definition addICCDropRule :: "'w net_env \<Rightarrow> bridgeDriver \<Rightarrow> string \<Rightarrow> ('w, unit) io" where
  "addICCDropRule env bd bridgeIface =
     and_then (newIptablesCommand (NewWithProtocol env) (bd_IPv6 bd))
       (\<lambda>ipc. or_else (AddRule (range_protos env ipc) (iccDropRule bridgeIface))
          (\<lambda>err. fail (ErrMsg (''failed to add iptables rule to drop ICC: '' @ Error err)))
          (\<lambda>_. ret ()))"

definition removeICCDropRule :: "'w net_env \<Rightarrow> bridgeDriver \<Rightarrow> string \<Rightarrow> ('w, unit) io" where
  "removeICCDropRule env bd bridgeIface =
     and_then (newIptablesCommand (NewWithProtocol env) (bd_IPv6 bd))
       (\<lambda>ipc. or_else (DelRule (range_protos env ipc) (iccDropRule bridgeIface))
          (\<lambda>err. fail (ErrMsg (''failed to remove iptables rules to drop ICC: '' @ Error err)))
          (\<lambda>_. ret ()))"

definition HandlePostCreate :: "'w net_env \<Rightarrow> bridgeDriver \<Rightarrow> net_config \<Rightarrow> ('w, string) io" where
  "HandlePostCreate env bd net =
     or_else (if bridgeName bd \<noteq> [] then setBridgeName env net (bridgeName bd) else ret ())
       (\<lambda>err. fail (ErrMsg (''failed to set network bridge name '' @ bridgeName bd @ '': '' @ Error err)))
       (\<lambda>_. if disableICC bd
            then or_else (if bridgeName bd = [] then getBridgeName env net else ret (bridgeName bd))
                   (\<lambda>err. fail (ErrWrap ''failed to get bridge name to enable inter-container connectivity: '' err '' ''))
                   (\<lambda>name. or_else (addICCDropRule env bd name)
                      (\<lambda>err. fail (ErrWrap ''failed to disable inter-container connectivity: '' err []))
                      (\<lambda>_. ret []))
            else ret [])"

definition HandleRemove :: "'w net_env \<Rightarrow> bridgeDriver \<Rightarrow> net_config \<Rightarrow> ('w, unit) io" where
  "HandleRemove env bd net =
     or_else (getBridgeName env net)
       (\<lambda>err. fail (ErrWrap ''failed to get bridge name to remove inter-container connectivity: '' err '' ''))
       (\<lambda>name. or_else (removeICCDropRule env bd name)
          (\<lambda>err. fail (ErrWrap ''failed to remove iptables DROP rule : '' err []))
          (\<lambda>_. ret ()))"

section \<open>Properties of the create options\<close>

definition reserved_option :: "string \<Rightarrow> bool" where
  "reserved_option k \<longleftrightarrow> k \<in> {BridgeHostBindingIpv4Option, BridgeICCOption, BridgeNameOption}"

lemma option_names_distinct [simp]:
  "BridgeICCOption \<noteq> BridgeHostBindingIpv4Option" "BridgeHostBindingIpv4Option \<noteq> BridgeICCOption"
  "BridgeNameOption \<noteq> BridgeHostBindingIpv4Option" "BridgeHostBindingIpv4Option \<noteq> BridgeNameOption"
  "BridgeNameOption \<noteq> BridgeICCOption" "BridgeICCOption \<noteq> BridgeNameOption"
  by (simp_all add: bridge_option_names)

definition icc_setting :: "string option \<Rightarrow> bool \<Rightarrow> bool" where
  "icc_setting v d = (case v of None \<Rightarrow> d | Some s \<Rightarrow> (case ParseBool s of None \<Rightarrow> d | Some b \<Rightarrow> \<not> b))"

lemma map_put_new: "k \<notin> fst ` set m \<Longrightarrow> map_put k v m = m @ [(k, v)]"
  unfolding map_put_def by (induction m) auto

lemma fold_process_option:
  assumes "gomap_ok (acc @ opts)"
  shows "fold process_option opts (bd, acc) =
     (bd\<lparr>bridgeName := (case map_of opts BridgeNameOption of None \<Rightarrow> bridgeName bd | Some v \<Rightarrow> v),
         disableICC := icc_setting (map_of opts BridgeICCOption) (disableICC bd)\<rparr>,
      acc @ filter (\<lambda>(k, v). \<not> reserved_option k) opts)"
  using assms
proof (induction opts arbitrary: bd acc)
  case (Cons kv opts)
  obtain k v where kv: "kv = (k, v)" by fastforce
  have new: "k \<notin> fst ` set opts" "k \<notin> fst ` set acc" using Cons.prems kv by auto
  have none: "map_of opts k = None" using new(1) by (simp add: map_of_eq_None_iff)
  have ok: "gomap_ok (acc @ opts)" "gomap_ok ((acc @ [(k, v)]) @ opts)"
    using Cons.prems kv by auto
  show ?case
    using none
    by (auto simp: kv Cons.IH [OF ok(1)] Cons.IH [OF ok(2)] map_put_new [OF new(2)] reserved_option_def
        icc_setting_def split: option.splits)
qed (simp add: icc_setting_def)

text \<open>
  Whatever the order in which Go ranges over the request's options, the bridge driver
  takes the bridge name and the connectivity switch from them, hands exactly the other
  options to nerdctl, and adds the label that records a disabled connectivity (for the
  network's IP version) exactly when \<open>enable_icc\<close> is a valid false value.
\<close>

theorem create_options_any_order:
  assumes "gomap_ok (req_Options request)"
  shows "case HandleCreateOptions (NewBridgeDriver ipv6) request options of (bd, options') \<Rightarrow>
     bridgeName bd = map_str (req_Options request) BridgeNameOption \<and>
     (disableICC bd \<longleftrightarrow> (\<exists>v. map_of (req_Options request) BridgeICCOption = Some v \<and> ParseBool v = Some False)) \<and>
     map_of (o_Options options') =
       (\<lambda>k. if reserved_option k then None else map_of (req_Options request) k) \<and>
     options'\<lparr>o_Options := o_Options options\<rparr> =
       options\<lparr>o_Labels := o_Labels options @
         (if disableICC bd then [(if ipv6 then FinchICCLabelIPv6 else FinchICCLabelIPv4) @ ''=false''] else [])\<rparr>"
proof -
  have "map_of (filter (\<lambda>(k, v). \<not> reserved_option k) m) =
      (\<lambda>k. if reserved_option k then None else map_of m k)" for m :: "string gomap"
    by (rule ext, induction m) auto
  moreover have "icc_setting v False \<longleftrightarrow> (\<exists>s. v = Some s \<and> ParseBool s = Some False)" for v
    by (auto simp: icc_setting_def split: option.splits)
  ultimately show ?thesis
    using fold_process_option [of "[]" "req_Options request" "NewBridgeDriver ipv6"] assms
    by (simp add: HandleCreateOptions_def processUnsupportedOptions_def NewBridgeDriver_def
        map_str_def Let_def del: map_of_eq_Some_iff cong: option.case_cong)
qed

definition req_icc :: NetworkCreateRequest where
  "req_icc = NewCreateNetworkRequest ''n'' [WithOptions [(''mtu'', ''1500''), (BridgeICCOption, ''false'')]]"

definition no_options :: net_options where
  "no_options = \<lparr>o_Name = ''n'', o_Driver = ''bridge'', o_Options = [], o_IPAMDriver = ''default'',
     o_IPAMOptions = [], o_Subnets = [], o_Gateway = [], o_IPRange = [], o_Labels = [], o_IPv6 = False\<rparr>"

theorem create_options_any_order_witness:
  "disableICC (fst (HandleCreateOptions (NewBridgeDriver False) req_icc no_options))"
  using create_options_any_order [of req_icc no_options False]
  by (auto simp: req_icc_def NewCreateNetworkRequest_def WithOptions_def BridgeICCOption_def ParseBool_def split: prod.splits)

section \<open>Bridge names in use\<close>

text \<open>A network that claims a bridge name: one of its bridge plugins decodes to that name.\<close>

definition claims_bridge :: "string \<Rightarrow> net_config \<Rightarrow> bool" where
  "claims_bridge name n \<longleftrightarrow> (\<exists>p m. p \<in> set (nc_Plugins n) \<and> plug_Type p = ''bridge'' \<and>
     plug_Bytes p = Some (JObj m) \<and> map_of m ''bridge'' = Some (JStr name) \<and>
     (\<exists>t. map_of m ''type'' = Some (JStr t)))"

definition claims :: "string \<Rightarrow> plugin_conf \<Rightarrow> bool" where
  "claims name p \<longleftrightarrow> plug_Type p = ''bridge'' \<and> (\<forall>cur. unmarshal_bridge (plug_Bytes p) cur = (name, True))"

lemma claims_bridge_claims: "claims_bridge name n \<Longrightarrow> \<exists>p\<in>set (nc_Plugins n). claims name p"
  by (fastforce simp: claims_bridge_def claims_def unmarshal_bridge_def)

lemma scan_plugins_claim: "p \<in> set ps \<Longrightarrow> claims name p \<Longrightarrow> snd (scan_plugins name ps cur)"
  by (induction ps arbitrary: cur) (auto simp: claims_def split: prod.splits)

lemma scan_networks_claim: "n \<in> set ns \<Longrightarrow> claims_bridge name n \<Longrightarrow> scan_networks name ns cur \<noteq> None"
proof (induction name ns cur rule: scan_networks.induct)
  case (2 name n' ns cur)
  have "snd (scan_plugins name (nc_Plugins n') cur)" if "n = n'"
    using 2 claims_bridge_claims scan_plugins_claim that by blast
  with 2 show ?case by (auto split: prod.splits bool.splits)
qed simp

lemma scan_networks_in: "scan_networks name ns cur = Some n \<Longrightarrow> n \<in> set ns"
  by (induction name ns cur rule: scan_networks.induct) (auto split: prod.splits bool.splits)

section \<open>The lock loop\<close>

declare flock_loop.simps [code]

text \<open>The world after \<open>n\<close> calls of the system call.\<close>

fun sys_worlds :: "('w, unit) io \<Rightarrow> nat \<Rightarrow> 'w \<Rightarrow> 'w" where
  "sys_worlds sys 0 w = w"
| "sys_worlds sys (Suc n) w = sys_worlds sys n (snd (sys w))"

definition interrupted :: "('w, unit) io \<Rightarrow> 'w \<Rightarrow> bool" where
  "interrupted sys w \<longleftrightarrow> (\<exists>e. fst (sys w) = Err e \<and> XEINTR \<in> set (own_kinds e))"

lemma flock_loop_stop: "\<not> interrupted sys w \<Longrightarrow> flock_loop sys w = Some (sys w)"
  by (subst flock_loop.simps) (auto simp: interrupted_def split: prod.splits res.splits)

lemma flock_loop_retry: "interrupted sys w \<Longrightarrow> flock_loop sys w = flock_loop sys (snd (sys w))"
  by (subst flock_loop.simps) (auto simp: interrupted_def split: prod.splits res.splits)

lemma flock_loop_after:
  assumes "\<forall>k<n. interrupted sys (sys_worlds sys k w)" and "\<not> interrupted sys (sys_worlds sys n w)"
  shows "flock_loop sys w = Some (sys (sys_worlds sys n w))"
  using assms
proof (induction n arbitrary: w)
  case 0
  then show ?case by (simp add: flock_loop_stop)
next
  case (Suc n)
  have now: "interrupted sys w" using Suc.prems(1) by (metis sys_worlds.simps(1) zero_less_Suc)
  have "\<forall>k<n. interrupted sys (sys_worlds sys k (snd (sys w)))"
    using Suc.prems(1) by (metis Suc_less_eq sys_worlds.simps(2))
  with Suc.IH Suc.prems(2) now show ?case by (simp add: flock_loop_retry)
qed

text \<open>
  The lock loop ends as soon as the system call is not interrupted: after any number
  of interruptions it returns the outcome of the first call that was not one.
\<close>

theorem flock_returns:
  assumes "\<forall>k<n. interrupted (unix_Flock env dir lock) (sys_worlds (unix_Flock env dir lock) k w)"
    and "\<not> interrupted (unix_Flock env dir lock) (sys_worlds (unix_Flock env dir lock) n w)"
  shows "flock env dir lock w = unix_Flock env dir lock (sys_worlds (unix_Flock env dir lock) n w)"
  using flock_loop_after [OF assms] by (simp add: flock_def)

section \<open>Setting and reading the bridge name\<close>

text \<open>A file system without faults: \<open>files\<close> is its content.\<close>

definition fs_ok :: "('w \<Rightarrow> string \<Rightarrow> json option) \<Rightarrow> 'w net_env \<Rightarrow> bool" where
  "fs_ok files env \<longleftrightarrow>
     (\<forall>d w. fst (open_dir env d w) = Ok () \<and> files (snd (open_dir env d w)) = files w) \<and>
     (\<forall>d b w. fst (unix_Flock env d b w) = Ok () \<and> files (snd (unix_Flock env d b w)) = files w) \<and>
     (\<forall>p w. files (snd (os_Stat env p w)) = files w \<and>
        (case files w p of None \<Rightarrow> \<exists>e. fst (os_Stat env p w) = Err e | Some _ \<Rightarrow> \<exists>m. fst (os_Stat env p w) = Ok m)) \<and>
     (\<forall>p w. files (snd (read_json env p w)) = files w \<and>
        (case files w p of None \<Rightarrow> \<exists>e. fst (read_json env p w) = Err e | Some j \<Rightarrow> fst (read_json env p w) = Ok j)) \<and>
     (\<forall>p j m w. fst (write_json env p j m w) = Ok () \<and> files (snd (write_json env p j m w)) = (files w)(p \<mapsto> j)) \<and>
     (\<forall>w. files (snd (NetworkList env w)) = files w)"

lemma fs_okD:
  assumes "fs_ok files env"
  shows "\<exists>w'. open_dir env d w = (Ok (), w') \<and> files w' = files w"
    and "files w p = Some j \<Longrightarrow> \<exists>m w'. os_Stat env p w = (Ok m, w') \<and> files w' = files w"
    and "files w p = None \<Longrightarrow> \<exists>e w'. os_Stat env p w = (Err e, w') \<and> files w' = files w"
    and "files w p = Some j \<Longrightarrow> \<exists>w'. read_json env p w = (Ok j, w') \<and> files w' = files w"
    and "\<exists>w'. write_json env p j' m w = (Ok (), w') \<and> files w' = (files w)(p \<mapsto> j')"
    and "files (snd (NetworkList env w)) = files w"
proof -
  note fs = assms [unfolded fs_ok_def]
  show "\<exists>w'. open_dir env d w = (Ok (), w') \<and> files w' = files w"
    using fs [THEN conjunct1, rule_format, of d w] by (cases "open_dir env d w") simp
  have stat: "files (snd (os_Stat env p w)) = files w \<and>
      (case files w p of None \<Rightarrow> \<exists>e. fst (os_Stat env p w) = Err e | Some _ \<Rightarrow> \<exists>m. fst (os_Stat env p w) = Ok m)"
    and rd: "files (snd (read_json env p w)) = files w \<and>
      (case files w p of None \<Rightarrow> \<exists>e. fst (read_json env p w) = Err e | Some j \<Rightarrow> fst (read_json env p w) = Ok j)"
    and wr: "fst (write_json env p j' m w) = Ok () \<and> files (snd (write_json env p j' m w)) = (files w)(p \<mapsto> j')"
    and nl: "files (snd (NetworkList env w)) = files w"
    using fs by blast+
  show "files w p = Some j \<Longrightarrow> \<exists>m w'. os_Stat env p w = (Ok m, w') \<and> files w' = files w"
    "files w p = None \<Longrightarrow> \<exists>e w'. os_Stat env p w = (Err e, w') \<and> files w' = files w"
    using stat by (cases "os_Stat env p w"; auto)+
  show "files w p = Some j \<Longrightarrow> \<exists>w'. read_json env p w = (Ok j, w') \<and> files w' = files w"
    using rd by (cases "read_json env p w") auto
  show "\<exists>w'. write_json env p j' m w = (Ok (), w') \<and> files w' = (files w)(p \<mapsto> j')"
    using wr by (cases "write_json env p j' m w") simp
  show "files (snd (NetworkList env w)) = files w" by (rule nl)
qed

lemma fs_lock:
  assumes "fs_ok files env"
  shows "\<exists>w'. flock env d b w = (Ok (), w') \<and> files w' = files w"
proof -
  have u: "fst (unix_Flock env d b w) = Ok ()" "files (snd (unix_Flock env d b w)) = files w"
    using assms unfolding fs_ok_def by blast+
  then have "flock_loop (unix_Flock env d b) w = Some (unix_Flock env d b w)"
    by (intro flock_loop_stop) (simp add: interrupted_def)
  with u show ?thesis by (cases "unix_Flock env d b w") (simp add: flock_def)
qed

lemma withDirLock_result:
  assumes fs: "fs_ok files env"
    and fn: "\<And>w. files w = base \<Longrightarrow> fst (fn w) \<noteq> Hang \<and> R (fst (fn w)) (files (snd (fn w)))" and "files w = base"
  shows "R (fst (withDirLock env d fn w)) (files (snd (withDirLock env d fn w)))"
proof -
  obtain w1 where w1: "open_dir env d w = (Ok (), w1)" "files w1 = base"
    using fs_okD(1) [OF fs] assms(3) by metis
  obtain w2 where w2: "flock env d True w1 = (Ok (), w2)" "files w2 = base"
    using fs_lock [OF fs] w1(2) by metis
  obtain r w3 where w3: "fn w2 = (r, w3)" by fastforce
  obtain w4 where w4: "flock env d False w3 = (Ok (), w4)" "files w4 = files w3"
    using fs_lock [OF fs] by metis
  show ?thesis
    using fn [OF w2(2)] w1(1) w2(1) w3 w4
    by (cases r) (simp_all add: withDirLock_def and_then_def or_else_def unlock_after_def)
qed

lemma find_replace_bridge:
  "find_bridge ps = Some m \<Longrightarrow> map_of m' ''type'' = Some (JStr ''bridge'') \<Longrightarrow>
     find_bridge (replace_bridge m' ps) = Some m'"
  by (induction ps) (auto split: option.splits)

lemma find_bridge_type: "find_bridge ps = Some m \<Longrightarrow> map_of m ''type'' = Some (JStr ''bridge'')"
proof (induction ps)
  case (Cons p ps)
  then show ?case by (cases p) (auto split: if_splits)
qed simp

text \<open>The rewritten configuration: same keys, and the same plugins but for the bridge name
  of the first bridge plugin.\<close>

lemma set_bridge_config:
  assumes "bridge_of_config f j = Ok (netMap, bp)"
  shows "\<exists>j'. set_bridge_json name netMap bp = Ok j' \<and>
    (\<exists>netMap' bp'. bridge_of_config f' j' = Ok (netMap', bp') \<and> map_of bp' ''bridge'' = Some (JStr name) \<and>
      (\<forall>k. k \<noteq> ''bridge'' \<longrightarrow> map_of bp' k = map_of bp k) \<and> (\<forall>k. k \<noteq> ''plugins'' \<longrightarrow> map_of netMap' k = map_of netMap k))"
proof -
  obtain ps where ps: "map_of netMap ''plugins'' = Some (JArr ps)" "find_bridge ps = Some bp"
    using assms by (auto simp: bridge_of_config_def split: json.splits option.splits)
  then show ?thesis
    using find_bridge_type [OF ps(2)]
    by (auto simp: set_bridge_json_def bridge_of_config_def find_replace_bridge)
qed

text \<open>The configuration file of a network: its namespaced path, or else the legacy one.\<close>

definition conf_path :: "'w net_env \<Rightarrow> (string \<Rightarrow> json option) \<Rightarrow> string \<Rightarrow> string option" where
  "conf_path env f n =
     (let p1 = path_Join [getDirForNetworkName env n, conflist n]; p2 = path_Join [NetconfPath env, conflist n]
      in if f p1 \<noteq> None then Some p1 else if f p2 \<noteq> None then Some p2 else None)"

lemma conf_path_exists: "conf_path env f n = Some p \<Longrightarrow> f p \<noteq> None"
  by (auto simp: conf_path_def Let_def split: if_splits)

lemma conf_path_write: "conf_path env f n = Some p \<Longrightarrow> conf_path env (f(p \<mapsto> j)) n = Some p"
  by (auto simp: conf_path_def Let_def split: if_splits)

lemma config_path_result:
  assumes "fs_ok files env"
  shows "\<exists>w'. files w' = files w \<and> getConfigPathForNetworkName env n w =
    (case conf_path env (files w) n of
       Some p \<Rightarrow> Ok p | None \<Rightarrow> Err (ErrMsg (''network config file not found for network '' @ n)), w')"
proof -
  have st: "files (snd (os_Stat env p w)) = files w"
    "case files w p of None \<Rightarrow> \<exists>e. fst (os_Stat env p w) = Err e | Some _ \<Rightarrow> \<exists>m. fst (os_Stat env p w) = Ok m" for p w
    using assms unfolding fs_ok_def by blast+
  let ?p1 = "path_Join [getDirForNetworkName env n, conflist n]"
  let ?p2 = "path_Join [NetconfPath env, conflist n]"
  obtain r1 w1 where r1: "os_Stat env ?p1 w = (r1, w1)" by fastforce
  obtain r2 w2 where r2: "os_Stat env ?p2 w1 = (r2, w2)" by fastforce
  show ?thesis
    using st [of ?p1 w] st [of ?p2 w1] r1 r2
    by (auto simp: getConfigPathForNetworkName_def or_else_def conf_path_def Let_def split: option.splits)
qed

lemma parse_result:
  assumes "fs_ok files env" and "files w p = Some j"
  shows "\<exists>w'. files w' = files w \<and> parseBridgeConfig env p w = (bridge_of_config p j, w')"
  using fs_okD(4) [OF assms] by (auto simp: parseBridgeConfig_def and_then_def)

lemma bridge_of_config_total: "bridge_of_config p j \<noteq> Hang \<and> (\<forall>m. bridge_of_config p j \<noteq> Panic m)"
  by (auto simp: bridge_of_config_def split: json.splits option.splits)

definition has_bridge :: "'w net_env \<Rightarrow> (string \<Rightarrow> json option) \<Rightarrow> string \<Rightarrow> string \<Rightarrow> bool" where
  "has_bridge env f n name \<longleftrightarrow> (\<exists>p j nm bp. conf_path env f n = Some p \<and> f p = Some j \<and>
     bridge_of_config p j = Ok (nm, bp) \<and> map_of bp ''bridge'' = Some (JStr name))"

lemma getBridgeName_result:
  assumes fs: "fs_ok files env" and "has_bridge env (files w) (nc_Name net) name"
  shows "fst (getBridgeName env net w) = Ok name \<and> files (snd (getBridgeName env net w)) = files w"
  unfolding getBridgeName_def
proof (rule withDirLock_result [OF fs, where base = "files w" and R = "\<lambda>r f. r = Ok name \<and> f = files w"])
  fix w1
  assume w1: "files w1 = files w"
  obtain p j nm bp where p: "conf_path env (files w) (nc_Name net) = Some p" "files w p = Some j"
    "bridge_of_config p j = Ok (nm, bp)" "map_of bp ''bridge'' = Some (JStr name)"
    using assms(2) by (auto simp: has_bridge_def)
  obtain w2 where w2: "getConfigPathForNetworkName env (nc_Name net) w1 = (Ok p, w2)" "files w2 = files w"
    using config_path_result [OF fs, of w1 "nc_Name net"] w1 p(1) by auto
  obtain w3 where w3: "parseBridgeConfig env p w2 = (Ok (nm, bp), w3)" "files w3 = files w"
    using parse_result [OF fs, of w2 p j] w2(2) p(2,3) by auto
  let ?m = "and_then (getConfigPathForNetworkName env (nc_Name net))
        (\<lambda>configFilename. and_then (parseBridgeConfig env configFilename)
           (\<lambda>(_, bridgePlugin). case map_of bridgePlugin ''bridge'' of
                Some (JStr bridge) \<Rightarrow> ret bridge
              | _ \<Rightarrow> fail (ErrMsg (''bridge name in config file '' @ configFilename @ '' is not a string''))))"
  have "?m w1 = (Ok name, w3)" using w2(1) w3(1) p(4) by (simp add: and_then_def)
  with w3 show "fst (?m w1) \<noteq> Hang \<and> fst (?m w1) = Ok name \<and> files (snd (?m w1)) = files w" by simp
qed simp

text \<open>The body of \<open>setBridgeName\<close> under the lock.\<close>

definition set_body :: "'w net_env \<Rightarrow> net_config \<Rightarrow> string \<Rightarrow> ('w, unit) io" where
  "set_body env net name =
     and_then (getConfigPathForNetworkName env (nc_Name net))
       (\<lambda>configFilename. and_then (parseBridgeConfig env configFilename)
         (\<lambda>(netMap, bridgePlugin). and_then (lift_res (set_bridge_json name netMap bridgePlugin))
           (\<lambda>data. and_then (os_Stat env configFilename) (\<lambda>perm. write_json env configFilename data perm))))"

lemma set_body_result:
  assumes fs: "fs_ok files env"
  shows "case set_body env net name w of
       (Ok _, w') \<Rightarrow> has_bridge env (files w') (nc_Name net) name
     | (Err _, w') \<Rightarrow> files w' = files w
     | (Panic _, _) \<Rightarrow> False | (Hang, _) \<Rightarrow> False"
proof -
  let ?n = "nc_Name net"
  obtain w1 where w1: "files w1 = files w" "getConfigPathForNetworkName env ?n w =
    (case conf_path env (files w) ?n of
       Some p \<Rightarrow> Ok p | None \<Rightarrow> Err (ErrMsg (''network config file not found for network '' @ ?n)), w1)"
    using config_path_result [OF fs] by blast
  show ?thesis
  proof (cases "conf_path env (files w) ?n")
    case None
    with w1 show ?thesis by (simp add: set_body_def and_then_def)
  next
    case (Some p)
    then obtain j where j: "files w1 p = Some j" using conf_path_exists w1(1) by fastforce
    obtain w2 where w2: "files w2 = files w1" "parseBridgeConfig env p w1 = (bridge_of_config p j, w2)"
      using parse_result [OF fs j] by blast
    show ?thesis
    proof (cases "bridge_of_config p j")
      case (Ok x)
      obtain nm bp where x: "x = (nm, bp)" by fastforce
      obtain j' nm' bp' where j': "set_bridge_json name nm bp = Ok j'"
        "bridge_of_config p j' = Ok (nm', bp')" "map_of bp' ''bridge'' = Some (JStr name)"
        using set_bridge_config [of p j nm bp] Ok x by blast
      obtain m w3 where w3: "os_Stat env p w2 = (Ok m, w3)" "files w3 = files w2"
        using fs_okD(2) [OF fs, of w2 p j] w2(1) j by auto
      obtain w4 where w4: "write_json env p j' m w3 = (Ok (), w4)" "files w4 = (files w3)(p \<mapsto> j')"
        using fs_okD(5) [OF fs] by blast
      have "has_bridge env (files w4) ?n name"
        using conf_path_write [OF Some, of j'] j'(2,3) w1(1) w2(1) w3(2) w4(2)
        by (auto simp: has_bridge_def)
      with Some w1(2) w2(2) Ok x j'(1) w3(1) w4(1) show ?thesis
        by (simp add: set_body_def and_then_def)
    next
      case (Err e)
      with Some w1 w2 show ?thesis by (simp add: set_body_def and_then_def)
    qed (use bridge_of_config_total in auto)
  qed
qed

lemma setBridgeName_body:
  "setBridgeName env net name = withDirLock env (getDirForNetworkName env [])
     (and_then (getNetworkByBridgeName env name)
        (\<lambda>bridgeNet. case bridgeNet of
             Some n \<Rightarrow> fail (ErrMsg (''bridge name '' @ name @ '' already in use by network '' @ nc_Name n))
           | None \<Rightarrow> set_body env net name))"
  unfolding setBridgeName_def set_body_def ..

text \<open>The outcome of \<open>setBridgeName\<close>: on success the configuration carries the name, on an
  error no file has changed.\<close>

definition set_outcome :: "'w net_env \<Rightarrow> net_config \<Rightarrow> string \<Rightarrow> (string \<Rightarrow> json option) \<Rightarrow>
    unit res \<Rightarrow> (string \<Rightarrow> json option) \<Rightarrow> bool" where
  "set_outcome env net name before r after =
     (case r of Ok _ \<Rightarrow> has_bridge env after (nc_Name net) name | Err _ \<Rightarrow> after = before
      | Panic _ \<Rightarrow> False | Hang \<Rightarrow> False)"

lemma setBridgeName_outcome:
  assumes fs: "fs_ok files env" and ns: "\<And>w. fst (NetworkList env w) = Ok ns"
  shows "set_outcome env net name (files w) (fst (setBridgeName env net name w)) (files (snd (setBridgeName env net name w))) \<and>
    (fst (setBridgeName env net name w) = Ok () \<longrightarrow> scan_networks name ns [] = None)"
  unfolding setBridgeName_body
proof (rule withDirLock_result [OF fs, where base = "files w" and
      R = "\<lambda>r f. set_outcome env net name (files w) r f \<and> (r = Ok () \<longrightarrow> scan_networks name ns [] = None)"])
  fix w1
  assume w1: "files w1 = files w"
  obtain w2 where w2: "NetworkList env w1 = (Ok ns, w2)" "files w2 = files w"
    using ns [of w1] fs_okD(6) [OF fs, of w1] w1 by (cases "NetworkList env w1") auto
  then have net: "getNetworkByBridgeName env name w1 = (Ok (scan_networks name ns []), w2)"
    by (simp add: getNetworkByBridgeName_def FilterNetworks_def and_then_def)
  let ?m = "and_then (getNetworkByBridgeName env name) (\<lambda>bridgeNet. case bridgeNet of
             Some n \<Rightarrow> fail (ErrMsg (''bridge name '' @ name @ '' already in use by network '' @ nc_Name n))
           | None \<Rightarrow> set_body env net name)"
  show "fst (?m w1) \<noteq> Hang \<and> set_outcome env net name (files w) (fst (?m w1)) (files (snd (?m w1))) \<and>
      (fst (?m w1) = Ok () \<longrightarrow> scan_networks name ns [] = None)"
    using set_body_result [OF fs, of net name w2] net w2(2)
    by (auto simp: and_then_def set_outcome_def split: option.splits prod.splits res.splits)
qed simp


text \<open>A concrete environment: the world is the files, nothing is locked by anyone else.\<close>

definition file_env :: "(string \<Rightarrow> json option) net_env" where
  "file_env = \<lparr>NetworkList = ret [], nc_CreateNetwork = (\<lambda>_. ret None), nc_RemoveNetwork = (\<lambda>_. ret ()),
     UsedNetworks = ret [], NetconfPath = ''/etc/cni'', Namespace = ''finch'', DefaultNetworkName = ''bridge'',
     NewWithProtocol = (\<lambda>_. fail (ErrMsg ''no iptables'')), range_protos = (\<lambda>ps. ps),
     open_dir = (\<lambda>_. ret ()), unix_Flock = (\<lambda>_ _. ret ()),
     os_Stat = (\<lambda>p w. (if w p = None then Err (ErrExt [XNotExist] ''no such file'') else Ok 420, w)),
     read_json = (\<lambda>p w. (case w p of None \<Rightarrow> Err (ErrExt [XNotExist] ''no such file'') | Some j \<Rightarrow> Ok j, w)),
     write_json = (\<lambda>p j m w. (Ok (), w(p \<mapsto> j)))\<rparr>"

lemma file_env_ok: "fs_ok (\<lambda>w. w) file_env"
  by (auto simp: fs_ok_def file_env_def split: option.splits)

definition net_web :: net_config where
  "net_web = \<lparr>nc_Name = ''web'', NerdctlID = Some ''abc'', NerdctlLabels = None,
     nc_File = ''/etc/cni/finch/nerdctl-web.conflist'', nc_Plugins = []\<rparr>"

definition conf_web :: "string \<Rightarrow> json option" where
  "conf_web = [path_Join [getDirForNetworkName file_env ''web'', conflist ''web''] \<mapsto>
     JObj [(''plugins'', JArr [JObj [(''type'', JStr ''bridge''), (''bridge'', JStr ''br0'')]])]]"

lemma file_env_simps [simp]:
  "NetworkList file_env w = (Ok [], w)" "open_dir file_env d w = (Ok (), w)"
  "os_Stat file_env p w = (if w p = None then Err (ErrExt [XNotExist] ''no such file'') else Ok 420, w)"
  "read_json file_env p w = (case w p of None \<Rightarrow> Err (ErrExt [XNotExist] ''no such file'') | Some j \<Rightarrow> Ok j, w)"
  "write_json file_env p j m w = (Ok (), w(p \<mapsto> j))" "flock file_env d b w = (Ok (), w)"
  using flock_loop_stop [of "unix_Flock file_env d b" w]
  by (simp_all add: file_env_def flock_def interrupted_def)


theorem flock_returns_witness: "flock file_env ''/etc/cni'' True conf_web = (Ok (), conf_web)"
  using flock_returns [of 0 file_env "''/etc/cni''" True conf_web]
  by (simp add: file_env_def interrupted_def)

end
