(* ===== verification/Net_Locks.thy ===== *)
theory Net_Locks
  imports Go_Prelude
begin

text \<open>
  The per-network mutexes of the network service
  (\<open>src/internal/service/network/network.go\<close>: \<open>mutexCounter\<close>, \<open>ensureLock\<close>,
  \<open>releaseLock\<close>) and their use by \<open>Create\<close> and \<open>Remove\<close>.

  A mutex is the number of its allocation; \<open>held\<close> is the set of the locked ones. The two
  functions run under the service's own mutex, so each is one atomic step. The step
  relation interleaves any number of requests, each of which runs
  \<open>ensureLock\<close>, \<open>Lock\<close>, its body, and then its deferred calls in the order Go runs them:
  first \<open>releaseLock\<close>, then \<open>Unlock\<close>.
\<close>

section \<open>The lock table\<close>

record mutexCounter =
  mc_mutex :: nat
  activeReqs :: int

record lock_table =
  networkMutexes :: "mutexCounter gomap"
  held :: "nat set"
  next_mutex :: nat

definition new_lock_table :: lock_table where
  "new_lock_table = \<lparr>networkMutexes = [], held = {}, next_mutex = 0\<rparr>"

definition ensureLock :: "string \<Rightarrow> lock_table \<Rightarrow> nat \<times> lock_table" where
  "ensureLock networkName s =
     (case map_of (networkMutexes s) networkName of
        Some mwc \<Rightarrow>
          (mc_mutex mwc, s\<lparr>networkMutexes :=
             map_put networkName (mwc\<lparr>activeReqs := activeReqs mwc + 1\<rparr>) (networkMutexes s)\<rparr>)
      | None \<Rightarrow>
          (next_mutex s, s\<lparr>networkMutexes :=
             map_put networkName \<lparr>mc_mutex = next_mutex s, activeReqs = 1\<rparr> (networkMutexes s),
             next_mutex := Suc (next_mutex s)\<rparr>))"

definition releaseLock :: "string \<Rightarrow> lock_table \<Rightarrow> lock_table" where
  "releaseLock networkName s =
     (case map_of (networkMutexes s) networkName of
        Some mwc \<Rightarrow>
          (let n = activeReqs mwc - 1
           in if n < 1 then s\<lparr>networkMutexes := map_del networkName (networkMutexes s)\<rparr>
              else s\<lparr>networkMutexes :=
                     map_put networkName (mwc\<lparr>activeReqs := n\<rparr>) (networkMutexes s)\<rparr>)
      | None \<Rightarrow> s)"

text \<open>\<open>sync.Mutex\<close>: \<open>Lock\<close> on a locked mutex blocks (\<open>None\<close>).\<close>

definition mutex_Lock :: "nat \<Rightarrow> lock_table \<Rightarrow> lock_table option" where
  "mutex_Lock m s = (if m \<in> held s then None else Some (s\<lparr>held := insert m (held s)\<rparr>))"

definition mutex_Unlock :: "nat \<Rightarrow> lock_table \<Rightarrow> lock_table" where
  "mutex_Unlock m s = s\<lparr>held := held s - {m}\<rparr>"

lemma ensureLock_held [simp]: "held (snd (ensureLock n s)) = held s"
  by (auto simp: ensureLock_def split: option.splits)

lemma releaseLock_held [simp]: "held (releaseLock n s) = held s"
  by (auto simp: releaseLock_def Let_def split: option.splits)

lemma releaseLock_next [simp]: "next_mutex (releaseLock n s) = next_mutex s"
  by (auto simp: releaseLock_def Let_def split: option.splits)

lemma map_put_put [simp]: "map_put k v (map_put k v' m) = map_put k v m"
  unfolding map_put_def by (induction m) auto

lemma map_del_put_new [simp]: "map_of m k = None \<Longrightarrow> map_del k (map_put k v m) = m"
  unfolding map_put_def map_del_def by (induction m) (auto split: if_splits)

lemma map_put_same [simp]: "map_of m k = Some v \<Longrightarrow> map_put k v m = m"
  unfolding map_put_def by (induction m) (auto split: if_splits)

text \<open>A request alone leaves the table as it was: the counter goes back, and an entry made
  for it goes away.\<close>

lemma release_ensure:
  assumes "\<And>mwc. map_of (networkMutexes s) n = Some mwc \<Longrightarrow> 1 \<le> activeReqs mwc"
  shows "networkMutexes (releaseLock n (snd (ensureLock n s))) = networkMutexes s"
  using assms by (auto simp: ensureLock_def releaseLock_def Let_def split: option.splits)

section \<open>Interleaved requests\<close>

datatype pc = Idle | Waiting string nat | Critical string nat | Leaving string nat

type_synonym lock_sys = "lock_table \<times> (nat \<Rightarrow> pc)"

inductive lock_step :: "lock_sys \<Rightarrow> lock_sys \<Rightarrow> bool" where
  enter: "ts t = Idle \<Longrightarrow> ensureLock n s = (m, s') \<Longrightarrow>
            lock_step (s, ts) (s', ts(t := Waiting n m))"
| acquire: "ts t = Waiting n m \<Longrightarrow> mutex_Lock m s = Some s' \<Longrightarrow>
            lock_step (s, ts) (s', ts(t := Critical n m))"
| release: "ts t = Critical n m \<Longrightarrow>
            lock_step (s, ts) (releaseLock n s, ts(t := Leaving n m))"
| unlock: "ts t = Leaving n m \<Longrightarrow>
            lock_step (s, ts) (mutex_Unlock m s, ts(t := Idle))"

inductive lock_reach :: "lock_sys \<Rightarrow> bool" where
  init: "lock_reach (new_lock_table, \<lambda>_. Idle)"
| step: "lock_reach c \<Longrightarrow> lock_step c c' \<Longrightarrow> lock_reach c'"

text \<open>The network a request is counted for, and the mutex it holds.\<close>

fun active :: "pc \<Rightarrow> (string \<times> nat) option" where
  "active (Waiting n m) = Some (n, m)"
| "active (Critical n m) = Some (n, m)"
| "active Idle = None"
| "active (Leaving n m) = None"

fun owns :: "pc \<Rightarrow> nat option" where
  "owns (Critical n m) = Some m"
| "owns (Leaving n m) = Some m"
| "owns Idle = None"
| "owns (Waiting n m) = None"

definition users :: "(nat \<Rightarrow> pc) \<Rightarrow> string \<Rightarrow> nat set" where
  "users ts n = {t. \<exists>m. active (ts t) = Some (n, m)}"

text \<open>The table has an entry for a network exactly while requests are counted for it; the
  counter is their number and they all use the entry's mutex.\<close>

definition entry_ok :: "lock_table \<Rightarrow> (nat \<Rightarrow> pc) \<Rightarrow> string \<Rightarrow> bool" where
  "entry_ok s ts n \<longleftrightarrow> finite (users ts n) \<and>
     (case map_of (networkMutexes s) n of
        None \<Rightarrow> users ts n = {}
      | Some mc \<Rightarrow> users ts n \<noteq> {} \<and> activeReqs mc = int (card (users ts n)) \<and>
          mc_mutex mc < next_mutex s \<and>
          (\<forall>t m. active (ts t) = Some (n, m) \<longrightarrow> m = mc_mutex mc))"

definition owners_ok :: "lock_table \<Rightarrow> (nat \<Rightarrow> pc) \<Rightarrow> bool" where
  "owners_ok s ts \<longleftrightarrow>
     (\<forall>m. m \<in> held s \<longleftrightarrow> (\<exists>t. owns (ts t) = Some m)) \<and>
     (\<forall>t t' m. owns (ts t) = Some m \<longrightarrow> owns (ts t') = Some m \<longrightarrow> t = t') \<and>
     (\<forall>m\<in>held s. m < next_mutex s)"

text \<open>Different networks never share a mutex.\<close>

definition apart :: "lock_table \<Rightarrow> bool" where
  "apart s \<longleftrightarrow> (\<forall>n n' mc mc'. map_of (networkMutexes s) n = Some mc \<longrightarrow>
     map_of (networkMutexes s) n' = Some mc' \<longrightarrow> mc_mutex mc = mc_mutex mc' \<longrightarrow> n = n')"

definition lock_inv :: "lock_sys \<Rightarrow> bool" where
  "lock_inv c \<longleftrightarrow> (\<forall>n. entry_ok (fst c) (snd c) n) \<and> owners_ok (fst c) (snd c) \<and> apart (fst c)"

text \<open>A mutex that a leaving request still holds is at most the mutex of its own network.\<close>

definition leaving_ok :: "lock_sys \<Rightarrow> bool" where
  "leaving_ok c \<longleftrightarrow> (\<forall>t n m k mc. snd c t = Leaving n m \<longrightarrow>
     map_of (networkMutexes (fst c)) k = Some mc \<longrightarrow> mc_mutex mc = m \<longrightarrow> k = n)"

lemma users_upd:
  "users (ts(t := p)) n =
     (case active p of
        Some (n', m) \<Rightarrow> if n' = n then insert t (users ts n) else users ts n - {t}
      | None \<Rightarrow> users ts n - {t})"
  by (auto simp: users_def split: option.splits)

lemma users_iff: "t \<in> users ts n \<longleftrightarrow> (\<exists>m. active (ts t) = Some (n, m))"
  by (simp add: users_def)

lemma entry_ok_Some:
  "map_of (networkMutexes s) n = Some mc \<Longrightarrow> entry_ok s ts n \<longleftrightarrow>
     finite (users ts n) \<and> users ts n \<noteq> {} \<and> activeReqs mc = int (card (users ts n)) \<and>
     mc_mutex mc < next_mutex s \<and> (\<forall>t m. active (ts t) = Some (n, m) \<longrightarrow> m = mc_mutex mc)"
  by (simp add: entry_ok_def)

lemma entry_ok_None:
  "map_of (networkMutexes s) n = None \<Longrightarrow> entry_ok s ts n \<longleftrightarrow> users ts n = {}"
  by (auto simp: entry_ok_def)

text \<open>A step for one network does not disturb the entry of another.\<close>

lemma entry_ok_frame:
  assumes "entry_ok s ts n" and "users ts' n = users ts n"
    and "map_of (networkMutexes s') n = map_of (networkMutexes s) n" and "next_mutex s \<le> next_mutex s'"
    and "\<And>t m. active (ts' t) = Some (n, m) \<Longrightarrow> active (ts t) = Some (n, m)"
  shows "entry_ok s' ts' n"
  using assms(1-4) assms(5) unfolding entry_ok_def by (auto split: option.splits) blast

lemma ensureLock_table:
  assumes "ensureLock n s = (m, s')"
  shows "held s' = held s" and "next_mutex s \<le> next_mutex s'"
    and "n' \<noteq> n \<Longrightarrow> map_of (networkMutexes s') n' = map_of (networkMutexes s) n'"
    and "\<exists>mc. map_of (networkMutexes s') n = Some mc \<and> mc_mutex mc = m \<and>
           (case map_of (networkMutexes s) n of
              None \<Rightarrow> activeReqs mc = 1 \<and> m = next_mutex s \<and> next_mutex s' = Suc m
            | Some mc0 \<Rightarrow> mc = mc0\<lparr>activeReqs := activeReqs mc0 + 1\<rparr> \<and> next_mutex s' = next_mutex s)"
  using assms by (auto simp: ensureLock_def split: option.splits)

lemma releaseLock_table:
  "map_of (networkMutexes (releaseLock n s)) n' =
     (if n' \<noteq> n then map_of (networkMutexes s) n'
      else case map_of (networkMutexes s) n of
             None \<Rightarrow> None
           | Some mc \<Rightarrow> if activeReqs mc \<le> 1 then None
                        else Some (mc\<lparr>activeReqs := activeReqs mc - 1\<rparr>))"
  by (auto simp: releaseLock_def Let_def split: option.splits)

lemma enter_entry:
  assumes inv: "entry_ok s ts n'" and idle: "ts t = Idle" and e: "ensureLock n s = (m, s')"
  shows "entry_ok s' (ts(t := Waiting n m)) n'"
proof (cases "n' = n")
  case False
  have "t \<notin> users ts n'" using idle by (simp add: users_iff)
  with False show ?thesis
    by (intro entry_ok_frame [OF inv]) (auto simp: users_upd ensureLock_table [OF e] split: if_splits)
next
  case True
  have t: "t \<notin> users ts n" using idle by (simp add: users_iff)
  obtain mc where mc: "map_of (networkMutexes s') n = Some mc" "mc_mutex mc = m"
    and old: "case map_of (networkMutexes s) n of
              None \<Rightarrow> activeReqs mc = 1 \<and> m = next_mutex s \<and> next_mutex s' = Suc m
            | Some mc0 \<Rightarrow> mc = mc0\<lparr>activeReqs := activeReqs mc0 + 1\<rparr> \<and> next_mutex s' = next_mutex s"
    using ensureLock_table(4) [OF e] by auto
  show ?thesis
  proof (cases "map_of (networkMutexes s) n")
    case None
    with inv True have "users ts n = {}" by (simp add: entry_ok_None)
    with None old mc True show ?thesis
      by (auto simp: entry_ok_Some users_upd users_iff [symmetric])
         (metis empty_iff users_iff)
  next
    case (Some mc0)
    with inv True have "entry_ok s ts n" by simp
    with Some old mc True t show ?thesis
      by (auto simp: entry_ok_Some users_upd)
  qed
qed

lemma release_entry:
  assumes inv: "entry_ok s ts n'" and crit: "ts t = Critical n m"
  shows "entry_ok (releaseLock n s) (ts(t := Leaving n m)) n'"
proof (cases "n' = n")
  case False
  have "t \<notin> users ts n'" using crit False by (simp add: users_iff)
  with False show ?thesis
    by (intro entry_ok_frame [OF inv]) (auto simp: users_upd releaseLock_table split: if_splits)
next
  case True
  have t: "t \<in> users ts n" using crit by (simp add: users_iff)
  then obtain mc where mc: "map_of (networkMutexes s) n = Some mc"
    using inv True by (cases "map_of (networkMutexes s) n") (auto simp: entry_ok_None)
  from inv True mc have e: "finite (users ts n)" "activeReqs mc = int (card (users ts n))"
    "mc_mutex mc < next_mutex s" "\<forall>t m. active (ts t) = Some (n, m) \<longrightarrow> m = mc_mutex mc"
    by (simp_all add: entry_ok_Some)
  show ?thesis
  proof (cases "activeReqs mc \<le> 1")
    case last: True
    with e t have "users ts n = {t}"
      by (metis One_nat_def card_le_Suc0_iff_eq empty_iff insertI1 is_singletonI' is_singleton_the_elem
          of_nat_1 of_nat_le_iff singletonD)
    with last mc True show ?thesis
      by (subst entry_ok_None) (auto simp: releaseLock_table users_upd)
  next
    case False
    then have "users ts n - {t} \<noteq> {}" and "int (card (users ts n - {t})) = activeReqs mc - 1"
      using e t card_mono [of "{t}" "users ts n"] by (auto simp: card_Diff_singleton)
    with False mc True e show ?thesis
      by (auto simp: entry_ok_Some releaseLock_table users_upd split: if_splits)
  qed
qed

lemma acquire_entry:
  assumes "entry_ok s ts n'" and "ts t = Waiting n m" and "networkMutexes s' = networkMutexes s"
    and "next_mutex s' = next_mutex s"
  shows "entry_ok s' (ts(t := Critical n m)) n'"
proof -
  have "users (ts(t := Critical n m)) n' = users ts n'"
    using assms(2) by (auto simp: users_def)
  with assms show ?thesis
    by (intro entry_ok_frame [OF assms(1)]) (auto split: if_splits)
qed

lemma unlock_entry:
  assumes "entry_ok s ts n'" and "ts t = Leaving n m"
  shows "entry_ok (mutex_Unlock m s) (ts(t := Idle)) n'"
proof -
  have "users (ts(t := Idle)) n' = users ts n'"
    using assms(2) by (auto simp: users_def)
  with assms show ?thesis
    by (intro entry_ok_frame [OF assms(1)]) (auto simp: mutex_Unlock_def split: if_splits)
qed

lemma apart_ensureLock:
  assumes "apart s" and "\<And>n. entry_ok s ts n" and e: "ensureLock n s = (m, s')"
  shows "apart s'"
proof -
  have bound: "mc_mutex mc < next_mutex s" if "map_of (networkMutexes s) k = Some mc" for k mc
    using assms(2) [of k] that by (simp add: entry_ok_Some)
  then show ?thesis
    using assms(1) e unfolding apart_def ensureLock_def
    by (auto split: option.splits if_splits) (metis nat_neq_iff)+
qed

lemma apart_releaseLock: "apart s \<Longrightarrow> apart (releaseLock n s)"
  unfolding apart_def releaseLock_table by (auto split: if_splits option.splits)

lemma lock_inv_step:
  assumes "lock_inv c" and "lock_step c c'"
  shows "lock_inv c'"
  using assms(2,1)
proof (cases rule: lock_step.cases)
  case (enter ts t n s m s')
  with assms(1) have inv: "\<And>n. entry_ok s ts n" "owners_ok s ts" "apart s"
    by (auto simp: lock_inv_def)
  have "owners_ok s' (ts(t := Waiting n m))"
    using inv(2) enter(3) ensureLock_table(1,2) [OF enter(4)]
    unfolding owners_ok_def by (auto split: if_splits) (metis less_le_trans option.distinct(1) owns.simps(3))+
  then show ?thesis
    using enter inv enter_entry [OF inv(1) enter(3,4)] apart_ensureLock [OF inv(3,1) enter(4)]
    by (simp add: lock_inv_def)
next
  case (acquire ts t n m s s')
  with assms(1) have inv: "\<And>n. entry_ok s ts n" "owners_ok s ts" "apart s"
    by (auto simp: lock_inv_def)
  from acquire have s': "s' = s\<lparr>held := insert m (held s)\<rparr>" and free: "m \<notin> held s"
    by (auto simp: mutex_Lock_def split: if_splits)
  have t: "t \<in> users ts n" and own: "owns (ts t) = None" using acquire by (simp_all add: users_iff)
  then obtain mc where mc: "map_of (networkMutexes s) n = Some mc"
    using inv(1) [of n] by (cases "map_of (networkMutexes s) n") (auto simp: entry_ok_None)
  moreover have "active (ts t) = Some (n, m)" using acquire by simp
  ultimately have "m < next_mutex s"
    using inv(1) [of n] by (auto simp: entry_ok_Some)
  then have "owners_ok s' (ts(t := Critical n m))"
    using inv(2) free own s' unfolding owners_ok_def
    by (auto split: if_splits) (metis option.distinct(1))+
  moreover have "entry_ok s' (ts(t := Critical n m)) k" for k
    using inv(1) acquire(3) by (intro acquire_entry [where s = s]) (simp_all add: s')
  ultimately show ?thesis
    using acquire inv(3) by (simp add: lock_inv_def apart_def s')
next
  case (release ts t n m s)
  with assms(1) have inv: "\<And>n. entry_ok s ts n" "owners_ok s ts" "apart s"
    by (auto simp: lock_inv_def)
  have "owns (ts t) = Some m" using release by simp
  then have "owns ((ts(t := Leaving n m)) x) = owns (ts x)" for x by simp
  then have "owners_ok (releaseLock n s) (ts(t := Leaving n m))"
    using inv(2) unfolding owners_ok_def by simp
  then show ?thesis
    using release inv release_entry [OF inv(1) release(3)] apart_releaseLock [OF inv(3)]
    by (simp add: lock_inv_def)
next
  case (unlock ts t n m s)
  with assms(1) have inv: "\<And>n. entry_ok s ts n" "owners_ok s ts" "apart s"
    by (auto simp: lock_inv_def)
  have own: "owns (ts t) = Some m" using unlock by simp
  have "owners_ok (mutex_Unlock m s) (ts(t := Idle))"
    using inv(2) own unfolding owners_ok_def mutex_Unlock_def
    by (auto split: if_splits) (metis option.inject)+
  then show ?thesis
    using unlock inv unlock_entry [OF inv(1) unlock(3)]
    by (simp add: lock_inv_def apart_def mutex_Unlock_def)
qed

lemma critical_entry:
  assumes "lock_inv (s, ts)" and "active (ts t) = Some (n, m)"
  obtains mc where "map_of (networkMutexes s) n = Some mc" and "mc_mutex mc = m"
proof -
  have e: "entry_ok s ts n" and t: "t \<in> users ts n"
    using assms by (auto simp: lock_inv_def users_iff)
  then obtain mc where "map_of (networkMutexes s) n = Some mc"
    by (cases "map_of (networkMutexes s) n") (auto simp: entry_ok_None)
  with e assms(2) that show ?thesis by (auto simp: entry_ok_Some)
qed

lemma leaving_ok_step:
  assumes inv: "lock_inv c" and l: "leaving_ok c" and st: "lock_step c c'"
  shows "leaving_ok c'"
  using st
proof (cases rule: lock_step.cases)
  case (enter ts t n s m s')
  have "m' < next_mutex s" if "ts t' = Leaving n' m'" for t' n' m'
  proof -
    have "owns (ts t') = Some m'" using that by simp
    with inv enter(1) show ?thesis by (auto simp: lock_inv_def owners_ok_def)
  qed
  with l enter(1,2,4) show ?thesis
    unfolding leaving_ok_def ensureLock_def
    by (auto split: option.splits if_splits) (metis less_irrefl)
next
  case (acquire ts t n m s s')
  then show ?thesis
    using l unfolding leaving_ok_def mutex_Lock_def by (auto split: if_splits)
next
  case (release ts t n m s)
  then have act: "active (ts t) = Some (n, m)" by simp
  with inv release(1) obtain mc where "map_of (networkMutexes s) n = Some mc" "mc_mutex mc = m"
    by (metis critical_entry)
  with inv l release show ?thesis
    unfolding leaving_ok_def lock_inv_def apart_def
    by (auto simp: releaseLock_table split: if_splits option.splits)
next
  case (unlock ts t n m s)
  then show ?thesis
    using l unfolding leaving_ok_def mutex_Unlock_def by (auto split: if_splits)
qed

lemma lock_inv_init: "lock_inv (new_lock_table, \<lambda>_. Idle)"
  by (simp add: lock_inv_def entry_ok_def owners_ok_def apart_def users_def new_lock_table_def)

lemma lock_reach_inv: "lock_reach c \<Longrightarrow> lock_inv c \<and> leaving_ok c"
proof (induction rule: lock_reach.induct)
  case init
  show ?case using lock_inv_init by (simp add: leaving_ok_def)
next
  case (step c c')
  then show ?case using lock_inv_step leaving_ok_step by blast
qed

section \<open>Mutual exclusion, no leaks, progress\<close>

lemma reach_active_same:
  assumes "lock_reach (s, ts)" and "active (ts t) = Some (n, m)" and "active (ts t') = Some (n, m')"
  shows "m = m'"
  using assms lock_reach_inv critical_entry by (metis option.inject)

lemma all_None_empty:
  assumes "\<And>k. map_of xs k = None"
  shows "xs = []"
  using assms [of "fst (hd xs)"] by (cases xs) auto

lemma reach_entry:
  assumes "lock_reach (s, ts)"
  shows "map_of (networkMutexes s) n = Some mc \<Longrightarrow>
           activeReqs mc = int (card (users ts n)) \<and> users ts n \<noteq> {}"
proof -
  assume "map_of (networkMutexes s) n = Some mc"
  moreover have "entry_ok s ts n"
    using lock_reach_inv [OF assms] by (simp add: lock_inv_def)
  ultimately show ?thesis by (simp add: entry_ok_Some)
qed

lemma reach_idle_empty:
  assumes "lock_reach (s, ts)" and "\<And>t. ts t = Idle"
  shows "networkMutexes s = [] \<and> held s = {}"
proof
  have inv: "lock_inv (s, ts)" using assms(1) lock_reach_inv by blast
  have "users ts n = {}" for n using assms(2) by (simp add: users_def)
  with reach_entry [OF assms(1)] have "map_of (networkMutexes s) n = None" for n
    by (metis not_None_eq)
  then show "networkMutexes s = []" by (rule all_None_empty)
  show "held s = {}"
    using inv assms(2) by (auto simp: lock_inv_def owners_ok_def)
qed

text \<open>
  C1: In every interleaving of requests, at most one request at a time is inside the
  locked body for a given network name; the table's counters equal the number of
  requests counted for each network, and once every request has finished the table is
  empty and no mutex is locked.
\<close>

theorem locks_exclusive:
  assumes "lock_reach (s, ts)"
  shows "(\<forall>n t t' m m'. ts t = Critical n m \<and> ts t' = Critical n m' \<longrightarrow> t = t') \<and>
    (\<forall>n mc. map_of (networkMutexes s) n = Some mc \<longrightarrow>
       activeReqs mc = int (card (users ts n)) \<and> users ts n \<noteq> {}) \<and>
    ((\<forall>t. ts t = Idle) \<longrightarrow> networkMutexes s = [] \<and> held s = {})"
proof (intro conjI allI impI; (elim conjE)?)
  have inv: "lock_inv (s, ts)" using assms lock_reach_inv by blast
  fix n t t' m m'
  assume "ts t = Critical n m" "ts t' = Critical n m'"
  then have "owns (ts t) = Some m" "owns (ts t') = Some m"
    using reach_active_same [OF assms, of t n m t' m'] by auto
  with inv show "t = t'" by (auto simp: lock_inv_def owners_ok_def)
next
  fix n mc
  assume "map_of (networkMutexes s) n = Some mc"
  then show "activeReqs mc = int (card (users ts n))" "users ts n \<noteq> {}"
    using reach_entry [OF assms] by blast+
next
  assume "\<forall>t. ts t = Idle"
  then show "networkMutexes s = []" "held s = {}"
    using reach_idle_empty [OF assms] by simp_all
qed

lemma two_requests_reach:
  "lock_reach (snd (ensureLock ''web'' (snd (ensureLock ''web'' new_lock_table))),
     (\<lambda>_. Idle)(0 := Waiting ''web'' 0, 1 := Waiting ''web'' 0))"
proof -
  let ?s1 = "snd (ensureLock ''web'' new_lock_table)"
  have "lock_step (new_lock_table, \<lambda>_. Idle) (?s1, (\<lambda>_. Idle)(0 := Waiting ''web'' 0))"
    by (rule lock_step.enter) (simp_all add: ensureLock_def new_lock_table_def)
  then have r: "lock_reach (?s1, (\<lambda>_. Idle)(0 := Waiting ''web'' 0))"
    using lock_reach.init lock_reach.step by blast
  have "lock_step (?s1, (\<lambda>_. Idle)(0 := Waiting ''web'' 0))
     (snd (ensureLock ''web'' ?s1), ((\<lambda>_. Idle)(0 := Waiting ''web'' 0))(1 := Waiting ''web'' 0))"
    by (rule lock_step.enter) (simp_all add: ensureLock_def new_lock_table_def map_put_def)
  with r show ?thesis using lock_reach.step by blast
qed

theorem locks_exclusive_witness:
  "int (card (users ((\<lambda>_. Idle)(0 := Waiting ''web'' 0, 1 := Waiting ''web'' 0)) ''web'')) = 2"
  using locks_exclusive [OF two_requests_reach, THEN conjunct2, THEN conjunct1,
      rule_format, of "''web''" "\<lparr>mc_mutex = 0, activeReqs = 2\<rparr>"]
  by (simp add: ensureLock_def new_lock_table_def map_put_def)

fun net_of :: "pc \<Rightarrow> string option" where
  "net_of Idle = None"
| "net_of (Waiting n m) = Some n"
| "net_of (Critical n m) = Some n"
| "net_of (Leaving n m) = Some n"

text \<open>The number of steps a request still has to make.\<close>

fun steps_left :: "pc \<Rightarrow> nat" where
  "steps_left Idle = 0"
| "steps_left (Leaving n m) = 1"
| "steps_left (Critical n m) = 2"
| "steps_left (Waiting n m) = 3"

lemma runnable:
  assumes "ts t = Critical n m \<or> ts t = Leaving n m \<or> (ts t = Waiting n m \<and> m \<notin> held s)"
  shows "\<exists>s' p. lock_step (s, ts) (s', ts(t := p)) \<and> steps_left p < steps_left (ts t)"
proof -
  consider "ts t = Critical n m" | "ts t = Leaving n m" | "ts t = Waiting n m" "m \<notin> held s"
    using assms by blast
  then show ?thesis
  proof cases
    case 1
    then show ?thesis using lock_step.release [of ts t n m s] by fastforce
  next
    case 2
    then show ?thesis using lock_step.unlock [of ts t n m s] by fastforce
  next
    case 3
    then have "mutex_Lock m s = Some (s\<lparr>held := insert m (held s)\<rparr>)" by (simp add: mutex_Lock_def)
    with 3 show ?thesis using lock_step.acquire [of ts t n m s] by fastforce
  qed
qed

lemma blocker_same_network:
  assumes "lock_reach (s, ts)" and w: "ts t = Waiting n m" and "m \<in> held s"
  shows "\<exists>t'. ts t' = Critical n m \<or> ts t' = Leaving n m"
proof -
  have inv: "lock_inv (s, ts)" and l: "leaving_ok (s, ts)"
    using assms(1) lock_reach_inv by blast+
  obtain mc where mc: "map_of (networkMutexes s) n = Some mc" "mc_mutex mc = m"
    using critical_entry [OF inv, of t n m] w by auto
  obtain t' where "owns (ts t') = Some m"
    using inv assms(3) by (auto simp: lock_inv_def owners_ok_def)
  then obtain n' where n': "ts t' = Critical n' m \<or> ts t' = Leaving n' m"
    by (cases "ts t'") auto
  have "n' = n"
  proof (cases "ts t' = Leaving n' m")
    case True
    with l have "k = n'" if "map_of (networkMutexes s) k = Some mc'" "mc_mutex mc' = m" for k mc'
      using that by (simp add: leaving_ok_def)
    with mc show ?thesis by blast
  next
    case False
    with n' have "active (ts t') = Some (n', m)" by auto
    then obtain mc' where "map_of (networkMutexes s) n' = Some mc'" "mc_mutex mc' = m"
      using critical_entry [OF inv] by blast
    with inv mc show ?thesis
      unfolding lock_inv_def apart_def fst_conv by metis
  qed
  with n' show ?thesis by blast
qed



end
