(* ===== verification/Containerd.thy ===== *)
theory Containerd
  imports Errdefs
begin

text \<open>
  The containerd client as the services use it, and the lookups of a container by its name or
  by a prefix of its id (\<open>src/internal/backend/containerd.go\<close> and the three \<open>getContainer\<close>
  methods of the container, network and exec services).

  containerd is outside the repository: \<open>containerd_client\<close> is the record of the calls the
  code makes of it, over a world \<open>'w\<close> and container handles \<open>'c\<close>. The names of nerdctl's labels
  are fields too.
\<close>

datatype ProcessStatus = Running | Created | Stopped | Paused | Pausing | UnknownStatus

record ('w, 'c) containerd_client =
  L_Name :: string
  L_Networks :: string
  L_MACAddress :: string
  L_IPAddress :: string
  L_Ports :: string
  c_ID :: "'c \<Rightarrow> string"
  Containers :: "string list \<Rightarrow> ('w, 'c list) io"
  c_Task :: "'c \<Rightarrow> ('w, nat) io"
  t_Status :: "'c \<Rightarrow> ('w, ProcessStatus) io"
  c_Labels :: "'c \<Rightarrow> ('w, string gomap) io"
  c_SetLabels :: "'c \<Rightarrow> string gomap \<Rightarrow> ('w, unit) io"
  c_Annotations :: "'c \<Rightarrow> ('w, string gomap option) io"
  c_Update :: "'c \<Rightarrow> string gomap \<Rightarrow> string gomap \<Rightarrow> ('w, unit) io"
  c_ImageName :: "'c \<Rightarrow> ('w, string) io"
  cu_ContainerStatus :: "'c \<Rightarrow> ('w, ProcessStatus) io"

text \<open>\<open>regexp.QuoteMeta\<close>.\<close>

definition QuoteMeta :: "string \<Rightarrow> string" where
  "QuoteMeta s = concat (map (\<lambda>c. if c \<in> set ''.+*?()|[]{}^$'' \<or> c = CHR 0x5C then [CHR 0x5C, c] else [c]) s)"

definition SearchContainer :: "('w, 'c) containerd_client \<Rightarrow> string \<Rightarrow> ('w, 'c list) io" where
  "SearchContainer cl searchText =
     Containers cl [''labels.'' @ Quote (L_Name cl) @ ''=='' @ searchText,
                    ''id~=^'' @ QuoteMeta searchText @ ''.*$'']"

definition GetContainers :: "('w, 'c) containerd_client \<Rightarrow> string list \<Rightarrow> ('w, 'c list) io" where
  "GetContainers cl filters = Containers cl filters"

definition GetContainerStatus :: "('w, 'c) containerd_client \<Rightarrow> 'c \<Rightarrow> ('w, ProcessStatus) io" where
  "GetContainerStatus cl c =
     or_else (c_Task cl c)
       (\<lambda>err. if cerr_IsNotFound err then ret Created else ret UnknownStatus)
       (\<lambda>_. or_else (t_Status cl c) (\<lambda>_. ret UnknownStatus) ret)"

text \<open>\<open>GetUsedImages\<close>: the loop over all containers; \<open>ContainerStatus\<close> gives the zero status
  (the empty string, none of the cases) with an error.\<close>

fun used_images :: "('w, 'c) containerd_client \<Rightarrow> 'c list \<Rightarrow> string gomap \<Rightarrow> string gomap \<Rightarrow>
    ('w, string gomap \<times> string gomap) io" where
  "used_images cl [] stopped running = ret (stopped, running)"
| "used_images cl (c # cs) stopped running =
     or_else (c_ImageName cl c)
       (\<lambda>_. used_images cl cs stopped running)
       (\<lambda>name. or_else (cu_ContainerStatus cl c)
          (\<lambda>_. used_images cl cs (map_put name (c_ID cl c) stopped) running)
          (\<lambda>st. if st \<in> {Running, Pausing, Paused}
                then used_images cl cs stopped (map_put name (c_ID cl c) running)
                else used_images cl cs (map_put name (c_ID cl c) stopped) running))"

definition GetUsedImages :: "('w, 'c) containerd_client \<Rightarrow> ('w, string gomap \<times> string gomap) io" where
  "GetUsedImages cl = and_then (Containers cl []) (\<lambda>cs. used_images cl cs [] [])"

section \<open>Lookups that must be unique\<close>

text \<open>What the services promise of a lookup: the match when there is exactly one, a
  not-found error when there is none, another error when the text is ambiguous.\<close>

locale unique_lookup =
  fixes pick :: "string \<Rightarrow> 'a list \<Rightarrow> 'a res"
  assumes none: "\<exists>e. pick k [] = Err e \<and> IsNotFound e"
    and one: "pick k [x] = Ok x"
    and many: "\<exists>e. pick k (x # y # zs) = Err e \<and> as_errWithType e = None"
begin

lemma Ok_iff: "pick k xs = Ok x \<longleftrightarrow> xs = [x]"
proof (cases xs)
  case Nil
  then show ?thesis using none [of k] by auto
next
  case (Cons y ys)
  then show ?thesis using one [of k y] many [of k y] by (cases ys) (auto, metis res.distinct(1))
qed

lemma NotFound_iff: "(\<exists>e. pick k xs = Err e \<and> IsNotFound e) \<longleftrightarrow> xs = []"
proof (cases xs)
  case Nil
  then show ?thesis using none [of k] by simp
next
  case (Cons y ys)
  show ?thesis
  proof (cases ys)
    case Nil
    with Cons one [of k y] show ?thesis by simp
  next
    case (Cons z zs)
    with \<open>xs = y # ys\<close> many [of k y z zs] show ?thesis by (auto simp: errdefs_defs)
  qed
qed

lemma returns: "pick k xs \<noteq> Hang \<and> (\<forall>p. pick k xs \<noteq> Panic p)"
proof (cases xs)
  case Nil
  then show ?thesis using none [of k] by auto
next
  case (Cons y ys)
  show ?thesis
  proof (cases ys)
    case Nil
    with Cons one [of k y] show ?thesis by simp
  next
    case (Cons z zs)
    with \<open>xs = y # ys\<close> many [of k y z zs] show ?thesis by auto
  qed
qed

lemma ambiguous: "length xs > 1 \<Longrightarrow> \<exists>e. pick k xs = Err e \<and> as_errWithType e = None"
  by (cases xs; cases "tl xs") (auto simp: many)

lemma search_Ok:
  "and_then search (\<lambda>xs. lift_res (pick k xs)) w = (Ok x, w') \<longleftrightarrow> search w = (Ok [x], w')"
  by (auto simp: and_then_def Ok_iff split: prod.splits res.splits)

end

definition pick_container :: "string \<Rightarrow> string \<Rightarrow> 'c list \<Rightarrow> 'c res" where
  "pick_container msg cid searchResult =
     (let matchCount = length searchResult
      in if matchCount = 0 then Err (NewNotFound (ErrMsg (msg @ cid)))
         else if matchCount > 1 then Err (ErrMsg (''multiple IDs found with provided prefix: '' @ cid))
         else Ok (searchResult ! 0))"

interpretation pick_container: unique_lookup "pick_container msg"
  by unfold_locales (auto simp: pick_container_def errdefs_defs)

text \<open>The three \<open>getContainer\<close> methods.\<close>

definition net_getContainer :: "('w, 'c) containerd_client \<Rightarrow> string \<Rightarrow> ('w, 'c) io" where
  "net_getContainer cl containerId =
     and_then (SearchContainer cl containerId)
       (\<lambda>searchResult. lift_res (pick_container ''no such container '' containerId searchResult))"

definition getContainer :: "('w, 'c) containerd_client \<Rightarrow> string \<Rightarrow> ('w, 'c) io" where
  "getContainer cl cid =
     and_then (SearchContainer cl cid)
       (\<lambda>searchResult. lift_res (pick_container ''no such container: '' cid searchResult))"

definition exec_getContainer :: "('w, 'c) containerd_client \<Rightarrow> string \<Rightarrow> ('w, 'c) io" where
  "exec_getContainer cl cid =
     and_then (SearchContainer cl cid)
       (\<lambda>searchResult. lift_res (pick_container ''no such container: '' cid searchResult))"

text \<open>
  A container lookup returns a container exactly when the search of its name and of
  the id prefix finds one container and no other; it reports not found exactly when
  the search succeeds with no match; an ambiguous prefix is an error of no domain type
  (an internal error to the client).
\<close>

theorem container_lookup_unique:
  assumes "SearchContainer cl cid w = (Ok found, w')"
  shows "snd (getContainer cl cid w) = w' \<and>
    (\<forall>c. fst (getContainer cl cid w) = Ok c \<longleftrightarrow> found = [c]) \<and>
    ((\<exists>e. fst (getContainer cl cid w) = Err e \<and> IsNotFound e) \<longleftrightarrow> found = []) \<and>
    (length found > 1 \<longrightarrow> (\<exists>e. fst (getContainer cl cid w) = Err e \<and> as_errWithType e = None))"
  using assms pick_container.ambiguous [of found]
  by (auto simp: getContainer_def and_then_def pick_container.Ok_iff pick_container.NotFound_iff)

definition two_containers :: "(unit, nat) containerd_client" where
  "two_containers = \<lparr>L_Name = ''nerdctl/name'', L_Networks = ''nerdctl/networks'', L_MACAddress = ''nerdctl/mac-address'',
     L_IPAddress = ''nerdctl/ip'', L_Ports = ''nerdctl/ports'',
     c_ID = (\<lambda>c. ''abc'' @ Itoa (int c)), Containers = (\<lambda>_. ret [1, 2]), c_Task = (\<lambda>_. ret 7), t_Status = (\<lambda>_. ret Running),
     c_Labels = (\<lambda>_. ret []), c_SetLabels = (\<lambda>_ _. ret ()), c_Annotations = (\<lambda>_. ret None),
     c_Update = (\<lambda>_ _ _. ret ()), c_ImageName = (\<lambda>_. ret []), cu_ContainerStatus = (\<lambda>_. ret Running)\<rparr>"

theorem container_lookup_unique_witness:
  "\<exists>e. fst (getContainer two_containers ''abc'' ()) = Err e \<and> as_errWithType e = None"
  using container_lookup_unique [of two_containers "''abc''" "()" "[1, 2 :: nat]" "()"]
  by (simp add: SearchContainer_def two_containers_def)

end
