(* ===== verification/Network.thy ===== *)
theory Network
  imports Bridge Net_Locks Containerd
begin

text \<open>
  The network service: lookup, creation, removal, listing and inspection of networks
  (\<open>src/internal/service/network\<close>: \<open>network.go\<close>, \<open>create.go\<close>, \<open>remove.go\<close>,
  \<open>list.go\<close>, \<open>inspect.go\<close>; \<open>src/internal/backend/network.go\<close>;
  \<open>src/pkg/utility/maputility/utility.go\<close>).

  The state of a request is the service's lock table and the world outside. A mutex that is
  already locked when a request asks for it blocks that request; in this sequential reading
  nobody else will unlock it, so the request hangs. The interleavings of several requests are in
  \<open>Net_Locks\<close>.
\<close>

type_synonym 'w nstate = "lock_table \<times> 'w"

definition outside :: "('w, 'a) io \<Rightarrow> ('w nstate, 'a) io" where
  "outside m s = (case m (snd s) of (r, w) \<Rightarrow> (r, (fst s, w)))"

text \<open>\<open>netMu := ensureLock(n); netMu.Lock(); defer netMu.Unlock(); defer releaseLock(n); body\<close>\<close>

definition with_net_lock :: "string \<Rightarrow> ('w nstate, 'a) io \<Rightarrow> ('w nstate, 'a) io" where
  "with_net_lock n body s =
     (case ensureLock n (fst s) of
        (m, lt1) \<Rightarrow>
          (case mutex_Lock m lt1 of
             None \<Rightarrow> (Hang, (lt1, snd s))
           | Some lt2 \<Rightarrow>
               (case body (lt2, snd s) of
                  (Hang, s1) \<Rightarrow> (Hang, s1)
                | (r, s1) \<Rightarrow> (r, (mutex_Unlock m (releaseLock n (fst s1)), snd s1)))))"

section \<open>Lookup\<close>

definition idFilterFunc :: "string \<Rightarrow> net_config \<Rightarrow> bool" where
  "idFilterFunc networkId n =
     (case NerdctlID n of
        None \<Rightarrow> nc_Name n = networkId
      | Some nid \<Rightarrow> nc_Name n = networkId \<or> HasPrefix nid (''sha256:'' @ networkId) \<or> HasPrefix nid networkId)"

definition pick_network :: "string \<Rightarrow> net_config list \<Rightarrow> net_config res" where
  "pick_network networkId networks =
     (if length networks = 0 then Err (NewNotFound (ErrMsg (''network '' @ networkId @ '' not found'')))
      else if length networks > 1 then Err (ErrMsg (''multiple networks found with ID: '' @ networkId))
      else Ok (networks ! 0))"

interpretation pick_network: unique_lookup pick_network
  by unfold_locales (auto simp: pick_network_def errdefs_defs)

definition getNetwork :: "'w net_env \<Rightarrow> string \<Rightarrow> ('w, net_config) io" where
  "getNetwork env networkId =
     and_then (FilterNetworks env (idFilterFunc networkId)) (\<lambda>networks. lift_res (pick_network networkId networks))"

section \<open>Removal\<close>

definition handleICCLabel :: "'w net_env \<Rightarrow> net_config \<Rightarrow> string \<Rightarrow> bool \<Rightarrow> ('w, unit) io" where
  "handleICCLabel env net v isIPv6 =
     or_else (HandleRemove env (NewBridgeDriver isIPv6) net)
       (\<lambda>err. fail (ErrWrap ''error handling ICC label: '' err []))
       (\<lambda>_. ret ())"

fun handle_labels :: "'w net_env \<Rightarrow> net_config \<Rightarrow> string gomap \<Rightarrow> ('w, unit) io" where
  "handle_labels env net [] = ret ()"
| "handle_labels env net ((k, v) # ls) =
     (if k = FinchICCLabelIPv4 then
        or_else (handleICCLabel env net v False)
          (\<lambda>err. fail (ErrWrap ''error handling IPv4 ICC label: '' err []))
          (\<lambda>_. handle_labels env net ls)
      else if k = FinchICCLabelIPv6 then
        or_else (handleICCLabel env net v True)
          (\<lambda>err. fail (ErrWrap ''error handling IPv6 ICC label: '' err []))
          (\<lambda>_. handle_labels env net ls)
      else handle_labels env net ls)"

definition handleNetworkLabels :: "'w net_env \<Rightarrow> net_config \<Rightarrow> ('w, unit) io" where
  "handleNetworkLabels env net =
     (case NerdctlLabels net of None \<Rightarrow> ret () | Some ls \<Rightarrow> handle_labels env net ls)"

definition Remove :: "'w net_env \<Rightarrow> string \<Rightarrow> ('w nstate, unit) io" where
  "Remove env networkId =
     or_else (outside (getNetwork env networkId))
       (\<lambda>err. fail (ErrWrap ''failed to find network: '' err []))
       (\<lambda>net. or_else (outside (UsedNetworks env))
          (\<lambda>err. fail (ErrWrap ''failed to find used network info: '' err []))
          (\<lambda>usedNetworkInfo.
             case map_of usedNetworkInfo (nc_Name net) of
               Some v \<Rightarrow> fail (NewForbidden (ErrMsg (''network '' @ Quote networkId @
                  '' is in use by container '' @ Quote_list v)))
             | None \<Rightarrow>
                 if nc_File net = []
                 then fail (NewForbidden (ErrMsg (networkId @ '' is a pre-defined network and cannot be removed'')))
                 else with_net_lock (nc_Name net)
                   (or_else (outside (handleNetworkLabels env net))
                      (\<lambda>err. fail (ErrWrap ''failed to handle nerdctl label: '' err []))
                      (\<lambda>_. or_else (outside (nc_RemoveNetwork env net))
                         (\<lambda>err. fail (ErrWrap ''failed to remove network: '' err []))
                         (\<lambda>_. ret ())))))"

section \<open>Creation\<close>

record NetworkCreateResponse =
  resp_ID :: string
  Warning :: string

text \<open>The driver used, if it is the bridge driver, and the options for nerdctl.\<close>

definition createOptionsFrom :: "NetworkCreateRequest \<Rightarrow> bridgeDriver option \<times> net_options" where
  "createOptionsFrom request =
     (let networkDriver = (if req_Driver request = [] then ''bridge'' else req_Driver request);
          i = req_IPAM request;
          options = \<lparr>o_Name = req_Name request, o_Driver = networkDriver, o_Options = [],
             o_IPAMDriver = (if ipam_Driver i \<noteq> [] then ipam_Driver i else ''default''),
             o_IPAMOptions = ipam_Options i,
             o_Subnets = (case ipam_Config i of [] \<Rightarrow> []
                | c # _ \<Rightarrow> (case map_of c ''Subnet'' of Some s \<Rightarrow> [s] | None \<Rightarrow> [])),
             o_Gateway = (case ipam_Config i of [] \<Rightarrow> [] | c # _ \<Rightarrow> map_str c ''Gateway''),
             o_IPRange = (case ipam_Config i of [] \<Rightarrow> [] | c # _ \<Rightarrow> map_str c ''IPRange''),
             o_Labels = Flatten (req_Labels request) KeyEqualsValueFormat,
             o_IPv6 = req_EnableIPv6 request\<rparr>
      in if networkDriver = ''bridge''
         then (case HandleCreateOptions (NewBridgeDriver (o_IPv6 options)) request options of
                 (bd, options1) \<Rightarrow> (Some bd, options1))
         else (None, options\<lparr>o_Options := req_Options request\<rparr>))"

definition already_exists :: "string \<Rightarrow> net_config \<Rightarrow> NetworkCreateResponse" where
  "already_exists name config =
     (case NerdctlID config of
        None \<Rightarrow> \<lparr>resp_ID = [], Warning = ''Network with name '' @ [CHR 0x27] @ name @ [CHR 0x27] @ '' already exists''\<rparr>
      | Some nid \<Rightarrow> \<lparr>resp_ID = nid, Warning = ''Network with name '' @ [CHR 0x27] @ name @ [CHR 0x27] @ '' (id: '' @ nid @ '') already exists''\<rparr>)"

text \<open>The deferred clean-up after a failed post-processing step: it removes the network and drops
  the error of the removal. It runs while the network's mutex is still locked, before the
  two deferred calls of the lock.\<close>

definition cleanup_after :: "'w net_env \<Rightarrow> string \<Rightarrow> gerr \<Rightarrow> ('w nstate, 'a) io" where
  "cleanup_after env name err = or_else (Remove env name) (\<lambda>_. fail err) (\<lambda>_. fail err)"

definition create_locked :: "'w net_env \<Rightarrow> NetworkCreateRequest \<Rightarrow> bridgeDriver option \<Rightarrow> net_options \<Rightarrow>
    ('w nstate, NetworkCreateResponse) io" where
  "create_locked env request bridgeDriver options =
     or_else (outside (nc_CreateNetwork env options))
       (\<lambda>err. if Contains (Error err) ''unsupported cni driver''
              then fail (NewNotFound (ErrMsg ''plugin not found'')) else fail err)
       (\<lambda>net. case net of
           None \<Rightarrow> fail (ErrMsg ''network ID not found'')
         | Some n \<Rightarrow>
             (case NerdctlID n of
                None \<Rightarrow> fail (ErrMsg ''network ID not found'')
              | Some nid \<Rightarrow>
                  or_else (case bridgeDriver of None \<Rightarrow> ret [] | Some bd \<Rightarrow> outside (HandlePostCreate env bd n))
                    (\<lambda>err. cleanup_after env (req_Name request) err)
                    (\<lambda>warning. ret \<lparr>resp_ID = nid, Warning = warning\<rparr>)))"

definition Create :: "'w net_env \<Rightarrow> NetworkCreateRequest \<Rightarrow> ('w nstate, NetworkCreateResponse) io" where
  "Create env request =
     or_else (outside (getNetwork env (req_Name request)))
       (\<lambda>_. case createOptionsFrom request of
              (bd, options) \<Rightarrow> with_net_lock (req_Name request) (create_locked env request bd options))
       (\<lambda>config. ret (already_exists (req_Name request) config))"

section \<open>List and Inspect\<close>

text \<open>\<open>'i\<close> is docker's IPAM structure (\<open>None\<close>: its zero value), \<open>'e\<close> a container on the network.\<close>

record ('i, 'e) NetworkInspectResponse =
  nir_Name :: string
  nir_ID :: string
  nir_IPAM :: "'i option"
  nir_Containers :: "'e gomap"
  nir_Labels :: "string gomap"

definition network_List :: "'w net_env \<Rightarrow> ('w, ('i, 'e) NetworkInspectResponse list) io" where
  "network_List env =
     and_then (FilterNetworks env (\<lambda>_. True))
       (\<lambda>nl. ret (map (\<lambda>n. \<lparr>nir_Name = nc_Name n, nir_ID = (case NerdctlID n of None \<Rightarrow> [] | Some i \<Rightarrow> i),
          nir_IPAM = None, nir_Containers = [], nir_Labels = []\<rparr>) nl))"

text \<open>nerdctl's description of a network in docker's form.\<close>

record ('i, 'e) docker_network =
  dn_Name :: string
  dn_ID :: string
  dn_IPAM :: 'i
  dn_Containers :: "'e gomap"
  dn_Labels :: "string gomap"

text \<open>\<open>containerinspector.Inspect\<close>: the native container and the status of its process, if it
  has one. The native network is its configuration with the containers.\<close>

fun running_containers :: "('c \<Rightarrow> ('w, 'n \<times> ProcessStatus option) io) \<Rightarrow> 'c list \<Rightarrow> ('w, 'n list) io" where
  "running_containers insp [] = ret []"
| "running_containers insp (c # cs) =
     or_else (insp c)
       (\<lambda>_. running_containers insp cs)
       (\<lambda>(n, st). if st \<noteq> Some Running then running_containers insp cs
                  else and_then (running_containers insp cs) (\<lambda>ns. ret (n # ns)))"

definition network_filter :: "string \<Rightarrow> string \<Rightarrow> string" where
  "network_filter lbl name =
     ''labels.'' @ Quote lbl @ ''~='' @ [CHR 0x22, CHR 0x5C, CHR 0x5C, CHR 0x5C, CHR 0x22] @ name @
     [CHR 0x5C, CHR 0x5C, CHR 0x5C, CHR 0x22, CHR 0x22]"

definition getContainersFromNetConfig :: "('w, 'c) containerd_client \<Rightarrow>
    ('c \<Rightarrow> ('w, 'n \<times> ProcessStatus option) io) \<Rightarrow> net_config \<Rightarrow> ('w, 'n list) io" where
  "getContainersFromNetConfig cl insp networkConfig =
     and_then (GetContainers cl [network_filter (L_Networks cl) (nc_Name networkConfig)]) (running_containers insp)"

definition InspectNetwork :: "('w, 'c) containerd_client \<Rightarrow> ('c \<Rightarrow> ('w, 'n \<times> ProcessStatus option) io) \<Rightarrow>
    (net_config \<Rightarrow> 'n list \<Rightarrow> 'd res) \<Rightarrow> net_config \<Rightarrow> ('w, 'd) io" where
  "InspectNetwork cl insp NetworkFromNative networkConfig =
     or_else (getContainersFromNetConfig cl insp networkConfig)
       (\<lambda>err. fail (ErrWrap ''failed to get containers for network: '' err []))
       (\<lambda>containers. lift_res (NetworkFromNative networkConfig containers))"

definition network_Inspect :: "'w net_env \<Rightarrow> ('w, 'c) containerd_client \<Rightarrow>
    ('c \<Rightarrow> ('w, 'n \<times> ProcessStatus option) io) \<Rightarrow> (net_config \<Rightarrow> 'n list \<Rightarrow> ('i, 'e) docker_network res) \<Rightarrow> string \<Rightarrow>
    ('w, ('i, 'e) NetworkInspectResponse) io" where
  "network_Inspect env cl insp NetworkFromNative networkId =
     and_then (getNetwork env networkId) (\<lambda>n.
     and_then (InspectNetwork cl insp NetworkFromNative n) (\<lambda>network.
       ret \<lparr>nir_Name = dn_Name network, nir_ID = dn_ID network, nir_IPAM = Some (dn_IPAM network),
            nir_Containers = dn_Containers network, nir_Labels = dn_Labels network\<rparr>))"

section \<open>The lock table is left as it was\<close>

definition counts_ok :: "lock_table \<Rightarrow> bool" where
  "counts_ok lt \<longleftrightarrow> (\<forall>n mc. map_of (networkMutexes lt) n = Some mc \<longrightarrow> 1 \<le> activeReqs mc)"

definition same_locks :: "lock_table \<Rightarrow> lock_table \<Rightarrow> bool" where
  "same_locks lt lt' \<longleftrightarrow> networkMutexes lt' = networkMutexes lt \<and> held lt' = held lt"

lemma same_locks_refl [simp]: "same_locks lt lt"
  by (simp add: same_locks_def)

text \<open>A call restores the locks when it returns (or panics) at all.\<close>

definition restores :: "('w nstate, 'a) io \<Rightarrow> bool" where
  "restores m \<longleftrightarrow> (\<forall>s. counts_ok (fst s) \<longrightarrow> fst (m s) \<noteq> Hang \<longrightarrow> same_locks (fst s) (fst (snd (m s))))"

lemma restores_outside [simp]: "restores (outside m)"
  by (auto simp: restores_def outside_def split: prod.splits)

lemma restores_basic [simp]: "restores (ret x)" "restores (fail e)" "restores (panic p)"
  by (simp_all add: restores_def)

lemma same_locks_trans: "same_locks a b \<Longrightarrow> same_locks b c \<Longrightarrow> same_locks a c"
  by (simp add: same_locks_def)

lemma same_locks_counts: "same_locks a b \<Longrightarrow> counts_ok b = counts_ok a"
  by (simp add: same_locks_def counts_ok_def)

lemma restores_or_else:
  assumes m: "restores m" and h: "\<And>e. restores (h e)" and k: "\<And>x. restores (k x)"
  shows "restores (or_else m h k)"
  unfolding restores_def
proof (intro allI impI)
  fix s
  assume c: "counts_ok (fst s)" and nh: "fst (or_else m h k s) \<noteq> Hang"
  obtain r s1 where r: "m s = (r, s1)" by (rule prod.exhaust)
  have "r \<noteq> Hang" using nh r by (auto simp: or_else_def)
  then have s1: "same_locks (fst s) (fst s1)" using m c r unfolding restores_def by (metis fst_conv snd_conv)
  then have c1: "counts_ok (fst s1)" using c same_locks_counts by blast
  show "same_locks (fst s) (fst (snd (or_else m h k s)))"
  proof (cases r)
    case (Ok x)
    then have eq: "or_else m h k s = k x s1" using r by (simp add: or_else_def)
    with k [of x] c1 nh s1 show ?thesis
      unfolding restores_def eq using same_locks_trans by blast
  next
    case (Err e)
    then have eq: "or_else m h k s = h e s1" using r by (simp add: or_else_def)
    with h [of e] c1 nh s1 show ?thesis
      unfolding restores_def eq using same_locks_trans by blast
  qed (use r s1 in \<open>auto simp: or_else_def\<close>)
qed

lemma counts_ok_ensure: "counts_ok lt \<Longrightarrow> counts_ok (snd (ensureLock n lt))"
  by (fastforce simp: counts_ok_def ensureLock_def split: option.splits if_splits)

lemma release_ensure_counts:
  "counts_ok lt \<Longrightarrow> networkMutexes (releaseLock n (snd (ensureLock n lt))) = networkMutexes lt"
  by (rule release_ensure) (simp add: counts_ok_def)

lemma releaseLock_cong:
  "networkMutexes a = networkMutexes b \<Longrightarrow> networkMutexes (releaseLock n a) = networkMutexes (releaseLock n b)"
  by (auto simp: releaseLock_def Let_def split: option.splits)

lemma restores_with_net_lock:
  assumes "restores body"
  shows "restores (with_net_lock n body)"
  unfolding restores_def
proof (intro allI impI)
  fix s
  assume c: "counts_ok (fst s)" and nh: "fst (with_net_lock n body s) \<noteq> Hang"
  obtain m lt1 where e: "ensureLock n (fst s) = (m, lt1)" by fastforce
  have free: "m \<notin> held lt1" using nh e by (auto simp: with_net_lock_def mutex_Lock_def)
  let ?lt2 = "lt1\<lparr>held := insert m (held lt1)\<rparr>"
  obtain r s1 where r: "body (?lt2, snd s) = (r, s1)" by (rule prod.exhaust)
  have rnh: "r \<noteq> Hang" using nh e free r by (auto simp: with_net_lock_def mutex_Lock_def)
  have "counts_ok ?lt2" using counts_ok_ensure [OF c, of n] e by (simp add: counts_ok_def)
  then have s1: "same_locks ?lt2 (fst s1)"
    using assms r rnh unfolding restores_def by (metis fst_conv snd_conv)
  have res: "snd (with_net_lock n body s) = (mutex_Unlock m (releaseLock n (fst s1)), snd s1)"
    using e free r rnh by (cases r) (simp_all add: with_net_lock_def mutex_Lock_def)
  have "networkMutexes (releaseLock n (fst s1)) = networkMutexes (releaseLock n lt1)"
    using s1 by (intro releaseLock_cong) (simp add: same_locks_def)
  moreover have "held lt1 = held (fst s)" using e ensureLock_held [of n "fst s"] by simp
  ultimately show "same_locks (fst s) (fst (snd (with_net_lock n body s)))"
    using release_ensure_counts [OF c, of n] e free s1
    unfolding res by (auto simp: same_locks_def mutex_Unlock_def)
qed

lemma restores_Remove: "restores (Remove env networkId)"
  unfolding Remove_def
  by (intro restores_or_else) (auto split: option.splits intro!: restores_with_net_lock restores_or_else)

lemma restores_Create: "restores (Create env request)"
  unfolding Create_def create_locked_def cleanup_after_def
  by (auto intro!: restores_or_else restores_with_net_lock restores_Remove split: prod.splits option.splits)

text \<open>
  C10: \<open>Create\<close> and \<open>Remove\<close> never leak a lock: whenever one of them returns, with or
  without an error, or panics, the table of per-network mutexes and the set of locked
  mutexes are exactly what they were before the call.
\<close>

theorem network_ops_restore_locks:
  assumes "counts_ok lt"
  shows "(fst (Create env request (lt, w)) \<noteq> Hang \<longrightarrow> same_locks lt (fst (snd (Create env request (lt, w))))) \<and>
    (fst (Remove env networkId (lt, w)) \<noteq> Hang \<longrightarrow> same_locks lt (fst (snd (Remove env networkId (lt, w)))))"
  using restores_Create [of env request] restores_Remove [of env networkId] assms
  unfolding restores_def by simp

theorem network_ops_restore_locks_witness:
  "same_locks new_lock_table (fst (snd (Remove file_env ''web'' (new_lock_table, conf_web))))"
proof -
  have "fst (Remove file_env ''web'' (new_lock_table, conf_web)) \<noteq> Hang"
    by (simp add: Remove_def or_else_def outside_def getNetwork_def FilterNetworks_def and_then_def pick_network_def)
  then show ?thesis
    using network_ops_restore_locks [of new_lock_table file_env req_icc conf_web "''web''"]
    by (simp add: counts_ok_def new_lock_table_def)
qed

section \<open>What Remove and Create do\<close>

text \<open>
  \<open>Remove\<close> asks nerdctl to delete a network only when the name or id is that of one
  network, no container uses it, it has a configuration file, and its connectivity labels have been
  undone, in this order; a missing network is a not-found error, a used or pre-defined one
  is forbidden, and in these cases nothing but the lookups has run.
\<close>

theorem remove_guards:
  assumes found: "getNetwork env nid w = (r1, w1)" and used: "UsedNetworks env w1 = (Ok used, w2)"
    and free: "held lt = {}"
  shows "case r1 of
     Err e \<Rightarrow> Remove env nid (lt, w) = (Err (ErrWrap ''failed to find network: '' e []), (lt, w1))
   | Ok net \<Rightarrow>
       if map_of used (nc_Name net) \<noteq> None \<or> nc_File net = []
       then \<exists>e. Remove env nid (lt, w) = (Err e, (lt, w2)) \<and> IsForbiddenError e
       else (case handleNetworkLabels env net w2 of
               (Ok _, w3) \<Rightarrow>
                 (case nc_RemoveNetwork env net w3 of
                    (Ok _, w4) \<Rightarrow> fst (Remove env nid (lt, w)) = Ok () \<and> snd (snd (Remove env nid (lt, w))) = w4
                  | (Err e, w4) \<Rightarrow> fst (Remove env nid (lt, w)) = Err (ErrWrap ''failed to remove network: '' e [])
                  | _ \<Rightarrow> True)
             | (Err e, w3) \<Rightarrow> fst (Remove env nid (lt, w)) = Err (ErrWrap ''failed to handle nerdctl label: '' e []) \<and>
                  snd (snd (Remove env nid (lt, w))) = w3
             | _ \<Rightarrow> True)
   | _ \<Rightarrow> True"
proof -
  have lock: "ensureLock n lt = (m, lt1) \<Longrightarrow> \<exists>lt2. mutex_Lock m lt1 = Some lt2" for n m lt1
    using free ensureLock_table(1) [of n lt m lt1] by (simp add: mutex_Lock_def)
  show ?thesis
    using found used
    by (auto simp: Remove_def or_else_def outside_def with_net_lock_def errdefs_defs
        dest: lock split: res.splits option.splits prod.splits)
qed

text \<open>The world in which a network named \<open>web\<close> exists or not, and where configuration
  directories cannot be opened.\<close>

definition web_env :: "bool net_env" where
  "web_env = \<lparr>NetworkList = (\<lambda>w. (Ok (if w then [net_web] else []), w)),
     nc_CreateNetwork = (\<lambda>_ w. (Ok (Some net_web), True)), nc_RemoveNetwork = (\<lambda>_ w. (Ok (), False)),
     UsedNetworks = ret [], NetconfPath = ''/etc/cni'', Namespace = ''finch'', DefaultNetworkName = ''bridge'',
     NewWithProtocol = (\<lambda>_. fail (ErrMsg ''no iptables'')), range_protos = (\<lambda>ps. ps),
     open_dir = (\<lambda>_. fail (ErrExt [XNotExist] ''no such directory'')), unix_Flock = (\<lambda>_ _. ret ()),
     os_Stat = (\<lambda>_. fail (ErrExt [XNotExist] ''no such file'')),
     read_json = (\<lambda>_. fail (ErrExt [XNotExist] ''no such file'')), write_json = (\<lambda>_ _ _. ret ())\<rparr>"

lemma web_env_simps [simp]:
  "NetworkList web_env w = (Ok (if w then [net_web] else []), w)"
  "nc_CreateNetwork web_env opts w = (Ok (Some net_web), True)"
  "nc_RemoveNetwork web_env net w = (Ok (), False)" "UsedNetworks web_env w = (Ok [], w)"
  "open_dir web_env d w = (Err (ErrExt [XNotExist] ''no such directory''), w)"
  by (simp_all add: web_env_def)

theorem remove_guards_witness:
  "fst (Remove web_env ''web'' (new_lock_table, True)) = Ok () \<and>
   snd (snd (Remove web_env ''web'' (new_lock_table, True))) = False"
  using remove_guards [of web_env "''web''" True "Ok net_web" True "[]" True new_lock_table]
  by (simp add: getNetwork_def FilterNetworks_def and_then_def idFilterFunc_def net_web_def pick_network_def
      handleNetworkLabels_def new_lock_table_def)

text \<open>
  C27: When a network has been created but its post-processing fails (the bridge name is
  taken, or the connectivity rules cannot be installed), the clean-up runs \<open>Remove\<close> for the same
  name while \<open>Create\<close> still holds that network's mutex: the request waits for itself
  and never returns. (The deferred calls run in the reverse order of their registration.)
\<close>

theorem create_cleanup_deadlock:
  assumes "getNetwork env name w = (Err e1, w1)" and "name = req_Name request"
    and "createOptionsFrom request = (Some bd, options)"
    and "nc_CreateNetwork env options w1 = (Ok (Some n), w2)" and "NerdctlID n = Some nid"
    and "HandlePostCreate env bd n w2 = (Err e2, w3)"
    and "getNetwork env name w3 = (Ok n', w4)" and "nc_Name n' = name" and "nc_File n' \<noteq> []"
    and "UsedNetworks env w4 = (Ok used, w5)" and "map_of used name = None"
  shows "fst (Create env request (lt, w)) = Hang"
proof -
  obtain m lt1 where e: "ensureLock name lt = (m, lt1)" by fastforce
  then obtain mc where mc: "map_of (networkMutexes lt1) name = Some mc" "mc_mutex mc = m"
    using ensureLock_table(4) [OF e] by auto
  show ?thesis
  proof (cases "m \<in> held lt1")
    case True
    with assms e show ?thesis
      by (simp add: Create_def or_else_def outside_def with_net_lock_def mutex_Lock_def)
  next
    case False
    let ?lt2 = "lt1\<lparr>held := insert m (held lt1)\<rparr>"
    have "fst (Remove env name (?lt2, w3)) = Hang"
      using assms(7-11) mc
      by (simp add: Remove_def or_else_def outside_def with_net_lock_def ensureLock_def mutex_Lock_def)
    then have "fst (create_locked env request (Some bd) options (?lt2, w1)) = Hang"
      using assms
      by (auto simp: create_locked_def cleanup_after_def or_else_def outside_def split: prod.splits res.splits)
    with False assms e show ?thesis
      by (auto simp: Create_def or_else_def outside_def with_net_lock_def mutex_Lock_def
          split: prod.splits res.splits)
  qed
qed

definition req_web :: NetworkCreateRequest where
  "req_web = NewCreateNetworkRequest ''web'' [WithOptions [(BridgeNameOption, ''br9'')]]"

lemma req_web_eq:
  "req_web = \<lparr>req_Name = ''web'', req_CheckDuplicate = False, req_Driver = [], req_Internal = False, req_Attachable = False, req_Ingress = False,
     req_IPAM = \<lparr>ipam_Driver = [], ipam_Config = [], ipam_Options = []\<rparr>, req_EnableIPv6 = False,
     req_Options = [(BridgeNameOption, ''br9'')], req_Labels = []\<rparr>"
  by (simp add: req_web_def NewCreateNetworkRequest_def WithOptions_def)

theorem create_cleanup_deadlock_witness: "fst (Create web_env req_web (new_lock_table, False)) = Hang"
proof (rule create_cleanup_deadlock [where name = "''web''" and n = net_web and n' = net_web and ?w1.0 = False and
      ?w4.0 = True and used = "[]" and ?e1.0 = "NewNotFound (ErrMsg ''network web not found'')"])
  let ?bd = "fst (createOptionsFrom req_web)" and ?o = "snd (createOptionsFrom req_web)"
  show "createOptionsFrom req_web = (Some (the ?bd), ?o)"
    by (simp add: createOptionsFrom_def req_web_eq HandleCreateOptions_def Let_def split: prod.splits)
  have "bridgeName (the ?bd) = ''br9''"
    by (simp add: createOptionsFrom_def req_web_eq HandleCreateOptions_def processUnsupportedOptions_def
        NewBridgeDriver_def bridge_option_names Let_def)
  then show "HandlePostCreate web_env (the ?bd) net_web True =
      (Err (ErrMsg (''failed to set network bridge name br9: '' @ ''no such directory'')), True)"
    by (simp add: HandlePostCreate_def setBridgeName_def withDirLock_def and_then_def or_else_def)
qed (simp_all add: getNetwork_def FilterNetworks_def and_then_def idFilterFunc_def net_web_def pick_network_def
     req_web_eq)

end
