(* ===== verification/Net_Connect.thy ===== *)
theory Net_Connect
  imports Network
begin

text \<open>
  Connecting a container to a network (\<open>src/internal/service/network/connect.go\<close>): the list
  of a container's networks and the index of its newest interface are container labels;
  when the network cannot be attached the labels are rolled back.

  The CNI library, nerdctl's network type detection and string helper, and the JSON codecs of the
  labels are fields of \<open>conn_env\<close>.
\<close>

datatype nettype = CNI | OtherNetwork

record 'p runtime_conf =
  rc_ContainerID :: string
  NetNS :: string
  IfName :: string
  rc_Args :: "(string \<times> string) list"
  CapabilityArgs :: "(string \<times> 'p) list"

record ('w, 'p) conn_env =
  enc_strs :: "string list \<Rightarrow> string"
  dec_strs :: "string \<Rightarrow> string list res"
  dec_ports :: "string \<Rightarrow> 'p res"
  InStringSlice :: "string list \<Rightarrow> string \<Rightarrow> bool"
  Detect :: "string list \<Rightarrow> nettype res"
  AddNetworkList :: "net_config \<Rightarrow> 'p runtime_conf \<Rightarrow> ('w, unit) io"

definition interfacePrefix :: string where "interfacePrefix = ''eth''"
definition networkIndexLabel :: string where "networkIndexLabel = ''finch/network-index''"

definition verifyNetworkConfig :: "('w, 'p) conn_env \<Rightarrow> net_config \<Rightarrow> string list \<Rightarrow> string \<Rightarrow> unit res" where
  "verifyNetworkConfig ce net networks macAddress =
     (case Detect ce (networks @ [nc_Name net]) of
        Ok netType \<Rightarrow>
          if netType \<noteq> CNI
          then Err (ErrMsg (''invalid network '' @ nc_Name net @ '', only CNI type is supported''))
          else if macAddress \<noteq> [] then
            (case nc_Plugins net of
               [] \<Rightarrow> Panic ''index out of range''
             | p # _ \<Rightarrow>
                 if \<not> InStringSlice ce [''bridge'', ''macvlan''] (plug_Type p)
                 then Err (ErrMsg (''network type '' @ Quote (plug_Type p) @
                   '' is not supported when MAC address is specified, must be one of: [bridge macvlan]''))
                 else Ok ())
          else Ok ()
      | Err e \<Rightarrow> Err e
      | Panic p \<Rightarrow> Panic p
      | Hang \<Rightarrow> Hang)"

text \<open>The index of the new network: one more than the label, or the last position of the list.\<close>

definition next_index :: "string gomap \<Rightarrow> string list \<Rightarrow> int res" where
  "next_index opts networks =
     (case map_of opts networkIndexLabel of
        Some indexString \<Rightarrow>
          (case Atoi indexString of
             None \<Rightarrow> Err (ErrMsg (''strconv.Atoi: parsing '' @ Quote indexString))
           | Some i \<Rightarrow> Ok (wrap64 (i + 1)))
      | None \<Rightarrow> Ok (int (length networks) - 1))"

text \<open>The garbage collector that \<open>addNetworkConfig\<close> returns, with the variables it captures: the
  labels and annotations already updated, the list with the new network, and its index.\<close>

definition deleteNet :: "('w, 'c) containerd_client \<Rightarrow> ('w, 'p) conn_env \<Rightarrow> 'c \<Rightarrow> string gomap \<Rightarrow> string gomap \<Rightarrow>
    string list \<Rightarrow> int \<Rightarrow> ('w, unit) io" where
  "deleteNet cl ce container opts annotations networks index =
     (let opts1 = map_put networkIndexLabel (Itoa (wrap64 (index - 1))) opts;
          networksData = enc_strs ce (butlast networks);
          opts2 = map_put (L_Networks cl) networksData opts1
      in ignore_err (c_Update cl container opts2 (map_put (L_Networks cl) networksData annotations)))"

definition addNetworkConfig :: "('w, 'c) containerd_client \<Rightarrow> ('w, 'p) conn_env \<Rightarrow> net_config \<Rightarrow> 'c \<Rightarrow>
    ('w, ('w, unit) io) io" where
  "addNetworkConfig cl ce net container =
     and_then (c_Labels cl container)
       (\<lambda>opts. and_then (lift_res (dec_strs ce (map_str opts (L_Networks cl))))
         (\<lambda>networks.
            if InStringSlice ce networks (nc_Name net)
            then fail (ErrMsg (''container '' @ c_ID cl container @ '' already connected to network '' @ nc_Name net))
            else and_then (lift_res (verifyNetworkConfig ce net networks (map_str opts (L_MACAddress cl))))
              (\<lambda>_. let networks1 = networks @ [nc_Name net]
                   in and_then (c_Annotations cl container)
                     (\<lambda>annotations.
                        let networksData = enc_strs ce networks1;
                            opts1 = map_put (L_Networks cl) networksData opts
                        in and_then (lift_res (next_index opts1 networks1))
                          (\<lambda>index.
                             let opts2 = map_put networkIndexLabel (Itoa index) opts1
                             in case annotations of
                                  None \<Rightarrow> panic ''assignment to entry in nil map''
                                | Some ann \<Rightarrow>
                                    let ann1 = map_put (L_Networks cl) networksData ann
                                    in and_then (c_Update cl container opts2 ann1)
                                         (\<lambda>_. ret (deleteNet cl ce container opts2 ann1 networks1 index)))))))"

definition net_getContainerStatus :: "('w, 'c) containerd_client \<Rightarrow> 'c \<Rightarrow> ('w, ProcessStatus) io" where
  "net_getContainerStatus cl container =
     or_else (c_Task cl container)
       (\<lambda>err. if cerr_IsNotFound err then ret Created else fail err)
       (\<lambda>_. t_Status cl container)"

definition getContainerNetNSPath :: "('w, 'c) containerd_client \<Rightarrow> 'c \<Rightarrow> ('w, string) io" where
  "getContainerNetNSPath cl container =
     and_then (c_Task cl container) (\<lambda>pid. ret (''/proc/'' @ Itoa (int pid) @ ''/ns/net''))"

definition getNetworkIndex :: "('w, 'c) containerd_client \<Rightarrow> ('w, 'p) conn_env \<Rightarrow> 'c \<Rightarrow> ('w, int) io" where
  "getNetworkIndex cl ce container =
     and_then (c_Labels cl container)
       (\<lambda>opts. case map_of opts networkIndexLabel of
           Some indexString \<Rightarrow>
             (case Atoi indexString of
                None \<Rightarrow> fail (ErrMsg (''strconv.Atoi: parsing '' @ Quote indexString))
              | Some index \<Rightarrow> ret index)
         | None \<Rightarrow>
             and_then (lift_res (dec_strs ce (map_str opts (L_Networks cl))))
               (\<lambda>networks.
                  and_then (c_SetLabels cl container
                      (map_put networkIndexLabel (Itoa (int (length networks) - 1)) opts))
                    (\<lambda>_. ret (int (length networks) - 1))))"

definition connectNetwork :: "('w, 'c) containerd_client \<Rightarrow> ('w, 'p) conn_env \<Rightarrow> net_config \<Rightarrow> 'c \<Rightarrow> ('w, unit) io" where
  "connectNetwork cl ce net container =
     and_then (getContainerNetNSPath cl container)
       (\<lambda>nsPath. and_then (getNetworkIndex cl ce container)
         (\<lambda>networkIndex. and_then (c_Labels cl container)
           (\<lambda>opts.
              let ip = map_str opts (L_IPAddress cl);
                  mac = map_str opts (L_MACAddress cl);
                  portsJSON = map_str opts (L_Ports cl);
                  args = [(''IgnoreUnknown'', ''1'')] @ (if ip \<noteq> [] then [(''IP'', ip)] else []) @
                         (if mac \<noteq> [] then [(''MAC'', mac)] else [])
              in and_then (if portsJSON \<noteq> []
                           then lift_res (case dec_ports ce portsJSON of
                                  Ok p \<Rightarrow> Ok [(''portMappings'', p)] | Err e \<Rightarrow> Err e | Panic p \<Rightarrow> Panic p | Hang \<Rightarrow> Hang)
                           else ret [])
                   (\<lambda>caps. AddNetworkList ce net
                      \<lparr>rc_ContainerID = c_ID cl container, NetNS = nsPath,
                       IfName = interfacePrefix @ Itoa networkIndex, rc_Args = args, CapabilityArgs = caps\<rparr>))))"

definition Connect :: "'w net_env \<Rightarrow> ('w, 'c) containerd_client \<Rightarrow> ('w, 'p) conn_env \<Rightarrow> string \<Rightarrow> string \<Rightarrow> ('w, unit) io" where
  "Connect env cl ce networkId containerId =
     and_then (getNetwork env networkId)
       (\<lambda>net. and_then (net_getContainer cl containerId)
         (\<lambda>container. and_then (net_getContainerStatus cl container)
           (\<lambda>status. case status of
               UnknownStatus \<Rightarrow> fail (ErrMsg ''failed to determine container status from runtime'')
             | Pausing \<Rightarrow> fail (ErrMsg ''cannot connect a container that is currently pausing'')
             | Paused \<Rightarrow>
                 and_then (addNetworkConfig cl ce net container)
                   (\<lambda>deleteFunc. or_else (connectNetwork cl ce net container)
                      (\<lambda>err. and_then deleteFunc (\<lambda>_. fail err)) ret)
             | Running \<Rightarrow>
                 and_then (addNetworkConfig cl ce net container)
                   (\<lambda>deleteFunc. or_else (connectNetwork cl ce net container)
                      (\<lambda>err. and_then deleteFunc (\<lambda>_. fail err)) ret)
             | Created \<Rightarrow> and_then (addNetworkConfig cl ce net container) (\<lambda>_. ret ())
             | Stopped \<Rightarrow> and_then (addNetworkConfig cl ce net container) (\<lambda>_. ret ()))))"

section \<open>The labels of a container\<close>

text \<open>A container store without faults (\<open>labs\<close> is the labels it keeps), a codec that
  decodes what it encodes, and network label names that differ from the index label.\<close>

definition store_ok :: "('w \<Rightarrow> 'c \<Rightarrow> string gomap) \<Rightarrow> ('w, 'c) containerd_client \<Rightarrow> ('w, 'p) conn_env \<Rightarrow> bool" where
  "store_ok labs cl ce \<longleftrightarrow>
     (\<forall>c w. c_Labels cl c w = (Ok (labs w c), w)) \<and>
     (\<forall>c o' a w. \<exists>w'. c_Update cl c o' a w = (Ok (), w') \<and> labs w' = (labs w)(c := o')) \<and>
     (\<forall>c w. \<exists>a. c_Annotations cl c w = (Ok (Some a), w)) \<and>
     (\<forall>c w. labs (snd (c_Task cl c w)) = labs w) \<and>
     (\<forall>n rc w. labs (snd (AddNetworkList ce n rc w)) = labs w) \<and>
     (\<forall>ss. dec_strs ce (enc_strs ce ss) = Ok ss) \<and>
     L_Networks cl \<noteq> networkIndexLabel"

text \<open>What the labels say: the networks, and the index of the newest interface.\<close>

definition nets_of :: "('w, 'c) containerd_client \<Rightarrow> ('w, 'p) conn_env \<Rightarrow> string gomap \<Rightarrow> string list res" where
  "nets_of cl ce opts = dec_strs ce (map_str opts (L_Networks cl))"

definition index_of :: "string gomap \<Rightarrow> string list \<Rightarrow> int option" where
  "index_of opts networks =
     (case map_of opts networkIndexLabel of None \<Rightarrow> Some (int (length networks) - 1) | Some s \<Rightarrow> Atoi s)"

lemma next_index_succ:
  assumes "index_of opts ns = Some i" and "i < 2 ^ 63 - 1" and "map_of opts' networkIndexLabel = map_of opts networkIndexLabel"
  shows "next_index opts' (ns @ [n]) = Ok (i + 1)"
proof (cases "map_of opts networkIndexLabel")
  case None
  with assms show ?thesis by (simp add: index_of_def next_index_def)
next
  case (Some s)
  with assms have a: "Atoi s = Some i" by (simp add: index_of_def)
  then have "- (2 ^ 63) \<le> i" using Atoi_range by blast
  with assms(2) have "wrap64 (i + 1) = i + 1" by (intro wrap64_id) simp_all
  with Some a assms(3) show ?thesis by (simp add: next_index_def)
qed

lemma index_of_range: "index_of opts ns = Some i \<Longrightarrow> i < 2 ^ 63 - 1 \<Longrightarrow> - (2 ^ 63) \<le> i"
  using Atoi_range by (fastforce simp: index_of_def split: option.splits)

lemma index_of_put:
  "- (2 ^ 63) \<le> i \<Longrightarrow> i < 2 ^ 63 \<Longrightarrow> L \<noteq> networkIndexLabel \<Longrightarrow>
     index_of (map_put L d (map_put networkIndexLabel (Itoa i) opts)) ns = Some i \<and>
     index_of (map_put networkIndexLabel (Itoa i) (map_put L d opts)) ns = Some i"
  by (simp add: index_of_def)

text \<open>The labels of container \<open>c\<close> list the networks \<open>ns\<close> and the newest index \<open>i\<close>.\<close>

definition labels_say :: "('w \<Rightarrow> 'c \<Rightarrow> string gomap) \<Rightarrow> ('w, 'c) containerd_client \<Rightarrow> ('w, 'p) conn_env \<Rightarrow>
    'w \<Rightarrow> 'c \<Rightarrow> string list \<Rightarrow> int \<Rightarrow> bool" where
  "labels_say labs cl ce w c ns i \<longleftrightarrow> nets_of cl ce (labs w c) = Ok ns \<and> index_of (labs w c) ns = Some i"

lemma labels_say_cong: "labs w' = labs w \<Longrightarrow> labels_say labs cl ce w' c ns i = labels_say labs cl ce w c ns i"
  by (simp add: labels_say_def)

lemma deleteNet_restores:
  assumes st: "store_ok labs cl ce" and i: "- (2 ^ 63) \<le> i" "i < 2 ^ 63 - 1"
  shows "\<exists>w'. deleteNet cl ce c opts ann (ns @ [n]) (i + 1) w = (Ok (), w') \<and> labels_say labs cl ce w' c ns i"
proof -
  let ?o = "map_put (L_Networks cl) (enc_strs ce ns) (map_put networkIndexLabel (Itoa i) opts)"
  have w: "wrap64 (i + 1 - 1) = i" using i by simp
  obtain w' where u: "c_Update cl c ?o (map_put (L_Networks cl) (enc_strs ce ns) ann) w = (Ok (), w')"
    "labs w' = (labs w)(c := ?o)"
    using st unfolding store_ok_def by blast
  then have "deleteNet cl ce c opts ann (ns @ [n]) (i + 1) w = (Ok (), w')"
    using w by (simp add: deleteNet_def ignore_err_def or_else_def Let_def)
  moreover have "labels_say labs cl ce w' c ns i"
    using st u(2) i index_of_put [of i "L_Networks cl" "enc_strs ce ns" opts ns]
    by (simp add: labels_say_def nets_of_def map_str_def store_ok_def)
  ultimately show ?thesis by blast
qed

lemma addNetworkConfig_labels:
  assumes st: "store_ok labs cl ce" and say: "labels_say labs cl ce w c ns i" and i: "i < 2 ^ 63 - 1"
  shows "case addNetworkConfig cl ce net c w of
     (Ok del, w1) \<Rightarrow> labels_say labs cl ce w1 c (ns @ [nc_Name net]) (i + 1) \<and>
        map_of (labs w1 c) networkIndexLabel \<noteq> None \<and>
        (\<forall>wx. \<exists>w2. del wx = (Ok (), w2) \<and> labels_say labs cl ce w2 c ns i)
   | (_, w1) \<Rightarrow> labs w1 = labs w"
proof -
  let ?L = "L_Networks cl" and ?ns1 = "ns @ [nc_Name net]"
  let ?o1 = "map_put ?L (enc_strs ce ?ns1) (labs w c)"
  let ?o2 = "map_put networkIndexLabel (Itoa (i + 1)) ?o1"
  have lab: "c_Labels cl c w = (Ok (labs w c), w)" and L: "?L \<noteq> networkIndexLabel"
    and dec: "dec_strs ce (enc_strs ce ss) = Ok ss" for ss
    using st by (simp_all add: store_ok_def)
  have nets: "dec_strs ce (map_str (labs w c) ?L) = Ok ns" and idx: "index_of (labs w c) ns = Some i"
    using say by (simp_all add: labels_say_def nets_of_def)
  have lo: "- (2 ^ 63) \<le> i" using index_of_range [OF idx i] .
  have ni: "next_index ?o1 ?ns1 = Ok (i + 1)"
    using next_index_succ [OF idx i, of ?o1] L by simp
  obtain ann where ann: "c_Annotations cl c w = (Ok (Some ann), w)" using st unfolding store_ok_def by blast
  let ?a1 = "map_put ?L (enc_strs ce ?ns1) ann"
  obtain w1 where u: "c_Update cl c ?o2 ?a1 w = (Ok (), w1)" "labs w1 = (labs w)(c := ?o2)"
    using st unfolding store_ok_def by blast
  have "labels_say labs cl ce w1 c ?ns1 (i + 1) \<and> map_of (labs w1 c) networkIndexLabel \<noteq> None"
    using u(2) lo i L dec index_of_put [of "i + 1" ?L "enc_strs ce ?ns1" "labs w c" ?ns1]
    by (simp add: labels_say_def nets_of_def map_str_def)
  moreover have "\<exists>w2. deleteNet cl ce c ?o2 ?a1 ?ns1 (i + 1) wx = (Ok (), w2) \<and> labels_say labs cl ce w2 c ns i" for wx
    by (rule deleteNet_restores [OF st lo i])
  ultimately show ?thesis
    using lab nets ni ann u(1)
    by (auto simp: addNetworkConfig_def and_then_def Let_def split: res.splits)
qed

lemma connectNetwork_labels:
  assumes st: "store_ok labs cl ce" and lbl: "map_of (labs w c) networkIndexLabel \<noteq> None"
  shows "labs (snd (connectNetwork cl ce net c w)) = labs w"
proof -
  have lab: "c_Labels cl c w = (Ok (labs w c), w)"
    and task: "labs (snd (c_Task cl c w)) = labs w"
    and add: "labs (snd (AddNetworkList ce n rc w)) = labs w" for c w n rc
    using st by (simp_all add: store_ok_def)
  obtain r w1 where t: "c_Task cl c w = (r, w1)" by (rule prod.exhaust)
  with task [of c w] have w1: "labs w1 = labs w" by simp
  with lbl obtain s where s: "map_of (labs w1 c) networkIndexLabel = Some s" by auto
  show ?thesis
  proof (cases r)
    case (Ok pid)
    show ?thesis
      using t Ok w1 s lab [of c w1]
      by (cases "Atoi s") (auto simp: connectNetwork_def getContainerNetNSPath_def getNetworkIndex_def and_then_def
          Let_def add split: res.splits)
  qed (use t w1 in \<open>simp_all add: connectNetwork_def getContainerNetNSPath_def and_then_def\<close>)
qed

text \<open>
  C2: Connecting a running or paused container is all or nothing on its labels: if it
  succeeds the network is appended to the container's list and the interface index is
  one more; if it fails for any reason (the network is already connected, the configuration is
  rejected, attaching fails) both are what they were, so the next attempt gets the same
  interface name.
\<close>

theorem connect_all_or_nothing:
  assumes st: "store_ok labs cl ce" and "getNetwork env nid w = (Ok net, w1)"
    and "net_getContainer cl cid w1 = (Ok c, w2)" and "net_getContainerStatus cl c w2 = (Ok status, w3)"
    and "status = Running \<or> status = Paused"
    and say: "labels_say labs cl ce w3 c ns i" and i: "i < 2 ^ 63 - 1"
  shows "case Connect env cl ce nid cid w of
     (Ok _, w') \<Rightarrow> labels_say labs cl ce w' c (ns @ [nc_Name net]) (i + 1)
   | (Err _, w') \<Rightarrow> labels_say labs cl ce w' c ns i
   | _ \<Rightarrow> True"
proof -
  let ?body = "and_then (addNetworkConfig cl ce net c)
                 (\<lambda>deleteFunc. or_else (connectNetwork cl ce net c) (\<lambda>err. and_then deleteFunc (\<lambda>_. fail err)) ret)"
  have eq: "Connect env cl ce nid cid w = ?body w3"
    using assms(2-5) by (auto simp: Connect_def and_then_def)
  obtain r w4 where r: "addNetworkConfig cl ce net c w3 = (r, w4)" by (rule prod.exhaust)
  note add = addNetworkConfig_labels [OF st say i, of net, unfolded r]
  show ?thesis
  proof (cases r)
    case (Ok del)
    with add have w4: "labels_say labs cl ce w4 c (ns @ [nc_Name net]) (i + 1)"
      "map_of (labs w4 c) networkIndexLabel \<noteq> None"
      and del: "\<exists>w2. del wx = (Ok (), w2) \<and> labels_say labs cl ce w2 c ns i" for wx by auto
    obtain r' w5 where r': "connectNetwork cl ce net c w4 = (r', w5)" by (rule prod.exhaust)
    have "labs w5 = labs w4" using connectNetwork_labels [OF st w4(2), of net] r' by simp
    then have "labels_say labs cl ce w5 c (ns @ [nc_Name net]) (i + 1)"
      using w4(1) by (simp add: labels_say_def)
    with del [of w5] r Ok r' show ?thesis
      unfolding eq by (cases r') (auto simp: and_then_def or_else_def)
  next
    case (Err e)
    with add r say show ?thesis
      unfolding eq by (simp add: and_then_def labels_say_cong [of labs w4 w3])
  qed (use r in \<open>simp_all add: eq and_then_def\<close>)
qed

text \<open>A store with one container whose labels are the world, and a CNI library that always
  fails to attach.\<close>

definition one_container :: "(string gomap, unit) containerd_client" where
  "one_container = \<lparr>L_Name = ''nerdctl/name'', L_Networks = ''nerdctl/networks'', L_MACAddress = ''nerdctl/mac-address'',
     L_IPAddress = ''nerdctl/ip'', L_Ports = ''nerdctl/ports'',
     c_ID = (\<lambda>_. ''abc''), Containers = (\<lambda>_. ret [()]), c_Task = (\<lambda>_. ret 7), t_Status = (\<lambda>_. ret Running),
     c_Labels = (\<lambda>_ w. (Ok w, w)), c_SetLabels = (\<lambda>_ l w. (Ok (), l)), c_Annotations = (\<lambda>_. ret (Some [])),
     c_Update = (\<lambda>_ l _ w. (Ok (), l)), c_ImageName = (\<lambda>_. ret []), cu_ContainerStatus = (\<lambda>_. ret Running)\<rparr>"

text \<open>Lists of names written one after the other, each ended by a comma.\<close>

definition comma_enc :: "string list \<Rightarrow> string" where
  "comma_enc ss = concat (map (\<lambda>s. concat (map (\<lambda>c. [CHR ''x'', c]) s) @ '','') ss)"

fun comma_dec :: "string \<Rightarrow> string \<Rightarrow> string list" where
  "comma_dec cur [] = []"
| "comma_dec cur [c] = (if c = CHR '','' then [cur] else [])"
| "comma_dec cur (c # d # s) = (if c = CHR '','' then cur # comma_dec [] (d # s) else comma_dec (cur @ [d]) s)"

lemma comma_dec_word:
  "comma_dec cur (concat (map (\<lambda>c. [CHR ''x'', c]) s) @ CHR '','' # r) = (cur @ s) # comma_dec [] r"
  by (induction s arbitrary: cur) (auto simp: neq_Nil_conv, cases r, auto)

lemma comma_dec_enc: "comma_dec [] (comma_enc ss) = ss"
  by (induction ss) (auto simp: comma_enc_def comma_dec_word)

definition bad_cni :: "(string gomap, unit) conn_env" where
  "bad_cni = \<lparr>enc_strs = comma_enc, dec_strs = (\<lambda>s. Ok (comma_dec [] s)), dec_ports = (\<lambda>_. Ok ()),
     InStringSlice = (\<lambda>ss s. s \<in> set ss), Detect = (\<lambda>_. Ok CNI),
     AddNetworkList = (\<lambda>_ _. fail (ErrMsg ''no address left''))\<rparr>"

definition two_nets :: "(string gomap) net_env" where
  "two_nets = \<lparr>NetworkList = ret [net_web], nc_CreateNetwork = (\<lambda>_. ret None), nc_RemoveNetwork = (\<lambda>_. ret ()),
     UsedNetworks = ret [], NetconfPath = [], Namespace = [], DefaultNetworkName = ''bridge'',
     NewWithProtocol = (\<lambda>_. fail (ErrMsg ''no iptables'')), range_protos = (\<lambda>ps. ps),
     open_dir = (\<lambda>_. ret ()), unix_Flock = (\<lambda>_ _. ret ()), os_Stat = (\<lambda>_. ret 0),
     read_json = (\<lambda>_. ret JNull), write_json = (\<lambda>_ _ _. ret ())\<rparr>"

definition labels0 :: "string gomap" where
  "labels0 = [(''nerdctl/networks'', comma_enc [''front''])]"

lemma store_example: "store_ok (\<lambda>w _. w) one_container bad_cni"
  by (auto simp: store_ok_def one_container_def bad_cni_def comma_dec_enc networkIndexLabel_def)

theorem connect_all_or_nothing_witness:
  "\<exists>e w'. Connect two_nets one_container bad_cni ''web'' ''abc'' labels0 = (Err e, w') \<and>
     labels_say (\<lambda>w _. w) one_container bad_cni w' () [''front''] 0"
proof -
  have nets: "getNetwork two_nets ''web'' labels0 = (Ok net_web, labels0)"
    and con: "net_getContainer one_container ''abc'' labels0 = (Ok (), labels0)"
    and st: "net_getContainerStatus one_container () labels0 = (Ok Running, labels0)"
    by (simp_all add: getNetwork_def FilterNetworks_def two_nets_def idFilterFunc_def net_web_def pick_network_def
        net_getContainer_def SearchContainer_def one_container_def pick_container_def net_getContainerStatus_def
        and_then_def or_else_def Let_def)
  have say: "labels_say (\<lambda>w _. w) one_container bad_cni labels0 () [''front''] 0"
    by (simp add: labels_say_def nets_of_def index_of_def labels0_def one_container_def bad_cni_def map_str_def
        comma_dec_enc networkIndexLabel_def)
  have "\<exists>e w'. Connect two_nets one_container bad_cni ''web'' ''abc'' labels0 = (Err e, w')"
    using nets con st
    by (simp add: Connect_def and_then_def or_else_def addNetworkConfig_def connectNetwork_def getContainerNetNSPath_def
        getNetworkIndex_def one_container_def bad_cni_def labels0_def map_str_def comma_dec_enc verifyNetworkConfig_def
        next_index_def networkIndexLabel_def net_web_def deleteNet_def ignore_err_def Let_def)
  with connect_all_or_nothing [OF store_example nets con st _ say] show ?thesis by auto
qed

end
