(* ===== verification/Network_Api.thy ===== *)
theory Network_Api
  imports Handlers Net_Connect
begin

text \<open>
  The HTTP handlers of the network endpoints (\<open>src/api/handlers/network\<close>). A handler gets
  its service as a parameter, as in the source; at the end the service is the one of
  \<open>Network\<close> and \<open>Net_Connect\<close>.
\<close>

record ('w, 'i, 'e) network_Service =
  svc_Create :: "NetworkCreateRequest \<Rightarrow> ('w, NetworkCreateResponse) io"
  svc_Connect :: "string \<Rightarrow> string \<Rightarrow> ('w, unit) io"
  svc_Inspect :: "string \<Rightarrow> ('w, ('i, 'e) NetworkInspectResponse) io"
  svc_Remove :: "string \<Rightarrow> ('w, unit) io"
  svc_List :: "('w, ('i, 'e) NetworkInspectResponse list) io"

definition remove_code :: "gerr \<Rightarrow> int" where
  "remove_code err = (if IsNotFound err then 404 else if IsForbiddenError err then 403 else 500)"

definition net_code :: "gerr \<Rightarrow> int" where
  "net_code err = (if IsNotFound err then 404 else 500)"

definition handler_remove :: "('w, 'i, 'e) network_Service \<Rightarrow> http_req \<Rightarrow> ('w, 'b) handler" where
  "handler_remove svc r =
     serve (svc_Remove svc (mux_var r ''id'')) (\<lambda>_. Status 204) (\<lambda>err. SendErrorResponse (remove_code err) err)"

definition handleCreateError :: "gerr \<Rightarrow> 'b respw \<Rightarrow> 'b respw" where
  "handleCreateError err = SendErrorResponse (if IsNotFound err then 404 else 500) err"

definition handler_create :: "('w, 'i, 'e) network_Service \<Rightarrow> NetworkCreateRequest res \<Rightarrow> ('w, NetworkCreateResponse) handler" where
  "handler_create svc body rw =
     (case body of
        Ok request \<Rightarrow>
          if req_Name request = [] then ret (SendErrorResponse 500 (ErrMsg ''missing required field'') rw)
          else serve (svc_Create svc request) (\<lambda>response. JSON 201 (CData response)) handleCreateError rw
      | Err err \<Rightarrow> ret (SendErrorResponse 400 err rw)
      | Panic p \<Rightarrow> panic p
      | Hang \<Rightarrow> (\<lambda>w. (Hang, w)))"

definition handler_connect :: "('w, 'i, 'e) network_Service \<Rightarrow> http_req \<Rightarrow> string res \<Rightarrow> ('w, 'b) handler" where
  "handler_connect svc r body rw =
     (case body of
        Ok container \<Rightarrow>
          serve (svc_Connect svc (mux_var r ''id'') container) (\<lambda>_. Status 200)
            (\<lambda>err. if IsNotFound err then JSON 404 (CErr (NewError err)) else JSON 500 (CErr (NewError err))) rw
      | Err err \<Rightarrow> ret (JSON 400 (CErr (NewError err)) rw)
      | Panic p \<Rightarrow> panic p
      | Hang \<Rightarrow> (\<lambda>w. (Hang, w)))"

definition handler_inspect :: "('w, 'i, 'e) network_Service \<Rightarrow> http_req \<Rightarrow> ('w, ('i, 'e) NetworkInspectResponse) handler" where
  "handler_inspect svc r rw =
     (let nid = mux_var r ''id''
      in if nid = [] then ret (JSON 500 (CErr (NewErrorFromMsg ''id cannot be empty'')) rw)
         else serve (svc_Inspect svc nid) (\<lambda>resp. JSON 200 (CData resp))
                (\<lambda>err. if IsNotFound err then JSON 404 (CErr (NewError err)) else JSON 500 (CErr (NewError err))) rw)"

definition handler_list :: "('w, 'i, 'e) network_Service \<Rightarrow> ('w, ('i, 'e) NetworkInspectResponse list) handler" where
  "handler_list svc =
     serve (svc_List svc) (\<lambda>resp. JSON 200 (CData resp)) (\<lambda>err. JSON 500 (CErr (NewError err)))"

interpretation remove_code: status_map remove_code
  by unfold_locales (auto simp: remove_code_def errdefs_defs split: option.splits)

interpretation net_code: status_map net_code
  by unfold_locales (auto simp: net_code_def errdefs_defs)

lemma forbidden_code: "IsForbiddenError e \<Longrightarrow> remove_code e = 403"
  by (auto simp: remove_code_def errdefs_defs split: option.splits)

lemma net_code_JSON:
  "(if IsNotFound err then JSON 404 (CErr (NewError err)) else JSON 500 (CErr (NewError err))) =
     SendErrorResponse (net_code err) err"
  by (simp add: net_code_def JSON_NewError)

text \<open>The service the daemon wires in.\<close>

definition daemon_network :: "'w net_env \<Rightarrow> ('w, 'c) containerd_client \<Rightarrow> ('w, 'p) conn_env \<Rightarrow>
    ('c \<Rightarrow> ('w, 'n \<times> ProcessStatus option) io) \<Rightarrow> (net_config \<Rightarrow> 'n list \<Rightarrow> ('i, 'e) docker_network res) \<Rightarrow>
    ('w nstate, 'i, 'e) network_Service" where
  "daemon_network env cl ce insp nfn =
     \<lparr>svc_Create = Create env, svc_Connect = (\<lambda>n c. outside (Connect env cl ce n c)),
      svc_Inspect = (\<lambda>n. outside (network_Inspect env cl insp nfn n)),
      svc_Remove = Remove env, svc_List = outside (network_List env)\<rparr>"

text \<open>
  C11: \<open>DELETE /networks/{id}\<close> answers 404 when no network matches, 500 when the id is
  ambiguous, and 403 when the one match is used by a container or is pre-defined; in none of these cases is
  anything removed (only the lookups have run).
\<close>

theorem delete_network_refusals:
  fixes rw :: "'b respw"
  assumes list: "NetworkList env w = (Ok all, w1)" and used: "UsedNetworks env w1 = (Ok used, w2)"
    and fresh: "w_sent rw = None" "w_broken rw = None"
    and matches: "matches = filter (idFilterFunc (mux_var r ''id'')) all"
    and refused: "length matches \<noteq> 1 \<or> map_of used (nc_Name (hd matches)) \<noteq> None \<or> nc_File (hd matches) = []"
  shows "\<exists>rw' w'. handler_remove (daemon_network env cl ce insp nfn) r rw (lt, w) = (Ok rw', (lt, w')) \<and>
    w' \<in> {w1, w2} \<and>
    status_of rw' = Some (if matches = [] then 404 else if length matches > 1 then 500 else 403)"
proof -
  let ?id = "mux_var r ''id''" and ?R = "Remove env (mux_var r ''id'')"
  have gn: "getNetwork env ?id w = (pick_network ?id matches, w1)"
    using list matches by (simp add: getNetwork_def FilterNetworks_def and_then_def)
  have "\<exists>e w'. ?R (lt, w) = (Err e, (lt, w')) \<and> w' \<in> {w1, w2} \<and>
      remove_code e = (if matches = [] then 404 else if length matches > 1 then 500 else 403)"
  proof (cases "length matches = 1")
    case True
    then have m: "matches = [hd matches]" by (cases matches) auto
    then have "pick_network ?id matches = Ok (hd matches)"
      using pick_network.one [of ?id "hd matches"] by simp
    moreover have "matches \<noteq> []" using m by auto
    moreover have "\<exists>e. ?R (lt, w) = (Err e, (lt, w2)) \<and> IsForbiddenError e"
      using True gn used refused calculation(1)
      by (cases "map_of used (nc_Name (hd matches))")
         (auto simp: Remove_def or_else_def outside_def errdefs_defs)
    ultimately show ?thesis
      using True forbidden_code by fastforce
  next
    case False
    obtain e where e: "pick_network ?id matches = Err e"
      "remove_code e = (if matches = [] then 404 else if length matches > 1 then 500 else 403)"
    proof (cases "matches = []")
      case True
      then obtain e where "pick_network ?id matches = Err e" "IsNotFound e"
        using pick_network.none [of ?id] by auto
      with True remove_code.missing that show ?thesis by simp
    next
      case nonempty: False
      then have "length matches > 1" using False by (cases matches) (auto simp: neq_Nil_conv)
      then obtain e where "pick_network ?id matches = Err e" "as_errWithType e = None"
        using pick_network.ambiguous by blast
      with nonempty \<open>length matches > 1\<close> remove_code.untyped that show ?thesis by simp
    qed
    have wrap: "remove_code (ErrWrap a e b) = remove_code e" for a b
      by (simp add: remove_code_def errdefs_defs)
    show ?thesis
      using gn e by (simp add: Remove_def or_else_def outside_def wrap)
  qed
  then obtain e w' where e: "?R (lt, w) = (Err e, (lt, w'))" "w' \<in> {w1, w2}"
    "remove_code e = (if matches = [] then 404 else if length matches > 1 then 500 else 403)" by blast
  from remove_code.failed_call [where m = ?R and w = "(lt, w)" and rw = rw and ok = "\<lambda>_. Status 204", OF e(1) fresh] e(2,3) show ?thesis
    unfolding handler_remove_def daemon_network_def by auto
qed

definition no_inspect :: "unit \<Rightarrow> (string gomap, unit \<times> ProcessStatus option) io" where
  "no_inspect c = fail (ErrMsg ''not inspected'')"

definition no_form :: "net_config \<Rightarrow> unit list \<Rightarrow> (unit, unit) docker_network res" where
  "no_form n cs = Err (ErrMsg ''not inspected'')"

theorem delete_network_refusals_witness:
  "\<exists>rw' w'. handler_remove (daemon_network two_nets one_container bad_cni no_inspect no_form)
       \<lparr>vars = [(''id'', ''nope'')], query = [], req_header = []\<rparr> (new_respw True :: unit respw) (new_lock_table, labels0)
       = (Ok rw', (new_lock_table, w')) \<and> w' \<in> {labels0, labels0} \<and> status_of rw' = Some 404"
  using delete_network_refusals [of two_nets labels0 "[net_web]" labels0 "[]" labels0 "new_respw True :: unit respw" "[]"
      "\<lparr>vars = [(''id'', ''nope'')], query = [], req_header = []\<rparr>" one_container bad_cni no_inspect no_form new_lock_table]
  by (simp add: two_nets_def new_respw_def idFilterFunc_def mux_var_def map_str_def net_web_def HasPrefix_def)

end
