(* ===== verification/Effects.thy ===== *)
theory Effects
  imports Iptables
begin

text \<open>
  What a computation may do to the world: \<open>moves R m\<close> says that every run of \<open>m\<close> leads from a world to one related by \<open>R\<close>.
  For a preorder \<open>R\<close> this is closed under the composition of computations, whatever they return.
\<close>

definition moves :: "('w \<Rightarrow> 'w \<Rightarrow> bool) \<Rightarrow> ('w, 'a) io \<Rightarrow> bool" where
  "moves R m \<longleftrightarrow> (\<forall>w. R w (snd (m w)))"

lemma movesI: "(\<And>w. R w (snd (m w))) \<Longrightarrow> moves R m"
  by (simp add: moves_def)

lemma movesD: "moves R m \<Longrightarrow> m w = (r, w') \<Longrightarrow> R w w'"
  unfolding moves_def by (metis snd_conv)

text \<open>\<open>if cleanup != nil { defer cleanup() }\<close> around the rest of a function.\<close>

definition defer_cleanup :: "('w, unit) io option \<Rightarrow> ('w, 'a) io \<Rightarrow> ('w, 'a) io" where
  "defer_cleanup cleanup body =
     (case cleanup of
        None \<Rightarrow> body
      | Some c \<Rightarrow> (\<lambda>w. case body w of (Hang, w1) \<Rightarrow> (Hang, w1) | (r, w1) \<Rightarrow> (r, snd (c w1))))"

text \<open>A call that returns, with a value or an error.\<close>

definition comes_back :: "('w, 'a) io \<Rightarrow> bool" where
  "comes_back m \<longleftrightarrow> (\<forall>w. (\<exists>x. fst (m w) = Ok x) \<or> (\<exists>e. fst (m w) = Err e))"

locale io_effect =
  fixes R :: "'w \<Rightarrow> 'w \<Rightarrow> bool"
  assumes refl: "R w w"
    and trans: "R u v \<Longrightarrow> R v w \<Longrightarrow> R u w"
begin

lemma moves_io: "moves R (ret x)" "moves R (fail e)" "moves R (panic t)" "moves R (lift_res r)"
  by (simp_all add: moves_def ret_def fail_def panic_def refl)

lemma moves_and_then:
  assumes "moves R m" "\<And>x. moves R (k x)"
  shows "moves R (and_then m k)"
proof (rule movesI)
  fix w
  obtain r v where m: "m w = (r, v)" by fastforce
  have "R w v" using movesD [OF assms(1) m] .
  moreover have "R v (snd (k x v))" for x using assms(2) by (simp add: moves_def)
  ultimately show "R w (snd (and_then m k w))"
    using m trans by (cases r) (auto simp: and_then_def)
qed

lemma moves_or_else:
  assumes "moves R m" "\<And>e. moves R (h e)" "\<And>x. moves R (k x)"
  shows "moves R (or_else m h k)"
proof (rule movesI)
  fix w
  obtain r v where m: "m w = (r, v)" by fastforce
  have "R w v" using movesD [OF assms(1) m] .
  moreover have "R v (snd (k x v))" "R v (snd (h e v))" for x e using assms(2,3) by (simp_all add: moves_def)
  ultimately show "R w (snd (or_else m h k w))"
    using m trans by (cases r) (auto simp: or_else_def)
qed

lemma moves_ignore_err: "moves R m \<Longrightarrow> moves R (ignore_err m)"
  unfolding ignore_err_def by (intro moves_or_else moves_io)

lemma moves_defer:
  assumes "\<And>c. cleanup = Some c \<Longrightarrow> moves R c" "moves R body"
  shows "moves R (defer_cleanup cleanup body)"
proof (cases cleanup)
  case (Some c)
  show ?thesis
  proof (rule movesI)
    fix w
    obtain r v where body: "body w = (r, v)" by fastforce
    have "R w v" using movesD [OF assms(2) body] .
    moreover have "R v (snd (c v))" using assms(1) [OF Some] by (simp add: moves_def)
    ultimately show "R w (snd (defer_cleanup cleanup body w))"
      using Some body trans by (cases r) (auto simp: defer_cleanup_def)
  qed
qed (use assms(2) in \<open>simp add: defer_cleanup_def\<close>)

lemmas moves_rules = moves_io moves_and_then moves_or_else moves_ignore_err

end

end
