(* ===== verification/Net_Registry.thy ===== *)
theory Net_Registry
  imports Effects Network "HOL-Library.Multiset"
begin

text \<open>
  The network service against an abstract registry of networks: a multiset of names with their ids. What the service does besides (locks,
  configuration files, packet filters) does not touch the registry, which is shown for any preorder on worlds that the calls of files and iptables respect.
\<close>

section \<open>What the drivers leave alone\<close>

definition ipt_moves :: "('w \<Rightarrow> 'w \<Rightarrow> bool) \<Rightarrow> 'w ipt \<Rightarrow> bool" where
  "ipt_moves R i \<longleftrightarrow> (\<forall>t c. moves R (ChainExists i t c)) \<and> (\<forall>t c. moves R (NewChain i t c)) \<and>
     (\<forall>t c n r. moves R (InsertUnique i t c n r)) \<and> (\<forall>t c r. moves R (AppendUnique i t c r)) \<and>
     (\<forall>t c r. moves R (DeleteIfExists i t c r)) \<and> (\<forall>t c. moves R (DeleteChain i t c))"

definition files_move :: "('w \<Rightarrow> 'w \<Rightarrow> bool) \<Rightarrow> 'w net_env \<Rightarrow> bool" where
  "files_move R env \<longleftrightarrow> moves R (NetworkList env) \<and> moves R (UsedNetworks env) \<and> (\<forall>d. moves R (open_dir env d)) \<and> (\<forall>d b. moves R (unix_Flock env d b)) \<and>
     (\<forall>p. moves R (os_Stat env p)) \<and> (\<forall>p. moves R (read_json env p)) \<and> (\<forall>p j m. moves R (write_json env p j m)) \<and>
     (\<forall>p. moves R (NewWithProtocol env p)) \<and> (\<forall>p w i w'. NewWithProtocol env p w = (Ok i, w') \<longrightarrow> ipt_moves R i) \<and>
     (\<forall>c. set (range_protos env c) \<subseteq> set c)"

lemma files_moveD:
  assumes "files_move R env"
  shows "moves R (NetworkList env)" "moves R (UsedNetworks env)" "moves R (open_dir env d)" "moves R (unix_Flock env d b)" "moves R (os_Stat env p)"
    "moves R (read_json env p)" "moves R (write_json env p j m)" "moves R (NewWithProtocol env pr)"
  using assms by (simp_all add: files_move_def)

context io_effect
begin

lemma moves_option:
  assumes "moves R n" "\<And>x. moves R (m x)"
  shows "moves R (case v of None \<Rightarrow> n | Some x \<Rightarrow> m x)"
  using assms by (simp split: option.splits)

lemma moves_if_then: "moves R m \<Longrightarrow> moves R n \<Longrightarrow> moves R (if b then m else n)"
  by simp

lemma moves_value: "moves R (Pair r)"
  by (simp add: moves_def refl)

lemmas moves_steps = moves_rules moves_if_then moves_option

lemma flock_loop_moves:
  assumes "flock_loop sys v = Some rw" "moves R sys"
  shows "R v (snd rw)"
proof -
  have "moves R sys \<longrightarrow> R v (snd rw)"
  proof (rule flock_loop.raw_induct [where P = "\<lambda>sys v rw. moves R sys \<longrightarrow> R v (snd rw)", OF _ assms(1)], rule impI)
    fix loop sys v rw
    assume IH: "\<And>sys v rw. loop sys v = Some rw \<Longrightarrow> moves R sys \<longrightarrow> R v (snd rw)"
      and body: "(case sys v of (Err e, w1) \<Rightarrow> if XEINTR \<in> set (own_kinds e) then loop sys w1 else Some (Err e, w1)
        | (r, w1) \<Rightarrow> Some (r, w1)) = Some rw"
      and sys: "moves R sys"
    obtain r u where step: "sys v = (r, u)" by fastforce
    have "R v u" using movesD [OF sys step] .
    moreover have "loop sys u = Some rw \<Longrightarrow> R u (snd rw)" using IH sys by blast
    ultimately show "R v (snd rw)"
      using body [unfolded step] trans by (cases r) (auto split: if_splits)
  qed
  with assms(2) show ?thesis by blast
qed

lemma flock_moves:
  assumes "files_move R env"
  shows "moves R (flock env d b)"
  using flock_loop_moves [OF _ files_moveD(4) [OF assms]]
  by (auto intro!: movesI simp: flock_def refl split: option.split)

lemma dir_lock_moves:
  assumes "files_move R env" "moves R fn"
  shows "moves R (withDirLock env d fn)"
proof -
  have "moves R (unlock_after env d fn)"
  proof (rule movesI)
    fix w
    obtain r v where fn: "fn w = (r, v)" by fastforce
    obtain q u where un: "flock env d False v = (q, u)" by fastforce
    have "R w v" "R v u" using movesD [OF assms(2) fn] movesD [OF flock_moves [OF assms(1)] un] by simp_all
    then show "R w (snd (unlock_after env d fn w))"
      using fn un by (cases r; cases q) (auto simp: unlock_after_def intro: trans)
  qed
  then show ?thesis unfolding withDirLock_def by (intro moves_steps flock_moves files_moveD assms)
qed

lemma bridge_name_moves:
  assumes "files_move R env"
  shows "moves R (setBridgeName env net name)" "moves R (getBridgeName env net)"
proof -
  note calls = files_moveD [OF assms]
  have path: "moves R (getConfigPathForNetworkName env n)" for n
    unfolding getConfigPathForNetworkName_def Let_def by (intro moves_steps calls)
  have parse: "moves R (parseBridgeConfig env f)" for f
    unfolding parseBridgeConfig_def by (intro moves_steps calls)
  have used: "moves R (getNetworkByBridgeName env n)" for n
    unfolding getNetworkByBridgeName_def FilterNetworks_def by (intro moves_steps calls)
  show "moves R (setBridgeName env net name)"
    unfolding setBridgeName_def
    by (intro dir_lock_moves assms moves_steps path used) (auto intro!: moves_steps parse calls split: prod.splits)
  show "moves R (getBridgeName env net)"
    unfolding getBridgeName_def
    by (intro dir_lock_moves assms moves_steps path) (auto intro!: moves_steps parse calls split: prod.splits option.splits json.splits)
qed

lemma moves_and_then_given:
  assumes "moves R m" "\<And>x w w'. m w = (Ok x, w') \<Longrightarrow> moves R (k x)"
  shows "moves R (and_then m k)"
proof (rule movesI)
  fix w
  obtain r v where m: "m w = (r, v)" by fastforce
  have "R w v" using movesD [OF assms(1) m] .
  moreover have "R v (snd (k x v))" if "r = Ok x" for x
    using assms(2) m that by (simp add: moves_def)
  ultimately show "R w (snd (and_then m k w))"
    using m trans by (cases r) (auto simp: and_then_def)
qed

lemma add_rule_moves:
  assumes "\<And>i. ipt = Some i \<Longrightarrow> ipt_moves R i"
  shows "moves R (addRule ipt rule)" "moves R (delRule ipt rule)"
proof (atomize (full), cases ipt)
  case None
  then show "moves R (addRule ipt rule) \<and> moves R (delRule ipt rule)"
    by (auto simp: addRule_def delRule_def setupChains_def ensureChain_def cleanupChain_def intro!: moves_steps)
next
  case (Some i)
  from assms [OF Some] have i: "moves R (ChainExists i t c)" "moves R (NewChain i t c)" "moves R (InsertUnique i t c n r)"
    "moves R (AppendUnique i t c r)" "moves R (DeleteIfExists i t c r)" "moves R (DeleteChain i t c)" for t c n r
    by (simp_all add: ipt_moves_def)
  show "moves R (addRule ipt rule) \<and> moves R (delRule ipt rule)"
    unfolding Some addRule_def delRule_def setupChains_def ensureChain_def cleanupChain_def cleanupRules_def option.case
    by (intro conjI moves_steps i)
qed

definition protos_move :: "'w iptablesCommand \<Rightarrow> bool" where
  "protos_move ipc \<longleftrightarrow> (\<forall>p i. (p, Some i) \<in> set ipc \<longrightarrow> ipt_moves R i)"

lemma rules_move:
  assumes "protos_move ipc"
  shows "moves R (AddRule ipc rule)" "moves R (DelRule ipc rule)"
proof -
  have "moves R (AddRule ipc rule) \<and> moves R (DelRule ipc rule)"
    using assms
  proof (induction ipc)
    case Nil
    show ?case by (simp add: moves_value)
  next
    case (Cons e ipc)
    obtain p ipt where e: "e = (p, ipt)" by fastforce
    have "ipt_moves R i" if "ipt = Some i" for i using Cons.prems that e by (auto simp: protos_move_def)
    note here = add_rule_moves [OF this]
    have "protos_move ipc" using Cons.prems by (auto simp: protos_move_def)
    then show ?case by (simp add: e moves_and_then here Cons.IH)
  qed
  then show "moves R (AddRule ipc rule)" "moves R (DelRule ipc rule)" by simp_all
qed

lemma new_protos_move:
  assumes "files_move R env"
  shows "moves R (new_protos (NewWithProtocol env) ps acc)"
    "new_protos (NewWithProtocol env) ps acc w = (Ok ipc, w') \<Longrightarrow> protos_move acc \<Longrightarrow> protos_move ipc"
proof (atomize (full), induction ps arbitrary: acc w)
  case Nil
  show ?case by (auto simp: moves_value)
next
  case (Cons p ps)
  have "moves R (new_protos (NewWithProtocol env) (p # ps) acc)"
    unfolding new_protos.simps by (intro moves_steps files_moveD assms) (use Cons.IH in blast)
  moreover have "protos_move ipc" if run: "new_protos (NewWithProtocol env) (p # ps) acc w = (Ok ipc, w')" and acc: "protos_move acc"
  proof -
    from or_else_OkD [OF run [unfolded new_protos.simps]] obtain i v where i: "NewWithProtocol env p w = (Ok i, v)"
      and rest: "new_protos (NewWithProtocol env) ps (acc @ [(p, Some i)]) v = (Ok ipc, w')" by auto
    have "ipt_moves R i" using assms i unfolding files_move_def by blast
    then have "protos_move (acc @ [(p, Some i)])" using acc by (auto simp: protos_move_def)
    with Cons.IH rest show ?thesis by blast
  qed
  ultimately show ?case by blast
qed

lemma icc_rule_moves:
  assumes files: "files_move R env"
  shows "moves R (addICCDropRule env bd b)" "moves R (removeICCDropRule env bd b)"
proof -
  have new: "moves R (newIptablesCommand (NewWithProtocol env) v6)" for v6
    unfolding newIptablesCommand_def by (rule new_protos_move [OF files])
  have given: "protos_move (range_protos env ipc)" if "newIptablesCommand (NewWithProtocol env) v6 w = (Ok ipc, w')" for v6 w ipc w'
  proof -
    have "protos_move []" by (simp add: protos_move_def)
    then have "protos_move ipc" by (rule new_protos_move(2) [OF files that [unfolded newIptablesCommand_def]])
    moreover have "set (range_protos env ipc) \<subseteq> set ipc" using files by (simp add: files_move_def)
    ultimately show ?thesis unfolding protos_move_def by blast
  qed
  show "moves R (addICCDropRule env bd b)"
    unfolding addICCDropRule_def by (rule moves_and_then_given [OF new]) (intro moves_steps rules_move given)
  show "moves R (removeICCDropRule env bd b)"
    unfolding removeICCDropRule_def by (rule moves_and_then_given [OF new]) (intro moves_steps rules_move given)
qed

lemma driver_moves:
  assumes files: "files_move R env"
  shows "moves R (HandlePostCreate env bd net)" "moves R (handleNetworkLabels env net)"
proof -
  show "moves R (HandlePostCreate env bd net)"
    unfolding HandlePostCreate_def by (intro moves_steps bridge_name_moves icc_rule_moves files)
  have icc: "moves R (handleICCLabel env net v b)" for v b
    unfolding handleICCLabel_def HandleRemove_def by (intro moves_steps bridge_name_moves icc_rule_moves files)
  have labs: "moves R (handle_labels env net ls)" for ls
    by (induction ls) (auto intro!: moves_steps icc moves_value)
  show "moves R (handleNetworkLabels env net)"
    unfolding handleNetworkLabels_def by (intro moves_steps labs)
qed

end

section \<open>The registry\<close>

text \<open>What an abstract registry holds of a network, and the networks a name or id stands for.\<close>

type_synonym net_entry = "string \<times> string option"

definition net_view :: "net_config \<Rightarrow> net_entry" where
  "net_view n = (nc_Name n, NerdctlID n)"

definition stands_for :: "string \<Rightarrow> net_entry \<Rightarrow> bool" where
  "stands_for x e \<longleftrightarrow> fst e = x \<or> (\<exists>i. snd e = Some i \<and> (HasPrefix i (''sha256:'' @ x) \<or> HasPrefix i x))"

datatype registry_op = RCreate string | RRemove string

text \<open>One request on the registry, with the id it answers.\<close>

inductive registry_step :: "net_entry multiset \<Rightarrow> registry_op \<Rightarrow> string \<Rightarrow> net_entry multiset \<Rightarrow> bool" where
  existing: "filter_mset (stands_for x) N = {#(n, i)#} \<Longrightarrow> registry_step N (RCreate x) (case i of None \<Rightarrow> [] | Some s \<Rightarrow> s) N"
| fresh: "size (filter_mset (stands_for x) N) \<noteq> 1 \<Longrightarrow> registry_step N (RCreate x) s (add_mset (x, Some s) N)"
| removed: "filter_mset (stands_for x) N = {#e#} \<Longrightarrow> registry_step N (RRemove x) [] (N - {#e#})"

inductive_cases registry_createE: "registry_step N (RCreate x) s N'"

text \<open>What is relied on outside: nerdctl lists its networks, adds one under the name it is given and removes the one it is given, an error changes nothing,
  and neither files nor packet filters have a part in its registry.\<close>

definition keeps_registry :: "('w \<Rightarrow> net_entry multiset) \<Rightarrow> 'w net_env \<Rightarrow> bool" where
  "keeps_registry reg env \<longleftrightarrow>
     (\<forall>w. \<exists>ns w'. NetworkList env w = (Ok ns, w') \<and> mset (map net_view ns) = reg w) \<and>
     (\<forall>opt w. case nc_CreateNetwork env opt w of
        (Ok v, w') \<Rightarrow> \<exists>n. v = Some n \<and> nc_Name n = o_Name opt \<and> reg w' = add_mset (net_view n) (reg w)
      | (_, w') \<Rightarrow> reg w' = reg w) \<and>
     (\<forall>n w. case nc_RemoveNetwork env n w of
        (Ok _, w') \<Rightarrow> reg w' = reg w - {#net_view n#}
      | (_, w') \<Rightarrow> reg w' = reg w) \<and>
     files_move (\<lambda>w w'. reg w' = reg w) env"

interpretation same_registry: io_effect "\<lambda>w w'. reg w' = reg w" for reg :: "'w \<Rightarrow> net_entry multiset"
  by unfold_locales simp_all

lemma keeps_registryD:
  assumes "keeps_registry reg env"
  shows "\<exists>ns w'. NetworkList env w = (Ok ns, w') \<and> mset (map net_view ns) = reg w \<and> reg w' = reg w"
    and "nc_CreateNetwork env opt w = (Ok v, w') \<Longrightarrow> \<exists>n. v = Some n \<and> nc_Name n = o_Name opt \<and> reg w' = add_mset (net_view n) (reg w)"
    and "nc_CreateNetwork env opt w = (Err err, w') \<Longrightarrow> reg w' = reg w"
    and "nc_RemoveNetwork env n w = (Ok u, w') \<Longrightarrow> reg w' = reg w - {#net_view n#}"
    and "nc_RemoveNetwork env n w = (Err err, w') \<Longrightarrow> reg w' = reg w"
    and "files_move (\<lambda>w w'. reg w' = reg w) env"
proof -
  note k = assms [unfolded keeps_registry_def]
  obtain ns w1 where ls: "NetworkList env w = (Ok ns, w1)" "mset (map net_view ns) = reg w" using k by blast
  moreover have "moves (\<lambda>w w'. reg w' = reg w) (NetworkList env)" using k files_moveD(1) by blast
  ultimately show "\<exists>ns w'. NetworkList env w = (Ok ns, w') \<and> mset (map net_view ns) = reg w \<and> reg w' = reg w"
    using movesD by fastforce
  show "nc_CreateNetwork env opt w = (Ok v, w') \<Longrightarrow> \<exists>n. v = Some n \<and> nc_Name n = o_Name opt \<and> reg w' = add_mset (net_view n) (reg w)"
    "nc_CreateNetwork env opt w = (Err err, w') \<Longrightarrow> reg w' = reg w"
    using k [THEN conjunct2, THEN conjunct1, THEN spec [of _ opt], THEN spec [of _ w]] by simp_all
  show "nc_RemoveNetwork env n w = (Ok u, w') \<Longrightarrow> reg w' = reg w - {#net_view n#}"
    "nc_RemoveNetwork env n w = (Err err, w') \<Longrightarrow> reg w' = reg w"
    using k [THEN conjunct2, THEN conjunct2, THEN conjunct1, THEN spec [of _ n], THEN spec [of _ w]] by simp_all
qed (use assms keeps_registry_def in blast)

lemma idFilterFunc_view: "idFilterFunc x n = stands_for x (net_view n)"
  by (auto simp: idFilterFunc_def stands_for_def net_view_def split: option.splits)

lemma view_filter: "mset (map net_view (filter (idFilterFunc x) ns)) = filter_mset (stands_for x) (mset (map net_view ns))"
  by (induction ns) (simp_all add: idFilterFunc_view)

text \<open>The lookup finds a network exactly when one entry answers to the name.\<close>

lemma getNetwork_registry:
  assumes "keeps_registry reg env"
  shows "\<exists>w'. reg w' = reg w \<and>
    ((\<exists>n. getNetwork env x w = (Ok n, w') \<and> filter_mset (stands_for x) (reg w) = {#net_view n#}) \<or>
     (\<exists>e. getNetwork env x w = (Err e, w') \<and> size (filter_mset (stands_for x) (reg w)) \<noteq> 1))"
proof -
  obtain ns w' where ls: "NetworkList env w = (Ok ns, w')" "mset (map net_view ns) = reg w" "reg w' = reg w"
    using keeps_registryD(1) [OF assms] by blast
  let ?m = "filter (idFilterFunc x) ns"
  have found: "filter_mset (stands_for x) (reg w) = mset (map net_view ?m)" using view_filter [of x ns] ls(2) by simp
  have run: "getNetwork env x w = (pick_network x ?m, w')"
    by (simp add: getNetwork_def FilterNetworks_def and_then_def ls(1))
  show ?thesis
  proof (cases "length ?m = 1")
    case True
    then obtain n where n: "?m = [n]" by (metis One_nat_def length_0_conv length_Suc_conv)
    show ?thesis using run found ls(3) unfolding n by (auto simp: pick_network_def)
  next
    case False
    then have "length ?m = 0 \<or> 1 < length ?m" by linarith
    then have "\<exists>e. pick_network x ?m = Err e" unfolding pick_network_def by auto
    moreover have "size (filter_mset (stands_for x) (reg w)) \<noteq> 1" using False by (simp only: found size_mset length_map not_False_eq_True)
    ultimately show ?thesis using run ls(3) by auto
  qed
qed

lemma Remove_registry:
  assumes k: "keeps_registry reg env" and run: "Remove env x (lt, w) = (r, (lt', w'))"
  shows "(\<exists>u. r = Ok u) \<longrightarrow> registry_step (reg w) (RRemove x) [] (reg w')"
    and "(\<exists>e. r = Err e) \<longrightarrow> reg w' = reg w"
proof -
  note files = keeps_registryD(6) [OF k]
  from getNetwork_registry [OF k, of w x] obtain w1 where w1: "reg w1 = reg w" and
    look: "(\<exists>n. getNetwork env x w = (Ok n, w1) \<and> filter_mset (stands_for x) (reg w) = {#net_view n#}) \<or>
      (\<exists>e. getNetwork env x w = (Err e, w1))" by blast
  have "((\<exists>u. r = Ok u) \<longrightarrow> registry_step (reg w) (RRemove x) [] (reg w')) \<and> ((\<exists>e. r = Err e) \<longrightarrow> reg w' = reg w)"
  proof (cases "\<exists>e. getNetwork env x w = (Err e, w1)")
    case True
    with run w1 show ?thesis by (auto simp: Remove_def or_else_def outside_def)
  next
    case False
    then obtain n where n: "getNetwork env x w = (Ok n, w1)" and one: "filter_mset (stands_for x) (reg w) = {#net_view n#}"
      using look by blast
    obtain r2 w2 where u: "UsedNetworks env w1 = (r2, w2)" by fastforce
    obtain r3 w3 where lab: "handleNetworkLabels env n w2 = (r3, w3)" by fastforce
    obtain r4 w4 where del: "nc_RemoveNetwork env n w3 = (r4, w4)" by fastforce
    have w2: "reg w2 = reg w" using movesD [OF files_moveD(2) [OF files] u] w1 by simp
    have w3: "reg w3 = reg w" using movesD [OF same_registry.driver_moves(2) [OF files] lab] w2 by simp
    have ok: "r4 = Ok v \<Longrightarrow> reg w4 = reg w - {#net_view n#}" and err: "r4 = Err e \<Longrightarrow> reg w4 = reg w" for v e
      using keeps_registryD(4,5) [OF k] del w3 by metis+
    from run n u lab del have "(\<exists>u. r = Ok u) \<longrightarrow> w' = w4 \<and> (\<exists>v. r4 = Ok v)"
      "(\<exists>e. r = Err e) \<longrightarrow> w' = w2 \<or> w' = w3 \<or> w' = w4 \<and> (\<exists>e. r4 = Err e)"
      by (auto simp: Remove_def or_else_def outside_def with_net_lock_def mutex_Lock_def split: option.splits if_splits res.splits prod.splits)
    with ok err w2 w3 registry_step.removed [OF one] show ?thesis by metis
  qed
  then show "(\<exists>u. r = Ok u) \<longrightarrow> registry_step (reg w) (RRemove x) [] (reg w')" "(\<exists>e. r = Err e) \<longrightarrow> reg w' = reg w" by simp_all
qed

lemma created_name: "createOptionsFrom request = (bd, options) \<Longrightarrow> o_Name options = req_Name request"
  by (auto simp: createOptionsFrom_def HandleCreateOptions_def Let_def split: if_splits prod.splits)

inductive_cases registry_removeE: "registry_step N (RRemove x) s N'"

lemma remove_after_add:
  assumes "registry_step (add_mset (x, i) N) (RRemove x) s N'"
  shows "N' = N"
  using assms by (auto elim!: registry_removeE simp: stands_for_def add_mset_eq_single)

text \<open>The clean-up after a failed step removes the new network or nothing.\<close>

lemma cleanup_registry:
  assumes k: "keeps_registry reg env" and run: "cleanup_after env x err (lt, w) = (r, (lt', w'))" and "reg w = add_mset (x, i) N"
  shows "(\<forall>v. r \<noteq> Ok v) \<and> ((\<exists>e. r = Err e) \<longrightarrow> reg w' = N \<or> reg w' = add_mset (x, i) N)"
proof -
  obtain r1 lt1 w1 where rm: "Remove env x (lt, w) = (r1, (lt1, w1))" by (metis prod.exhaust)
  have "(\<exists>u. r1 = Ok u) \<longrightarrow> reg w1 = N" "(\<exists>e. r1 = Err e) \<longrightarrow> reg w1 = add_mset (x, i) N"
    using Remove_registry [OF k rm] assms(3) remove_after_add by metis+
  then show ?thesis using run rm by (cases r1) (auto simp: cleanup_after_def or_else_def)
qed

lemma create_locked_registry:
  assumes k: "keeps_registry reg env" and run: "create_locked env request bd options (lt, w) = (r, (lt', w'))"
    and name: "o_Name options = req_Name request"
  shows "(\<forall>resp. r = Ok resp \<longrightarrow> reg w' = add_mset (req_Name request, Some (resp_ID resp)) (reg w)) \<and>
    ((\<exists>e. r = Err e) \<longrightarrow> reg w' = reg w \<or> (\<exists>i. reg w' = add_mset (req_Name request, i) (reg w)))"
proof -
  obtain r1 w1 where c: "nc_CreateNetwork env options w = (r1, w1)" by fastforce
  show ?thesis
  proof (cases r1)
    case (Ok v)
    with c keeps_registryD(2) [OF k] name obtain n where n: "v = Some n" "nc_Name n = req_Name request"
      and w1: "reg w1 = add_mset (req_Name request, NerdctlID n) (reg w)" by (metis net_view_def)
    show ?thesis
    proof (cases "NerdctlID n")
      case None
      with run c Ok n w1 show ?thesis by (auto simp: create_locked_def or_else_def outside_def)
    next
      case (Some nid)
      let ?post = "case bd of None \<Rightarrow> ret [] | Some bd \<Rightarrow> outside (HandlePostCreate env bd n)"
      obtain r2 lt2 w2 where post: "?post (lt, w1) = (r2, (lt2, w2))" by (metis prod.exhaust)
      have w2: "reg w2 = reg w1"
        using post movesD [OF same_registry.driver_moves(1) [OF keeps_registryD(6) [OF k]]]
        by (auto simp: outside_def split: option.splits prod.splits)
      show ?thesis
        using run c Ok n Some w1 w2 post cleanup_registry [OF k, of "req_Name request" _ lt2 w2 r lt' w' "Some nid" "reg w"]
        by (cases r2) (auto simp: create_locked_def or_else_def outside_def)
    qed
  next
    case (Err e)
    with run c keeps_registryD(3) [OF k] show ?thesis
      by (auto simp: create_locked_def or_else_def outside_def split: if_splits)
  qed (use run c in \<open>auto simp: create_locked_def or_else_def outside_def\<close>)
qed

lemma with_net_lock_runs:
  assumes "with_net_lock n body (lt, w) = (r, (lt', w'))" "r \<noteq> Hang"
  obtains lt1 lt2 where "body (lt1, w) = (r, (lt2, w'))"
  using assms by (auto simp: with_net_lock_def split: prod.splits option.splits res.splits)

lemma Create_registry:
  assumes k: "keeps_registry reg env" and run: "Create env request (lt, w) = (r, (lt', w'))"
  shows "r = Ok resp \<Longrightarrow> registry_step (reg w) (RCreate (req_Name request)) (resp_ID resp) (reg w')"
    and "r = Err e \<Longrightarrow> reg w' = reg w \<or> (\<exists>i. reg w' = add_mset (req_Name request, i) (reg w))"
proof -
  let ?x = "req_Name request"
  obtain bd options where o: "createOptionsFrom request = (bd, options)" by fastforce
  from getNetwork_registry [OF k, of w ?x] obtain w1 where w1: "reg w1 = reg w" and
    look: "(\<exists>n. getNetwork env ?x w = (Ok n, w1) \<and> filter_mset (stands_for ?x) (reg w) = {#net_view n#}) \<or>
      (\<exists>e. getNetwork env ?x w = (Err e, w1) \<and> size (filter_mset (stands_for ?x) (reg w)) \<noteq> 1)" by blast
  have "(\<forall>resp. r = Ok resp \<longrightarrow> registry_step (reg w) (RCreate ?x) (resp_ID resp) (reg w')) \<and>
    (\<forall>e. r = Err e \<longrightarrow> reg w' = reg w \<or> (\<exists>i. reg w' = add_mset (?x, i) (reg w)))"
    using look
  proof (elim disjE exE conjE)
    fix n
    assume n: "getNetwork env ?x w = (Ok n, w1)" and one: "filter_mset (stands_for ?x) (reg w) = {#net_view n#}"
    then have "r = Ok (already_exists ?x n)" "w' = w1" using run by (simp_all add: Create_def or_else_def outside_def)
    moreover have "resp_ID (already_exists ?x n) = (case NerdctlID n of None \<Rightarrow> [] | Some s \<Rightarrow> s)"
      by (simp add: already_exists_def split: option.splits)
    ultimately show ?thesis using registry_step.existing [OF one [unfolded net_view_def]] w1 by simp
  next
    fix e
    assume none: "getNetwork env ?x w = (Err e, w1)" and count: "size (filter_mset (stands_for ?x) (reg w)) \<noteq> 1"
    have body: "with_net_lock ?x (create_locked env request bd options) (lt, w1) = (r, (lt', w'))"
      using run none o by (simp add: Create_def or_else_def outside_def)
    show ?thesis
    proof (cases "r = Hang")
      case False
      from with_net_lock_runs [OF body False] create_locked_registry [OF k _ created_name [OF o]]
      have "(\<forall>resp. r = Ok resp \<longrightarrow> reg w' = add_mset (?x, Some (resp_ID resp)) (reg w1)) \<and>
        ((\<exists>e. r = Err e) \<longrightarrow> reg w' = reg w1 \<or> (\<exists>i. reg w' = add_mset (?x, i) (reg w1)))" by metis
      with w1 registry_step.fresh [OF count] show ?thesis by metis
    qed simp
  qed
  then show "r = Ok resp \<Longrightarrow> registry_step (reg w) (RCreate ?x) (resp_ID resp) (reg w')"
    "r = Err e \<Longrightarrow> reg w' = reg w \<or> (\<exists>i. reg w' = add_mset (?x, i) (reg w))" by blast+
qed

section \<open>The refinement\<close>


text \<open>A name that begins another network's id is taken for that network: nothing is created, and the answer is the other network's id.\<close>

theorem create_name_taken_for_id:
  assumes "keeps_registry reg env" and "reg w = {#(n, Some i)#}" and "HasPrefix i (req_Name request)"
  shows "\<exists>resp w'. Create env request (lt, w) = (Ok resp, (lt, w')) \<and> resp_ID resp = i \<and> reg w' = reg w"
proof -
  have one: "filter_mset (stands_for (req_Name request)) (reg w) = {#(n, Some i)#}"
    using assms(2,3) by (simp add: stands_for_def)
  from getNetwork_registry [OF assms(1), of w "req_Name request"] one obtain c w' where "reg w' = reg w"
    "getNetwork env (req_Name request) w = (Ok c, w')" "NerdctlID c = Some i" by (auto simp: net_view_def)
  then show ?thesis by (auto simp: Create_def or_else_def outside_def already_exists_def)
qed

text \<open>A registry kept as a list, with no configuration directory and no packet filter.\<close>

definition listed :: "net_entry \<Rightarrow> net_config" where
  "listed e = net_web\<lparr>nc_Name := fst e, NerdctlID := snd e\<rparr>"

definition list_env :: "net_entry list net_env" where
  "list_env = \<lparr>NetworkList = (\<lambda>w. (Ok (map listed w), w)),
     nc_CreateNetwork = (\<lambda>opt w. (Ok (Some (listed (o_Name opt, Some ''3d1f''))), (o_Name opt, Some ''3d1f'') # w)),
     nc_RemoveNetwork = (\<lambda>n w. (Ok (), remove1 (net_view n) w)),
     UsedNetworks = ret [], NetconfPath = ''/etc/cni'', Namespace = ''finch'', DefaultNetworkName = ''bridge'',
     NewWithProtocol = (\<lambda>_. fail (ErrMsg ''no iptables'')), range_protos = (\<lambda>ps. ps),
     open_dir = (\<lambda>_. fail (ErrExt [XNotExist] ''no such directory'')), unix_Flock = (\<lambda>_ _. ret ()),
     os_Stat = (\<lambda>_. fail (ErrExt [XNotExist] ''no such file'')),
     read_json = (\<lambda>_. fail (ErrExt [XNotExist] ''no such file'')), write_json = (\<lambda>_ _ _. ret ())\<rparr>"

lemma listed_view [simp]: "net_view (listed e) = e"
  by (simp add: net_view_def listed_def)

lemma list_env_keeps: "keeps_registry mset list_env"
proof -
  have "image_mset net_view (image_mset listed N) = N" for N by (simp add: image_mset.compositionality comp_def)
  then show ?thesis
    unfolding keeps_registry_def files_move_def list_env_def
    by (simp add: moves_def ret_def fail_def net_view_def listed_def)
qed

definition req_backend :: NetworkCreateRequest where
  "req_backend = NewCreateNetworkRequest ''backend'' []"


end
