(* ===== verification/Net_Ends.thy ===== *)
theory Net_Ends
  imports Network
begin

text \<open>
  Requests of the network service come to an end: under system calls that do, removal always returns, and creation unless the steps after the creation
  of the network fail.
\<close>

section \<open>Computations that end\<close>

definition ends :: "('w, 'a) io \<Rightarrow> bool" where
  "ends m \<longleftrightarrow> (\<forall>w. fst (m w) \<noteq> Hang)"

lemma ends_io: "ends (ret x)" "ends (fail e)" "ends (panic p)" "ends (Pair r) \<longleftrightarrow> r \<noteq> Hang"
  by (simp_all add: ends_def ret_def fail_def panic_def)

lemma ends_lift: "r \<noteq> Hang \<Longrightarrow> ends (lift_res r)"
  by (cases r) (simp_all add: ends_def ret_def fail_def panic_def)

lemma ends_and_then: "ends m \<Longrightarrow> (\<And>x. ends (k x)) \<Longrightarrow> ends (and_then m k)"
  by (auto simp: ends_def and_then_def split: prod.split res.split) (metis fst_conv)

lemma ends_or_else: "ends m \<Longrightarrow> (\<And>e. ends (h e)) \<Longrightarrow> (\<And>x. ends (k x)) \<Longrightarrow> ends (or_else m h k)"
  by (auto simp: ends_def or_else_def split: prod.split res.split) (metis fst_conv)

lemma ends_if: "ends m \<Longrightarrow> ends n \<Longrightarrow> ends (if b then m else n)"
  by simp

lemma ends_option: "ends n \<Longrightarrow> (\<And>x. ends (m x)) \<Longrightarrow> ends (case v of None \<Rightarrow> n | Some x \<Rightarrow> m x)"
  by (simp split: option.split)

lemma ends_ignore_err: "ends m \<Longrightarrow> ends (ignore_err m)"
  unfolding ignore_err_def by (intro ends_or_else ends_io)

lemma ends_and_then_given:
  assumes "ends m" "\<And>x w w'. m w = (Ok x, w') \<Longrightarrow> ends (k x)"
  shows "ends (and_then m k)"
  unfolding ends_def
proof
  fix w
  obtain r v where m: "m w = (r, v)" by (rule prod.exhaust)
  have "r \<noteq> Hang" using assms(1) m by (metis ends_def fst_conv)
  then show "fst (and_then m k w) \<noteq> Hang"
    using m assms(2) [of w _ v] by (cases r) (auto simp: and_then_def ends_def)
qed

lemmas ends_rules = ends_io(1-3) ends_and_then ends_or_else ends_if ends_option ends_ignore_err

section \<open>Locks of directories and packet filters\<close>

definition ipt_ends :: "'w ipt \<Rightarrow> bool" where
  "ipt_ends i \<longleftrightarrow> (\<forall>t c. ends (ChainExists i t c)) \<and> (\<forall>t c. ends (NewChain i t c)) \<and>
     (\<forall>t c n r. ends (InsertUnique i t c n r)) \<and> (\<forall>t c r. ends (AppendUnique i t c r)) \<and>
     (\<forall>t c r. ends (DeleteIfExists i t c r)) \<and> (\<forall>t c. ends (DeleteChain i t c))"

text \<open>Every call of the environment ends, and no lock call is interrupted for ever.\<close>

definition not_forever :: "('w, unit) io \<Rightarrow> bool" where
  "not_forever sys \<longleftrightarrow> (\<forall>w. \<exists>n. \<not> interrupted sys (sys_worlds sys n w))"

definition calls_end :: "'w net_env \<Rightarrow> bool" where
  "calls_end env \<longleftrightarrow> ends (NetworkList env) \<and> ends (UsedNetworks env) \<and> (\<forall>opt. ends (nc_CreateNetwork env opt)) \<and> (\<forall>n. ends (nc_RemoveNetwork env n)) \<and>
     (\<forall>d. ends (open_dir env d)) \<and> (\<forall>d b. ends (unix_Flock env d b)) \<and>
     (\<forall>d b. not_forever (unix_Flock env d b)) \<and>
     (\<forall>p. ends (os_Stat env p)) \<and> (\<forall>p. ends (read_json env p)) \<and> (\<forall>p j m. ends (write_json env p j m)) \<and>
     (\<forall>p. ends (NewWithProtocol env p)) \<and> (\<forall>p w i w'. NewWithProtocol env p w = (Ok i, w') \<longrightarrow> ipt_ends i) \<and>
     (\<forall>c. set (range_protos env c) \<subseteq> set c)"

lemma calls_endD:
  assumes "calls_end env"
  shows "ends (NetworkList env)" "ends (UsedNetworks env)" "ends (nc_CreateNetwork env opt)" "ends (nc_RemoveNetwork env n)" "ends (open_dir env d)"
    "ends (unix_Flock env d b)" "ends (os_Stat env p)" "ends (read_json env p)" "ends (write_json env p j m)" "ends (NewWithProtocol env pr)"
    "not_forever (unix_Flock env d b)"
  using assms by (simp_all add: calls_end_def)

lemma flock_ends:
  assumes "calls_end env"
  shows "ends (flock env d b)"
  unfolding ends_def
proof
  fix w
  let ?sys = "unix_Flock env d b"
  define n where "n = (LEAST n. \<not> interrupted ?sys (sys_worlds ?sys n w))"
  have "\<exists>n. \<not> interrupted ?sys (sys_worlds ?sys n w)" using calls_endD(11) [OF assms] by (simp add: not_forever_def)
  then have now: "\<not> interrupted ?sys (sys_worlds ?sys n w)" unfolding n_def by (rule LeastI_ex)
  have "\<forall>k<n. interrupted ?sys (sys_worlds ?sys k w)" unfolding n_def using not_less_Least by blast
  from flock_returns [OF this now] show "fst (flock env d b w) \<noteq> Hang" using calls_endD(6) [OF assms] by (simp add: ends_def)
qed

lemma dir_lock_ends:
  assumes "calls_end env" "ends fn"
  shows "ends (withDirLock env d fn)"
proof -
  have "ends (unlock_after env d fn)"
    unfolding ends_def
  proof
    fix w
    obtain r v where fn: "fn w = (r, v)" by (rule prod.exhaust)
    obtain q u where un: "flock env d False v = (q, u)" by (rule prod.exhaust)
    have "r \<noteq> Hang" "q \<noteq> Hang" using assms(2) fn flock_ends [OF assms(1)] un by (metis ends_def fst_conv)+
    then show "fst (unlock_after env d fn w) \<noteq> Hang" using fn un by (cases r; cases q) (simp_all add: unlock_after_def)
  qed
  then show ?thesis unfolding withDirLock_def by (intro ends_rules flock_ends calls_endD assms)
qed

lemma bridge_name_ends:
  assumes "calls_end env"
  shows "ends (setBridgeName env net name)" "ends (getBridgeName env net)"
proof -
  note calls = calls_endD [OF assms]
  have path: "ends (getConfigPathForNetworkName env n)" for n
    unfolding getConfigPathForNetworkName_def Let_def by (intro ends_rules calls)
  have "bridge_of_config f j \<noteq> Hang" for f j by (simp add: bridge_of_config_def split: json.split option.split)
  then have parse: "ends (parseBridgeConfig env f)" for f
    unfolding parseBridgeConfig_def by (intro ends_rules ends_lift calls)
  have used: "ends (getNetworkByBridgeName env n)" for n
    unfolding getNetworkByBridgeName_def FilterNetworks_def by (intro ends_rules calls)
  have data: "set_bridge_json name a b \<noteq> Hang" for a b by (simp add: set_bridge_json_def split: json.split option.split)
  have store: "ends (case x of (netMap, bridgePlugin) \<Rightarrow> and_then (lift_res (set_bridge_json name netMap bridgePlugin))
      (\<lambda>data. and_then (os_Stat env f) (\<lambda>perm. write_json env f data perm)))" for x f
    by (cases x) (simp add: ends_and_then ends_lift data calls)
  show "ends (setBridgeName env net name)"
    unfolding setBridgeName_def by (intro dir_lock_ends assms ends_rules path used parse store)
  have bridge: "ends (case x of (u, bridgePlugin) \<Rightarrow> case map_of bridgePlugin ''bridge'' of Some (JStr bridge) \<Rightarrow> ret bridge
      | _ \<Rightarrow> fail (ErrMsg m))" for x :: "json gomap \<times> json gomap" and m
    by (cases x) (simp add: ends_io split: option.split json.split)
  show "ends (getBridgeName env net)"
    unfolding getBridgeName_def by (intro dir_lock_ends assms ends_rules path parse bridge)
qed

definition protos_end :: "'w iptablesCommand \<Rightarrow> bool" where
  "protos_end ipc \<longleftrightarrow> (\<forall>p i. (p, Some i) \<in> set ipc \<longrightarrow> ipt_ends i)"

lemma add_rule_ends:
  assumes "\<And>i. ipt = Some i \<Longrightarrow> ipt_ends i"
  shows "ends (addRule ipt rule)" "ends (delRule ipt rule)"
proof (atomize (full), cases ipt)
  case None
  then show "ends (addRule ipt rule) \<and> ends (delRule ipt rule)"
    by (auto simp: addRule_def delRule_def setupChains_def ensureChain_def cleanupChain_def intro!: ends_rules)
next
  case (Some i)
  from assms [OF Some] have i: "ends (ChainExists i t c)" "ends (NewChain i t c)" "ends (InsertUnique i t c n r)"
    "ends (AppendUnique i t c r)" "ends (DeleteIfExists i t c r)" "ends (DeleteChain i t c)" for t c n r
    by (simp_all add: ipt_ends_def)
  show "ends (addRule ipt rule) \<and> ends (delRule ipt rule)"
    unfolding Some addRule_def delRule_def setupChains_def ensureChain_def cleanupChain_def cleanupRules_def option.case
    by (intro conjI ends_rules i)
qed

lemma rules_end:
  assumes "protos_end ipc"
  shows "ends (AddRule ipc rule) \<and> ends (DelRule ipc rule)"
  using assms
proof (induction ipc)
  case Nil
  show ?case by (simp add: ends_io)
next
  case (Cons e ipc)
  obtain p ipt where e: "e = (p, ipt)" by fastforce
  have "ipt_ends i" if "ipt = Some i" for i using Cons.prems that e by (auto simp: protos_end_def)
  note here = add_rule_ends [OF this]
  have "protos_end ipc" using Cons.prems by (auto simp: protos_end_def)
  then show ?case by (simp add: e ends_and_then here Cons.IH)
qed

lemma new_protos_end:
  assumes "calls_end env"
  shows "ends (new_protos (NewWithProtocol env) ps acc)"
    "new_protos (NewWithProtocol env) ps acc w = (Ok ipc, w') \<Longrightarrow> protos_end acc \<Longrightarrow> protos_end ipc"
proof (atomize (full), induction ps arbitrary: acc w)
  case Nil
  show ?case by (auto simp: ends_io)
next
  case (Cons p ps)
  have "ends (new_protos (NewWithProtocol env) (p # ps) acc)"
    unfolding new_protos.simps by (intro ends_rules calls_endD assms) (use Cons.IH in blast)
  moreover have "protos_end ipc" if run: "new_protos (NewWithProtocol env) (p # ps) acc w = (Ok ipc, w')" and acc: "protos_end acc"
  proof -
    from or_else_OkD [OF run [unfolded new_protos.simps]] obtain i v where i: "NewWithProtocol env p w = (Ok i, v)"
      and rest: "new_protos (NewWithProtocol env) ps (acc @ [(p, Some i)]) v = (Ok ipc, w')" by auto
    have "ipt_ends i" using assms i unfolding calls_end_def by blast
    then have "protos_end (acc @ [(p, Some i)])" using acc by (auto simp: protos_end_def)
    with Cons.IH rest show ?thesis by blast
  qed
  ultimately show ?case by blast
qed

lemma icc_rule_ends:
  assumes calls: "calls_end env"
  shows "ends (addICCDropRule env bd b)" "ends (removeICCDropRule env bd b)"
proof -
  have new: "ends (newIptablesCommand (NewWithProtocol env) v6)" for v6
    unfolding newIptablesCommand_def by (rule new_protos_end [OF calls])
  have given: "protos_end (range_protos env ipc)" if "newIptablesCommand (NewWithProtocol env) v6 w = (Ok ipc, w')" for v6 w ipc w'
  proof -
    have "protos_end []" by (simp add: protos_end_def)
    then have "protos_end ipc" by (rule new_protos_end(2) [OF calls that [unfolded newIptablesCommand_def]])
    moreover have "set (range_protos env ipc) \<subseteq> set ipc" using calls unfolding calls_end_def by blast
    ultimately show ?thesis unfolding protos_end_def by blast
  qed
  show "ends (addICCDropRule env bd b)" "ends (removeICCDropRule env bd b)"
    unfolding addICCDropRule_def removeICCDropRule_def
    by (rule ends_and_then_given [OF new], intro ends_rules rules_end [THEN conjunct1] rules_end [THEN conjunct2] given, assumption)+
qed

lemma driver_ends:
  assumes calls: "calls_end env"
  shows "ends (HandlePostCreate env bd net)" "ends (handleNetworkLabels env net)"
proof -
  show "ends (HandlePostCreate env bd net)"
    unfolding HandlePostCreate_def by (intro ends_rules bridge_name_ends icc_rule_ends calls)
  have icc: "ends (handleICCLabel env net v b)" for v b
    unfolding handleICCLabel_def HandleRemove_def by (intro ends_rules bridge_name_ends icc_rule_ends calls)
  have labs: "ends (handle_labels env net ls)" for ls
    by (induction ls) (auto intro!: ends_rules icc simp: ends_io)
  show "ends (handleNetworkLabels env net)"
    unfolding handleNetworkLabels_def by (intro ends_rules labs)
qed

section \<open>Requests that end\<close>

lemma getNetwork_ends: "calls_end env \<Longrightarrow> ends (getNetwork env x)"
proof -
  assume calls: "calls_end env"
  have "pick_network x ns \<noteq> Hang" for ns by (simp add: pick_network_def)
  with calls show ?thesis unfolding getNetwork_def FilterNetworks_def by (intro ends_rules ends_lift calls_endD)
qed

lemma ends_outside: "ends m \<Longrightarrow> ends (outside m)"
  by (auto simp: ends_def outside_def split: prod.split) (metis fst_conv)

lemma outside_or_else_ends:
  assumes "ends m" "\<And>e v. fst (h e (lt, v)) \<noteq> Hang" "\<And>x v. m w = (Ok x, v) \<Longrightarrow> fst (k x (lt, v)) \<noteq> Hang"
  shows "fst (or_else (outside m) h k (lt, w)) \<noteq> Hang"
proof -
  obtain r v where m: "m w = (r, v)" by (rule prod.exhaust)
  moreover have "r \<noteq> Hang" using assms(1) m by (metis ends_def fst_conv)
  ultimately show ?thesis using assms(2,3) by (cases r) (simp_all add: or_else_def outside_def)
qed

text \<open>A free lock is taken, and the request ends if the locked part does.\<close>

lemma with_net_lock_ends:
  assumes "held lt = {}" "\<And>lt'. fst (body (lt', w)) \<noteq> Hang"
  shows "fst (with_net_lock n body (lt, w)) \<noteq> Hang"
proof -
  obtain m lt1 where e: "ensureLock n lt = (m, lt1)" by fastforce
  have "held lt1 = {}" using ensureLock_held [of n lt] e assms(1) by simp
  then have lock: "mutex_Lock m lt1 = Some (lt1\<lparr>held := insert m (held lt1)\<rparr>)" by (simp add: mutex_Lock_def)
  obtain r s1 where r: "body (lt1\<lparr>held := insert m (held lt1)\<rparr>, w) = (r, s1)" by (rule prod.exhaust)
  with assms(2) have "r \<noteq> Hang" by (metis fst_conv)
  with e lock r show ?thesis by (cases r) (simp_all add: with_net_lock_def)
qed

lemma Remove_ends:
  assumes calls: "calls_end env" and free: "held lt = {}"
  shows "fst (Remove env x (lt, w)) \<noteq> Hang"
proof -
  have body: "ends (or_else (outside (handleNetworkLabels env net)) (\<lambda>err. fail (ErrWrap ''failed to handle nerdctl label: '' err []))
      (\<lambda>_. or_else (outside (nc_RemoveNetwork env net)) (\<lambda>err. fail (ErrWrap ''failed to remove network: '' err [])) (\<lambda>_. ret ())))" for net
    by (intro ends_rules ends_outside driver_ends calls_endD calls)
  note locked = with_net_lock_ends [OF free body [unfolded ends_def, rule_format]]
  have errs: "fst (fail e s) \<noteq> Hang" for e and s :: "'a nstate" by (simp add: fail_def)
  show ?thesis
    unfolding Remove_def
    apply (intro outside_or_else_ends getNetwork_ends calls_endD calls errs)
    subgoal for net v used v'
      by (cases "map_of used (nc_Name net)"; cases "nc_File net = []"; simp only: option.case if_True if_False errs locked simp_thms)
    done
qed

lemma create_locked_ends:
  assumes calls: "calls_end env"
    and post: "\<And>d n v. bd = Some d \<Longrightarrow> nc_CreateNetwork env options w = (Ok (Some n), v) \<Longrightarrow> \<nexists>e. fst (HandlePostCreate env d n v) = Err e"
  shows "fst (create_locked env request bd options (lt, w)) \<noteq> Hang"
  unfolding create_locked_def
proof (intro outside_or_else_ends calls_endD calls)
  fix x v
  assume created: "nc_CreateNetwork env options w = (Ok x, v)"
  show "fst ((case x of None \<Rightarrow> fail (ErrMsg ''network ID not found'')
      | Some n \<Rightarrow> (case NerdctlID n of None \<Rightarrow> fail (ErrMsg ''network ID not found'')
         | Some nid \<Rightarrow> or_else (case bd of None \<Rightarrow> ret [] | Some bd \<Rightarrow> outside (HandlePostCreate env bd n))
              (\<lambda>err. cleanup_after env (req_Name request) err) (\<lambda>warning. ret \<lparr>resp_ID = nid, Warning = warning\<rparr>))) (lt, v)) \<noteq> Hang"
  proof (cases "x = None \<or> NerdctlID (the x) = None \<or> bd = None")
    case True
    then show ?thesis by (auto simp: fail_def or_else_def ret_def split: option.split)
  next
    case False
    then obtain n nid d where n: "x = Some n" "NerdctlID n = Some nid" "bd = Some d" by auto
    obtain r u where run: "HandlePostCreate env d n v = (r, u)" by (rule prod.exhaust)
    have "r \<noteq> Hang" "\<nexists>e. r = Err e" using driver_ends(1) [OF calls] post [OF n(3)] created n(1) run by (metis ends_def fst_conv)+
    then show ?thesis using n run by (cases r) (simp_all add: or_else_def outside_def ret_def)
  qed
qed (simp add: fail_def)

text \<open>
  C26: A request of the network service comes to an end if the calls it makes do and no lock of a configuration directory is
  interrupted for ever: a removal always, a creation unless the driver's steps fail for the network that was just created, which is the case in which the clean-up waits
  for the request's own lock.
\<close>

theorem network_requests_end:
  assumes "calls_end env" and "held lt = {}"
  shows "fst (Remove env x (lt, w)) \<noteq> Hang \<and>
    (fst (Create env request (lt, w)) = Hang \<longrightarrow>
       (\<exists>bd options n w2 e. createOptionsFrom request = (Some bd, options) \<and>
          nc_CreateNetwork env options (snd (getNetwork env (req_Name request) w)) = (Ok (Some n), w2) \<and> fst (HandlePostCreate env bd n w2) = Err e))"
proof (intro conjI impI Remove_ends assms)
  assume hang: "fst (Create env request (lt, w)) = Hang"
  obtain bd options where o: "createOptionsFrom request = (bd, options)" by fastforce
  obtain r w1 where g: "getNetwork env (req_Name request) w = (r, w1)" by (rule prod.exhaust)
  have "r \<noteq> Hang" using getNetwork_ends [OF assms(1)] g by (metis ends_def fst_conv)
  with hang g have "fst (with_net_lock (req_Name request) (create_locked env request bd options) (lt, w1)) = Hang"
    by (cases r) (auto simp: Create_def or_else_def outside_def o ret_def)
  then have "\<not> (\<forall>lt'. fst (create_locked env request bd options (lt', w1)) \<noteq> Hang)"
    using with_net_lock_ends [OF assms(2), of "create_locked env request bd options" w1 "req_Name request"] by auto
  then have "\<exists>d n v e. bd = Some d \<and> nc_CreateNetwork env options w1 = (Ok (Some n), v) \<and> fst (HandlePostCreate env d n v) = Err e"
    using create_locked_ends [OF assms(1), of bd options w1] by blast
  with o g show "\<exists>bd options n w2 e. createOptionsFrom request = (Some bd, options) \<and>
      nc_CreateNetwork env options (snd (getNetwork env (req_Name request) w)) = (Ok (Some n), w2) \<and> fst (HandlePostCreate env bd n w2) = Err e"
    by auto
qed

lemma web_env_ends: "calls_end web_env"
proof -
  have "not_forever (unix_Flock web_env d b)" for d b
    unfolding not_forever_def by (intro allI exI [of _ 0]) (simp add: web_env_def interrupted_def ret_def)
  then show ?thesis
    unfolding calls_end_def by (simp add: ends_io web_env_def) (simp add: ends_def fail_def)
qed

theorem network_requests_end_witness: "fst (Remove web_env ''web'' (new_lock_table, True)) \<noteq> Hang"
  using network_requests_end [OF web_env_ends, of new_lock_table "''web''" True] by (simp add: new_lock_table_def)

end
