(* ===== verification/Credentials.thy ===== *)
theory Credentials
  imports Handlers
begin

text \<open>
  Registry credentials of builds: the shared cache (\<open>src/pkg/credential/credential.go\<close>), the
  handler and the peer check of the credential socket (\<open>src/api/credential/credential.go\<close>,
  \<open>src/api/credential-router/router.go\<close>), the credential helper that buildkit runs
  (\<open>src/cmd/finch-credential-helper/main.go\<close>), the decoding of the authentication headers
  (\<open>src/api/auth/auth.go\<close>) and the resolver of credentials for a registry
  (\<open>src/pkg/utility/authutility/utility.go\<close>).

  Parsing of registry URLs belongs to docker's credential helper library and is a parameter;
  \<open>net/url\<close> is modelled on URLs whose path needs no escaping.
\<close>

section \<open>Data\<close>

record AuthConfig =
  Username :: string
  Password :: string
  Auth :: string
  ServerAddress :: string
  IdentityToken :: string
  RegistryToken :: string

definition empty_auth :: AuthConfig where
  "empty_auth = \<lparr>Username = [], Password = [], Auth = [], ServerAddress = [], IdentityToken = [], RegistryToken = []\<rparr>"

record url =
  Scheme :: string
  Host :: string
  Path :: string

definition url_String :: "url \<Rightarrow> string" where
  "url_String u =
     (if Scheme u \<noteq> [] then Scheme u @ '':'' else []) @
     (if (Scheme u \<noteq> [] \<or> Host u \<noteq> []) \<and> (Host u \<noteq> [] \<or> Path u \<noteq> []) then ''//'' else []) @ Host u @
     (if Path u \<noteq> [] \<and> \<not> HasPrefix (Path u) ''/'' \<and> Host u \<noteq> [] then ''/'' else []) @ Path u"

text \<open>\<open>url.Port\<close>: what follows the last colon, when it is all digits.\<close>

definition Port :: "url \<Rightarrow> string" where
  "Port u =
     (if CHR '':'' \<in> set (Host u)
      then (let p = rev (takeWhile (\<lambda>c. c \<noteq> CHR '':'') (rev (Host u)))
            in if list_all is_digit p then p else [])
      else [])"

type_synonym credentialEntry = "AuthConfig gomap"

record CredentialCache = Entries :: "credentialEntry gomap"

definition NewCredentialCache :: CredentialCache where
  "NewCredentialCache = \<lparr>Entries = []\<rparr>"

section \<open>The credential service\<close>

definition exactMatch :: "url \<Rightarrow> url \<Rightarrow> bool" where
  "exactMatch serverURL target \<longleftrightarrow> url_String serverURL = url_String target"

definition approximateMatch :: "url \<Rightarrow> url \<Rightarrow> bool" where
  "approximateMatch serverURL target =
     (let s1 = serverURL\<lparr>Scheme := Scheme target\<rparr>;
          s2 = (if Port s1 = [] \<and> Port target \<noteq> [] then s1\<lparr>Host := Host s1 @ '':'' @ Port target\<rparr> else s1);
          s3 = (if Path s2 = [] then s2\<lparr>Path := Path target\<rparr> else s2)
      in exactMatch s3 target)"

fun findMatch :: "(string \<Rightarrow> url option) \<Rightarrow> url \<Rightarrow> string list \<Rightarrow> (url \<Rightarrow> url \<Rightarrow> bool) \<Rightarrow> string option" where
  "findMatch parse serverUrl [] matches = None"
| "findMatch parse serverUrl (target # ts) matches =
     (case parse target of
        None \<Rightarrow> findMatch parse serverUrl ts matches
      | Some tURL \<Rightarrow> if matches serverUrl tURL then Some target else findMatch parse serverUrl ts matches)"

text \<open>The parser's error is \<open>None\<close>; the order of the targets is that of the range over the map.\<close>

definition getTarget :: "(string \<Rightarrow> url option) \<Rightarrow> string \<Rightarrow> credentialEntry \<Rightarrow> string" where
  "getTarget parse serverURL creds =
     (case parse serverURL of
        None \<Rightarrow> serverURL
      | Some server \<Rightarrow>
          (case findMatch parse server (map fst creds) exactMatch of
             Some target \<Rightarrow> target
           | None \<Rightarrow>
               (case findMatch parse server (map fst creds) approximateMatch of
                  Some target \<Rightarrow> target
                | None \<Rightarrow> [])))"

definition StoreAuthConfigs :: "string \<Rightarrow> AuthConfig gomap \<Rightarrow> CredentialCache \<Rightarrow> CredentialCache" where
  "StoreAuthConfigs buildID authConfigs cache =
     cache\<lparr>Entries := map_put buildID authConfigs (Entries cache)\<rparr>"

definition GetCredentials :: "(string \<Rightarrow> url option) \<Rightarrow> string \<Rightarrow> string \<Rightarrow> CredentialCache \<Rightarrow> AuthConfig res" where
  "GetCredentials parse buildID serverAddr cache =
     (case map_of (Entries cache) buildID of
        None \<Rightarrow> Err (ErrMsg ''no credentials found'')
      | Some credentials \<Rightarrow>
          (let target = getTarget parse serverAddr credentials
           in if target = [] \<and> map_of credentials serverAddr = None
              then Err (ErrMsg ''no credentials found for server'')
              else let target1 = (if target = [] then serverAddr else target)
                   in case map_of credentials target1 of
                        None \<Rightarrow> Err (ErrMsg (''no credentials found for matched target '' @ target1))
                      | Some authConfig \<Rightarrow> Ok authConfig))"

definition RemoveCredentials :: "string \<Rightarrow> CredentialCache \<Rightarrow> unit res \<times> CredentialCache" where
  "RemoveCredentials buildID cache =
     (if map_of (Entries cache) buildID = None then (Err (ErrMsg ''no credentials found''), cache)
      else (Ok (), cache\<lparr>Entries := map_del buildID (Entries cache)\<rparr>))"

text \<open>\<open>GenerateBuildID\<close>: 32 random bytes in hexadecimal.\<close>

definition hex_digit :: "nat \<Rightarrow> char" where
  "hex_digit d = (if d < 10 then char_of (48 + d) else char_of (87 + d))"

definition hex_encode :: "nat list \<Rightarrow> string" where
  "hex_encode bs = concat (map (\<lambda>b. [hex_digit (b div 16), hex_digit (b mod 16)]) bs)"

definition GenerateBuildID :: "('w, nat list) io \<Rightarrow> ('w, string) io" where
  "GenerateBuildID rand_Read = and_then rand_Read (\<lambda>bs. ret (hex_encode bs))"

section \<open>The credential socket\<close>

record proc_env =
  os_Getuid :: int
  os_Getgid :: int
  os_Getpid :: int
  parent_of :: "int \<Rightarrow> int option"
  proc_exists :: "int \<Rightarrow> bool"

text \<open>A connection is a Unix socket with the credentials of its peer (uid, gid, pid; an error of
  the system call is \<open>None\<close>), or something else.\<close>

datatype conn = UnixConn "(int \<times> int \<times> int) option" | OtherConn

definition validatePeerCreds :: "proc_env \<Rightarrow> conn \<Rightarrow> unit res" where
  "validatePeerCreds pe c =
     (case c of
        OtherConn \<Rightarrow> Err (ErrMsg ''connection is not a Unix socket connection'')
      | UnixConn None \<Rightarrow> Err (ErrMsg ''failed to get peer credentials'')
      | UnixConn (Some (uid, gid, pid)) \<Rightarrow>
          if uid \<noteq> os_Getuid pe then Err (ErrMsg ''unauthorized access'')
          else if gid \<noteq> os_Getgid pe then Err (ErrMsg ''unauthorized access'')
          else if \<not> proc_exists pe pid then Err (ErrMsg ''internal error'')
          else (case parent_of pe pid of
                  None \<Rightarrow> Err (ErrMsg ''internal error'')
                | Some pp \<Rightarrow>
                    (case parent_of pe pp of
                       None \<Rightarrow> Err (ErrMsg ''internal error'')
                     | Some ppp \<Rightarrow> if ppp \<noteq> os_Getpid pe then Err (ErrMsg ''unauthorized access'') else Ok ())))"

definition BuildRequestAuthMiddleware :: "proc_env \<Rightarrow> ('a respw \<Rightarrow> 'a respw) \<Rightarrow> conn \<Rightarrow> 'a respw \<Rightarrow> 'a respw" where
  "BuildRequestAuthMiddleware pe next c w =
     (case validatePeerCreds pe c of
        Ok _ \<Rightarrow> next w
      | _ \<Rightarrow> SendErrorResponse 401 (ErrMsg ''unauthorized access'') w)"

text \<open>The body of the request: build id and server address, or a decoding error.\<close>

definition getCredentials :: "(string \<Rightarrow> url option) \<Rightarrow> CredentialCache \<Rightarrow> (string \<times> string) option \<Rightarrow>
    AuthConfig respw \<Rightarrow> AuthConfig respw" where
  "getCredentials parse cache req w =
     (case req of
        None \<Rightarrow> SendErrorResponse 400 (ErrMsg ''failed to decode request'') w
      | Some (buildID, serverAddr) \<Rightarrow>
          if buildID = [] then SendErrorResponse 400 (ErrMsg ''request rejected: missing build ID'') w
          else if serverAddr = [] then SendErrorResponse 400 (ErrMsg ''request rejected: missing server address'') w
          else (case GetCredentials parse buildID serverAddr cache of
                  Ok authConfig \<Rightarrow>
                    (case put_chunk (CData authConfig) (header_set ''Content-Type'' ''application/json'' w) of
                       (None, w1) \<Rightarrow> w1
                     | (Some e, w1) \<Rightarrow> SendErrorResponse 500 (ErrMsg ''failed to encode response'') w1)
                | _ \<Rightarrow> SendErrorResponse 404 (ErrMsg ''failed to get credentials'') w))"

text \<open>The handler of the credential socket: the route behind the peer check.\<close>

definition CreateCredentialHandler :: "(string \<Rightarrow> url option) \<Rightarrow> proc_env \<Rightarrow> CredentialCache \<Rightarrow> conn \<Rightarrow>
    (string \<times> string) option \<Rightarrow> AuthConfig respw \<Rightarrow> AuthConfig respw" where
  "CreateCredentialHandler parse pe cache c req = BuildRequestAuthMiddleware pe (getCredentials parse cache req) c"

section \<open>The credential helper\<close>

text \<open>\<open>Get\<close>: the environment variable, the request over the socket (\<open>send\<close>: the response, or
  a transport error), and the user name and password of the answer; \<open>not_found\<close> is the
  helper library's error for missing credentials.\<close>

definition helper_Get :: "gerr \<Rightarrow> string \<Rightarrow> ((string \<times> string) option \<Rightarrow> AuthConfig respw res) \<Rightarrow> string \<Rightarrow> (string \<times> string) res" where
  "helper_Get not_found FINCH_BUILD_ID send serverURL =
     (if FINCH_BUILD_ID = [] then Err not_found
      else case send (Some (FINCH_BUILD_ID, serverURL)) of
             Ok resp \<Rightarrow>
               if status_of resp \<noteq> Some 200 then Err not_found
               else (case w_body resp of
                       [CData a] \<Rightarrow> Ok (Username a, Password a)
                     | _ \<Rightarrow> Err not_found)
           | Err e \<Rightarrow> Err (ErrMsg (''error sending request: '' @ Error e))
           | Panic p \<Rightarrow> Panic p
           | Hang \<Rightarrow> Hang)"

definition helper_Add :: "unit res" where "helper_Add = Err (ErrMsg ''not implemented'')"
definition helper_Delete :: "string \<Rightarrow> unit res" where "helper_Delete serverURL = Err (ErrMsg ''not implemented'')"
definition helper_List :: "(string gomap) res" where "helper_List = Err (ErrMsg ''not implemented'')"

section \<open>Headers and registry resolvers\<close>

definition AuthHeader :: string where "AuthHeader = ''X-Registry-Auth''"
definition RegistryConfigHeader :: string where "RegistryConfigHeader = ''X-Registry-Config''"

text \<open>Base64 and JSON decoding are parameters; the result of \<open>DecodeAuthConfig\<close> is always a
  configuration, beside the error.\<close>

definition decodeAuthConfigFromReader :: "AuthConfig res \<Rightarrow> AuthConfig \<times> gerr option" where
  "decodeAuthConfigFromReader decoded =
     (case decoded of
        Ok a \<Rightarrow> (a, None)
      | Err e \<Rightarrow> (empty_auth, Some (ErrWrap ''invalid X-Registry-Auth header: '' e []))
      | _ \<Rightarrow> (empty_auth, Some (ErrMsg ''invalid X-Registry-Auth header: '')))"

definition DecodeAuthConfig :: "(string \<Rightarrow> AuthConfig res) \<Rightarrow> string \<Rightarrow> AuthConfig \<times> gerr option" where
  "DecodeAuthConfig dec authEncoded =
     (if authEncoded = [] then (empty_auth, None) else decodeAuthConfigFromReader (dec authEncoded))"

definition DecodeRegistryConfig :: "(string \<Rightarrow> string res) \<Rightarrow> (string \<Rightarrow> AuthConfig gomap res) \<Rightarrow> string \<Rightarrow> AuthConfig gomap res" where
  "DecodeRegistryConfig b64 unmarshal registryConfig =
     (if registryConfig = [] then Ok []
      else case b64 registryConfig of
             Ok decoded \<Rightarrow>
               (case unmarshal decoded of
                  Err e \<Rightarrow> Err (ErrWrap ''failed to unmarshal registry config: '' e [])
                | r \<Rightarrow> r)
           | Err e \<Rightarrow> Err (ErrWrap ''failed to decode registry config: '' e [])
           | Panic p \<Rightarrow> Panic p
           | Hang \<Rightarrow> Hang)"

definition IndexServer :: string where "IndexServer = ''https://index.docker.io/v1/''"

definition convertToHostname :: "string \<Rightarrow> string" where
  "convertToHostname u =
     (let stripped = (if HasPrefix u ''http://'' then TrimPrefix u ''http://''
                      else if HasPrefix u ''https://'' then TrimPrefix u ''https://'' else u)
      in fst (Cut stripped (CHR ''/'')))"

text \<open>The result: no resolver, or the function from a domain to user name and secret.\<close>

definition GetAuthCreds :: "(string \<Rightarrow> string res) \<Rightarrow> string \<Rightarrow> AuthConfig \<Rightarrow> (string \<Rightarrow> (string \<times> string) res) option res" where
  "GetAuthCreds DefaultDockerHost refDomain ac =
     (if Username ac = [] \<and> Password ac = [] \<and> IdentityToken ac = [] \<and> RegistryToken ac = [] then Ok None
      else case DefaultDockerHost refDomain of
             Ok expectedDomain \<Rightarrow>
               (let sa = ServerAddress ac;
                    mismatch = ErrMsg (''specified server address '' @ sa @ '' does not match the image reference domain '' @ refDomain);
                    creds = (\<lambda>domain.
                       if domain \<noteq> expectedDomain
                       then Err (ErrMsg (''expected domain '' @ expectedDomain @ '', but got '' @ domain))
                       else if IdentityToken ac \<noteq> [] then Ok ([], IdentityToken ac)
                       else Ok (Username ac, Password ac))
                in if sa \<noteq> [] then
                     let saHostname = convertToHostname sa
                     in if expectedDomain = ''registry-1.docker.io'' then
                          (if saHostname \<noteq> refDomain \<and> sa \<noteq> IndexServer then Err mismatch else Ok (Some creds))
                        else if saHostname \<noteq> refDomain then Err mismatch else Ok (Some creds)
                   else Ok (Some creds))
           | Err e \<Rightarrow> Err e
           | Panic p \<Rightarrow> Panic p
           | Hang \<Rightarrow> Hang)"

section \<open>The cache as a keyed store\<close>

text \<open>What the users of the cache rely on: an entry is what was last stored under its key,
  whatever happens to other keys, and nothing once it has been removed.\<close>

locale keyed_store =
  fixes put :: "'k \<Rightarrow> 'v \<Rightarrow> 's \<Rightarrow> 's"
    and del :: "'k \<Rightarrow> 's \<Rightarrow> 's"
    and get :: "'k \<Rightarrow> 's \<Rightarrow> 'v option"
  assumes get_put: "get k (put k' v s) = (if k = k' then Some v else get k s)"
    and get_del: "get k (del k' s) = (if k = k' then None else get k s)"
begin

text \<open>An entry that lives only for the time of an activity that leaves it alone.\<close>

lemma scoped:
  assumes "\<And>s. get k (act s) = get k s" and "\<And>k' s. k' \<noteq> k \<Longrightarrow> get k' (act s) = f k' (get k' s)"
  shows "get k (act (put k v s)) = Some v" and "get k (del k (act (put k v s))) = None"
    and "k' \<noteq> k \<Longrightarrow> get k' (del k (act (put k v s))) = f k' (get k' s)"
  using assms by (simp_all add: get_put get_del)

lemma put_del_absent: "get k s = None \<Longrightarrow> get k' (del k (put k v s)) = get k' s"
  by (simp add: get_put get_del)

end

definition cache_get :: "string \<Rightarrow> CredentialCache \<Rightarrow> credentialEntry option" where
  "cache_get b c = map_of (Entries c) b"

definition cache_del :: "string \<Rightarrow> CredentialCache \<Rightarrow> CredentialCache" where
  "cache_del b c = snd (RemoveCredentials b c)"

interpretation cache: keyed_store StoreAuthConfigs cache_del cache_get
  by unfold_locales (auto simp: StoreAuthConfigs_def cache_del_def RemoveCredentials_def cache_get_def)

text \<open>The lookup inside one entry.\<close>

definition entry_lookup :: "(string \<Rightarrow> url option) \<Rightarrow> string \<Rightarrow> credentialEntry \<Rightarrow> AuthConfig option" where
  "entry_lookup parse serverAddr credentials =
     (let target = getTarget parse serverAddr credentials
      in map_of credentials (if target = [] then serverAddr else target))"

lemma GetCredentials_entry:
  "(case GetCredentials parse b addr c of Ok a \<Rightarrow> Some a | _ \<Rightarrow> None) =
     (case cache_get b c of None \<Rightarrow> None | Some e \<Rightarrow> entry_lookup parse addr e)"
  by (auto simp: GetCredentials_def cache_get_def entry_lookup_def Let_def split: option.splits)

lemma GetCredentials_total: "GetCredentials parse b addr c \<noteq> Hang \<and> (\<forall>p. GetCredentials parse b addr c \<noteq> Panic p)"
  by (auto simp: GetCredentials_def Let_def split: option.splits)

lemma GetCredentials_Ok_iff:
  "GetCredentials parse b addr c = Ok a \<longleftrightarrow> (\<exists>e. cache_get b c = Some e \<and> entry_lookup parse addr e = Some a)"
  using GetCredentials_entry [of parse b addr c] GetCredentials_total [of parse b addr c]
  by (cases "GetCredentials parse b addr c") (auto split: option.splits)

lemma findMatch_Some:
  "findMatch parse s ts P = Some t \<Longrightarrow> t \<in> set ts \<and> (\<exists>u. parse t = Some u \<and> P s u)"
  by (induction ts) (auto split: option.splits if_splits)

lemma findMatch_None:
  "findMatch parse s ts P = None \<longleftrightarrow> (\<forall>t\<in>set ts. \<forall>u. parse t = Some u \<longrightarrow> \<not> P s u)"
  by (induction ts) (auto split: option.splits)

text \<open>
  C8: Builds are isolated in the credential cache: a lookup for a build sees exactly the
  credentials last stored for that build, is not affected by storing or removing those of another
  build, fails once the build's own are removed, and only ever returns one of the
  configurations that were stored for it.
\<close>

theorem credentials_isolated:
  "(GetCredentials parse b addr c = Ok a \<longrightarrow> (\<exists>e. map_of (Entries c) b = Some e \<and> a \<in> snd ` set e)) \<and>
   (b \<noteq> b' \<longrightarrow> GetCredentials parse b addr (StoreAuthConfigs b' cfg c) = GetCredentials parse b addr c \<and>
      GetCredentials parse b addr (snd (RemoveCredentials b' c)) = GetCredentials parse b addr c) \<and>
   (GetCredentials parse b addr (StoreAuthConfigs b cfg c) = Ok a \<longleftrightarrow> entry_lookup parse addr cfg = Some a) \<and>
   GetCredentials parse b addr (snd (RemoveCredentials b c)) = Err (ErrMsg ''no credentials found'')"
proof (intro conjI impI)
  assume "GetCredentials parse b addr c = Ok a"
  then obtain e where e: "cache_get b c = Some e" "entry_lookup parse addr e = Some a"
    using GetCredentials_Ok_iff by blast
  then show "\<exists>e. map_of (Entries c) b = Some e \<and> a \<in> snd ` set e"
    by (force simp: cache_get_def entry_lookup_def Let_def dest: map_of_SomeD)
next
  show "GetCredentials parse b addr (StoreAuthConfigs b cfg c) = Ok a \<longleftrightarrow> entry_lookup parse addr cfg = Some a"
    by (simp add: GetCredentials_Ok_iff cache.get_put)
next
  have "cache_get b (snd (RemoveCredentials b c)) = None"
    using cache.get_del [of b b c] by (simp add: cache_del_def)
  then show "GetCredentials parse b addr (snd (RemoveCredentials b c)) = Err (ErrMsg ''no credentials found'')"
    by (simp add: GetCredentials_def cache_get_def)
qed (use cache.get_put [of b b' cfg c] cache.get_del [of b b' c] in
     \<open>auto simp: GetCredentials_def cache_get_def cache_del_def\<close>)

theorem credentials_isolated_witness:
  "GetCredentials (\<lambda>_. None) ''b1'' ''reg'' (StoreAuthConfigs ''b2'' [(''reg'', empty_auth)]
      (StoreAuthConfigs ''b1'' [(''reg'', empty_auth\<lparr>Username := ''u''\<rparr>)] NewCredentialCache))
    = Ok (empty_auth\<lparr>Username := ''u''\<rparr>)"
  using credentials_isolated [of "\<lambda>_. None" "''b1''" "''reg''"
      "StoreAuthConfigs ''b1'' [(''reg'', empty_auth\<lparr>Username := ''u''\<rparr>)] NewCredentialCache" undefined "''b2''"
      "[(''reg'', empty_auth)]"]
  by (simp add: GetCredentials_def StoreAuthConfigs_def NewCredentialCache_def getTarget_def map_put_def Let_def)

text \<open>
  When some stored registry has the very URL that is asked for, the lookup returns
  the credentials of such a registry, in every iteration order of the map; an approximate match
  (another scheme, a missing port or path) is only used when there is no exact one.
\<close>

theorem exact_match_first:
  assumes "parse addr = Some u" and "k \<in> fst ` set creds" and "parse k = Some uk" and "exactMatch u uk"
    and "\<And>t. parse t \<noteq> None \<Longrightarrow> t \<noteq> []"
  shows "\<exists>t ut. getTarget parse addr creds = t \<and> t \<in> fst ` set creds \<and> parse t = Some ut \<and> exactMatch u ut \<and>
    entry_lookup parse addr creds = map_of creds t"
proof -
  obtain t where t: "findMatch parse u (map fst creds) exactMatch = Some t"
    using findMatch_None [of parse u "map fst creds" exactMatch] assms(2-4) by fastforce
  then have "getTarget parse addr creds = t" using assms(1) by (simp add: getTarget_def)
  then show ?thesis
    using findMatch_Some [OF t] assms(5) [of t] by (auto simp: entry_lookup_def)
qed

definition host_url :: "string \<Rightarrow> url option" where
  "host_url s = (if s = [] then None else Some \<lparr>Scheme = ''https'', Host = s, Path = []\<rparr>)"

theorem exact_match_first_witness:
  "\<exists>t ut. getTarget host_url ''a.io'' [(''b.io'', empty_auth), (''a.io'', empty_auth)] = t \<and>
     t \<in> fst ` set [(''b.io'', empty_auth), (''a.io'', empty_auth)] \<and> host_url t = Some ut \<and>
     exactMatch \<lparr>Scheme = ''https'', Host = ''a.io'', Path = []\<rparr> ut \<and>
     entry_lookup host_url ''a.io'' [(''b.io'', empty_auth), (''a.io'', empty_auth)] =
       map_of [(''b.io'', empty_auth), (''a.io'', empty_auth)] t"
  by (rule exact_match_first [where k = "''a.io''" and uk = "\<lparr>Scheme = ''https'', Host = ''a.io'', Path = []\<rparr>"])
     (auto simp: host_url_def exactMatch_def split: if_splits)

text \<open>
  C22: The credential socket answers only its own builds: unless the peer is a Unix
  socket whose process has the daemon's user and group and whose grandparent is the daemon itself,
  the response is 401 with no credentials; for such a peer the handler runs.
\<close>

theorem peer_check:
  assumes "w_sent w = None" and "w_broken w = None"
  shows "let authorized = (\<exists>pid pp. c = UnixConn (Some (os_Getuid pe, os_Getgid pe, pid)) \<and> proc_exists pe pid \<and>
              parent_of pe pid = Some pp \<and> parent_of pe pp = Some (os_Getpid pe));
             w' = CreateCredentialHandler parse pe cache c req w
         in if authorized then w' = getCredentials parse cache req w
            else status_of w' = Some 401 \<and> (\<forall>a. CData a \<in> set (w_body w') \<longrightarrow> CData a \<in> set (w_body w))"
proof -
  have fresh: "status_of w = None" using assms by (simp add: status_of_def)
  have body: "w_body (SendErrorResponse 401 e w) = w_body w @ [CErr (NewError e)]" for e
    using assms by (simp add: SendErrorResponse_body)
  have "validatePeerCreds pe c = Ok () \<longleftrightarrow> (\<exists>pid pp. c = UnixConn (Some (os_Getuid pe, os_Getgid pe, pid)) \<and>
      proc_exists pe pid \<and> parent_of pe pid = Some pp \<and> parent_of pe pp = Some (os_Getpid pe))"
    by (auto simp: validatePeerCreds_def split: conn.splits option.splits prod.splits if_splits)
  then show ?thesis
    by (cases "validatePeerCreds pe c")
       (auto simp: CreateCredentialHandler_def BuildRequestAuthMiddleware_def fresh body Let_def)
qed

definition daemon_proc :: proc_env where
  "daemon_proc = \<lparr>os_Getuid = 0, os_Getgid = 0, os_Getpid = 10,
     parent_of = (\<lambda>p. if p = 30 then Some 20 else if p = 20 then Some 10 else None), proc_exists = (\<lambda>p. p = 30)\<rparr>"

theorem peer_check_witness:
  "status_of (CreateCredentialHandler host_url daemon_proc NewCredentialCache (UnixConn (Some (0, 7, 30)))
      (Some (''b'', ''a.io'')) (new_respw True)) = Some 401"
  using peer_check [of "new_respw True" "UnixConn (Some (0, 7, 30))" daemon_proc host_url NewCredentialCache
      "Some (''b'', ''a.io'')"]
  by (simp add: new_respw_def daemon_proc_def Let_def)

text \<open>
  C25: From end to end: the helper that buildkit runs for a build, talking to the daemon's
  credential socket, prints user name and password exactly of the configuration that the
  cache finds for that build and registry; when there is none it reports missing
  credentials.
\<close>

theorem helper_end_to_end:
  assumes "validatePeerCreds pe c = Ok ()" and "buildID \<noteq> []" and "serverURL \<noteq> []"
  shows "helper_Get not_found buildID (\<lambda>req. Ok (CreateCredentialHandler parse pe cache c req (new_respw fl))) serverURL =
    (case GetCredentials parse buildID serverURL cache of
       Ok a \<Rightarrow> Ok (Username a, Password a)
     | _ \<Rightarrow> Err not_found)"
  using assms
  by (auto simp: helper_Get_def CreateCredentialHandler_def BuildRequestAuthMiddleware_def getCredentials_def
      new_respw_def put_chunk_def header_set_def WriteHeader_def status_of_def SendErrorResponse_def JSON_def Let_def
      split: res.splits)

theorem helper_end_to_end_witness:
  "helper_Get (ErrMsg ''none'') ''b1'' (\<lambda>req. Ok (CreateCredentialHandler host_url daemon_proc
      (StoreAuthConfigs ''b1'' [(''a.io'', empty_auth\<lparr>Username := ''u'', Password := ''p''\<rparr>)] NewCredentialCache)
      (UnixConn (Some (0, 0, 30))) req (new_respw True))) ''a.io'' = Ok (''u'', ''p'')"
  using helper_end_to_end [of daemon_proc "UnixConn (Some (0, 0, 30))" "''b1''" "''a.io''" "ErrMsg ''none''" host_url
      "StoreAuthConfigs ''b1'' [(''a.io'', empty_auth\<lparr>Username := ''u'', Password := ''p''\<rparr>)] NewCredentialCache" True]
  by (simp add: validatePeerCreds_def daemon_proc_def GetCredentials_def StoreAuthConfigs_def NewCredentialCache_def
      getTarget_def host_url_def exactMatch_def map_put_def Let_def)

text \<open>
  The resolver made from an \<open>X-Registry-Auth\<close> configuration hands its secret to no
  domain but the registry of the image reference; a non-empty server address must name that
  registry (or be Docker Hub's index server), otherwise there is no resolver at all.
\<close>

theorem auth_creds_domain:
  assumes "DefaultDockerHost refDomain = Ok host" and "GetAuthCreds DefaultDockerHost refDomain ac = Ok (Some creds)"
  shows "(\<forall>domain up. creds domain = Ok up \<longrightarrow> domain = host \<and>
      up = (if IdentityToken ac \<noteq> [] then ([], IdentityToken ac) else (Username ac, Password ac))) \<and>
    (ServerAddress ac \<noteq> [] \<longrightarrow> convertToHostname (ServerAddress ac) = refDomain \<or>
      (host = ''registry-1.docker.io'' \<and> ServerAddress ac = IndexServer))"
  using assms
  by (auto simp: GetAuthCreds_def Let_def split: if_splits)

theorem auth_creds_domain_witness:
  "\<exists>creds. GetAuthCreds Ok ''a.io'' (empty_auth\<lparr>Username := ''u'', ServerAddress := ''https://a.io/v2''\<rparr>) = Ok (Some creds) \<and>
     (\<forall>domain up. creds domain = Ok up \<longrightarrow> domain = ''a.io'' \<and> up = (''u'', []))"
proof -
  let ?ac = "empty_auth\<lparr>Username := ''u'', ServerAddress := ''https://a.io/v2''\<rparr>"
  obtain creds where c: "GetAuthCreds Ok ''a.io'' ?ac = Ok (Some creds)"
    by (simp add: GetAuthCreds_def empty_auth_def convertToHostname_def HasPrefix_def TrimPrefix_def Cut_def Let_def)
  from auth_creds_domain [of Ok, OF _ c] have "\<forall>domain up. creds domain = Ok up \<longrightarrow> domain = ''a.io'' \<and> up = (''u'', [])"
    by (simp add: empty_auth_def)
  with c show ?thesis by blast
qed

end
