(* ===== verification/Builder.thy ===== *)
theory Builder
  imports Credentials Network
begin

text \<open>
  Image builds: the arguments of buildctl and the tagging of the result
  (\<open>src/internal/backend/builder.go\<close>), the build service
  (\<open>src/internal/service/builder/build.go\<close>) and the handler of \<open>/build\<close>
  (\<open>src/api/handlers/builder/build.go\<close>).

  What buildkit, nerdctl and the operating system answer is the record \<open>bk_env\<close>.
\<close>

section \<open>Options\<close>

record build_options =
  b_BuildKitHost :: string
  b_Namespace :: string
  b_Snapshotter :: string
  b_Tag :: "string list"
  b_File :: string
  b_Target :: string
  b_Platform :: "string list"
  b_Rm :: bool
  b_Progress :: string
  b_Quiet :: bool
  b_NoCache :: bool
  b_Pull :: "bool option"
  b_CacheFrom :: "string list"
  b_CacheTo :: "string list"
  b_BuildArgs :: "string list"
  b_Label :: "string list"
  b_NetworkMode :: string
  b_Output :: string
  b_BuildContext :: string
  b_ExtendedBuildContext :: "string list"
  b_Secret :: "string list"
  b_Allow :: "string list"
  b_Attest :: "string list"
  b_SSH :: "string list"
  b_IidFile :: string
  b_ExtraHosts :: "string list"

record platform =
  pf_OS :: string
  Architecture :: string
  Variant :: string

record oci_manifest =
  man_MediaType :: string
  man_Digest :: string

record bk_env =
  BuildctlBinary :: "string res"
  Server_UUID :: "string res"
  GetWorkerLabels :: "string \<Rightarrow> string gomap res"
  DedupeStrSlice :: "string list \<Rightarrow> string list"
  referenceutil_Parse :: "string \<Rightarrow> string res"
  BuildctlBaseArgs :: "string \<Rightarrow> string list"
  DefaultDockerfileName :: string
  WriteTempDockerfile :: "string res"
  BuildKitFile :: "string \<Rightarrow> string \<Rightarrow> (string \<times> string) res"
  LookupEnv :: "string \<Rightarrow> string option"
  filepath_Abs :: "string \<Rightarrow> string res"
  read_index :: "string \<Rightarrow> oci_manifest list res"
  IsManifestType :: "string \<Rightarrow> bool"
  ParseExtraHosts :: "string list \<Rightarrow> string list res"
  CreateTemp :: "string res"
  platforms_Parse :: "string \<Rightarrow> platform res"
  DefaultSpec :: platform

definition rbind :: "'a res \<Rightarrow> ('a \<Rightarrow> 'b res) \<Rightarrow> 'b res" where
  "rbind r k = (case r of Ok x \<Rightarrow> k x | Err e \<Rightarrow> Err e | Panic p \<Rightarrow> Panic p | Hang \<Rightarrow> Hang)"

lemma rbind_simps [simp]:
  "rbind (Ok x) k = k x" "rbind (Err e) k = Err e" "rbind (Panic p) k = Panic p" "rbind Hang k = Hang"
  by (simp_all add: rbind_def)

lemma rbind_OkD: "rbind r k = Ok y \<Longrightarrow> \<exists>x. r = Ok x \<and> k x = Ok y"
  by (cases r) auto

section \<open>Helpers\<close>

definition isMatchingRuntimePlatform :: "bk_env \<Rightarrow> string \<Rightarrow> bool" where
  "isMatchingRuntimePlatform env p =
     (case platforms_Parse env p of
        Ok q \<Rightarrow> (let d = DefaultSpec env
                 in pf_OS q = pf_OS d \<and> Architecture q = Architecture d \<and> (Variant q = [] \<or> Variant q = Variant d))
      | _ \<Rightarrow> False)"

definition isBuildPlatformDefault :: "bk_env \<Rightarrow> string list \<Rightarrow> bool" where
  "isBuildPlatformDefault env ps =
     (case ps of [] \<Rightarrow> True | [p] \<Rightarrow> isMatchingRuntimePlatform env p | _ \<Rightarrow> False)"

definition isImageSharable :: "bk_env \<Rightarrow> string \<Rightarrow> string \<Rightarrow> string \<Rightarrow> string \<Rightarrow> string list \<Rightarrow> bool res" where
  "isImageSharable env buildkitHost namespace uuid snapshotter ps =
     rbind (GetWorkerLabels env buildkitHost)
       (\<lambda>labels.
          case (map_of labels ''org.mobyproject.buildkit.worker.executor'',
                map_of labels ''org.mobyproject.buildkit.worker.containerd.uuid'',
                map_of labels ''org.mobyproject.buildkit.worker.containerd.namespace'',
                map_of labels ''org.mobyproject.buildkit.worker.snapshotter'') of
            (Some executor, Some containerdUUID, Some containerdNamespace, Some workerSnapshotter) \<Rightarrow>
              Ok (executor = ''containerd'' \<and> containerdUUID = uuid \<and> containerdNamespace = namespace \<and>
                  workerSnapshotter = snapshotter \<and> isBuildPlatformDefault env ps)
          | _ \<Rightarrow> Ok False)"

text \<open>\<open>strings.SplitN(value, "=", 2)\<close> has two parts exactly when there is an equals sign.\<close>

fun parse_context_list :: "string list \<Rightarrow> string gomap \<Rightarrow> string gomap res" where
  "parse_context_list [] acc = Ok acc"
| "parse_context_list (v # vs) acc =
     (case Cut v (CHR ''='') of
        (k, x, True) \<Rightarrow> parse_context_list vs (map_put k x acc)
      | (k, x, False) \<Rightarrow> Err (ErrMsg (''invalid context value: '' @ v @ '', expected key=value'')))"

definition parseContextNames :: "string list \<Rightarrow> string gomap res" where
  "parseContextNames vs = parse_context_list vs []"

text \<open>The digest of the last manifest of the index that is an image manifest.\<close>

definition last_manifest :: "bk_env \<Rightarrow> oci_manifest list \<Rightarrow> string" where
  "last_manifest env ms = fold (\<lambda>m d. if IsManifestType env (man_MediaType m) then man_Digest m else d) ms []"

definition readOCIIndexFromPath :: "bk_env \<Rightarrow> string \<Rightarrow> oci_manifest list res" where
  "readOCIIndexFromPath env path = read_index env (path_Join [path, ''index.json''])"

definition parseBuildContextFromOCILayout :: "bk_env \<Rightarrow> string \<Rightarrow> string \<Rightarrow> string list res" where
  "parseBuildContextFromOCILayout env name path =
     (if \<not> HasPrefix path ''oci-layout://'' then Err (ErrMsg ''OCI layout prefix not found'')
      else rbind (filepath_Abs env (TrimPrefix path ''oci-layout://''))
        (\<lambda>abspath. rbind (readOCIIndexFromPath env abspath)
          (\<lambda>manifests.
             let digest = last_manifest env manifests
             in if digest = [] then Err (ErrMsg ''OCI layout cannot have empty digest'')
                else Ok [''--oci-layout=parent-image-key='' @ abspath,
                         ''--opt=context:'' @ name @ ''=oci-layout:parent-image-key@'' @ digest])))"

section \<open>The arguments of buildctl\<close>

text \<open>Lines 216-248: the output and whether its result must be loaded from a pipe.\<close>

definition build_output :: "bk_env \<Rightarrow> build_options \<Rightarrow> (string \<times> bool) res" where
  "build_output env opts =
     (if b_Output opts = [] then
        rbind (Server_UUID env)
          (\<lambda>uuid. rbind (isImageSharable env (b_BuildKitHost opts) (b_Namespace opts) uuid (b_Snapshotter opts) (b_Platform opts))
            (\<lambda>sharable.
               if sharable then Ok (''type=image,unpack=true'', False)
               else if length (b_Platform opts) > 1 then Ok (''type=oci'', True)
               else Ok (''type=docker'', True)))
      else let output = (if Contains (b_Output opts) ''type='' then b_Output opts
                         else ''type=local,dest='' @ b_Output opts)
           in Ok (output, (Contains output ''type=docker'' \<or> Contains output ''type=oci'') \<and> \<not> Contains output ''dest=''))"

fun parse_tags :: "bk_env \<Rightarrow> string list \<Rightarrow> string list res" where
  "parse_tags env [] = Ok []"
| "parse_tags env (t # ts) =
     rbind (referenceutil_Parse env t) (\<lambda>r. rbind (parse_tags env ts) (\<lambda>rs. Ok (r # rs)))"

text \<open>Lines 249-267: the normalised tags and the output with the name of the first.\<close>

definition build_tags :: "bk_env \<Rightarrow> string list \<Rightarrow> string \<Rightarrow> (string list \<times> string) res" where
  "build_tags env Tag output =
     (case DedupeStrSlice env Tag of
        [] \<Rightarrow> Ok ([], output @ '',dangling-name-prefix=<none>'')
      | t # ts \<Rightarrow>
          rbind (referenceutil_Parse env t)
            (\<lambda>ref. rbind (parse_tags env (t # ts)) (\<lambda>tags. Ok (tags, output @ '',name='' @ ref))))"

text \<open>Lines 279-303: the directory and the name of the Dockerfile, and whether the directory
  is to be removed afterwards (the clean-up function captures the variable, so it removes the final
  value of the directory).\<close>

definition build_file :: "bk_env \<Rightarrow> build_options \<Rightarrow> (string \<times> string \<times> string option) res" where
  "build_file env opts =
     rbind (if b_File opts = [] then Ok (b_BuildContext opts, DefaultDockerfileName env, False)
            else if b_File opts = ''-'' then
              rbind (WriteTempDockerfile env)
                (\<lambda>dir. Ok (if dir = [] then ''.'' else dir, DefaultDockerfileName env, True))
            else (case path_Split (b_File opts) of (dir, file) \<Rightarrow> Ok (if dir = [] then ''.'' else dir, file, False)))
       (\<lambda>(dir, file, tmp). rbind (BuildKitFile env dir file)
          (\<lambda>(dir1, file1). Ok (dir1, file1, if tmp then Some dir1 else None)))"

text \<open>Lines 310-335: the extra build contexts.\<close>

fun context_args :: "bk_env \<Rightarrow> string gomap \<Rightarrow> string list res" where
  "context_args env [] = Ok []"
| "context_args env ((k, v) # kvs) =
     rbind (if HasPrefix v ''https://'' \<or> HasPrefix v ''http://'' \<or> HasPrefix v ''docker-image://'' \<or> HasPrefix v ''target:''
            then Ok [''--opt=context:'' @ k @ ''='' @ v]
            else if HasPrefix v ''oci-layout://'' then parseBuildContextFromOCILayout env k v
            else rbind (filepath_Abs env v)
              (\<lambda>path. Ok [''--local='' @ k @ ''='' @ path, ''--opt=context:'' @ k @ ''=local:'' @ k]))
       (\<lambda>args. rbind (context_args env kvs) (\<lambda>rest. Ok (args @ rest)))"

text \<open>Lines 348-380: build arguments, with the set of the names seen.\<close>

definition build_arg :: "bk_env \<Rightarrow> string \<Rightarrow> string list res" where
  "build_arg env ba =
     (let arr = Split ba (CHR ''='')
      in if length arr = 1 \<and> arr ! 0 \<noteq> [] then
           (case LookupEnv env (arr ! 0) of
              Some v \<Rightarrow> Ok [''--opt=build-arg:'' @ ba @ ''='' @ v]
            | None \<Rightarrow> Ok [])
         else if length arr > 1 \<and> arr ! 0 \<noteq> [] then
           Ok ([''--opt=build-arg:'' @ ba] @
               (if HasPrefix ba ''BUILDKIT_INLINE_CACHE='' \<and>
                   ParseBool (TrimPrefix ba ''BUILDKIT_INLINE_CACHE='') = Some True
                then [''--export-cache=type=inline''] else []))
         else Err (ErrMsg (''invalid build arg '' @ Quote ba)))"

fun build_args :: "bk_env \<Rightarrow> string list \<Rightarrow> string list res" where
  "build_args env [] = Ok []"
| "build_args env (ba # bas) =
     rbind (build_arg env ba) (\<lambda>args. rbind (build_args env bas) (\<lambda>rest. Ok (args @ rest)))"

text \<open>Lines 382-388.\<close>

definition source_date_args :: "bk_env \<Rightarrow> string list \<Rightarrow> string list" where
  "source_date_args env bas =
     (let v = (case LookupEnv env ''SOURCE_DATE_EPOCH'' of None \<Rightarrow> [] | Some v \<Rightarrow> v)
      in if v \<noteq> [] \<and> ''SOURCE_DATE_EPOCH'' \<notin> set (map (\<lambda>ba. Split ba (CHR ''='') ! 0) bas)
         then [''--opt=build-arg:SOURCE_DATE_EPOCH='' @ v] else [])"

text \<open>Lines 415-423.\<close>

fun attest_args :: "string list \<Rightarrow> string list res" where
  "attest_args [] = Ok []"
| "attest_args (s # ss) =
     (case Cut s (CHR '','') of
        (optAttestType, optAttestAttrs, _) \<Rightarrow>
          if HasPrefix optAttestType ''type=''
          then rbind (attest_args ss)
                 (\<lambda>rest. Ok ((''--opt=attest:'' @ TrimPrefix optAttestType ''type='' @ ''='' @ optAttestAttrs) # rest))
          else Err (ErrMsg ''attestation type not specified''))"

definition cache_ref :: "string \<Rightarrow> string" where
  "cache_ref s = (if Contains s ''type='' then s else ''type=registry,ref='' @ s)"

definition network_args :: "string \<Rightarrow> string list" where
  "network_args mode =
     (if mode = ''none'' then [''--opt=force-network-mode='' @ mode]
      else if mode = ''host''
      then [''--opt=force-network-mode='' @ mode, ''--allow=network.host'', ''--allow=security.insecure'']
      else [])"

record buildctl_cmd =
  cmd_binary :: string
  cmd_args :: "string list"
  needsLoading :: bool
  metaFile :: string
  cmd_tags :: "string list"
  cmd_cleanup :: "string option"

definition generateBuildctlArgs :: "bk_env \<Rightarrow> build_options \<Rightarrow> buildctl_cmd res" where
  "generateBuildctlArgs env opts =
     rbind (BuildctlBinary env) (\<lambda>binary.
     rbind (build_output env opts) (\<lambda>(output, loading).
     rbind (build_tags env (b_Tag opts) output) (\<lambda>(tags, output1).
     rbind (build_file env opts) (\<lambda>(dir, file, tmp).
     rbind (parseContextNames (b_ExtendedBuildContext opts)) (\<lambda>buildCtx.
     rbind (context_args env buildCtx) (\<lambda>ctxArgs.
     rbind (build_args env (DedupeStrSlice env (b_BuildArgs opts))) (\<lambda>baArgs.
     rbind (attest_args (DedupeStrSlice env (b_Attest opts))) (\<lambda>attArgs.
     rbind (if b_IidFile opts \<noteq> [] then CreateTemp env else Ok []) (\<lambda>meta.
     rbind (if b_ExtraHosts opts = [] then Ok []
            else rbind (ParseExtraHosts env (b_ExtraHosts opts)) (\<lambda>hs. Ok [''--opt=add-hosts='' @ Join hs '','']))
       (\<lambda>hostArgs.
     Ok \<lparr>cmd_binary = binary,
         cmd_args =
           BuildctlBaseArgs env (b_BuildKitHost opts) @
           [''build'', ''--progress='' @ b_Progress opts, ''--frontend=dockerfile.v0'',
            ''--local=context='' @ b_BuildContext opts, ''--output='' @ output1] @
           ctxArgs @ [''--local=dockerfile='' @ dir, ''--opt=filename='' @ file] @
           (if b_Target opts \<noteq> [] then [''--opt=target='' @ b_Target opts] else []) @
           (if b_Platform opts \<noteq> [] then [''--opt=platform='' @ Join (b_Platform opts) '',''] else []) @
           baArgs @ source_date_args env (DedupeStrSlice env (b_BuildArgs opts)) @
           map (\<lambda>l. ''--opt=label:'' @ l) (DedupeStrSlice env (b_Label opts)) @
           (if b_NoCache opts then [''--no-cache''] else []) @
           (case b_Pull opts of None \<Rightarrow> [] | Some True \<Rightarrow> [''--opt=image-resolve-mode=pull'']
            | Some False \<Rightarrow> [''--opt=image-resolve-mode=local'']) @
           map (\<lambda>s. ''--secret='' @ s) (DedupeStrSlice env (b_Secret opts)) @
           map (\<lambda>s. ''--allow='' @ s) (DedupeStrSlice env (b_Allow opts)) @
           attArgs @
           map (\<lambda>s. ''--ssh='' @ s) (DedupeStrSlice env (b_SSH opts)) @
           map (\<lambda>s. ''--import-cache='' @ cache_ref s) (DedupeStrSlice env (b_CacheFrom opts)) @
           map (\<lambda>s. ''--export-cache='' @ cache_ref s) (DedupeStrSlice env (b_CacheTo opts)) @
           (if b_IidFile opts \<noteq> [] then [''--metadata-file='' @ meta] else []) @
           network_args (b_NetworkMode opts) @ hostArgs,
         needsLoading = loading, metaFile = meta, cmd_tags = tags, cmd_cleanup = tmp\<rparr>))))))))))"

section \<open>Running the build\<close>

record image = img_Name :: string  img_Digest :: string

text \<open>The process, the importer of images, files and containerd's image store. An import error
  tells whether nothing was in the archive (\<open>images.ErrEmptyWalk\<close>).\<close>

record 'w run_env =
  Environ :: "string list"
  GetCredentialAddr :: string
  StdoutPipe :: "('w, unit) io"
  cmd_Start :: "string \<Rightarrow> string list \<Rightarrow> string list \<Rightarrow> ('w, unit) io"
  cmd_Wait :: "('w, unit) io"
  NewMatchComparer :: "string list \<Rightarrow> unit res"
  NewClient :: "('w, unit) io"
  client_Import :: "('w, image list) io"
  IsEmptyWalk :: "gerr \<Rightarrow> bool"
  image_Unpack :: "image \<Rightarrow> ('w, unit) io"
  out_Write :: "string \<Rightarrow> ('w, unit) io"
  read_meta :: "string \<Rightarrow> ('w, string gomap) io"
  dec_digest :: "string \<Rightarrow> string res"
  os_Remove :: "string \<Rightarrow> ('w, unit) io"
  os_RemoveAll :: "string \<Rightarrow> ('w, unit) io"
  os_WriteFile :: "string \<Rightarrow> string \<Rightarrow> ('w, unit) io"
  is_Get :: "string \<Rightarrow> ('w, image) io"
  is_Create :: "image \<Rightarrow> ('w, unit) io"
  is_Delete :: "string \<Rightarrow> ('w, unit) io"

fun load_images :: "'w run_env \<Rightarrow> bool \<Rightarrow> image list \<Rightarrow> ('w, unit) io" where
  "load_images re quiet [] = ret ()"
| "load_images re quiet (img # imgs) =
     and_then (if quiet then ret ()
               else ignore_err (out_Write re (''unpacking '' @ img_Name img @ '' ('' @ img_Digest img @ '')...'' @ [CHR 0x0A])))
       (\<lambda>_. and_then (image_Unpack re img)
         (\<lambda>_. and_then (ignore_err (out_Write re (if quiet then img_Digest img @ [CHR 0x0A]
                          else ''Loaded image: '' @ img_Name img @ [CHR 0x0A])))
           (\<lambda>_. load_images re quiet imgs)))"

text \<open>\<open>readCounter\<close> embeds its reader and has a counter \<open>N\<close>, but no method of its own that
  counts, so the counter keeps its zero value.\<close>

definition readCounter_N :: "nat \<Rightarrow> nat" where
  "readCounter_N bytes_read = 0"

definition loadImage :: "'w run_env \<Rightarrow> nat \<Rightarrow> bool \<Rightarrow> ('w, unit) io" where
  "loadImage re bytes_read quiet =
     and_then (NewClient re)
       (\<lambda>_. or_else (client_Import re)
          (\<lambda>err. if readCounter_N bytes_read = 0 then fail (ErrMsg ''no image was built'')
                 else if IsEmptyWalk re err
                 then fail (ErrWrap [] err '' (Hint: set `--platform=PLATFORM` or `--all-platforms`)'')
                 else fail err)
          (\<lambda>imgs. load_images re quiet imgs))"

text \<open>The deferred removal of the metadata file runs once the file has been read.\<close>

definition getDigestFromMetaFile :: "'w run_env \<Rightarrow> string \<Rightarrow> ('w, string) io" where
  "getDigestFromMetaFile re path =
     and_then (read_meta re path)
       (\<lambda>metadata. and_then (ignore_err (os_Remove re path))
          (\<lambda>_. case map_of metadata ''containerimage.digest'' of
              None \<Rightarrow> fail (ErrMsg ''failed to find containerimage.digest in metadata file'')
            | Some raw \<Rightarrow> lift_res (dec_digest re raw)))"

fun tag_images :: "'w run_env \<Rightarrow> image \<Rightarrow> string list \<Rightarrow> ('w, unit) io" where
  "tag_images re img [] = ret ()"
| "tag_images re img (targetRef # ts) =
     or_else (is_Create re (img\<lparr>img_Name := targetRef\<rparr>))
       (\<lambda>err. if cerr_IsAlreadyExists err
              then and_then (is_Delete re targetRef)
                     (\<lambda>_. and_then (is_Create re (img\<lparr>img_Name := targetRef\<rparr>)) (\<lambda>_. tag_images re img ts))
              else fail (ErrWrap ''unable to tag image: '' err []))
       (\<lambda>_. tag_images re img ts)"

text \<open>Lines 83-156, between the arguments and the deferred clean-up.\<close>

definition run_cmd :: "'w run_env \<Rightarrow> build_options \<Rightarrow> nat \<Rightarrow> string \<Rightarrow> buildctl_cmd \<Rightarrow> ('w, unit) io" where
  "run_cmd re opts bytes_read buildID c =
     and_then (if needsLoading c then StdoutPipe re else ret ())
       (\<lambda>_. and_then (cmd_Start re (cmd_binary c) (cmd_args c)
                (Environ re @ [''FINCH_BUILD_ID='' @ buildID, ''FINCH_CREDENTIAL_SOCKET='' @ GetCredentialAddr re]))
         (\<lambda>_. and_then (if needsLoading c
                        then and_then (lift_res (NewMatchComparer re (b_Platform opts)))
                               (\<lambda>_. loadImage re bytes_read (b_Quiet opts))
                        else ret ())
           (\<lambda>_. and_then (cmd_Wait re)
             (\<lambda>_. and_then (if b_IidFile opts \<noteq> []
                            then and_then (getDigestFromMetaFile re (metaFile c))
                                   (\<lambda>i. os_WriteFile re (b_IidFile opts) i)
                            else ret ())
               (\<lambda>_. case cmd_tags c of
                   t # t' # ts \<Rightarrow>
                     or_else (is_Get re t) (\<lambda>err. fail (ErrWrap ''unable to tag image: '' err []))
                       (\<lambda>img. tag_images re img (t' # ts))
                 | _ \<Rightarrow> ret ())))))"

definition cleanup_dir :: "'w run_env \<Rightarrow> string option \<Rightarrow> ('w, 'a) io \<Rightarrow> ('w, 'a) io" where
  "cleanup_dir re tmp body w =
     (case body w of
        (Hang, w1) \<Rightarrow> (Hang, w1)
      | (r, w1) \<Rightarrow> (case tmp of None \<Rightarrow> (r, w1) | Some d \<Rightarrow> (r, snd (os_RemoveAll re d w1))))"

definition RunBuild :: "bk_env \<Rightarrow> 'w run_env \<Rightarrow> build_options \<Rightarrow> nat \<Rightarrow> string \<Rightarrow> ('w, unit) io" where
  "RunBuild env re opts bytes_read buildID =
     and_then (lift_res (generateBuildctlArgs env opts))
       (\<lambda>c. cleanup_dir re (cmd_cleanup c) (run_cmd re opts bytes_read buildID c))"

section \<open>The build service\<close>

definition truncateID :: "string \<Rightarrow> string" where
  "truncateID i =
     (let i1 = (if CHR '':'' \<in> set i then tl (dropWhile (\<lambda>c. c \<noteq> CHR '':'') i) else i)
      in if length i1 > 12 then take 12 i1 else i1)"

record event =
  ev_ID :: string
  ev_Status :: string
  ev_Type :: string
  ev_Action :: string
  ev_Actor :: string
  ev_name :: string

definition getTagEvent :: "string \<Rightarrow> string \<Rightarrow> event" where
  "getTagEvent digest imgName =
     \<lparr>ev_ID = truncateID digest, ev_Status = ''tag'', ev_Type = ''image'', ev_Action = ''tag'',
      ev_Actor = digest, ev_name = imgName\<rparr>"

record 'w build_svc_env =
  CompatibleTopicPrefix :: string
  bs_ExtractInTemp :: "('w, string) io"
  bs_tar_Run :: "string \<Rightarrow> ('w, unit) io"
  bs_Cleanup :: "string \<Rightarrow> ('w, unit) io"
  bs_Build :: "build_options \<Rightarrow> string \<Rightarrow> ('w, unit) io"
  bs_SearchImage :: "string \<Rightarrow> ('w, int \<times> image list) io"
  bs_PublishEvent :: "string \<Rightarrow> event \<Rightarrow> ('w, unit) io"
  bs_stdout :: "string \<Rightarrow> ('w, unit) io"

definition tagTopic :: "'w build_svc_env \<Rightarrow> string" where
  "tagTopic be = ''/'' @ CompatibleTopicPrefix be @ ''/image/tag''"

definition publishTagEvent :: "'w build_svc_env \<Rightarrow> string \<Rightarrow> ('w, event) io" where
  "publishTagEvent be tag =
     and_then (bs_SearchImage be tag)
       (\<lambda>(uniqueCount, images).
          if uniqueCount = 0 \<or> images = [] then fail (NewNotFound (ErrMsg (''no such image: '' @ tag)))
          else if uniqueCount \<noteq> 1 then fail (ErrMsg (''multiple images exist with tag '' @ tag))
          else let tagEvent = getTagEvent (img_Digest (images ! 0)) tag
               in or_else (bs_PublishEvent be (tagTopic be) tagEvent)
                    (\<lambda>err. fail (ErrMsg (''failed to publish tag event for image '' @ tag @ '': '' @ Error err)))
                    (\<lambda>_. ret tagEvent))"

fun publish_tags :: "'w build_svc_env \<Rightarrow> string list \<Rightarrow> string list \<Rightarrow> ('w, string list) io" where
  "publish_tags be [] result = ret result"
| "publish_tags be (tag # ts) result =
     and_then (publishTagEvent be tag)
       (\<lambda>ev. and_then (ignore_err (bs_stdout be (''Successfully built '' @ ev_ID ev @ [CHR 0x0A])))
          (\<lambda>_. publish_tags be ts (result @ [ev_ID ev])))"

text \<open>The deferred clean-up of the extracted context.\<close>

definition cleanup_context :: "'w build_svc_env \<Rightarrow> string \<Rightarrow> ('w, 'a) io \<Rightarrow> ('w, 'a) io" where
  "cleanup_context be dir body w =
     (case body w of (Hang, w1) \<Rightarrow> (Hang, w1) | (r, w1) \<Rightarrow> (r, snd (bs_Cleanup be dir w1)))"

definition service_Build :: "'w build_svc_env \<Rightarrow> build_options \<Rightarrow> string \<Rightarrow> ('w, string list) io" where
  "service_Build be opts buildID =
     and_then (bs_ExtractInTemp be)
       (\<lambda>dir. cleanup_context be dir
          (or_else (bs_tar_Run be dir)
             (\<lambda>_. fail (ErrMsg ''failed to extract build context in temp folder''))
             (\<lambda>_. and_then (bs_Build be (opts\<lparr>b_BuildContext := dir, b_File := dir @ ''/'' @ b_File opts\<rparr>) buildID)
                (\<lambda>_. publish_tags be (b_Tag opts) []))))"

section \<open>The handler\<close>

definition getQueryParamStr :: "http_req \<Rightarrow> string \<Rightarrow> string \<Rightarrow> string" where
  "getQueryParamStr r paramName defaultValue =
     (let val = query_get r paramName in if val = [] then defaultValue else val)"

definition getQueryParamBool :: "http_req \<Rightarrow> string \<Rightarrow> bool \<Rightarrow> bool" where
  "getQueryParamBool r paramName defaultValue =
     (let val = query_get r paramName
      in if val = [] then defaultValue
         else case ParseBool val of None \<Rightarrow> defaultValue | Some b \<Rightarrow> b)"

definition getQueryParamList :: "http_req \<Rightarrow> string \<Rightarrow> string list \<Rightarrow> string list" where
  "getQueryParamList r paramName defaultValue =
     (case map_of (query r) paramName of None \<Rightarrow> defaultValue | Some vs \<Rightarrow> vs)"

text \<open>The JSON decoders of a map and of an array of strings are parameters.\<close>

definition getQueryParamMap :: "(string \<Rightarrow> string gomap res) \<Rightarrow> (string \<Rightarrow> string list res) \<Rightarrow> http_req \<Rightarrow> string \<Rightarrow>
    string list \<Rightarrow> string list res" where
  "getQueryParamMap dec_map dec_arr r paramName defaultValue =
     (let q = query_get r paramName
      in if q = [] then Ok defaultValue
         else case dec_map q of
                Ok parsedMap \<Rightarrow> Ok (Flatten parsedMap KeyEqualsValueFormat)
              | _ \<Rightarrow>
                  (case dec_arr q of
                     Err err \<Rightarrow> Err (ErrMsg (''unable to parse '' @ paramName @ '' query: '' @ Error err))
                   | res \<Rightarrow> res))"

definition wrap_query :: "string \<Rightarrow> 'a res \<Rightarrow> 'a res" where
  "wrap_query what res = (case res of Err e \<Rightarrow> Err (ErrMsg (''unable to parse '' @ what @ '' query: '' @ Error e)) | r \<Rightarrow> r)"

record build_config =
  cfg_Namespace :: string
  cfg_Snapshotter :: string

definition getBuildOptions :: "build_config \<Rightarrow> string res \<Rightarrow> (string \<Rightarrow> string gomap res) \<Rightarrow> (string \<Rightarrow> string list res) \<Rightarrow>
    http_req \<Rightarrow> build_options res" where
  "getBuildOptions cfg GetBuildkitHost dec_map dec_arr r =
     rbind GetBuildkitHost (\<lambda>bkHost.
     rbind (wrap_query ''buildargs'' (getQueryParamMap dec_map dec_arr r ''buildargs'' [])) (\<lambda>buildArgs.
     rbind (wrap_query ''labels'' (getQueryParamMap dec_map dec_arr r ''labels'' [])) (\<lambda>labels.
     rbind (wrap_query ''cacheFrom'' (getQueryParamMap dec_map dec_arr r ''cachefrom'' [])) (\<lambda>cacheFrom.
     Ok \<lparr>b_BuildKitHost = bkHost, b_Namespace = cfg_Namespace cfg, b_Snapshotter = cfg_Snapshotter cfg,
         b_Tag = getQueryParamList r ''t'' [],
         b_File = getQueryParamStr r ''dockerfile'' ''Dockerfile'',
         b_Target = getQueryParamStr r ''target'' [],
         b_Platform = getQueryParamList r ''platform'' [],
         b_Rm = getQueryParamBool r ''rm'' True, b_Progress = ''auto'',
         b_Quiet = getQueryParamBool r ''q'' True,
         b_NoCache = getQueryParamBool r ''nocache'' False, b_Pull = None,
         b_CacheFrom = cacheFrom, b_CacheTo = [], b_BuildArgs = buildArgs, b_Label = labels,
         b_NetworkMode = getQueryParamStr r ''networkmode'' [],
         b_Output = getQueryParamStr r ''output'' [],
         b_BuildContext = [], b_ExtendedBuildContext = [], b_Secret = [], b_Allow = [], b_Attest = [],
         b_SSH = [], b_IidFile = [], b_ExtraHosts = []\<rparr>))))"

text \<open>The state of a build request: the shared credential cache, the stream writer of the response
  (also the standard output of the build), and the world.\<close>

record ('w, 'a) bstate =
  bs_cache :: CredentialCache
  bs_stream :: "'a stream_writer"
  bs_world :: 'w

definition stream_WriteError :: "int \<Rightarrow> gerr \<Rightarrow> (('w, 'a) bstate, unit) io" where
  "stream_WriteError code err s = (Ok (), s\<lparr>bs_stream := snd (sw_WriteError code err (bs_stream s))\<rparr>)"

text \<open>\<open>json.Marshal\<close> of a build result does not fail.\<close>

fun write_results :: "(string \<Rightarrow> string) \<Rightarrow> string list \<Rightarrow> (('w, 'a) bstate, unit) io" where
  "write_results enc [] = ret ()"
| "write_results enc (i # is) =
     (\<lambda>s. write_results enc is (s\<lparr>bs_stream := snd (sw_WriteAux (enc i) (bs_stream s))\<rparr>))"

text \<open>Lines 65-87: options, build, results.\<close>

definition build_body :: "build_options res \<Rightarrow> (build_options \<Rightarrow> string \<Rightarrow> (('w, 'a) bstate, string list) io) \<Rightarrow>
    (string \<Rightarrow> string) \<Rightarrow> string \<Rightarrow> (('w, 'a) bstate, unit) io" where
  "build_body opts Build enc buildID =
     (case opts of
        Ok buildOptions \<Rightarrow>
          or_else (Build buildOptions buildID) (\<lambda>err. stream_WriteError 500 err) (\<lambda>result. write_results enc result)
      | Err err \<Rightarrow> stream_WriteError 500 err
      | Panic p \<Rightarrow> panic p
      | Hang \<Rightarrow> (\<lambda>s. (Hang, s)))"

text \<open>\<open>defer RemoveCredentials(buildID)\<close>: runs on return and on a panic; its error is dropped.\<close>

definition defer_remove :: "string \<Rightarrow> (('w, 'a) bstate, unit) io \<Rightarrow> (('w, 'a) bstate, unit) io" where
  "defer_remove buildID body s =
     (case body s of
        (Hang, s1) \<Rightarrow> (Hang, s1)
      | (r, s1) \<Rightarrow> (r, s1\<lparr>bs_cache := snd (RemoveCredentials buildID (bs_cache s1))\<rparr>))"

definition on_world :: "('w, 'b) io \<Rightarrow> (('w, 'a) bstate, 'b) io" where
  "on_world m s = (case m (bs_world s) of (r, w) \<Rightarrow> (r, s\<lparr>bs_world := w\<rparr>))"

definition handler_build :: "bool \<Rightarrow> (string \<Rightarrow> AuthConfig gomap res) \<Rightarrow> ('w, nat list) io \<Rightarrow> build_options res \<Rightarrow>
    (build_options \<Rightarrow> string \<Rightarrow> (('w, 'a) bstate, string list) io) \<Rightarrow> (string \<Rightarrow> string) \<Rightarrow> http_req \<Rightarrow>
    (('w, 'a) bstate, unit) io" where
  "handler_build credentialSvc decode rand_Read opts Build enc r =
     (let registryConfig = map_str (req_header r) RegistryConfigHeader
      in if \<not> credentialSvc then build_body opts Build enc []
         else case (if registryConfig \<noteq> [] then decode registryConfig else Ok []) of
             Err err \<Rightarrow> stream_WriteError 500 (ErrWrap ''failed to decode registry config: '' err [])
           | Panic p \<Rightarrow> panic p
           | Hang \<Rightarrow> (\<lambda>s. (Hang, s))
           | Ok authConfigs \<Rightarrow>
               if authConfigs = [] then build_body opts Build enc []
               else or_else (on_world (GenerateBuildID rand_Read))
                 (\<lambda>err. stream_WriteError 500 (ErrWrap ''failed to generate build ID: '' err []))
                 (\<lambda>buildID. defer_remove buildID
                    (\<lambda>s. build_body opts Build enc buildID
                           (s\<lparr>bs_cache := StoreAuthConfigs buildID authConfigs (bs_cache s)\<rparr>))))"

section \<open>Properties\<close>

text \<open>A build that leaves the shared cache alone.\<close>

definition keeps_cache :: "(build_options \<Rightarrow> string \<Rightarrow> (('w, 'a) bstate, string list) io) \<Rightarrow> bool" where
  "keeps_cache Build \<longleftrightarrow> (\<forall>o' i s. bs_cache (snd (Build o' i s)) = bs_cache s)"

lemma write_results_cache: "bs_cache (snd (write_results enc is s)) = bs_cache s \<and> fst (write_results enc is s) = Ok ()"
  by (induction enc "is" arbitrary: s rule: write_results.induct) simp_all

lemma build_body_cache:
  assumes "keeps_cache Build"
  shows "bs_cache (snd (build_body opts Build enc i s)) = bs_cache s"
proof (cases opts)
  case (Ok o')
  obtain r s1 where r: "Build o' i s = (r, s1)" by (rule prod.exhaust)
  then have "bs_cache s1 = bs_cache s" using assms by (metis keeps_cache_def snd_conv)
  with Ok r show ?thesis
    by (cases r) (simp_all add: build_body_def or_else_def stream_WriteError_def write_results_cache)
qed (simp_all add: build_body_def stream_WriteError_def)

text \<open>The build is started only while its own credentials are in the cache.\<close>

definition with_creds :: "AuthConfig gomap \<Rightarrow> (build_options \<Rightarrow> string \<Rightarrow> (('w, 'a) bstate, string list) io) \<Rightarrow>
    build_options \<Rightarrow> string \<Rightarrow> (('w, 'a) bstate, string list) io" where
  "with_creds cfg Build o' i s =
     (if cache_get i (bs_cache s) = Some cfg then Build o' i s else (Panic ''build without credentials'', s))"

lemma build_body_with_creds:
  "cache_get i (bs_cache s) = Some cfg \<Longrightarrow> build_body opts (with_creds cfg Build) enc i s = build_body opts Build enc i s"
  by (simp add: build_body_def or_else_def with_creds_def split: res.splits)

text \<open>
  C3: The registry credentials of a build live exactly as long as the build: the build
  runs under an id for which the cache holds the configurations of the request's header, and when the
  handler is done, successfully, with an error or by a panic, the cache answers every lookup
  as before the request.
\<close>

theorem build_credentials_lifetime:
  assumes dec: "decode (map_str (req_header r) RegistryConfigHeader) = Ok cfg" "cfg \<noteq> []"
      "map_str (req_header r) RegistryConfigHeader \<noteq> []"
    and keeps: "keeps_cache Build"
    and fresh: "\<And>bs w'. rand_Read (bs_world s) = (Ok bs, w') \<Longrightarrow> cache_get (hex_encode bs) (bs_cache s) = None"
    and ret: "handler_build True decode rand_Read opts Build enc r s = (res, s')" "res \<noteq> Hang"
  shows "(\<forall>b. cache_get b (bs_cache s') = cache_get b (bs_cache s)) \<and>
    handler_build True decode rand_Read opts (with_creds cfg Build) enc r s = (res, s')"
proof (cases "rand_Read (bs_world s)")
  case (Pair rr w')
  show ?thesis
  proof (cases rr)
    case (Ok bs)
    let ?i = "hex_encode bs" and ?s1 = "s\<lparr>bs_world := w'\<rparr>"
    let ?s2 = "?s1\<lparr>bs_cache := StoreAuthConfigs (hex_encode bs) cfg (bs_cache ?s1)\<rparr>"
    have gen: "on_world (GenerateBuildID rand_Read) s = (Ok ?i, ?s1)"
      using Pair Ok by (simp add: on_world_def GenerateBuildID_def and_then_def)
    have run: "handler_build True decode rand_Read opts B enc r s =
        defer_remove ?i (\<lambda>s. build_body opts B enc ?i (s\<lparr>bs_cache := StoreAuthConfigs ?i cfg (bs_cache s)\<rparr>)) ?s1" for B
      using dec gen by (simp add: handler_build_def or_else_def)
    obtain rb s3 where b: "build_body opts Build enc ?i ?s2 = (rb, s3)" by (rule prod.exhaust)
    have c3: "bs_cache s3 = StoreAuthConfigs ?i cfg (bs_cache s)"
      using build_body_cache [OF keeps, of opts enc ?i ?s2] b by simp
    have "res = rb" "s' = s3\<lparr>bs_cache := cache_del ?i (bs_cache s3)\<rparr>"
      using ret run [of Build] b by (cases rb; auto simp: defer_remove_def cache_del_def)+
    moreover have "cache_get ?i (bs_cache ?s2) = Some cfg" by (simp add: cache.get_put)
    then have "handler_build True decode rand_Read opts (with_creds cfg Build) enc r s =
        handler_build True decode rand_Read opts Build enc r s"
      unfolding run by (simp add: defer_remove_def build_body_with_creds)
    ultimately show ?thesis
      using ret(1) c3 cache.put_del_absent [OF fresh, of bs w'] Pair Ok by simp
  next
    case (Err e)
    then have "on_world (GenerateBuildID rand_Read) s = (Err e, s\<lparr>bs_world := w'\<rparr>)"
      using Pair by (simp add: on_world_def GenerateBuildID_def and_then_def)
    with dec ret show ?thesis by (auto simp: handler_build_def or_else_def stream_WriteError_def)
  next
    case (Panic p)
    then have "on_world (GenerateBuildID rand_Read) s = (Panic p, s\<lparr>bs_world := w'\<rparr>)"
      using Pair by (simp add: on_world_def GenerateBuildID_def and_then_def)
    with dec ret show ?thesis by (auto simp: handler_build_def or_else_def)
  next
    case Hang
    then have "on_world (GenerateBuildID rand_Read) s = (Hang, s\<lparr>bs_world := w'\<rparr>)"
      using Pair by (simp add: on_world_def GenerateBuildID_def and_then_def)
    with dec ret show ?thesis by (auto simp: handler_build_def or_else_def)
  qed
qed

definition req_creds :: http_req where
  "req_creds = \<lparr>vars = [], query = [], req_header = [(RegistryConfigHeader, ''e30'')]\<rparr>"

definition build_state0 :: "(unit, unit) bstate" where
  "build_state0 = \<lparr>bs_cache = NewCredentialCache, bs_stream = NewStreamWriter (new_respw True), bs_world = ()\<rparr>"

theorem build_credentials_lifetime_witness:
  "cache_get ''2a'' (bs_cache (snd (handler_build True (\<lambda>_. Ok [(''a.io'', empty_auth)]) (ret [42])
      (Err (ErrMsg ''no buildkit'')) (\<lambda>_ _. ret []) (\<lambda>x. x) req_creds build_state0))) =
   cache_get ''2a'' (bs_cache build_state0)"
proof -
  let ?h = "handler_build True (\<lambda>_. Ok [(''a.io'', empty_auth)]) (ret [42]) (Err (ErrMsg ''no buildkit''))
      (\<lambda>_ _. ret []) (\<lambda>x. x) req_creds build_state0"
  have h: "?h = (fst ?h, snd ?h)" by simp
  have "fst ?h \<noteq> Hang"
    by (simp add: handler_build_def req_creds_def map_str_def on_world_def GenerateBuildID_def and_then_def or_else_def
        defer_remove_def build_body_def stream_WriteError_def)
  moreover have "keeps_cache (\<lambda>_ _. ret [] :: ((unit, unit) bstate, string list) io)" by (simp add: keeps_cache_def)
  ultimately show ?thesis
    using build_credentials_lifetime [where cfg = "[(''a.io'', empty_auth)]", OF _ _ _ _ _ h]
    by (simp add: req_creds_def map_str_def build_state0_def cache_get_def NewCredentialCache_def)
qed

text \<open>What a build argument becomes: itself, or the value of the environment variable of that
  name when it is set.\<close>

definition env_arg :: "bk_env \<Rightarrow> string \<Rightarrow> string list" where
  "env_arg env ba =
     (if CHR ''='' \<in> set ba then [''--opt=build-arg:'' @ ba]
      else case LookupEnv env ba of Some v \<Rightarrow> [''--opt=build-arg:'' @ ba @ ''='' @ v] | None \<Rightarrow> [])"

definition bad_arg :: "string \<Rightarrow> bool" where
  "bad_arg ba \<longleftrightarrow> ba = [] \<or> HasPrefix ba ''=''"

lemma Split_first_empty: "Split ba c ! 0 = [] \<longleftrightarrow> ba = [] \<or> hd ba = c"
  by (cases ba) (auto split: list.splits)

lemma bad_arg_Split: "bad_arg ba \<longleftrightarrow> Split ba (CHR ''='') ! 0 = []"
  by (cases ba) (auto simp: bad_arg_def HasPrefix_def split: list.splits)

lemma Split_length_sep: "length (Split ba c) = 1 \<longleftrightarrow> c \<notin> set ba"
  by (simp add: length_Split count_list_0_iff)

lemma build_arg_cases:
  "case build_arg env ba of
     Ok args \<Rightarrow> \<not> bad_arg ba \<and> filter (\<lambda>a. HasPrefix a ''--opt=build-arg:'') args = env_arg env ba
   | Err e \<Rightarrow> bad_arg ba
   | Panic _ \<Rightarrow> False | Hang \<Rightarrow> False"
proof (cases "bad_arg ba")
  case True
  then show ?thesis by (simp add: build_arg_def bad_arg_Split Let_def)
next
  case False
  then have ne: "Split ba (CHR ''='') ! 0 \<noteq> []" by (simp add: bad_arg_Split)
  have len: "length (Split ba (CHR ''='')) \<noteq> 0" by simp
  show ?thesis
  proof (cases "CHR ''='' \<in> set ba")
    case True
    then have "length (Split ba (CHR ''='')) \<noteq> 1" using Split_length_sep by blast
    with len have "1 < length (Split ba (CHR ''=''))" by linarith
    with ne False True show ?thesis
      by (auto simp: build_arg_def env_arg_def Let_def HasPrefix_def)
  next
    case nosep: False
    then have "Split ba (CHR ''='') = [ba]" by simp
    with nosep False ne show ?thesis
      by (auto simp: build_arg_def env_arg_def Let_def HasPrefix_def split: option.splits)
  qed
qed

text \<open>
  Build arguments reach buildctl unchanged and in order: an argument with a value is
  passed as it is, one without takes the value of the environment variable of its name and
  is dropped when there is none (so that the Dockerfile's default is kept); the request
  fails exactly when some argument has no name.
\<close>

theorem build_args_exact:
  "case build_args env bas of
     Ok args \<Rightarrow> (\<forall>ba\<in>set bas. \<not> bad_arg ba) \<and>
       filter (\<lambda>a. HasPrefix a ''--opt=build-arg:'') args = concat (map (env_arg env) bas)
   | Err e \<Rightarrow> (\<exists>ba\<in>set bas. bad_arg ba)
   | Panic _ \<Rightarrow> False | Hang \<Rightarrow> False"
proof (induction bas)
  case (Cons ba bas)
  then show ?case
    using build_arg_cases [where env = env and ba = ba]
    by (auto split: res.splits simp: rbind_def)
qed simp

definition bk0 :: bk_env where
  "bk0 = \<lparr>BuildctlBinary = Ok ''buildctl'', Server_UUID = Ok ''u'', GetWorkerLabels = (\<lambda>_. Ok []), DedupeStrSlice = (\<lambda>x. x),
     referenceutil_Parse = Ok, BuildctlBaseArgs = (\<lambda>_. []), DefaultDockerfileName = ''Dockerfile'',
     WriteTempDockerfile = Ok ''/tmp/d'', BuildKitFile = (\<lambda>d f. Ok (d, f)), LookupEnv = (\<lambda>_. None),
     filepath_Abs = Ok, read_index = (\<lambda>_. Ok []), IsManifestType = (\<lambda>_. True), ParseExtraHosts = Ok, CreateTemp = Ok ''/tmp/m'',
     platforms_Parse = (\<lambda>_. Err (ErrMsg ''bad platform'')), DefaultSpec = \<lparr>pf_OS = ''linux'', Architecture = ''amd64'', Variant = []\<rparr>\<rparr>"

theorem build_args_exact_witness:
  "case build_args bk0 [''A=1'', ''HOME''] of
     Ok args \<Rightarrow> (\<forall>ba\<in>set [''A=1'', ''HOME'']. \<not> bad_arg ba) \<and>
       filter (\<lambda>a. HasPrefix a ''--opt=build-arg:'') args = [''--opt=build-arg:A=1'']
   | _ \<Rightarrow> False"
  using build_args_exact [where env = bk0 and bas = "[''A=1'', ''HOME'']"]
  by (auto simp: env_arg_def bad_arg_def HasPrefix_def bk0_def split: res.splits)

text \<open>
  Every failure to import a built image is reported as "no image was built", however
  many bytes buildctl has written: the reader's counter is never advanced, so neither the
  original error nor the hint about platforms reaches the client.
\<close>

theorem load_image_error_masked:
  assumes "NewClient re w = (Ok (), w1)" and "client_Import re w1 = (Err e, w2)"
  shows "loadImage re bytes_read quiet w = (Err (ErrMsg ''no image was built''), w2)"
  using assms by (simp add: loadImage_def and_then_def or_else_def readCounter_N_def)

definition failing_import :: "unit run_env" where
  "failing_import = \<lparr>Environ = [], GetCredentialAddr = [], StdoutPipe = ret (), cmd_Start = (\<lambda>_ _ _. ret ()), cmd_Wait = ret (),
     NewMatchComparer = (\<lambda>_. Ok ()), NewClient = ret (), client_Import = fail (ErrMsg ''disk full''),
     IsEmptyWalk = (\<lambda>_. False), image_Unpack = (\<lambda>_. ret ()), out_Write = (\<lambda>_. ret ()), read_meta = (\<lambda>_. ret []),
     dec_digest = Ok, os_Remove = (\<lambda>_. ret ()), os_RemoveAll = (\<lambda>_. ret ()), os_WriteFile = (\<lambda>_ _. ret ()),
     is_Get = (\<lambda>n. ret \<lparr>img_Name = n, img_Digest = []\<rparr>), is_Create = (\<lambda>_. ret ()), is_Delete = (\<lambda>_. ret ())\<rparr>"

theorem load_image_error_masked_witness:
  "loadImage failing_import 4096 True () = (Err (ErrMsg ''no image was built''), ())"
  using load_image_error_masked [of failing_import "()" "()" "ErrMsg ''disk full''" "()" 4096 True]
  by (simp add: failing_import_def)

end
