(* ===== verification/Filters.thy ===== *)
theory Filters
  imports Handlers "HOL-Library.List_Lexorder" "HOL-Library.Char_ord" "HOL-Library.Multiset"
begin

text \<open>
  The filter arguments of the list and events endpoints (\<open>src/api/types/filter_types.go\<close>).
  A filter set maps a filter name to a set of values, held as a map to booleans; the
  client sends it as a JSON object in one of two formats. Parsing the text into a
  JSON value is the parameter \<open>parse\<close>; decoding the value into Go maps is modelled.
  A nil inner map is an empty one: the code reads both the same way.
\<close>

section \<open>Decoding\<close>

fun json_kind :: "json \<Rightarrow> string" where
  "json_kind JNull = ''null''"
| "json_kind (JBool b) = ''bool''"
| "json_kind (JNum n) = ''number''"
| "json_kind (JStr s) = ''string''"
| "json_kind (JArr js) = ''array''"
| "json_kind (JObj fs) = ''object''"

definition UnmarshalTypeError :: "json \<Rightarrow> string \<Rightarrow> gerr" where
  "UnmarshalTypeError j ty = ErrMsg (''json: cannot unmarshal '' @ json_kind j @ '' into Go value of type '' @ ty)"

text \<open>\<open>json.Unmarshal\<close> into \<open>map[string]bool\<close> and \<open>map[string]map[string]bool\<close>. A null leaves the zero value,
  a repeated key overwrites. The caller drops the error, so it is \<open>None\<close>.\<close>

fun dec_bool :: "json \<Rightarrow> bool option" where
  "dec_bool JNull = Some False"
| "dec_bool (JBool b) = Some b"
| "dec_bool _ = None"

fun dec_flags :: "(string \<times> json) list \<Rightarrow> bool gomap \<Rightarrow> bool gomap option" where
  "dec_flags [] m = Some m"
| "dec_flags ((k, j) # fs) m = (case dec_bool j of None \<Rightarrow> None | Some b \<Rightarrow> dec_flags fs (map_put k b m))"

fun dec_inner :: "json \<Rightarrow> bool gomap option" where
  "dec_inner JNull = Some []"
| "dec_inner (JObj fs) = dec_flags fs []"
| "dec_inner _ = None"

fun dec_outer :: "(string \<times> json) list \<Rightarrow> bool gomap gomap \<Rightarrow> bool gomap gomap option" where
  "dec_outer [] m = Some m"
| "dec_outer ((k, j) # fs) m = (case dec_inner j of None \<Rightarrow> None | Some v \<Rightarrow> dec_outer fs (map_put k v m))"

fun filters_UnmarshalJSON :: "json \<Rightarrow> bool gomap gomap \<Rightarrow> bool gomap gomap option" where
  "filters_UnmarshalJSON JNull m = Some m"
| "filters_UnmarshalJSON (JObj fs) m = dec_outer fs m"
| "filters_UnmarshalJSON _ m = None"

text \<open>\<open>json.Unmarshal\<close> into \<open>map[string][]string\<close>: the error is the first one found.\<close>

fun dec_strings :: "json list \<Rightarrow> string list res" where
  "dec_strings [] = Ok []"
| "dec_strings (j # js) =
     (case j of
        JStr s \<Rightarrow> (case dec_strings js of Ok ss \<Rightarrow> Ok (s # ss) | r \<Rightarrow> r)
      | JNull \<Rightarrow> (case dec_strings js of Ok ss \<Rightarrow> Ok ([] # ss) | r \<Rightarrow> r)
      | _ \<Rightarrow> Err (UnmarshalTypeError j ''string''))"

fun dec_slice :: "json \<Rightarrow> string list res" where
  "dec_slice JNull = Ok []"
| "dec_slice (JArr js) = dec_strings js"
| "dec_slice j = Err (UnmarshalTypeError j ''[]string'')"

fun dec_legacy :: "(string \<times> json) list \<Rightarrow> string list gomap \<Rightarrow> string list gomap res" where
  "dec_legacy [] m = Ok m"
| "dec_legacy ((k, j) # fs) m =
     (case dec_slice j of
        Ok v \<Rightarrow> dec_legacy fs (map_put k v m)
      | Err e \<Rightarrow> Err e
      | Panic p \<Rightarrow> Panic p
      | Hang \<Rightarrow> Hang)"

definition unmarshal_legacy :: "json \<Rightarrow> string list gomap res" where
  "unmarshal_legacy j =
     (case j of
        JNull \<Rightarrow> Ok []
      | JObj fs \<Rightarrow> dec_legacy fs []
      | _ \<Rightarrow> Err (UnmarshalTypeError j ''map[string][]string''))"

section \<open>filter\_types.go\<close>

record Filters = filterSet :: "bool gomap gomap"

definition filters_add :: "string \<Rightarrow> string \<Rightarrow> Filters \<Rightarrow> Filters" where
  "filters_add key v f =
     (case map_of (filterSet f) key of
        Some vals \<Rightarrow> f\<lparr>filterSet := map_put key (map_put v True vals) (filterSet f)\<rparr>
      | None \<Rightarrow> f\<lparr>filterSet := map_put key [(v, True)] (filterSet f)\<rparr>)"

definition newFilters :: "(string \<times> string) list \<Rightarrow> Filters" where
  "newFilters filtersList = fold (\<lambda>(k, v). filters_add k v) filtersList \<lparr>filterSet = []\<rparr>"

definition getFiltersKeys :: "Filters \<Rightarrow> string \<Rightarrow> string list" where
  "getFiltersKeys f key = (case map_of (filterSet f) key of None \<Rightarrow> [] | Some vals \<Rightarrow> map fst vals)"

definition getFilterFromLegacy :: "string list gomap \<Rightarrow> bool gomap gomap" where
  "getFilterFromLegacy d = fold (\<lambda>(k, vs). map_put k (fold (\<lambda>vv. map_put vv True) vs [])) d []"

definition getFilterJSON :: "(string \<Rightarrow> json res) \<Rightarrow> string \<Rightarrow> Filters res" where
  "getFilterJSON parse p =
     (if p = [] then Ok (newFilters [])
      else case parse p of
             Ok j \<Rightarrow>
               (case filters_UnmarshalJSON j (filterSet (newFilters [])) of
                  Some m \<Rightarrow> Ok \<lparr>filterSet = m\<rparr>
                | None \<Rightarrow>
                    (case unmarshal_legacy j of
                       Ok deprecated \<Rightarrow> Ok \<lparr>filterSet = getFilterFromLegacy deprecated\<rparr>
                     | Err legacyErr \<Rightarrow> Err legacyErr
                     | Panic q \<Rightarrow> Panic q
                     | Hang \<Rightarrow> Hang))
           | Err syntaxErr \<Rightarrow> Err syntaxErr
           | Panic q \<Rightarrow> Panic q
           | Hang \<Rightarrow> Hang)"

definition ToLegacyFormat :: "Filters \<Rightarrow> string list gomap" where
  "ToLegacyFormat f =
     fold (\<lambda>key result. let vals = getFiltersKeys f key
                         in if length vals > 0 then map_put key (sort vals) result else result)
       (map fst (filterSet f)) []"

definition ParseFilterArgs :: "(string \<Rightarrow> json res) \<Rightarrow> http_req \<Rightarrow> Filters res" where
  "ParseFilterArgs parse r =
     (let filterQuery = query_get r ''filters''
      in if filterQuery = [] then Ok (newFilters [])
         else case getFilterJSON parse filterQuery of
                Err err \<Rightarrow> Err (ErrMsg (''error parsing filters: '' @ Error err))
              | res \<Rightarrow> res)"

text \<open>\<open>src/api/handlers/container/list.go\<close>: the filters in nerdctl's syntax, one per value.\<close>

definition NerdctlFiltersFromAPIFilters :: "(string \<Rightarrow> json res) \<Rightarrow> http_req \<Rightarrow> string list res" where
  "NerdctlFiltersFromAPIFilters parse r =
     (case ParseFilterArgs parse r of
        Ok filters \<Rightarrow>
          Ok (concat (map (\<lambda>(filterType, filterList). map (\<lambda>f. filterType @ ''='' @ f) filterList) (ToLegacyFormat filters)))
      | Err err \<Rightarrow> Err err
      | Panic p \<Rightarrow> Panic p
      | Hang \<Rightarrow> Hang)"

section \<open>Both formats mean the same\<close>

definition legacy_json :: "string list gomap \<Rightarrow> json" where
  "legacy_json d = JObj (map (\<lambda>(k, vs). (k, JArr (map JStr vs))) d)"

definition flags_json :: "string list gomap \<Rightarrow> json" where
  "flags_json d = JObj (map (\<lambda>(k, vs). (k, JObj (map (\<lambda>v. (v, JBool True)) vs))) d)"

text \<open>Inserting fresh keys one after the other is appending.\<close>

lemma map_put_fresh: "k \<notin> fst ` set m \<Longrightarrow> map_put k v m = m @ [(k, v)]"
  unfolding map_put_def by (induction m) auto

lemma fold_put_fresh:
  assumes "distinct (map fst d)" and "fst ` set m \<inter> fst ` set d = {}"
  shows "fold (\<lambda>(k, v). map_put k (g v)) d m = m @ map (\<lambda>(k, v). (k, g v)) d"
  using assms
proof (induction d arbitrary: m)
  case (Cons kv d)
  obtain k v where kv: "kv = (k, v)" by force
  have "fold (\<lambda>(k, v). map_put k (g v)) d (m @ [(k, g v)]) = (m @ [(k, g v)]) @ map (\<lambda>(k, v). (k, g v)) d"
    using Cons.prems kv by (intro Cons.IH) auto
  moreover have "map_put k (g v) m = m @ [(k, g v)]"
    using Cons.prems kv by (intro map_put_fresh) auto
  ultimately show ?case using kv by simp
qed simp

definition flag_set :: "string list \<Rightarrow> bool gomap" where
  "flag_set vs = fold (\<lambda>vv. map_put vv True) vs []"

lemma dec_flags_True: "dec_flags (map (\<lambda>v. (v, JBool True)) vs) m = Some (fold (\<lambda>vv. map_put vv True) vs m)"
  by (induction vs arbitrary: m) auto

lemma flag_keys:
  "distinct (map fst m) \<Longrightarrow> set (map fst (fold (\<lambda>vv. map_put vv True) vs m)) = set vs \<union> set (map fst m) \<and>
     distinct (map fst (fold (\<lambda>vv. map_put vv True) vs m))"
  by (induction vs arbitrary: m) (auto simp: map_put_def distinct_update dom_update)

lemma flag_set_keys [simp]: "fst ` set (flag_set vs) = set vs" "distinct (map fst (flag_set vs))"
  using flag_keys [of "[]" vs] by (auto simp: flag_set_def)

lemma flag_set_sorted: "sort (map fst (flag_set vs)) = sort (remdups vs)"
proof -
  have "mset (map fst (flag_set vs)) = mset (remdups vs)"
    by (rule set_eq_iff_mset_eq_distinct [THEN iffD1]) auto
  then show ?thesis
    by (metis mset_sort properties_for_sort sorted_sort)
qed

lemma dec_outer_flags:
  "dec_outer (map (\<lambda>(k, vs). (k, JObj (map (\<lambda>v. (v, JBool True)) vs))) d) m =
     Some (fold (\<lambda>(k, vs). map_put k (flag_set vs)) d m)"
  by (induction d arbitrary: m) (auto simp: dec_flags_True flag_set_def)

lemma dec_strings_JStr: "dec_strings (map JStr ss) = Ok ss"
  by (induction ss) auto

lemma dec_legacy_strings:
  "dec_legacy (map (\<lambda>(k, vs). (k, JArr (map JStr vs))) d) m = Ok (fold (\<lambda>(k, vs). map_put k vs) d m)"
  by (induction d arbitrary: m) (auto simp: dec_strings_JStr)

text \<open>The filter set of \<open>d\<close>, whichever way it was sent.\<close>

lemma filters_of_flags:
  assumes "gomap_ok d" "p \<noteq> []" "parse p = Ok (flags_json d)"
  shows "getFilterJSON parse p = Ok \<lparr>filterSet = map (\<lambda>(k, vs). (k, flag_set vs)) d\<rparr>"
  using assms fold_put_fresh [of d "[]" flag_set]
  by (simp add: getFilterJSON_def flags_json_def newFilters_def dec_outer_flags)

lemma filters_of_legacy:
  assumes "gomap_ok d" "p \<noteq> []" "parse p = Ok (legacy_json d)"
  shows "getFilterJSON parse p = Ok \<lparr>filterSet = map (\<lambda>(k, vs). (k, flag_set vs)) d\<rparr>"
proof (cases d)
  case Nil
  with assms show ?thesis by (simp add: getFilterJSON_def legacy_json_def newFilters_def)
next
  case (Cons kv d')
  then have "filters_UnmarshalJSON (legacy_json d) (filterSet (newFilters [])) = None"
    by (cases kv) (simp add: legacy_json_def)
  moreover have "unmarshal_legacy (legacy_json d) = Ok d"
    using assms fold_put_fresh [of d "[]" id] by (simp add: unmarshal_legacy_def legacy_json_def dec_legacy_strings)
  moreover have "getFilterFromLegacy d = map (\<lambda>(k, vs). (k, flag_set vs)) d"
    using assms fold_put_fresh [of d "[]" flag_set] by (simp add: getFilterFromLegacy_def flag_set_def)
  ultimately show ?thesis
    using assms by (simp add: getFilterJSON_def)
qed

lemma ToLegacyFormat_flags:
  assumes "gomap_ok d"
  shows "ToLegacyFormat \<lparr>filterSet = map (\<lambda>(k, vs). (k, flag_set vs)) d\<rparr> =
    map (\<lambda>(k, vs). (k, sort (remdups vs))) (filter (\<lambda>(k, vs). vs \<noteq> []) d)"
proof -
  let ?f = "\<lparr>filterSet = map (\<lambda>(k, vs). (k, flag_set vs)) d\<rparr>"
  have keys: "getFiltersKeys ?f k = map fst (flag_set vs)" if "(k, vs) \<in> set d" for k vs
  proof -
    have "map_of (filterSet ?f) k = Some (flag_set vs)"
      using that assms by (auto simp: map_of_eq_Some_iff comp_def case_prod_unfold intro: rev_image_eqI)
    then show ?thesis by (simp add: getFiltersKeys_def)
  qed
  have empty: "flag_set vs = [] \<longleftrightarrow> vs = []" for vs
    using flag_set_keys(1) [of vs] by (metis empty_set image_is_empty set_empty)
  have "fold (\<lambda>key result. let vals = getFiltersKeys ?f key in if length vals > 0 then map_put key (sort vals) result else result)
      (map fst e) m = m @ map (\<lambda>(k, vs). (k, sort (remdups vs))) (filter (\<lambda>(k, vs). vs \<noteq> []) e)"
    if "set e \<subseteq> set d" "distinct (map fst e)" "fst ` set m \<inter> fst ` set e = {}" for e m
    using that
  proof (induction e arbitrary: m)
    case (Cons kv e)
    obtain k vs where kv: "kv = (k, vs)" by force
    have k: "getFiltersKeys ?f k = map fst (flag_set vs)" using Cons.prems(1) kv by (intro keys) auto
    show ?case
    proof (cases "vs = []")
      case True
      with k kv Cons show ?thesis by (simp add: empty)
    next
      case False
      have "map_put k (sort (remdups vs)) m = m @ [(k, sort (remdups vs))]"
        using Cons.prems(3) kv by (intro map_put_fresh) auto
      with False k kv Cons show ?thesis by (auto simp: empty flag_set_sorted)
    qed
  qed simp
  from this [of d "[]"] assms show ?thesis
    by (simp add: ToLegacyFormat_def comp_def case_prod_unfold)
qed

text \<open>
  C38: A set of filters means the same in both formats the API accepts, values as
  arrays (\<open>{"label":["a","b"]}\<close>) or as keys of objects (\<open>{"label":{"a":true,"b":true}}\<close>): nerdctl
  gets one filter \<open>name=value\<close> for every value, no other and none twice
  within a name, in sorted order.
\<close>

theorem filter_formats_agree:
  assumes d: "gomap_ok d" and p: "query_get r ''filters'' = p" "p \<noteq> []"
    and parsed: "parse p = Ok (legacy_json d) \<or> parse p = Ok (flags_json d)"
  shows "NerdctlFiltersFromAPIFilters parse r =
    Ok (concat (map (\<lambda>(k, vs). map (\<lambda>v. k @ ''='' @ v) (sort (remdups vs))) d))"
proof -
  have "getFilterJSON parse p = Ok \<lparr>filterSet = map (\<lambda>(k, vs). (k, flag_set vs)) d\<rparr>"
    using d p(2) parsed filters_of_flags filters_of_legacy by blast
  then have "NerdctlFiltersFromAPIFilters parse r =
      Ok (concat (map (\<lambda>(k, fs). map (\<lambda>f. k @ ''='' @ f) fs)
        (map (\<lambda>(k, vs). (k, sort (remdups vs))) (filter (\<lambda>(k, vs). vs \<noteq> []) d))))"
    using p by (simp add: NerdctlFiltersFromAPIFilters_def ParseFilterArgs_def ToLegacyFormat_flags [OF d])
  moreover have "concat (map (\<lambda>(k, fs). map (\<lambda>f. k @ ''='' @ f) fs)
        (map (\<lambda>(k, vs). (k, sort (remdups vs))) (filter (\<lambda>(k, vs). vs \<noteq> []) d))) =
      concat (map (\<lambda>(k, vs). map (\<lambda>v. k @ ''='' @ v) (sort (remdups vs))) d)"
    by (induction d) auto
  ultimately show ?thesis by simp
qed

theorem filter_formats_agree_witness:
  "NerdctlFiltersFromAPIFilters (\<lambda>_. Ok (legacy_json [(''label'', [''b'', ''a'', ''b''])]))
     \<lparr>vars = [], query = [(''filters'', [''x''])], req_header = []\<rparr> = Ok [''label=a'', ''label=b'']"
  using filter_formats_agree [where d = "[(''label'', [''b'', ''a'', ''b''])]" and p = "''x''"
      and r = "\<lparr>vars = [], query = [(''filters'', [''x''])], req_header = []\<rparr>"
      and parse = "\<lambda>_. Ok (legacy_json [(''label'', [''b'', ''a'', ''b''])])"]
  by (simp add: query_get_def)

end
