(* ===== verification/Container_Types.thy ===== *)
theory Container_Types
  imports Errdefs
begin

text \<open>
  The data types of the container endpoints (\<open>src/api/types/container_types.go\<close>) and the
  options the daemon hands to nerdctl. Nil and empty slices and maps are not told
  apart, since no code does; a pointer that may be nil is an option. Ulimits (\<open>'u\<close>) and block
  I/O devices (\<open>'b\<close>) are values of other packages.
\<close>

record LogConfig =
  lc_Type :: string
  lc_Config :: "string gomap"

record RestartPolicy =
  rp_Name :: string
  MaximumRetryCount :: int

record DeviceMapping =
  PathOnHost :: string
  PathInContainer :: string
  CgroupPermissions :: string

record PortBinding =
  HostIP :: string
  HostPort :: string

type_synonym PortMap = "PortBinding list gomap"

record ContainerConfig =
  Hostname :: string
  User :: string
  AttachStdin :: bool
  ExposedPorts :: "string list"
  Tty :: bool
  Env :: "string list"
  Cmd :: "string list"
  Image :: string
  Volumes :: "string list"
  WorkingDir :: string
  Entrypoint :: "string list"
  NetworkDisabled :: bool
  MacAddress :: string
  Labels :: "string gomap"
  StopSignal :: string
  StopTimeout :: "int option"

record ('u, 'b) ContainerHostConfig =
  Binds :: "string list"
  ContainerIDFile :: string
  LogConfig :: LogConfig
  NetworkMode :: string
  PortBindings :: PortMap
  RestartPolicy :: RestartPolicy
  AutoRemove :: bool
  VolumesFrom :: "string list"
  Annotations :: "string gomap"
  CapAdd :: "string list"
  CapDrop :: "string list"
  CgroupnsMode :: string
  DNS :: "string list"
  DNSOptions :: "string list"
  DNSSearch :: "string list"
  ExtraHosts :: "string list"
  GroupAdd :: "string list"
  IpcMode :: string
  OomKillDisable :: bool
  PidMode :: string
  Privileged :: bool
  ReadonlyRootfs :: bool
  SecurityOpt :: "string list"
  Tmpfs :: "string gomap"
  UTSMode :: string
  ShmSize :: int
  Sysctls :: "string gomap"
  Runtime :: string
  CPUShares :: int
  CPUPeriod :: int
  CPUQuota :: int
  CPUSetCPUs :: string
  CPUSetMems :: string
  Memory :: int
  MemoryReservation :: int
  MemorySwap :: int
  MemorySwappiness :: int
  Ulimits :: "'u option list"
  BlkioWeight :: nat
  BlkioWeightDevice :: "'b option list"
  BlkioDeviceReadBps :: "'b option list"
  BlkioDeviceWriteBps :: "'b option list"
  BlkioDeviceReadIOps :: "'b option list"
  BlkioDeviceWriteIOps :: "'b option list"
  Devices :: "DeviceMapping list"
  PidsLimit :: int

text \<open>The zero values of the two structures.\<close>

definition zero_config :: ContainerConfig where
  "zero_config = \<lparr>Hostname = [], User = [], AttachStdin = False, ExposedPorts = [], Tty = False, Env = [], Cmd = [], Image = [],
     Volumes = [], WorkingDir = [], Entrypoint = [], NetworkDisabled = False, MacAddress = [], Labels = [], StopSignal = [],
     StopTimeout = None\<rparr>"

definition zero_host_config :: "('u, 'b) ContainerHostConfig" where
  "zero_host_config = \<lparr>Binds = [], ContainerIDFile = [], LogConfig = \<lparr>lc_Type = [], lc_Config = []\<rparr>, NetworkMode = [],
     PortBindings = [], RestartPolicy = \<lparr>rp_Name = [], MaximumRetryCount = 0\<rparr>, AutoRemove = False, VolumesFrom = [], Annotations = [],
     CapAdd = [], CapDrop = [], CgroupnsMode = [], DNS = [], DNSOptions = [], DNSSearch = [], ExtraHosts = [], GroupAdd = [],
     IpcMode = [], OomKillDisable = False, PidMode = [], Privileged = False, ReadonlyRootfs = False, SecurityOpt = [], Tmpfs = [],
     UTSMode = [], ShmSize = 0, Sysctls = [], Runtime = [], CPUShares = 0, CPUPeriod = 0, CPUQuota = 0, CPUSetCPUs = [],
     CPUSetMems = [], Memory = 0, MemoryReservation = 0, MemorySwap = 0, MemorySwappiness = 0, Ulimits = [], BlkioWeight = 0,
     BlkioWeightDevice = [], BlkioDeviceReadBps = [], BlkioDeviceWriteBps = [], BlkioDeviceReadIOps = [],
     BlkioDeviceWriteIOps = [], Devices = [], PidsLimit = 0\<rparr>"

record ('u, 'b) ContainerCreateRequest =
  rq_Config :: ContainerConfig
  HostConfig :: "('u, 'b) ContainerHostConfig"

definition CgroupnsMode_Valid :: "string \<Rightarrow> bool" where
  "CgroupnsMode_Valid c \<longleftrightarrow> c = ''private'' \<or> c = ''host''"

text \<open>nerdctl's \<open>ContainerCreateOptions\<close> and \<open>NetworkOptions\<close>, without the global options of the daemon
  and the output streams, which are fixed; \<open>'p\<close> is a port mapping of go-cni.\<close>

record ContainerCreateOptions =
  NerdctlCmd :: string
  NerdctlArgs :: "string list"
  o_Interactive :: bool
  o_TTY :: bool
  o_Detach :: bool
  o_Restart :: string
  o_Rm :: bool
  o_Pull :: string
  o_StopSignal :: string
  o_StopTimeout :: int
  o_CidFile :: string
  o_OomKillDisable :: bool
  o_Pid :: string
  o_Platform :: string
  o_Isolation :: string
  o_CPUSetCPUs :: string
  o_CPUSetMems :: string
  o_CPUShares :: int
  o_CPUQuota :: int
  o_CPUPeriod :: int
  o_Memory :: string
  o_MemorySwap :: string
  o_MemoryReservation :: string
  o_MemorySwappiness64 :: int
  o_Ulimit :: "string list"
  o_PidsLimit :: int
  o_Cgroupns :: string
  o_BlkioWeight :: nat
  o_BlkioWeightDevice :: "string list"
  o_BlkioDeviceReadBps :: "string list"
  o_BlkioDeviceWriteBps :: "string list"
  o_BlkioDeviceReadIOps :: "string list"
  o_BlkioDeviceWriteIOps :: "string list"
  o_IPC :: string
  o_ShmSize :: string
  o_Device :: "string list"
  o_User :: string
  o_GroupAdd :: "string list"
  o_SecurityOpt :: "string list"
  o_CapAdd :: "string list"
  o_CapDrop :: "string list"
  o_Privileged :: bool
  o_Runtime :: string
  o_Sysctl :: "string list"
  o_Volume :: "string list"
  o_VolumesFrom :: "string list"
  o_Tmpfs :: "string list"
  o_Env :: "string list"
  o_Workdir :: string
  o_Entrypoint :: "string list"
  o_EntrypointChanged :: bool
  o_Name :: string
  o_Label :: "string list"
  o_Annotations :: "string list"
  o_LogDriver :: string
  o_LogOpt :: "string list"
  o_VerifyProvider :: string
  o_ReadOnly :: bool

record 'p NetworkOptions =
  n_Hostname :: string
  n_NetworkSlice :: "string list"
  n_DNSServers :: "string list"
  n_DNSResolvConfOptions :: "string list"
  n_DNSSearchDomains :: "string list"
  n_PortMappings :: "'p list"
  n_AddHost :: "string list"
  n_MACAddress :: string
  n_UTSNamespace :: string

end
