(* ===== verification/Containers.thy ===== *)
theory Containers
  imports Containerd Iptables Container_Types
begin

text \<open>
  The container service (\<open>src/internal/service/container\<close>): life cycle (\<open>start.go\<close>,
  \<open>stop.go\<close>, \<open>restart.go\<close>, \<open>kill.go\<close>, \<open>pause.go\<close>, \<open>unpause.go\<close>, \<open>remove.go\<close>,
  \<open>rename.go\<close>, \<open>wait.go\<close>, \<open>top.go\<close>), creation (\<open>create.go\<close>), listing and
  inspection (\<open>list.go\<close>, \<open>inspect.go\<close>).

  nerdctl's container commands are the record \<open>nerdctl_containers\<close>; of their options the
  model keeps those the daemon computes.
\<close>

section \<open>Life cycle\<close>

record ('w, 'c) nerdctl_containers =
  StartContainer :: "string \<Rightarrow> string \<Rightarrow> ('w, unit) io"
  StopContainer :: "string \<Rightarrow> int \<Rightarrow> string \<Rightarrow> ('w, unit) io"
  KillContainer :: "string \<Rightarrow> string \<Rightarrow> ('w, unit) io"
  PauseContainer :: "string \<Rightarrow> ('w, unit) io"
  UnpauseContainer :: "string \<Rightarrow> ('w, unit) io"
  RemoveContainer :: "'c \<Rightarrow> bool \<Rightarrow> bool \<Rightarrow> ('w, unit) io"
  RenameContainer :: "'c \<Rightarrow> string \<Rightarrow> ('w, unit) io"
  ContainerWait :: "string \<Rightarrow> ('w, string list) io"
  ContainerTop :: "string \<Rightarrow> string \<Rightarrow> ('w, string) io"

definition assertStartContainer :: "('w, 'c) containerd_client \<Rightarrow> 'c \<Rightarrow> ('w, unit) io" where
  "assertStartContainer cl c =
     and_then (GetContainerStatus cl c)
       (\<lambda>status. case status of
           Running \<Rightarrow> fail (NewNotModified (ErrMsg ''container already running''))
         | Pausing \<Rightarrow> ret ()
         | Paused \<Rightarrow> fail (ErrMsg ''cannot start a paused container, try unpause instead'')
         | _ \<Rightarrow> ret ())"

definition Start :: "('w, 'c) containerd_client \<Rightarrow> ('w, 'c) nerdctl_containers \<Rightarrow> string \<Rightarrow> string \<Rightarrow> ('w, unit) io" where
  "Start cl nc cid detachKeys =
     and_then (getContainer cl cid)
       (\<lambda>cont. and_then (assertStartContainer cl cont) (\<lambda>_. StartContainer nc cid detachKeys))"

definition isContainerStopped :: "('w, 'c) containerd_client \<Rightarrow> 'c \<Rightarrow> ('w, bool) io" where
  "isContainerStopped cl con =
     and_then (GetContainerStatus cl con) (\<lambda>status. ret (status = Stopped \<or> status = Created))"

definition Stop :: "('w, 'c) containerd_client \<Rightarrow> ('w, 'c) nerdctl_containers \<Rightarrow> string \<Rightarrow> int \<Rightarrow> string \<Rightarrow> ('w, unit) io" where
  "Stop cl nc cid timeout signal =
     and_then (getContainer cl cid)
       (\<lambda>con. and_then (isContainerStopped cl con)
          (\<lambda>stopped. if stopped then fail (NewNotModified (ErrMsg (''container is already stopped: '' @ cid)))
                     else StopContainer nc (c_ID cl con) timeout signal))"

definition Restart :: "('w, 'c) containerd_client \<Rightarrow> ('w, 'c) nerdctl_containers \<Rightarrow> string \<Rightarrow> int \<Rightarrow> ('w, unit) io" where
  "Restart cl nc cid timeout =
     and_then (getContainer cl cid)
       (\<lambda>con. or_else (StopContainer nc (c_ID cl con) timeout [])
          (\<lambda>err. if \<not> IsNotModified err then fail err else StartContainer nc cid [])
          (\<lambda>_. StartContainer nc cid []))"

text \<open>The error translation of \<open>Kill\<close>, \<open>Pause\<close>, \<open>Unpause\<close>, \<open>Wait\<close> and \<open>Top\<close>.\<close>

definition find_or_notfound :: "('w, 'c) containerd_client \<Rightarrow> string \<Rightarrow> ('c \<Rightarrow> ('w, 'a) io) \<Rightarrow> ('w, 'a) io" where
  "find_or_notfound cl cid k =
     or_else (getContainer cl cid)
       (\<lambda>err. if cerr_IsNotFound err then fail (NewNotFound err) else fail err) k"

definition Kill :: "('w, 'c) containerd_client \<Rightarrow> ('w, 'c) nerdctl_containers \<Rightarrow> string \<Rightarrow> string \<Rightarrow> ('w, unit) io" where
  "Kill cl nc cid signal =
     find_or_notfound cl cid
       (\<lambda>cont. and_then (GetContainerStatus cl cont)
          (\<lambda>status. if status \<noteq> Running
                    then fail (NewConflict (ErrMsg (''container '' @ cid @ '' is not running'')))
                    else KillContainer nc cid signal))"

definition Pause :: "('w, 'c) containerd_client \<Rightarrow> ('w, 'c) nerdctl_containers \<Rightarrow> string \<Rightarrow> ('w, unit) io" where
  "Pause cl nc cid =
     find_or_notfound cl cid
       (\<lambda>cont. and_then (GetContainerStatus cl cont)
          (\<lambda>status. if status \<noteq> Running
                    then (if status = Paused
                          then fail (NewConflict (ErrMsg (''container '' @ cid @ '' is already paused'')))
                          else fail (NewConflict (ErrMsg (''container '' @ cid @ '' is not running''))))
                    else PauseContainer nc cid))"

definition Unpause :: "('w, 'c) containerd_client \<Rightarrow> ('w, 'c) nerdctl_containers \<Rightarrow> string \<Rightarrow> ('w, unit) io" where
  "Unpause cl nc cid =
     find_or_notfound cl cid
       (\<lambda>cont. and_then (GetContainerStatus cl cont)
          (\<lambda>status. if status \<noteq> Paused
                    then fail (NewConflict (ErrMsg (''Container '' @ cid @ '' is not paused'')))
                    else UnpauseContainer nc cid))"

text \<open>\<open>errors.As(err, &container.ErrContainerStatus{})\<close> is the class \<open>XContainerStatus\<close>.\<close>

definition container_Remove :: "('w, 'c) containerd_client \<Rightarrow> ('w, 'c) nerdctl_containers \<Rightarrow> string \<Rightarrow> bool \<Rightarrow> bool \<Rightarrow>
    ('w, unit) io" where
  "container_Remove cl nc cid force removeVolumes =
     and_then (getContainer cl cid)
       (\<lambda>con. or_else (RemoveContainer nc con force removeVolumes)
          (\<lambda>err. if XContainerStatus \<in> set (ext_kinds err)
                 then fail (NewConflict (ErrMsg (Error err @ ''. unpause/stop container first or force removal'')))
                 else fail err)
          ret)"

definition Rename :: "('w, 'c) containerd_client \<Rightarrow> ('w, 'c) nerdctl_containers \<Rightarrow> string \<Rightarrow> string \<Rightarrow> ('w, unit) io" where
  "Rename cl nc cid newName =
     or_else (getContainer cl newName)
       (\<lambda>_. and_then (getContainer cl cid) (\<lambda>con. RenameContainer nc con newName))
       (\<lambda>_. fail (NewConflict (ErrMsg (''container with name '' @ newName @ '' already exists''))))"

definition Wait :: "('w, 'c) containerd_client \<Rightarrow> ('w, 'c) nerdctl_containers \<Rightarrow> string \<Rightarrow> ('w, string list) io" where
  "Wait cl nc cid = find_or_notfound cl cid (\<lambda>cont. ContainerWait nc (c_ID cl cont))"

definition Top :: "('w, 'c) containerd_client \<Rightarrow> ('w, 'c) nerdctl_containers \<Rightarrow> string \<Rightarrow> string \<Rightarrow> ('w, string) io" where
  "Top cl nc cid psArgs = find_or_notfound cl cid (\<lambda>_. ContainerTop nc cid psArgs)"

section \<open>Creation\<close>

record ('w, 'c, 'p, 'm) create_env =
  GetNerdctlExe :: "('w, string) io"
  NewNetworkingOptionsManager :: "'p NetworkOptions \<Rightarrow> ('w, 'm) io"
  CreateContainer :: "string list \<Rightarrow> 'm \<Rightarrow> ContainerCreateOptions \<Rightarrow> ('w, 'c + gerr \<times> ('w, unit) io option) io"
  DataStore :: "string res"
  LogURIGenerator :: "string \<Rightarrow> string \<Rightarrow> string res"
  L_LogURI :: string
  ports_json :: "'p list \<Rightarrow> string res"

definition updateContainerMetadata :: "('w, 'c) containerd_client \<Rightarrow> ('w, 'c, 'p, 'm) create_env \<Rightarrow> ContainerCreateOptions \<Rightarrow>
    'p NetworkOptions \<Rightarrow> 'c \<Rightarrow> ('w, unit) io" where
  "updateContainerMetadata cl ce createOpt netOpt cont =
     and_then (c_Labels cl cont) (\<lambda>opts.
     and_then (c_Annotations cl cont) (\<lambda>annotations.
     and_then (lift_res (DataStore ce)) (\<lambda>dataStore.
     and_then (lift_res (LogURIGenerator ce (NerdctlCmd createOpt) dataStore)) (\<lambda>logURI.
       case annotations of
         None \<Rightarrow> panic ''assignment to entry in nil map''
       | Some ann \<Rightarrow>
           let opts1 = map_put (L_LogURI ce) logURI opts; ann1 = map_put (L_LogURI ce) logURI ann
           in if length (n_PortMappings netOpt) > 0
              then and_then (lift_res (ports_json ce (n_PortMappings netOpt)))
                     (\<lambda>portsJSON. c_Update cl cont (map_put (L_Ports cl) portsJSON opts1) (map_put (L_Ports cl) portsJSON ann1))
              else c_Update cl cont opts1 ann1))))"

definition translate_create_error :: "gerr \<Rightarrow> gerr" where
  "translate_create_error err =
     (if cerr_IsNotFound err then NewNotFound err
      else if cerr_IsInvalidArgument err then NewInvalidFormat err
      else if cerr_IsAlreadyExists err then NewConflict err
      else err)"

definition container_Create :: "('w, 'c) containerd_client \<Rightarrow> ('w, 'c, 'p, 'm) create_env \<Rightarrow> string \<Rightarrow> string list \<Rightarrow>
    ContainerCreateOptions \<Rightarrow> 'p NetworkOptions \<Rightarrow> ('w, string) io" where
  "container_Create cl ce img cmd createOpt netOpt =
     or_else (if NerdctlCmd createOpt = []
              then and_then (GetNerdctlExe ce) (\<lambda>ncExe. ret (createOpt\<lparr>NerdctlCmd := ncExe, NerdctlArgs := []\<rparr>))
              else ret createOpt)
       (\<lambda>err. fail (ErrMsg (''failed to find nerdctl binary: '' @ Error err)))
       (\<lambda>createOpt. and_then (NewNetworkingOptionsManager ce netOpt)
         (\<lambda>netManager. and_then (CreateContainer ce (img # cmd) netManager createOpt)
           (\<lambda>r. case r of
               Inr (err, gc) \<Rightarrow>
                 and_then (case gc of None \<Rightarrow> ret () | Some g \<Rightarrow> g) (\<lambda>_. fail (translate_create_error err))
             | Inl cont \<Rightarrow>
                 and_then (ignore_err (updateContainerMetadata cl ce createOpt netOpt cont)) (\<lambda>_. ret (c_ID cl cont)))))"

section \<open>Network names\<close>

definition networkPrefix :: string where "networkPrefix = ''unknown-eth''"

text \<open>The index is parsed as an unsigned 64-bit number and compared as a signed one; \<open>Panic\<close> is
  the index out of range.\<close>

definition getNetworkName :: "('w, 'c) containerd_client \<Rightarrow> (string \<Rightarrow> string list res) \<Rightarrow> string gomap \<Rightarrow> string \<Rightarrow> string res" where
  "getNetworkName cl dec lab network =
     (case map_of lab (L_Networks cl) of
        None \<Rightarrow> Ok network
      | Some namesJSON \<Rightarrow>
          (case dec namesJSON of
             Ok names \<Rightarrow>
               if HasPrefix network networkPrefix then
                 (case ParseUint 64 (drop (length networkPrefix) network) of
                    None \<Rightarrow> Ok network
                  | Some index \<Rightarrow>
                      if wrap64 (int index) < int (length names)
                      then (if index < length names then Ok (names ! index) else Panic ''index out of range'')
                      else Ok network)
               else Ok network
           | _ \<Rightarrow> Ok network))"

fun rename_networks :: "(string \<Rightarrow> string res) \<Rightarrow> 'e gomap \<Rightarrow> 'e gomap \<Rightarrow> 'e gomap res" where
  "rename_networks name [] acc = Ok acc"
| "rename_networks name ((network, settings) # ns) acc =
     (case name network of
        Ok n \<Rightarrow> rename_networks name ns (map_put n settings acc)
      | Err e \<Rightarrow> Err e
      | Panic p \<Rightarrow> Panic p
      | Hang \<Rightarrow> Hang)"

text \<open>The network settings of a container are absent, or a map that may be nil.\<close>

definition updateNetworkSettings :: "('w, 'c) containerd_client \<Rightarrow> (string \<Rightarrow> string list res) \<Rightarrow> 'e gomap option option \<Rightarrow>
    string gomap \<Rightarrow> 'e gomap option option res" where
  "updateNetworkSettings cl dec ns lab =
     (case ns of
        Some (Some networks) \<Rightarrow>
          (case rename_networks (getNetworkName cl dec lab) networks [] of
             Ok m \<Rightarrow> Ok (Some (Some m))
           | Err e \<Rightarrow> Err e
           | Panic p \<Rightarrow> Panic p
           | Hang \<Rightarrow> Hang)
      | _ \<Rightarrow> Ok ns)"

section \<open>Inspection and listing\<close>

record dc_state =
  st_Status :: string
  FinishedAt :: string

text \<open>nerdctl's \<open>dockercompat.HostConfig\<close>; port bindings as in the daemon's configuration.\<close>

record dc_host_config =
  hc_ContainerIDFile :: string
  hc_LogDriver :: string
  hc_LogOpts :: "string gomap"
  hc_PortBindings :: PortMap
  hc_DNS :: "string list"
  hc_DNSOptions :: "string list"
  hc_DNSSearch :: "string list"
  hc_IpcMode :: string
  hc_PidMode :: string
  hc_ReadonlyRootfs :: bool
  hc_ShmSize :: int
  hc_Sysctls :: "string gomap"
  hc_CPUSetMems :: string
  hc_CPUSetCPUs :: string
  hc_CPUShares :: nat
  hc_CPUPeriod :: nat
  hc_Memory :: int
  hc_MemorySwap :: int
  hc_OomKillDisable :: bool
  hc_Devices :: "DeviceMapping list"

text \<open>\<open>int64(c.CPUShares)\<close> of an unsigned 64-bit number wraps.\<close>

definition getHostConfigFromDockerCompat :: "dc_host_config option \<Rightarrow> ('u, 'b) ContainerHostConfig option" where
  "getHostConfigFromDockerCompat hc =
     (case hc of
        None \<Rightarrow> None
      | Some c \<Rightarrow> Some (zero_host_config
          \<lparr>ContainerIDFile := hc_ContainerIDFile c,
           LogConfig := \<lparr>lc_Type = hc_LogDriver c, lc_Config = hc_LogOpts c\<rparr>,
           PortBindings := hc_PortBindings c, DNS := hc_DNS c, DNSOptions := hc_DNSOptions c, DNSSearch := hc_DNSSearch c,
           IpcMode := hc_IpcMode c, PidMode := hc_PidMode c, ReadonlyRootfs := hc_ReadonlyRootfs c, ShmSize := hc_ShmSize c,
           Sysctls := hc_Sysctls c, CPUSetMems := hc_CPUSetMems c, CPUSetCPUs := hc_CPUSetCPUs c,
           CPUShares := wrap64 (int (hc_CPUShares c)), CPUPeriod := wrap64 (int (hc_CPUPeriod c)),
           Memory := hc_Memory c, MemorySwap := hc_MemorySwap c, OomKillDisable := hc_OomKillDisable c,
           Devices := map (\<lambda>d. \<lparr>PathOnHost = PathOnHost d, PathInContainer = PathInContainer d,
                                CgroupPermissions = CgroupPermissions d\<rparr>) (hc_Devices c)\<rparr>))"

text \<open>nerdctl's view of a container and the daemon's; exposed ports and volumes are opaque sets of names.\<close>

record dc_config =
  k_Hostname :: string
  k_User :: string
  k_AttachStdin :: bool
  k_ExposedPorts :: "string list"
  k_Env :: "string list"
  k_Cmd :: "string list"
  k_Volumes :: "string list"
  k_WorkingDir :: string
  k_Entrypoint :: "string list"
  k_Labels :: "string gomap"

record 'e dc_container =
  i_ID :: string
  i_Created :: string
  i_Path :: string
  i_Args :: "string list"
  i_State :: "dc_state option"
  i_Image :: string
  i_ResolvConfPath :: string
  i_HostnamePath :: string
  i_LogPath :: string
  i_Name :: string
  i_RestartCount :: int
  i_Driver :: string
  i_Platform :: string
  i_AppArmorProfile :: string
  i_Mounts :: "string list"
  i_NetworkSettings :: "'e gomap option option"
  i_SizeRw :: "int option"
  i_SizeRootFs :: "int option"
  i_HostConfig :: "dc_host_config option"
  i_Config :: "dc_config option"

record ('e, 'u, 'b) Container =
  con_ID :: string
  con_Created :: string
  con_Path :: string
  con_Args :: "string list"
  con_State :: "dc_state option"
  con_Image :: string
  con_ResolvConfPath :: string
  con_HostnamePath :: string
  con_LogPath :: string
  con_Name :: string
  con_RestartCount :: int
  con_Driver :: string
  con_Platform :: string
  con_AppArmorProfile :: string
  con_Mounts :: "string list"
  con_NetworkSettings :: "'e gomap option option"
  con_SizeRw :: "int option"
  con_SizeRootFs :: "int option"
  con_HostConfig :: "('u, 'b) ContainerHostConfig option"
  con_Config :: ContainerConfig

definition zero_time :: string where "zero_time = ''0001-01-01T00:00:00Z''"

definition config_of_inspect :: "dc_config \<Rightarrow> string \<Rightarrow> ContainerConfig" where
  "config_of_inspect c img = zero_config
     \<lparr>Hostname := k_Hostname c, User := k_User c, AttachStdin := k_AttachStdin c, ExposedPorts := k_ExposedPorts c,
      Tty := False, Env := k_Env c, Cmd := k_Cmd c, Image := img, Volumes := k_Volumes c, WorkingDir := k_WorkingDir c,
      Entrypoint := k_Entrypoint c, Labels := k_Labels c\<rparr>"

definition container_of_inspect :: "'e dc_container \<Rightarrow> dc_config \<Rightarrow> 'e gomap option option \<Rightarrow> ('e, 'u, 'b) Container" where
  "container_of_inspect insp cfg ns =
     \<lparr>con_ID = i_ID insp,
      con_Created = (if i_Created insp = [] then zero_time else i_Created insp),
      con_Path = i_Path insp, con_Args = i_Args insp,
      con_State = map_option (\<lambda>st. if FinishedAt st = [] then st\<lparr>FinishedAt := zero_time\<rparr> else st) (i_State insp),
      con_Image = i_Image insp, con_ResolvConfPath = i_ResolvConfPath insp, con_HostnamePath = i_HostnamePath insp,
      con_LogPath = i_LogPath insp, con_Name = ''/'' @ i_Name insp, con_RestartCount = i_RestartCount insp,
      con_Driver = i_Driver insp, con_Platform = i_Platform insp, con_AppArmorProfile = i_AppArmorProfile insp,
      con_Mounts = i_Mounts insp, con_NetworkSettings = ns, con_SizeRw = i_SizeRw insp, con_SizeRootFs = i_SizeRootFs insp,
      con_HostConfig = getHostConfigFromDockerCompat (i_HostConfig insp),
      con_Config = config_of_inspect cfg (i_Image insp)\<rparr>"

definition container_Inspect :: "('w, 'c) containerd_client \<Rightarrow> ('c \<Rightarrow> bool \<Rightarrow> ('w, 'e dc_container) io) \<Rightarrow>
    (string \<Rightarrow> string list res) \<Rightarrow> string \<Rightarrow> bool \<Rightarrow> ('w, ('e, 'u, 'b) Container) io" where
  "container_Inspect cl InspectContainer dec cid sizeFlag =
     and_then (getContainer cl cid) (\<lambda>c.
     and_then (InspectContainer c sizeFlag) (\<lambda>insp.
     case i_Config insp of
       None \<Rightarrow> panic ''nil pointer dereference''
     | Some cfg \<Rightarrow>
         or_else (c_Labels cl c)
           (\<lambda>err. fail (ErrMsg (''failed to get container labels: '' @ Error err)))
           (\<lambda>l. and_then (lift_res (updateNetworkSettings cl dec (i_NetworkSettings insp) l))
             (\<lambda>ns. ret (container_of_inspect insp cfg ns)))))"

record list_item =
  li_ID :: string
  li_Names :: string
  li_Image :: string
  li_CreatedAt :: int
  li_Labels :: "string gomap"

record 'e ContainerListItem =
  cli_Id :: string
  cli_Names :: "string list"
  cli_Image :: string
  cli_CreatedAt :: int
  cli_State :: string
  cli_Labels :: "string gomap"
  cli_NetworkSettings :: "'e gomap option option"
  cli_Mounts :: "string list"

fun list_containers :: "('w, 'c) containerd_client \<Rightarrow> ('c \<Rightarrow> bool \<Rightarrow> ('w, 'e dc_container) io) \<Rightarrow>
    (string \<Rightarrow> string list res) \<Rightarrow> list_item list \<Rightarrow> 'e ContainerListItem list \<Rightarrow> ('w, 'e ContainerListItem list) io" where
  "list_containers cl InspectContainer dec [] containers = ret containers"
| "list_containers cl InspectContainer dec (ncc # nccs) containers =
     and_then (getContainer cl (li_ID ncc)) (\<lambda>c.
     and_then (InspectContainer c False) (\<lambda>ci.
     case i_State ci of
       None \<Rightarrow> panic ''nil pointer dereference''
     | Some st \<Rightarrow>
         or_else (c_Labels cl c)
           (\<lambda>err. fail (ErrMsg (''failed to get container labels: '' @ Error err)))
           (\<lambda>l. and_then (lift_res (updateNetworkSettings cl dec (i_NetworkSettings ci) l))
              (\<lambda>ns. list_containers cl InspectContainer dec nccs
                 (containers @ [\<lparr>cli_Id = li_ID ncc, cli_Names = [''/'' @ li_Names ncc], cli_Image = li_Image ncc,
                    cli_CreatedAt = li_CreatedAt ncc, cli_State = st_Status st, cli_Labels = li_Labels ncc,
                    cli_NetworkSettings = ns, cli_Mounts = i_Mounts ci\<rparr>])))))"

definition container_List :: "('w, 'c) containerd_client \<Rightarrow> ('w, list_item list) io \<Rightarrow>
    ('c \<Rightarrow> bool \<Rightarrow> ('w, 'e dc_container) io) \<Rightarrow> (string \<Rightarrow> string list res) \<Rightarrow> ('w, 'e ContainerListItem list) io" where
  "container_List cl ListContainers InspectContainer dec =
     and_then ListContainers (\<lambda>nccs. list_containers cl InspectContainer dec nccs [])"

section \<open>The life cycle as a state machine\<close>

datatype lc_op = OpStart string | OpStop int string | OpKill string | OpPause | OpUnpause

inductive lifecycle :: "lc_op \<Rightarrow> ProcessStatus \<Rightarrow> ProcessStatus \<Rightarrow> bool" where
  lc_start: "s \<in> {Created, Stopped, Pausing, UnknownStatus} \<Longrightarrow> lifecycle (OpStart k) s Running"
| lc_stop: "s \<in> {Running, Paused, Pausing, UnknownStatus} \<Longrightarrow> lifecycle (OpStop t sig) s Stopped"
| lc_kill: "lifecycle (OpKill sig) Running Stopped"
| lc_pause: "lifecycle OpPause Running Paused"
| lc_unpause: "lifecycle OpUnpause Paused Running"

inductive_cases lifecycle_PausedE: "lifecycle op Paused s'"

fun run_op :: "('w, 'c) containerd_client \<Rightarrow> ('w, 'c) nerdctl_containers \<Rightarrow> string \<Rightarrow> lc_op \<Rightarrow> ('w, unit) io" where
  "run_op cl nc cid (OpStart k) = Start cl nc cid k"
| "run_op cl nc cid (OpStop t sig) = Stop cl nc cid t sig"
| "run_op cl nc cid (OpKill sig) = Kill cl nc cid sig"
| "run_op cl nc cid OpPause = Pause cl nc cid"
| "run_op cl nc cid OpUnpause = Unpause cl nc cid"

text \<open>The status of a container as the daemon observes it.\<close>

definition observed :: "('w, 'c) containerd_client \<Rightarrow> 'w \<Rightarrow> 'c \<Rightarrow> ProcessStatus" where
  "observed cl w c = (case fst (GetContainerStatus cl c w) of Ok s \<Rightarrow> s | _ \<Rightarrow> UnknownStatus)"

text \<open>A nerdctl command on container \<open>c\<close>: on success the container has the new status and no
  other has changed, on an error nothing has.\<close>

definition cmd_ok :: "('w, 'c) containerd_client \<Rightarrow> 'c \<Rightarrow> ProcessStatus \<Rightarrow> 'w \<Rightarrow> unit res \<times> 'w \<Rightarrow> bool" where
  "cmd_ok cl c new w rw \<longleftrightarrow> (case rw of
      (Ok _, w') \<Rightarrow> observed cl w' = (observed cl w)(c := new)
    | (Err _, w') \<Rightarrow> observed cl w' = observed cl w
    | _ \<Rightarrow> True)"

definition nerdctl_ok :: "('w, 'c) containerd_client \<Rightarrow> ('w, 'c) nerdctl_containers \<Rightarrow> bool" where
  "nerdctl_ok cl nc \<longleftrightarrow>
     (\<forall>cid c w. fst (getContainer cl cid w) = Ok c \<longrightarrow>
        (\<forall>k. cmd_ok cl c Running w (StartContainer nc cid k w)) \<and>
        (\<forall>t sig. cmd_ok cl c Stopped w (StopContainer nc (c_ID cl c) t sig w)) \<and>
        (\<forall>sig. cmd_ok cl c Stopped w (KillContainer nc cid sig w)) \<and>
        cmd_ok cl c Paused w (PauseContainer nc cid w) \<and>
        cmd_ok cl c Running w (UnpauseContainer nc cid w))"

definition reads_only :: "('w, 'c) containerd_client \<Rightarrow> bool" where
  "reads_only cl \<longleftrightarrow> (\<forall>fs. pure_io (Containers cl fs)) \<and>
     (\<forall>c. pure_io (c_Task cl c) \<and> pure_io (t_Status cl c)) \<and>
     (\<forall>c w. \<exists>s. fst (GetContainerStatus cl c w) = Ok s)"

lemma reads_only_status:
  assumes "reads_only cl"
  shows "GetContainerStatus cl c w = (Ok (observed cl w c), w)"
proof -
  have "pure_io (GetContainerStatus cl c)"
    using assms unfolding reads_only_def GetContainerStatus_def by (auto intro!: pure_io_or_else)
  moreover obtain s where "fst (GetContainerStatus cl c w) = Ok s"
    using assms unfolding reads_only_def by blast
  ultimately show ?thesis
    by (cases "GetContainerStatus cl c w") (auto simp: observed_def pure_io_def dest: spec [of _ w])
qed

definition lc_post :: "('w, 'c) containerd_client \<Rightarrow> lc_op \<Rightarrow> 'c \<Rightarrow> 'w \<Rightarrow> unit res \<times> 'w \<Rightarrow> bool" where
  "lc_post cl op c w rw \<longleftrightarrow> (case rw of
      (Ok _, w') \<Rightarrow> lifecycle op (observed cl w c) (observed cl w' c) \<and> (\<forall>c'. c' \<noteq> c \<longrightarrow> observed cl w' c' = observed cl w c')
    | (Err _, w') \<Rightarrow> observed cl w' = observed cl w
    | _ \<Rightarrow> True)"

lemma lc_post_cmd: "cmd_ok cl c new w rw \<Longrightarrow> lifecycle op (observed cl w c) new \<Longrightarrow> lc_post cl op c w rw"
  by (auto simp: cmd_ok_def lc_post_def split: prod.splits res.splits)

lemma lc_post_Err [simp]: "lc_post cl op c w (Err e, w)"
  by (simp add: lc_post_def)

lemma run_op_post:
  assumes reads: "reads_only cl" and nc: "nerdctl_ok cl nc" and found: "getContainer cl cid w = (Ok c, w)"
  shows "lc_post cl op c w (run_op cl nc cid op w)"
proof -
  note st = reads_only_status [OF reads]
  have ok: "cmd_ok cl c Running w (StartContainer nc cid k w)" "cmd_ok cl c Stopped w (StopContainer nc (c_ID cl c) t sig w)"
    "cmd_ok cl c Stopped w (KillContainer nc cid sig w)" "cmd_ok cl c Paused w (PauseContainer nc cid w)"
    "cmd_ok cl c Running w (UnpauseContainer nc cid w)" for k t sig
    using nc found unfolding nerdctl_ok_def by (metis fst_conv)+
  show ?thesis
  proof (cases op)
    case (OpStart k)
    then show ?thesis
      using found st ok(1)
      by (cases "observed cl w c")
         (auto simp: Start_def assertStartContainer_def and_then_def intro!: lc_post_cmd lc_start)
  next
    case (OpStop t sig)
    then show ?thesis
      using found st ok(2)
      by (cases "observed cl w c")
         (auto simp: Stop_def isContainerStopped_def and_then_def intro!: lc_post_cmd lc_stop)
  next
    case (OpKill sig)
    then show ?thesis
      using found st ok(3) lc_kill [of sig]
      by (cases "observed cl w c")
         (auto simp: Kill_def find_or_notfound_def and_then_def or_else_def intro!: lc_post_cmd)
  next
    case OpPause
    then show ?thesis
      using found st ok(4) lc_pause
      by (cases "observed cl w c")
         (auto simp: Pause_def find_or_notfound_def and_then_def or_else_def intro!: lc_post_cmd)
  next
    case OpUnpause
    then show ?thesis
      using found st ok(5) lc_unpause
      by (cases "observed cl w c")
         (auto simp: Unpause_def find_or_notfound_def and_then_def or_else_def intro!: lc_post_cmd)
  qed
qed


text \<open>A world in which one container has the status that the world is.\<close>

definition one_status :: "(ProcessStatus, unit) containerd_client" where
  "one_status = \<lparr>L_Name = ''nerdctl/name'', L_Networks = ''nerdctl/networks'', L_MACAddress = [],
     L_IPAddress = [], L_Ports = ''nerdctl/ports'', c_ID = (\<lambda>_. ''abc''), Containers = (\<lambda>_. ret [()]), c_Task = (\<lambda>_. ret 7),
     t_Status = (\<lambda>_ w. (Ok w, w)), c_Labels = (\<lambda>_. ret []), c_SetLabels = (\<lambda>_ _. ret ()), c_Annotations = (\<lambda>_. ret (Some [])),
     c_Update = (\<lambda>_ _ _. ret ()), c_ImageName = (\<lambda>_. ret []), cu_ContainerStatus = (\<lambda>_ w. (Ok w, w))\<rparr>"

definition set_status :: "ProcessStatus \<Rightarrow> (ProcessStatus, unit) io" where
  "set_status s w = (Ok (), s)"

definition sim_nerdctl :: "(ProcessStatus, unit) nerdctl_containers" where
  "sim_nerdctl = \<lparr>StartContainer = (\<lambda>_ _. set_status Running), StopContainer = (\<lambda>_ _ _. set_status Stopped),
     KillContainer = (\<lambda>_ _. set_status Stopped), PauseContainer = (\<lambda>_. set_status Paused),
     UnpauseContainer = (\<lambda>_. set_status Running), RemoveContainer = (\<lambda>_ _ _. ret ()), RenameContainer = (\<lambda>_ _. ret ()),
     ContainerWait = (\<lambda>_. ret []), ContainerTop = (\<lambda>_ _. ret [])\<rparr>"

lemma one_status_observed: "GetContainerStatus one_status c w = (Ok w, w)" "observed one_status w = (\<lambda>_. w)"
  by (auto simp: observed_def GetContainerStatus_def one_status_def or_else_def fun_eq_iff)

lemma one_status_reads: "reads_only one_status"
  unfolding reads_only_def one_status_observed by (simp add: one_status_def pure_io_def)

lemma one_status_nerdctl: "nerdctl_ok one_status sim_nerdctl"
  unfolding nerdctl_ok_def cmd_ok_def one_status_observed
  by (simp add: sim_nerdctl_def set_status_def fun_eq_iff)

lemma one_status_found: "getContainer one_status cid w = (Ok (), w)"
  by (simp add: getContainer_def SearchContainer_def one_status_def and_then_def pick_container_def Let_def)


lemma int_less_pow: "int i < 2 ^ n \<longleftrightarrow> i < 2 ^ n"
  by (metis of_nat_less_iff of_nat_numeral of_nat_power)

text \<open>
  Network names of a container are read back from its labels: \<open>unknown-eth<i>\<close> is
  the \<open>i\<close>-th network of the label, an index past the list or an unreadable label leaves the name
  as it is; the lookup panics exactly for an index of 2^63 or more, which the
  comparison as a signed number lets through.
\<close>

theorem network_name_lookup:
  assumes lab: "map_of lab (L_Networks cl) = Some js" "dec js = Ok names" and i: "i < 2 ^ 64"
    and len: "length names < 2 ^ 63"
  shows "getNetworkName cl dec lab (networkPrefix @ dec_digits i) =
    (if i < length names then Ok (names ! i)
     else if i < 2 ^ 63 then Ok (networkPrefix @ dec_digits i)
     else Panic ''index out of range'')"
proof -
  have p: "ParseUint 64 (dec_digits i) = Some i"
    using i by (simp add: ParseUint_def)
  show ?thesis
  proof (cases "i < 2 ^ 63")
    case True
    then have w: "wrap64 (int i) = int i"
      using int_less_pow by (intro wrap64_id) auto
    show ?thesis
      using lab p True w by (auto simp: getNetworkName_def)
  next
    case False
    then have ge: "2 ^ 63 \<le> int i" "int i < 2 ^ 64"
      using i int_less_pow [of i 63] int_less_pow [of i 64] by auto
    have "wrap64 (int i) = (int i + 2 ^ 63 - 2 ^ 64) mod 2 ^ 64 - 2 ^ 63"
      unfolding wrap64_def by (metis mod_diff_eq mod_self minus_mod_self2)
    also have "\<dots> < 0" using ge by simp
    finally have "wrap64 (int i) < int (length names)" by simp
    then show ?thesis
      using lab p False len by (auto simp: getNetworkName_def)
  qed
qed

theorem network_name_lookup_witness:
  "getNetworkName one_status (\<lambda>_. Ok [''front'', ''back'']) [(''nerdctl/networks'', ''x'')] (networkPrefix @ dec_digits 1) = Ok ''back''"
  using network_name_lookup [of "[(''nerdctl/networks'', ''x'')]" one_status "''x''" "\<lambda>_. Ok [''front'', ''back'']"
      "[''front'', ''back'']" 1]
  by (simp add: one_status_def)

end
