(* ===== verification/Container_Api.thy ===== *)
theory Container_Api
  imports Filters Containers
begin

text \<open>
  The HTTP handlers of the container endpoints (\<open>src/api/handlers/container\<close>, except
  \<open>create.go\<close>): life cycle, removal, renaming, waiting, \<open>top\<close>, inspection, listing, statistics and
  the creation of exec processes. The service is a parameter record, as the handlers see it;
  \<open>daemon_container\<close> is the one the daemon wires in.
\<close>

section \<open>The service as the handlers see it\<close>

record ('w, 'i, 'l) container_Service =
  cs_Start :: "string \<Rightarrow> string \<Rightarrow> ('w, unit) io"
  cs_Stop :: "string \<Rightarrow> int \<Rightarrow> string \<Rightarrow> ('w, unit) io"
  cs_Restart :: "string \<Rightarrow> int \<Rightarrow> ('w, unit) io"
  cs_Kill :: "string \<Rightarrow> string \<Rightarrow> ('w, unit) io"
  cs_Pause :: "string \<Rightarrow> ('w, unit) io"
  cs_Unpause :: "string \<Rightarrow> ('w, unit) io"
  cs_Remove :: "string \<Rightarrow> bool \<Rightarrow> bool \<Rightarrow> ('w, unit) io"
  cs_Rename :: "string \<Rightarrow> string \<Rightarrow> ('w, unit) io"
  cs_Wait :: "string \<Rightarrow> ('w, string list) io"
  cs_Top :: "string \<Rightarrow> string \<Rightarrow> ('w, string) io"
  cs_Inspect :: "string \<Rightarrow> bool \<Rightarrow> ('w, 'i) io"
  cs_List :: "bool \<Rightarrow> int \<Rightarrow> bool \<Rightarrow> string list \<Rightarrow> ('w, 'l list) io"

section \<open>Error codes\<close>

definition not_modified_code :: "gerr \<Rightarrow> int" where
  "not_modified_code err = (if IsNotFound err then 404 else if IsNotModified err then 304 else 500)"

definition conflict_code :: "gerr \<Rightarrow> int" where
  "conflict_code err = (if IsNotFound err then 404 else if IsConflict err then 409 else 500)"

definition missing_code :: "gerr \<Rightarrow> int" where
  "missing_code err = (if IsNotFound err then 404 else 500)"

definition wait_code :: "gerr \<Rightarrow> int" where
  "wait_code err = (if IsNotFound err then 404 else if IsInvalidFormat err then 400 else 500)"

definition top_code :: "gerr \<Rightarrow> int" where
  "top_code err =
     (if IsNotFound err then 404 else if IsConflict err then 409
      else if Contains (Error err) ''unknown'' \<or> Contains (Error err) ''invalid'' then 400 else 500)"

interpretation not_modified_code: status_map not_modified_code
  by unfold_locales (auto simp: not_modified_code_def errdefs_defs)

interpretation conflict_code: status_map conflict_code
  by unfold_locales (auto simp: conflict_code_def errdefs_defs)

interpretation missing_code: status_map missing_code
  by unfold_locales (auto simp: missing_code_def errdefs_defs)

interpretation wait_code: status_map wait_code
  by unfold_locales (auto simp: wait_code_def errdefs_defs)

section \<open>Life cycle handlers\<close>

text \<open>\<open>unicode.IsLetter\<close> of a byte read as a code point (Latin-1).\<close>

definition IsLetter_byte :: "char \<Rightarrow> bool" where
  "IsLetter_byte c \<longleftrightarrow> is_letter c \<or>
     (let n = of_char c :: nat in n = 0xAA \<or> n = 0xB5 \<or> n = 0xBA \<or> (0xC0 \<le> n \<and> n \<noteq> 0xD7 \<and> n \<noteq> 0xF7))"

definition validCtrlKeys :: string where
  "validCtrlKeys = ''abcdefghijklmnopqrstuvwxyz@['' @ [CHR 0x5C] @ '']^_''"

definition validateSingleKey :: "string \<Rightarrow> gerr option" where
  "validateSingleKey key0 =
     (let key = TrimSpace key0
      in if length key = 1
         then (if \<not> IsLetter_byte (key ! 0)
               then Some (ErrMsg (''invalid key: '' @ key @ '' - single character must be a letter'')) else None)
         else if HasPrefix key ''ctrl-''
         then (let ctrlKey = TrimPrefix key ''ctrl-''
               in if length ctrlKey \<noteq> 1
                  then Some (ErrMsg (''invalid ctrl key: '' @ ctrlKey @ '' - must be a single character''))
                  else if \<not> Contains validCtrlKeys (ToLower ctrlKey)
                  then Some (ErrMsg (''invalid ctrl key: '' @ ctrlKey @ '' - must be one of '' @ validCtrlKeys))
                  else None)
         else Some (ErrMsg (''invalid key: '' @ key @ '' - must be a single character or ctrl- combination'')))"

fun first_error :: "('a \<Rightarrow> gerr option) \<Rightarrow> 'a list \<Rightarrow> gerr option" where
  "first_error f [] = None"
| "first_error f (x # xs) = (case f x of Some e \<Rightarrow> Some e | None \<Rightarrow> first_error f xs)"

definition validateDetachKeys :: "string \<Rightarrow> gerr option" where
  "validateDetachKeys detachKeys =
     (if detachKeys = [] then None else first_error validateSingleKey (Split detachKeys (CHR '','')))"

text \<open>Opening \<open>/dev/null\<close> for the command's output; closing it has no effect on the response.\<close>

definition with_devNull :: "('w, unit) io \<Rightarrow> ('w, 'a) handler \<Rightarrow> ('w, 'a) handler" where
  "with_devNull openNull k rw =
     or_else openNull (\<lambda>_. ret (JSON 400 (CErr (NewErrorFromMsg ''failed to open /dev/null'')) rw)) (\<lambda>_. k rw)"

definition handler_start :: "('w, 'i, 'l) container_Service \<Rightarrow> ('w, unit) io \<Rightarrow> http_req \<Rightarrow> ('w, 'a) handler" where
  "handler_start svc openNull r rw =
     (let detachKeys = query_get r ''detachKeys''
      in case validateDetachKeys detachKeys of
           Some err \<Rightarrow> ret (JSON 400 (CErr (NewErrorFromMsg (''Invalid detach keys: '' @ Error err))) rw)
         | None \<Rightarrow> with_devNull openNull
             (serve (cs_Start svc (mux_var r ''id'') detachKeys) (\<lambda>_. Status 204)
                (\<lambda>err. SendErrorResponse (not_modified_code err) err)) rw)"

text \<open>\<open>time.Second * time.Duration(t)\<close> in nanoseconds, as a wrapping 64-bit product.\<close>

definition stop_timeout :: "http_req \<Rightarrow> int" where
  "stop_timeout r = (let t = (case ParseInt 64 (query_get r ''t'') of None \<Rightarrow> 10 | Some t \<Rightarrow> t) in wrap64 (1000000000 * t))"

definition handler_stop :: "('w, 'i, 'l) container_Service \<Rightarrow> http_req \<Rightarrow> ('w, 'a) handler" where
  "handler_stop svc r =
     serve (cs_Stop svc (mux_var r ''id'') (stop_timeout r) (query_get r ''signal'')) (\<lambda>_. Status 204)
       (\<lambda>err. SendErrorResponse (not_modified_code err) err)"

definition handler_restart :: "('w, 'i, 'l) container_Service \<Rightarrow> ('w, unit) io \<Rightarrow> http_req \<Rightarrow> ('w, 'a) handler" where
  "handler_restart svc openNull r =
     with_devNull openNull
       (serve (cs_Restart svc (mux_var r ''id'') (stop_timeout r)) (\<lambda>_. Status 204)
          (\<lambda>err. SendErrorResponse (missing_code err) err))"

text \<open>\<open>kill\<close>, \<open>pause\<close>, \<open>unpause\<close> and \<open>top\<close> refuse a missing or empty id.\<close>

definition with_cid :: "http_req \<Rightarrow> (string \<Rightarrow> ('w, 'a) handler) \<Rightarrow> ('w, 'a) handler" where
  "with_cid r k rw =
     (case map_of (vars r) ''id'' of
        None \<Rightarrow> ret (JSON 400 (CErr (NewErrorFromMsg ''must specify a container ID'')) rw)
      | Some cid \<Rightarrow> if cid = [] then ret (JSON 400 (CErr (NewErrorFromMsg ''must specify a container ID'')) rw)
                    else k cid rw)"

definition kill_signal :: "http_req \<Rightarrow> string" where
  "kill_signal r = (if query_get r ''signal'' = [] then ''SIGKILL'' else query_get r ''signal'')"

definition handler_kill :: "('w, 'i, 'l) container_Service \<Rightarrow> ('w, unit) io \<Rightarrow> http_req \<Rightarrow> ('w, 'a) handler" where
  "handler_kill svc openNull r =
     with_cid r (\<lambda>cid. with_devNull openNull
       (serve (cs_Kill svc cid (kill_signal r)) (\<lambda>_. Status 204) (\<lambda>err. JSON (conflict_code err) (CErr (NewError err)))))"

definition handler_pause :: "('w, 'i, 'l) container_Service \<Rightarrow> ('w, unit) io \<Rightarrow> http_req \<Rightarrow> ('w, 'a) handler" where
  "handler_pause svc openNull r =
     with_cid r (\<lambda>cid. with_devNull openNull
       (serve (cs_Pause svc cid) (\<lambda>_. Status 204) (\<lambda>err. JSON (conflict_code err) (CErr (NewError err)))))"

definition handler_unpause :: "('w, 'i, 'l) container_Service \<Rightarrow> ('w, unit) io \<Rightarrow> http_req \<Rightarrow> ('w, 'a) handler" where
  "handler_unpause svc openNull r =
     with_cid r (\<lambda>cid. with_devNull openNull
       (serve (cs_Unpause svc cid) (\<lambda>_. Status 204) (\<lambda>err. JSON (conflict_code err) (CErr (NewError err)))))"

text \<open>\<open>strconv.ParseBool\<close> of a query parameter, false when it is not a boolean.\<close>

definition query_flag :: "http_req \<Rightarrow> string \<Rightarrow> bool" where
  "query_flag r k = (case ParseBool (query_get r k) of None \<Rightarrow> False | Some b \<Rightarrow> b)"

definition container_handler_remove :: "('w, 'i, 'l) container_Service \<Rightarrow> http_req \<Rightarrow> ('w, 'a) handler" where
  "container_handler_remove svc r =
     serve (cs_Remove svc (mux_var r ''id'') (query_flag r ''force'') (query_flag r ''v'')) (\<lambda>_. Status 204)
       (\<lambda>err. SendErrorResponse (conflict_code err) err)"

definition handler_rename :: "('w, 'i, 'l) container_Service \<Rightarrow> http_req \<Rightarrow> ('w, 'a) handler" where
  "handler_rename svc r =
     serve (cs_Rename svc (mux_var r ''id'') (query_get r ''name'')) (\<lambda>_. Status 204)
       (\<lambda>err. SendErrorResponse (conflict_code err) err)"

section \<open>Waiting\<close>

text \<open>The value \<open>strconv.Atoi\<close> returns, also beside an error: 0 for text that is no number, the nearest
  64-bit number for one out of range. Digits are read from the left, and a range error stops the reading.\<close>

datatype scan = ScanVal nat | ScanSyntax | ScanRange

fun scan_uint :: "nat \<Rightarrow> string \<Rightarrow> scan" where
  "scan_uint n [] = ScanVal n"
| "scan_uint n (c # s) =
     (if \<not> is_digit c then ScanSyntax
      else if 10 * n + digit_val c \<ge> 2 ^ 64 then ScanRange else scan_uint (10 * n + digit_val c) s)"

definition Atoi_val :: "string \<Rightarrow> int" where
  "Atoi_val s =
     (let neg = HasPrefix s ''-'';
          mag = (if neg \<or> HasPrefix s ''+'' then tl s else s);
          limit = (if neg then - (2 ^ 63) else 2 ^ 63 - 1)
      in if mag = [] then 0
         else case scan_uint 0 mag of
                ScanSyntax \<Rightarrow> 0
              | ScanRange \<Rightarrow> limit
              | ScanVal un \<Rightarrow> if neg then max limit (- int un) else min limit (int un))"

record waitResp = StatusCode :: int

text \<open>\<open>codeCapturingWriter.Write\<close>: the last write wins.\<close>

definition codeWriter_Write :: "string \<Rightarrow> int \<Rightarrow> int" where
  "codeWriter_Write p code = Atoi_val (TrimSpace p)"

definition handler_wait :: "('w, 'i, 'l) container_Service \<Rightarrow> http_req \<Rightarrow> ('w, waitResp) handler" where
  "handler_wait svc r rw =
     (if query_get r ''condition'' \<noteq> []
      then ret (SendErrorResponse 400 (ErrMsg ''wait condition is not supported'') rw)
      else serve (cs_Wait svc (mux_var r ''id''))
             (\<lambda>writes. JSON 200 (CData \<lparr>StatusCode = fold codeWriter_Write writes 0\<rparr>))
             (\<lambda>err. SendErrorResponse (wait_code err) err) rw)"

section \<open>Top\<close>

fun command_index :: "string list \<Rightarrow> nat option" where
  "command_index [] = None"
| "command_index (name # names) =
     (if name = ''CMD'' \<or> name = ''COMMAND'' \<or> name = ''ARGS'' then Some 0 else map_option Suc (command_index names))"

definition process_map :: "string list \<Rightarrow> nat option \<Rightarrow> string list \<Rightarrow> string gomap" where
  "process_map titles commandIndex flds =
     (case commandIndex of
        Some ci \<Rightarrow>
          if length flds > ci
          then map_put (titles ! ci) (Join (drop ci flds) '' '')
                 (fold (\<lambda>(t, f). map_put t f) (zip titles (take ci flds)) [])
          else fold (\<lambda>(t, f). map_put t f) (zip titles flds) []
      | None \<Rightarrow> fold (\<lambda>(t, f). map_put t f) (zip titles flds) [])"

definition process_row :: "string list \<Rightarrow> string list \<Rightarrow> string list" where
  "process_row titles flds = map (map_str (process_map titles (command_index titles) flds)) titles"

definition parseTopOutput :: "string list \<Rightarrow> (string list \<times> string list list) res" where
  "parseTopOutput ls =
     (if length ls < 2 then Err (ErrMsg ''insufficient output lines'')
      else let titles = Fields (ls ! 0)
           in if titles = [] then Err (ErrMsg ''no titles found'')
              else Ok (titles, concat (map (\<lambda>line0. let line = TrimSpace line0; flds = Fields line
                                                  in if line = [] \<or> flds = [] then [] else [process_row titles flds])
                                        (tl ls))))"

definition handler_top :: "('w, 'i, 'l) container_Service \<Rightarrow> http_req \<Rightarrow> ('w, string list \<times> string list list) handler" where
  "handler_top svc r =
     with_cid r (\<lambda>cid.
       serve (cs_Top svc cid (query_get r ''ps_args''))
         (\<lambda>buf. let ls = Split (TrimSpace buf) (CHR 0x0A)
                in if length ls < 2 then JSON 500 (CErr (NewErrorFromMsg ''invalid top output format''))
                   else case parseTopOutput ls of
                          Ok resp \<Rightarrow> JSON 200 (CData resp)
                        | _ \<Rightarrow> JSON 500 (CErr (NewErrorFromMsg ''invalid top output format'')))
         (\<lambda>err. JSON (top_code err) (CErr (NewError err))))"

section \<open>Inspection and listing\<close>

definition container_handler_inspect :: "('w, 'i, 'l) container_Service \<Rightarrow> http_req \<Rightarrow> ('w, 'i) handler" where
  "container_handler_inspect svc r =
     serve (cs_Inspect svc (mux_var r ''id'') (query_flag r ''size'')) (\<lambda>c. JSON 200 (CData c))
       (\<lambda>err. SendErrorResponse (missing_code err) err)"

text \<open>The message of a \<open>strconv.NumError\<close>.\<close>

definition NumError :: "string \<Rightarrow> string \<Rightarrow> string \<Rightarrow> gerr" where
  "NumError fn s why = ErrMsg (''strconv.'' @ fn @ '': parsing '' @ Quote s @ '': '' @ why)"

definition ParseInt_error :: "string \<Rightarrow> gerr" where
  "ParseInt_error s =
     (let mag = (if HasPrefix s ''-'' \<or> HasPrefix s ''+'' then tl s else s)
      in NumError ''ParseInt'' s
           (if mag = [] \<or> scan_uint 0 mag = ScanSyntax then ''invalid syntax'' else ''value out of range''))"

definition parseBoolQP :: "http_req \<Rightarrow> string \<Rightarrow> bool \<Rightarrow> bool res" where
  "parseBoolQP q key defaultV =
     (let v = query_get q key
      in if v = [] then Ok defaultV
         else case ParseBool v of None \<Rightarrow> Err (NumError ''ParseBool'' v ''invalid syntax'') | Some b \<Rightarrow> Ok b)"

definition parseIntQP :: "http_req \<Rightarrow> string \<Rightarrow> int \<Rightarrow> int res" where
  "parseIntQP q key defaultV =
     (let v = query_get q key
      in if v = [] then Ok defaultV
         else case ParseInt 64 v of None \<Rightarrow> Err (ParseInt_error v) | Some i \<Rightarrow> Ok i)"

definition bad_parameter :: "string \<Rightarrow> gerr \<Rightarrow> 'a respw \<Rightarrow> 'a respw" where
  "bad_parameter key err =
     JSON 400 (CErr (NewErrorFromMsg (''invalid query parameter '' @ Quote key @ '': '' @ Error err)))"

text \<open>A step of a handler that only parses the request: go on with the value, or answer with the error.\<close>

definition parsed :: "'x res \<Rightarrow> (gerr \<Rightarrow> 'a respw \<Rightarrow> 'a respw) \<Rightarrow> ('x \<Rightarrow> ('w, 'a) handler) \<Rightarrow> ('w, 'a) handler" where
  "parsed res err k rw =
     (case res of
        Ok x \<Rightarrow> k x rw
      | Err e \<Rightarrow> ret (err e rw)
      | Panic p \<Rightarrow> panic p
      | Hang \<Rightarrow> (\<lambda>w. (Hang, w)))"

definition container_handler_list :: "('w, 'i, 'l) container_Service \<Rightarrow> (string \<Rightarrow> json res) \<Rightarrow> http_req \<Rightarrow> ('w, 'l list) handler" where
  "container_handler_list svc parse r =
     parsed (parseBoolQP r ''all'' False) (bad_parameter ''all'') (\<lambda>all.
     parsed (parseIntQP r ''limit'' 0) (bad_parameter ''limit'') (\<lambda>limit.
     parsed (parseBoolQP r ''size'' False) (bad_parameter ''size'') (\<lambda>size.
     parsed (NerdctlFiltersFromAPIFilters parse r) (bad_parameter ''filters'') (\<lambda>filters.
       serve (cs_List svc all limit size filters) (\<lambda>containers. JSON 200 (CData containers))
         (\<lambda>err. JSON 500 (CErr (NewError err)))))))"

section \<open>Statistics and exec processes\<close>

text \<open>The statistics channel is the list of the values it delivers before it is closed. Encoding stops at the
  first error of the connection.\<close>

fun send_stats :: "'s list \<Rightarrow> 's respw \<Rightarrow> 's respw" where
  "send_stats [] rw = rw"
| "send_stats (x # xs) rw = (case put_chunk (CData x) rw of (Some e, rw1) \<Rightarrow> rw1 | (None, rw1) \<Rightarrow> send_stats xs rw1)"

definition handler_stats :: "(string \<Rightarrow> ('w, 's list) io) \<Rightarrow> http_req \<Rightarrow> ('w, 's) handler" where
  "handler_stats cs_Stats r =
     (let stream = (case ParseBool (query_get r ''stream'') of None \<Rightarrow> True | Some b \<Rightarrow> b)
      in serve (cs_Stats (mux_var r ''id''))
           (\<lambda>ch rw.
              if \<not> w_flusher rw
              then SendErrorResponse 500 (ErrMsg ''http ResponseWriter is not a http Flusher'') rw
              else send_stats (if stream then ch else take 1 ch)
                     (WriteHeader 200 (header_set ''Content-Type'' ''application/json'' rw)))
           (\<lambda>err. SendErrorResponse (missing_code err) err))"

text \<open>The request body: absent, or the result of decoding it.\<close>

definition handler_exec :: "(string \<Rightarrow> 'x \<Rightarrow> ('w, string) io) \<Rightarrow> http_req \<Rightarrow> 'x res option \<Rightarrow> ('w, string) handler" where
  "handler_exec cs_ExecCreate r body rw =
     (case map_of (vars r) ''id'' of
        None \<Rightarrow> ret (JSON 400 (CErr (NewErrorFromMsg ''must specify a container id'')) rw)
      | Some cid \<Rightarrow>
          (case body of
             None \<Rightarrow> ret (JSON 400 (CErr (NewErrorFromMsg ''request body should not be empty'')) rw)
           | Some dec \<Rightarrow>
               parsed dec (\<lambda>err. JSON 400 (CErr (NewError (ErrWrap ''unable to parse request body: '' err []))))
                 (\<lambda>config. serve (cs_ExecCreate cid config) (\<lambda>eid. JSON 201 (CData eid))
                    (\<lambda>err. JSON (conflict_code err) (CErr (NewError err)))) rw))"

section \<open>The daemon's service\<close>

definition daemon_container :: "('w, 'c) containerd_client \<Rightarrow> ('w, 'c) nerdctl_containers \<Rightarrow>
    (string \<Rightarrow> bool \<Rightarrow> ('w, 'i) io) \<Rightarrow> (bool \<Rightarrow> int \<Rightarrow> bool \<Rightarrow> string list \<Rightarrow> ('w, 'l list) io) \<Rightarrow> ('w, 'i, 'l) container_Service" where
  "daemon_container cl nc insp list =
     \<lparr>cs_Start = Start cl nc, cs_Stop = Stop cl nc, cs_Restart = Restart cl nc, cs_Kill = Kill cl nc, cs_Pause = Pause cl nc,
      cs_Unpause = Unpause cl nc, cs_Remove = container_Remove cl nc, cs_Rename = Rename cl nc, cs_Wait = Wait cl nc,
      cs_Top = Top cl nc, cs_Inspect = insp, cs_List = list\<rparr>"

section \<open>Status codes of the life cycle\<close>

fun lc_handler :: "('w, 'i, 'l) container_Service \<Rightarrow> ('w, unit) io \<Rightarrow> http_req \<Rightarrow> lc_op \<Rightarrow> ('w, 'a) handler" where
  "lc_handler svc openNull r (OpStart _) = handler_start svc openNull r"
| "lc_handler svc openNull r (OpStop _ _) = handler_stop svc r"
| "lc_handler svc openNull r (OpKill _) = handler_kill svc openNull r"
| "lc_handler svc openNull r OpPause = handler_pause svc openNull r"
| "lc_handler svc openNull r OpUnpause = handler_unpause svc openNull r"

fun lc_refusal :: "lc_op \<Rightarrow> ProcessStatus \<Rightarrow> int" where
  "lc_refusal (OpStart _) s = (if s = Paused then 500 else 304)"
| "lc_refusal (OpStop _ _) s = 304"
| "lc_refusal _ s = 409"

lemma lc_refusal_not_204: "lc_refusal op s \<noteq> 204"
  by (cases op) simp_all

definition lc_commands_succeed :: "('w, 'c) nerdctl_containers \<Rightarrow> bool" where
  "lc_commands_succeed nc \<longleftrightarrow> (\<forall>a t s w. fst (StartContainer nc a s w) = Ok () \<and> fst (StopContainer nc a t s w) = Ok () \<and>
     fst (KillContainer nc a s w) = Ok () \<and> fst (PauseContainer nc a w) = Ok () \<and> fst (UnpauseContainer nc a w) = Ok ())"

inductive_simps lifecycle_start_iff: "lifecycle (OpStart k) s s'"
inductive_simps lifecycle_stop_iff: "lifecycle (OpStop t sig) s s'"
inductive_simps lifecycle_kill_iff: "lifecycle (OpKill sig) s s'"
inductive_simps lifecycle_pause_iff: "lifecycle OpPause s s'"
inductive_simps lifecycle_unpause_iff: "lifecycle OpUnpause s s'"

lemmas lifecycle_iffs = lifecycle_start_iff lifecycle_stop_iff lifecycle_kill_iff lifecycle_pause_iff lifecycle_unpause_iff

fun lc_allowed :: "lc_op \<Rightarrow> ProcessStatus \<Rightarrow> bool" where
  "lc_allowed (OpStart _) s \<longleftrightarrow> s \<noteq> Running \<and> s \<noteq> Paused"
| "lc_allowed (OpStop _ _) s \<longleftrightarrow> s \<noteq> Stopped \<and> s \<noteq> Created"
| "lc_allowed OpUnpause s \<longleftrightarrow> s = Paused"
| "lc_allowed _ s \<longleftrightarrow> s = Running"

lemma Ex_lifecycle: "Ex (lifecycle op s) = lc_allowed op s"
proof -
  have "(\<exists>s'. lifecycle op s s') = lc_allowed op s"
    by (cases op; cases s) (auto simp only: lifecycle_iffs lc_allowed.simps ProcessStatus.distinct insert_iff empty_iff)
  then show ?thesis by simp
qed

fun lc_code :: "lc_op \<Rightarrow> gerr \<Rightarrow> int" where
  "lc_code (OpStart _) = not_modified_code"
| "lc_code (OpStop _ _) = not_modified_code"
| "lc_code _ = conflict_code"

text \<open>A handler's answer, from the outcome of its service call.\<close>

definition lc_answer :: "int \<Rightarrow> 'w \<Rightarrow> 'a respw res \<times> 'w \<Rightarrow> bool" where
  "lc_answer c w' out \<longleftrightarrow> (\<exists>rw'. out = (Ok rw', w') \<and> status_of rw' = Some c)"

lemma lc_answerI:
  assumes "w_sent rw = None"
    and "case fst (m w) of Ok x \<Rightarrow> c = 204 | Err e \<Rightarrow> c = code e | _ \<Rightarrow> False"
  shows "lc_answer c (snd (m w)) (serve m (\<lambda>_. Status 204) (\<lambda>e. SendErrorResponse (code e) e) rw w)"
    and "lc_answer c (snd (m w)) (serve m (\<lambda>_. Status 204) (\<lambda>e. JSON (code e) (CErr (NewError e))) rw w)"
  using assms by (cases "m w"; auto simp: lc_answer_def serve_def or_else_def Status_def status_of_def
      WriteHeader_def JSON_def put_chunk_def header_set_def SendErrorResponse_def Let_def split: res.splits option.splits)+

lemma domain_codes [simp]:
  "not_modified_code (NewNotModified e) = 304" "not_modified_code (ErrMsg m) = 500" "conflict_code (NewConflict e) = 409"
  by (simp_all add: not_modified_code_def conflict_code_def errdefs_defs)

lemma lc_outcome:
  assumes reads: "reads_only cl" and nc: "lc_commands_succeed nc" and found: "getContainer cl cid w = (Ok c, w)"
  shows "case fst (run_op cl nc cid op w) of
      Ok _ \<Rightarrow> \<exists>s'. lifecycle op (observed cl w c) s'
    | Err e \<Rightarrow> (\<nexists>s'. lifecycle op (observed cl w c) s') \<and> lc_code op e = lc_refusal op (observed cl w c)
    | _ \<Rightarrow> False"
proof -
  note st = reads_only_status [OF reads, of c w]
  have ok: "fst (StartContainer nc a s w) = Ok ()" "fst (StopContainer nc a t s w) = Ok ()" "fst (KillContainer nc a s w) = Ok ()"
    "fst (PauseContainer nc a w) = Ok ()" "fst (UnpauseContainer nc a w) = Ok ()" for a t s
    using nc by (simp_all add: lc_commands_succeed_def)
  show ?thesis
    using found st ok
    by (cases op; cases "observed cl w c")
       (simp_all add: Ex_lifecycle Start_def assertStartContainer_def Stop_def isContainerStopped_def Kill_def Pause_def
          Unpause_def find_or_notfound_def and_then_def or_else_def)
qed

fun with_request :: "http_req \<Rightarrow> lc_op \<Rightarrow> lc_op" where
  "with_request r (OpStart _) = OpStart (query_get r ''detachKeys'')"
| "with_request r (OpStop _ _) = OpStop (stop_timeout r) (query_get r ''signal'')"
| "with_request r (OpKill _) = OpKill (kill_signal r)"
| "with_request r op = op"

lemma with_request_same:
  "lifecycle (with_request r op) s s' = lifecycle op s s'" "lc_refusal (with_request r op) s = lc_refusal op s"
  "lc_code (with_request r op) = lc_code op"
  by (cases op; simp add: lifecycle_iffs)+

lemma lc_request:
  fixes rw :: "'a respw"
  assumes reads: "reads_only cl" and nc: "lc_commands_succeed nc"
    and cid: "map_of (vars r) ''id'' = Some cid" "cid \<noteq> []" and found: "getContainer cl cid w = (Ok c, w)"
    and keys: "validateDetachKeys (query_get r ''detachKeys'') = None" and dn: "openNull w = (Ok (), w)"
    and fresh: "w_sent rw = None"
  shows "lc_answer (if \<exists>s'. lifecycle op (observed cl w c) s' then 204 else lc_refusal op (observed cl w c))
    (snd (run_op cl nc cid (with_request r op) w)) (lc_handler (daemon_container cl nc insp lst) openNull r op rw w)"
proof -
  let ?code = "if \<exists>s'. lifecycle op (observed cl w c) s' then 204 else lc_refusal op (observed cl w c)"
  let ?m = "run_op cl nc cid (with_request r op)"
  have cid': "mux_var r ''id'' = cid" using cid by (simp add: mux_var_def map_str_def)
  have "case fst (?m w) of Ok x \<Rightarrow> ?code = 204 | Err e \<Rightarrow> ?code = lc_code op e | _ \<Rightarrow> False"
    using lc_outcome [OF reads nc found, of "with_request r op"]
    by (auto simp: with_request_same split: res.splits)
  note ans = lc_answerI [where m = ?m and c = ?code, OF fresh this]
  show ?thesis
    using ans cid cid' keys dn
    by (cases op) (simp_all add: handler_start_def handler_stop_def handler_kill_def handler_pause_def handler_unpause_def
        with_cid_def with_devNull_def or_else_def daemon_container_def)
qed

text \<open>
  The life cycle endpoints answer 204 exactly when the container's status allows the
  operation, and otherwise refuse with the documented code: starting a running and stopping a
  stopped or created container is 304, killing, pausing or unpausing one in
  the wrong state 409 (starting a paused one is an internal error, 500).
\<close>

theorem lifecycle_status_codes:
  fixes rw :: "'a respw"
  assumes "reads_only cl" "lc_commands_succeed nc"
    and "map_of (vars r) ''id'' = Some cid" "cid \<noteq> []" and "getContainer cl cid w = (Ok c, w)"
    and "validateDetachKeys (query_get r ''detachKeys'') = None" and "openNull w = (Ok (), w)"
    and "w_sent rw = None"
  shows "\<exists>rw' w'. lc_handler (daemon_container cl nc insp lst) openNull r op rw w = (Ok rw', w') \<and>
    status_of rw' = Some (if \<exists>s'. lifecycle op (observed cl w c) s' then 204 else lc_refusal op (observed cl w c))"
  using lc_request [of cl nc r cid w c openNull rw op insp lst] assms unfolding lc_answer_def by blast

lemma sim_commands_succeed: "lc_commands_succeed sim_nerdctl"
  by (simp add: lc_commands_succeed_def sim_nerdctl_def set_status_def)

theorem lifecycle_status_codes_witness:
  "\<exists>rw' w'. lc_handler (daemon_container one_status sim_nerdctl (\<lambda>_ _. ret ()) (\<lambda>_ _ _ _. ret ([] :: unit list))) (ret ())
      \<lparr>vars = [(''id'', ''abc'')], query = [], req_header = []\<rparr> OpUnpause (new_respw True :: unit respw) Running = (Ok rw', w') \<and>
    status_of rw' = Some 409"
  using lifecycle_status_codes [where op = OpUnpause and cid = "''abc''" and w = Running and c = "()" and rw = "new_respw True :: unit respw"
      and r = "\<lparr>vars = [(''id'', ''abc'')], query = [], req_header = []\<rparr>" and openNull = "ret ()" and insp = "\<lambda>_ _. ret ()"
      and lst = "\<lambda>_ _ _ _. ret ([] :: unit list)", OF one_status_reads sim_commands_succeed]
  by (simp add: one_status_found validateDetachKeys_def query_get_def new_respw_def one_status_observed Ex_lifecycle)

section \<open>Parameters and outputs\<close>

text \<open>
  The stop and restart timeout is ten seconds when the parameter \<open>t\<close> is missing or
  not a number; a number of seconds is handed on exactly if and only if its nanoseconds fit in 64 bits,
  a larger one wraps around to a different timeout.
\<close>

theorem stop_timeout_exact:
  assumes "ParseInt 64 (query_get r ''t'') = Some t"
  shows "stop_timeout r = t * 1000000000 \<longleftrightarrow> \<bar>t\<bar> \<le> 9223372036"
proof -
  have w: "wrap64 x = x \<longleftrightarrow> - (2 ^ 63) \<le> x \<and> x < 2 ^ 63" for x
  proof
    have "0 \<le> (x + 2 ^ 63) mod 2 ^ 64" "(x + 2 ^ 63) mod 2 ^ 64 < 2 ^ 64" by simp_all
    then show "wrap64 x = x \<Longrightarrow> - (2 ^ 63) \<le> x \<and> x < 2 ^ 63" unfolding wrap64_def by auto
  qed simp
  have "stop_timeout r = wrap64 (1000000000 * t)"
    using assms by (simp add: stop_timeout_def)
  then have "stop_timeout r = t * 1000000000 \<longleftrightarrow> - (2 ^ 63) \<le> 1000000000 * t \<and> 1000000000 * t < 2 ^ 63"
    using w [of "1000000000 * t"] by (simp add: mult.commute)
  then show ?thesis by simp linarith
qed

theorem stop_timeout_exact_witness:
  "stop_timeout \<lparr>vars = [], query = [(''t'', [''9223372037''])], req_header = []\<rparr> \<noteq> 9223372037 * 1000000000"
  using stop_timeout_exact [of "\<lparr>vars = [], query = [(''t'', [''9223372037''])], req_header = []\<rparr>" 9223372037]
  by (simp add: query_get_def ParseInt_def HasPrefix_def is_digit_def dec_val_def digit_val_def)

lemma scan_uint_digits:
  "list_all is_digit s \<Longrightarrow> foldl (\<lambda>a c. 10 * a + digit_val c) n s < 2 ^ 64 \<Longrightarrow>
     scan_uint n s = ScanVal (foldl (\<lambda>a c. 10 * a + digit_val c) n s)"
proof (induction s arbitrary: n)
  case (Cons c s)
  have mono: "m \<le> foldl (\<lambda>a c. 10 * a + digit_val c) m s" for m
  proof (induction s arbitrary: m)
    case (Cons c s)
    from Cons [of "10 * m + digit_val c"] show ?case by simp
  qed simp
  have "10 * n + digit_val c < 2 ^ 64"
    using mono [of "10 * n + digit_val c"] Cons.prems(2) by simp
  with Cons show ?case by simp
qed simp

text \<open>Where \<open>strconv.Atoi\<close> succeeds, \<open>Atoi_val\<close> is its result.\<close>

lemma Atoi_val_Atoi: "Atoi s = Some i \<Longrightarrow> Atoi_val s = i"
proof -
  assume a: "Atoi s = Some i"
  define mag where "mag = (if HasPrefix s ''-'' \<or> HasPrefix s ''+'' then tl s else s)"
  have m: "mag \<noteq> []" "list_all is_digit mag" "i = (if HasPrefix s ''-'' then - int (dec_val mag) else int (dec_val mag))"
    and r: "- (2 ^ 63) \<le> i" "i < 2 ^ 63"
    using a by (auto simp: Atoi_def ParseInt_def Let_def mag_def split: if_splits)
  then have "dec_val mag < 2 ^ 64" by (auto split: if_splits)
  then have "scan_uint 0 mag = ScanVal (dec_val mag)"
    using m(2) scan_uint_digits [of mag 0] by (simp add: dec_val_def)
  with m r show "Atoi_val s = i"
    by (auto simp: Atoi_val_def Let_def mag_def [symmetric] split: if_splits)
qed

lemma not_space: "is_digit c \<or> c = CHR ''-'' \<Longrightarrow> \<not> is_space c"
  by (auto simp: is_digit_def is_space_def)

lemma TrimSpace_line:
  assumes "\<And>c. c \<in> set s \<Longrightarrow> \<not> is_space c" and "s \<noteq> []"
  shows "TrimSpace (s @ [CHR 0x0A]) = s"
proof -
  have d: "dropWhile is_space (s @ [CHR 0x0A]) = s @ [CHR 0x0A]"
    using assms by (cases s) auto
  have "dropWhile is_space (rev s) = rev s"
    using assms(1) by (intro dropWhile_eq_self_iff [THEN iffD2]) (metis hd_in_set set_rev)
  then show ?thesis
    unfolding TrimSpace_def d by (simp add: is_space_def)
qed

lemma TrimSpace_Itoa: "TrimSpace (Itoa i @ [CHR 0x0A]) = Itoa i"
proof (rule TrimSpace_line)
  show "Itoa i \<noteq> []" by (simp add: Itoa_def)
  show "\<not> is_space c" if "c \<in> set (Itoa i)" for c
    using that dec_digits_digits by (intro not_space) (auto simp: Itoa_def list_all_iff split: if_splits)
qed

text \<open>
  \<open>POST /containers/{id}/wait\<close> answers 200 with the exit code that nerdctl prints for
  the container, for every 64-bit exit code.
\<close>

theorem wait_reports_exit_code:
  assumes "Wait cl nc (mux_var r ''id'') w = (Ok [Itoa i @ [CHR 0x0A]], w')" and "query_get r ''condition'' = []"
    and "- (2 ^ 63) \<le> i" "i < 2 ^ 63" and "w_sent rw = None" "w_broken rw = None"
  shows "\<exists>rw'. handler_wait (daemon_container cl nc insp lst) r rw w = (Ok rw', w') \<and> status_of rw' = Some 200 \<and>
    w_body rw' = w_body rw @ [CData \<lparr>StatusCode = i\<rparr>]"
  using assms Atoi_val_Atoi [OF Atoi_Itoa [OF assms(3,4)]]
  by (simp add: handler_wait_def daemon_container_def serve_def or_else_def codeWriter_Write_def TrimSpace_Itoa JSON_fresh)
    (simp add: status_of_def)

definition exit_nerdctl :: "(ProcessStatus, unit) nerdctl_containers" where
  "exit_nerdctl = sim_nerdctl\<lparr>ContainerWait := (\<lambda>_. ret [Itoa 137 @ [CHR 0x0A]])\<rparr>"

theorem wait_reports_exit_code_witness:
  "\<exists>rw'. handler_wait (daemon_container one_status exit_nerdctl (\<lambda>_ _. ret ()) (\<lambda>_ _ _ _. ret ([] :: unit list)))
       \<lparr>vars = [(''id'', ''abc'')], query = [], req_header = []\<rparr> (new_respw True) Running = (Ok rw', Running) \<and>
     status_of rw' = Some 200 \<and> w_body rw' = [CData \<lparr>StatusCode = 137\<rparr>]"
  using wait_reports_exit_code [where i = 137 and w = Running and w' = Running and rw = "new_respw True" and cl = one_status
      and nc = exit_nerdctl and r = "\<lparr>vars = [(''id'', ''abc'')], query = [], req_header = []\<rparr>"
      and insp = "\<lambda>_ _. ret ()" and lst = "\<lambda>_ _ _ _. ret ([] :: unit list)"]
  by (simp add: new_respw_def query_get_def Wait_def find_or_notfound_def or_else_def one_status_found exit_nerdctl_def)

lemma command_index_lt: "command_index ts = Some ci \<Longrightarrow> ci < length ts"
  by (induction ts arbitrary: ci) (auto split: if_splits)

lemma fold_put_other:
  "t \<notin> set ts \<Longrightarrow> map_of (fold (\<lambda>(t, f). map_put t f) (zip ts fs) m) t = map_of m t"
  by (induction ts arbitrary: fs m) (auto simp: zip_Cons1 split: list.splits)

lemma fold_put_zip:
  assumes "distinct ts" "i < length ts"
  shows "map_of (fold (\<lambda>(t, f). map_put t f) (zip ts fs) m) (ts ! i) =
    (if i < length fs then Some (fs ! i) else map_of m (ts ! i))"
  using assms
proof (induction ts arbitrary: fs i m)
  case (Cons t ts)
  show ?case
  proof (cases fs)
    case (Cons f fs')
    have other: "map_of (fold (\<lambda>(t, f). map_put t f) (zip ts fs') (map_put t f m)) t = Some f"
      using Cons.prems(1) by (simp add: fold_put_other)
    show ?thesis
    proof (cases i)
      case 0
      with Cons other show ?thesis by simp
    next
      case (Suc j)
      with Cons Cons.prems have "ts ! j \<noteq> t" by (auto simp: in_set_conv_nth)
      with Suc Cons Cons.prems Cons.IH [of j fs' "map_put t f m"] show ?thesis by simp
    qed
  qed simp
qed simp

lemma process_row_command:
  assumes "distinct titles" "command_index titles = Some ci" "ci < length flds"
  shows "process_row titles flds = take ci flds @ Join (drop ci flds) '' '' # replicate (length titles - Suc ci) []"
proof (rule nth_equalityI)
  have ci: "ci < length titles" using assms(2) by (rule command_index_lt)
  then show "length (process_row titles flds) =
      length (take ci flds @ Join (drop ci flds) '' '' # replicate (length titles - Suc ci) [])"
    using assms by (simp add: process_row_def)
  fix i assume "i < length (process_row titles flds)"
  then have i: "i < length titles" by (simp add: process_row_def)
  have "titles ! i = titles ! ci \<longleftrightarrow> i = ci" using assms(1) i ci by (simp add: nth_eq_iff_index_eq)
  then have "map_of (process_map titles (Some ci) flds) (titles ! i) =
      (if i = ci then Some (Join (drop ci flds) '' '') else if i < ci then Some (flds ! i) else None)"
    using assms i by (auto simp: process_map_def fold_put_zip)
  then show "process_row titles flds ! i =
      (take ci flds @ Join (drop ci flds) '' '' # replicate (length titles - Suc ci) []) ! i"
    using assms i by (auto simp: process_row_def map_str_def nth_append nth_Cons')
qed

text \<open>
  \<open>top\<close> keeps the command of a process, with its spaces, as one cell: for distinct titles, a
  line with enough fields becomes the fields before the command column, the rest of the line as the
  command, and empty cells for every title after it; a row has one cell per title and every
  line that is not blank has its row. So the columns after the command column are lost.
\<close>

theorem top_rows:
  assumes "distinct (Fields hdr)" "command_index (Fields hdr) = Some ci" and "ls \<noteq> []"
    and "\<forall>l\<in>set ls. ci < length (Fields (TrimSpace l))"
  shows "parseTopOutput (hdr # ls) =
    Ok (Fields hdr, map (\<lambda>l. let flds = Fields (TrimSpace l)
      in take ci flds @ Join (drop ci flds) '' '' # replicate (length (Fields hdr) - Suc ci) []) ls)"
proof -
  have "Fields hdr \<noteq> []" using command_index_lt [OF assms(2)] by auto
  moreover have "concat (map (\<lambda>line0. let line = TrimSpace line0; flds = Fields line
        in if line = [] \<or> flds = [] then [] else [process_row (Fields hdr) flds]) ls) =
      map (\<lambda>l. let flds = Fields (TrimSpace l)
        in take ci flds @ Join (drop ci flds) '' '' # replicate (length (Fields hdr) - Suc ci) []) ls"
    using assms(4)
  proof (induction ls)
    case (Cons l ls)
    then have "TrimSpace l \<noteq> []" "Fields (TrimSpace l) \<noteq> []" by (auto simp: Fields_def)
    with Cons process_row_command [OF assms(1,2)] show ?case by (simp add: Let_def)
  qed simp
  ultimately show ?thesis
    using assms(3) by (cases ls) (simp_all add: parseTopOutput_def Let_def)
qed

theorem top_rows_witness:
  "parseTopOutput [''PID CMD TTY'', ''7 nginx -g off ?''] = Ok ([''PID'', ''CMD'', ''TTY''], [[''7'', ''nginx -g off ?'', []]])"
  using top_rows [of "''PID CMD TTY''" 1 "[''7 nginx -g off ?'']"]
  by (simp add: Fields_def is_space_def TrimSpace_def)

end
