(* ===== verification/Images.thy ===== *)
theory Images
  imports Builder Container_Api
begin

text \<open>
  Images: the image service (\<open>src/internal/service/image\<close>), the image searches of the backend
  (\<open>src/internal/backend/image.go\<close>, \<open>containerd.go\<close>), the canonical form of a reference
  (\<open>src/pkg/utility/imageutility\<close>) and the handlers (\<open>src/api/handlers/image\<close>).

  An image is its name and the digest of its target. The reference parser, the image store, the registry
  and nerdctl's image commands are parameters. A command that reports progress gives the
  list of its writes beside its outcome; the handler feeds them to its stream writer.
\<close>

section \<open>References\<close>

record 'r ref_lib =
  ParseAnyReference :: "string \<Rightarrow> 'r res"
  ref_Named :: "'r \<Rightarrow> bool"
  ref_Tagged :: "'r \<Rightarrow> bool"
  ref_Digested :: "'r \<Rightarrow> bool"
  WithTag :: "'r \<Rightarrow> string \<Rightarrow> 'r res"
  ref_String :: "'r \<Rightarrow> string"

definition refNeedsTag :: "'r ref_lib \<Rightarrow> 'r \<Rightarrow> bool" where
  "refNeedsTag lib ref \<longleftrightarrow> \<not> (ref_Tagged lib ref \<or> ref_Digested lib ref)"

definition raw_reference :: "string \<Rightarrow> string \<Rightarrow> string" where
  "raw_reference name tag =
     (if name \<noteq> []
      then (if HasPrefix tag ''sha256:'' then name @ ''@'' @ tag else if tag \<noteq> [] then name @ '':'' @ tag else name)
      else tag)"

definition Canonicalize :: "'r ref_lib \<Rightarrow> string \<Rightarrow> string \<Rightarrow> string res" where
  "Canonicalize lib name tag =
     (case ParseAnyReference lib (raw_reference name tag) of
        Ok ref \<Rightarrow>
          if ref_Named lib ref \<and> refNeedsTag lib ref
          then (case WithTag lib ref ''latest'' of Ok tagged \<Rightarrow> Ok (ref_String lib tagged) | _ \<Rightarrow> Ok (ref_String lib ref))
          else Ok (ref_String lib ref)
      | Err err \<Rightarrow> Err err
      | Panic p \<Rightarrow> Panic p
      | Hang \<Rightarrow> Hang)"

definition toImageRef :: "string \<Rightarrow> string \<Rightarrow> string" where
  "toImageRef name tag =
     (if tag = [] then name else if HasPrefix tag ''sha256:'' then name @ ''@'' @ tag else name @ '':'' @ tag)"

section \<open>The environment of the image service\<close>

record found =
  fd_Image :: image
  UniqueImages :: nat

record PushResult =
  pr_Tag :: string
  pr_Digest :: string
  pr_Size :: int

record ImageSummary =
  is_ID :: string
  RepoTags :: "string list"
  RepoDigests :: "string list"
  is_Created :: int
  is_Size :: int

text \<open>\<open>'i\<close> is nerdctl's description of an image, \<open>'p\<close> a platform, \<open>'v\<close> a resolver with its tracker.\<close>

record ('w, 'i, 'p, 'v) image_env =
  ie_ParseRef :: "string \<Rightarrow> string res"
  ie_List :: "string list \<Rightarrow> ('w, image list) io"
  ie_Walk :: "string \<Rightarrow> ('w, nat \<times> found list) io"
  ie_Get :: "string \<Rightarrow> ('w, image) io"
  ie_Create :: "image \<Rightarrow> ('w, unit) io"
  ie_Delete :: "string \<Rightarrow> ('w, unit) io"
  ie_Digests :: "image \<Rightarrow> ('w, string list) io"
  ie_Publish :: "string \<Rightarrow> event \<Rightarrow> ('w, unit) io"
  ie_TopicPrefix :: string
  ie_Inspect :: "image \<Rightarrow> ('w, 'i) io"
  ie_SetID :: "string \<Rightarrow> 'i \<Rightarrow> 'i"
  ie_Export :: "string \<Rightarrow> 'p option \<Rightarrow> ('w, string list \<times> gerr option) io"
  ie_DefaultPlatform :: 'p
  ie_ParsePlatform :: "string \<Rightarrow> 'p res"
  ie_ParseDockerRef :: "string \<Rightarrow> (string \<times> string) res"
  ie_DockerHost :: "string \<Rightarrow> string res"
  ie_Resolver :: "string \<Rightarrow> (string \<Rightarrow> (string \<times> string) res) option \<Rightarrow> ('w, 'v) io"
  ie_Pull :: "'v \<Rightarrow> string \<Rightarrow> 'p \<Rightarrow> ('w, string list \<times> gerr option) io"
  ie_Convert :: "string \<Rightarrow> string \<Rightarrow> ('w, image option) io"
  ie_Push :: "'v \<Rightarrow> string \<Rightarrow> string \<Rightarrow> ('w, string list \<times> gerr option) io"
  ie_Size :: "image \<Rightarrow> ('w, int) io"
  ie_All :: "('w, image list) io"
  ie_IsUnpacked :: "image \<Rightarrow> ('w, bool \<times> gerr option) io"
  ie_CreatedAt :: "image \<Rightarrow> ('w, int) io"
  ie_DataStore :: "('w, string) io"
  ie_Mkdir :: "string \<Rightarrow> ('w, unit) io"
  ie_FifoName :: "('w, string) io"
  ie_OpenFifo :: "string \<Rightarrow> ('w, unit) io"
  ie_RemoveFile :: "string \<Rightarrow> ('w, unit) io"
  ie_Load :: "string \<Rightarrow> bool \<Rightarrow> ('w, string list \<times> gerr option) io"

section \<open>Searching\<close>

definition image_filters :: "('w, 'i, 'p, 'v) image_env \<Rightarrow> string \<Rightarrow> string list" where
  "image_filters env searchText =
     (case ie_ParseRef env searchText of Ok canonicalRef \<Rightarrow> [''name=='' @ canonicalRef] | _ \<Rightarrow> []) @
     [''name=='' @ searchText, ''target.digest~=^sha256:'' @ QuoteMeta searchText @ ''.*$'',
      ''target.digest~=^'' @ QuoteMeta searchText @ ''.*$'']"

definition SearchImage :: "('w, 'i, 'p, 'v) image_env \<Rightarrow> string \<Rightarrow> ('w, image list) io" where
  "SearchImage env searchText = ie_List env (image_filters env searchText)"

text \<open>The loop over the digests: the first one that is not empty is the one the others must equal.\<close>

fun same_digests :: "string \<Rightarrow> image list \<Rightarrow> bool" where
  "same_digests dgst [] = True"
| "same_digests dgst (img # imgs) =
     (if dgst = [] then same_digests (img_Digest img) imgs
      else dgst = img_Digest img \<and> same_digests dgst imgs)"

definition pick_image :: "string \<Rightarrow> image list \<Rightarrow> image res" where
  "pick_image name imgs =
     (if length imgs = 0 then Err (NewNotFound (ErrMsg (''no such image: '' @ name)))
      else if length imgs > 1 \<and> \<not> same_digests [] imgs
      then Err (ErrMsg (''multiple images with different digests found for '' @ name))
      else Ok (imgs ! 0))"

definition getImage :: "('w, 'i, 'p, 'v) image_env \<Rightarrow> string \<Rightarrow> ('w, image) io" where
  "getImage env name = and_then (SearchImage env name) (\<lambda>imgs. lift_res (pick_image name imgs))"

text \<open>\<open>NerdctlWrapper.SearchImage\<close>: the walker calls \<open>OnFound\<close> for every match.\<close>

definition nctl_SearchImage :: "('w, 'i, 'p, 'v) image_env \<Rightarrow> string \<Rightarrow> ('w, nat \<times> nat \<times> image list) io" where
  "nctl_SearchImage env name =
     and_then (ie_Walk env name)
       (\<lambda>(n, fs). ret (n, fold (\<lambda>f _. UniqueImages f) fs 0, map fd_Image fs))"

section \<open>The service\<close>

definition image_Inspect :: "('w, 'i, 'p, 'v) image_env \<Rightarrow> string \<Rightarrow> ('w, 'i) io" where
  "image_Inspect env name =
     and_then (getImage env name) (\<lambda>img. and_then (ie_Inspect env img) (\<lambda>image. ret (ie_SetID env (img_Digest img) image)))"

definition Export :: "('w, 'i, 'p, 'v) image_env \<Rightarrow> string \<Rightarrow> 'p option \<Rightarrow> ('w, string list \<times> gerr option) io" where
  "Export env name platform =
     or_else (getImage env name) (\<lambda>err. ret ([], Some err)) (\<lambda>img. ie_Export env (img_Name img) platform)"

fun image_summaries :: "('w, 'i, 'p, 'v) image_env \<Rightarrow> image list \<Rightarrow> ImageSummary list \<Rightarrow> ('w, ImageSummary list) io" where
  "image_summaries env [] summaries = ret summaries"
| "image_summaries env (img # imgs) summaries =
     and_then (ie_IsUnpacked env img) (\<lambda>(ok, err).
       if \<not> ok then image_summaries env imgs summaries
       else case err of
              Some e \<Rightarrow> fail e
            | None \<Rightarrow> and_then (ie_CreatedAt env img) (\<lambda>created. and_then (ie_Size env img) (\<lambda>size.
                image_summaries env imgs (summaries @
                  [\<lparr>is_ID = img_Digest img, RepoTags = [img_Name img], RepoDigests = [], is_Created = created, is_Size = size\<rparr>]))))"

definition image_List :: "('w, 'i, 'p, 'v) image_env \<Rightarrow> ('w, ImageSummary list) io" where
  "image_List env =
     or_else (ie_All env) (\<lambda>err. fail (ErrWrap ''list: failed to list images: '' err [])) (\<lambda>imgs. image_summaries env imgs [])"

text \<open>\<open>Load\<close>: the copy into the FIFO runs beside \<open>LoadImage\<close>; the FIFO is removed whatever happens.\<close>

definition image_Load :: "('w, 'i, 'p, 'v) image_env \<Rightarrow> bool \<Rightarrow> bool \<Rightarrow> ('w, string list \<times> gerr option) io" where
  "image_Load env haveStream quiet =
     (if \<not> haveStream then ret ([], Some (ErrMsg ''import stream should not be nil''))
      else or_else (ie_DataStore env) (\<lambda>err. ret ([], Some err)) (\<lambda>root.
        let d = path_Join [root, ''fifo'']
        in or_else (or_else (ie_Mkdir env d) (\<lambda>err. if os_IsExist err then ret () else fail err) ret)
             (\<lambda>err. ret ([], Some err))
             (\<lambda>_. and_then (ie_FifoName env) (\<lambda>nm.
                let img = path_Join [d, nm]
                in or_else (ie_OpenFifo env img) (\<lambda>err. ret ([], Some err))
                     (\<lambda>_. and_then (ie_Load env img quiet)
                        (\<lambda>out. and_then (ignore_err (ie_RemoveFile env img)) (\<lambda>_. ret out)))))))"

definition creds_of :: "('w, 'i, 'p, 'v) image_env \<Rightarrow> string \<Rightarrow> AuthConfig option \<Rightarrow> (string \<Rightarrow> (string \<times> string) res) option res" where
  "creds_of env refDomain ac = (case ac of None \<Rightarrow> Ok None | Some a \<Rightarrow> GetAuthCreds (ie_DockerHost env) refDomain a)"

text \<open>\<open>errors.Is(err, docker.ErrInvalidAuthorization)\<close> is the class \<open>XInvalidAuthorization\<close>.\<close>

definition pull_error :: "gerr \<Rightarrow> gerr" where
  "pull_error err = (if XInvalidAuthorization \<in> set (ext_kinds err) \<or> cerr_IsNotFound err then NewNotFound err else err)"

definition Pull :: "('w, 'i, 'p, 'v) image_env \<Rightarrow> string \<Rightarrow> string \<Rightarrow> string \<Rightarrow> AuthConfig option \<Rightarrow> ('w, string list \<times> gerr option) io" where
  "Pull env name tag platformStr ac =
     or_else (and_then (or_else (lift_res (if platformStr = [] then Ok (ie_DefaultPlatform env) else ie_ParsePlatform env platformStr))
                 (\<lambda>err. fail (ErrMsg (''invalid platform '' @ platformStr @ '': '' @ Error err))) ret) (\<lambda>platform.
              and_then (or_else (lift_res (ie_ParseDockerRef env (toImageRef name tag))) (\<lambda>err. fail (NewInvalidFormat err)) ret)
                (\<lambda>(ref, refDomain).
              and_then (lift_res (creds_of env refDomain ac)) (\<lambda>creds.
              and_then (or_else (ie_Resolver env refDomain creds)
                  (\<lambda>err. fail (ErrMsg (''failed to initialize remotes resolver: '' @ Error err))) ret)
                (\<lambda>resolver. ret (resolver, ref, platform))))))
       (\<lambda>err. ret ([], Some err))
       (\<lambda>(resolver, ref, platform). and_then (ie_Pull env resolver ref platform)
          (\<lambda>(writes, err). ret (writes, map_option pull_error err)))"

definition push_image :: "('w, 'i, 'p, 'v) image_env \<Rightarrow> string \<Rightarrow> string \<Rightarrow> string \<Rightarrow> string \<Rightarrow> AuthConfig option \<Rightarrow>
    ('w, string list \<times> PushResult option res) io" where
  "push_image env ref refDomain pushRef tag ac =
     or_else (and_then (lift_res (creds_of env refDomain ac)) (\<lambda>creds.
              or_else (ie_Resolver env refDomain creds)
                (\<lambda>err. fail (ErrMsg (''failed to initialize remotes resolver: '' @ Error err))) ret))
       (\<lambda>err. ret ([], Err err))
       (\<lambda>resolver. and_then (ie_Push env resolver pushRef ref)
          (\<lambda>(writes, err). case err of
              Some e \<Rightarrow> ret (writes, Err e)
            | None \<Rightarrow> or_else (ie_Get env ref) (\<lambda>_. ret (writes, Ok None))
                (\<lambda>img. or_else (ie_Size env img) (\<lambda>_. ret (writes, Ok None))
                   (\<lambda>size. ret (writes, Ok (Some \<lparr>pr_Tag = tag, pr_Digest = img_Digest img, pr_Size = size\<rparr>))))))"

text \<open>The temporary image of a push is deleted when \<open>Push\<close> returns; without one the debug message
  dereferences nil.\<close>

definition Push :: "('w, 'i, 'p, 'v) image_env \<Rightarrow> 'r ref_lib \<Rightarrow> string \<Rightarrow> string \<Rightarrow> AuthConfig option \<Rightarrow>
    ('w, string list \<times> PushResult option res) io" where
  "Push env lib name tag ac =
     (case Canonicalize lib name tag of
        Ok rawRef \<Rightarrow>
          (case ie_ParseDockerRef env rawRef of
             Ok (ref, refDomain) \<Rightarrow>
               (let pushRef = ref @ ''-tmp-reduced-platform''
                in or_else (ie_Convert env pushRef ref)
                     (\<lambda>err. if Contains (Error err) ''not found'' then ret ([], Err (NewNotFound err))
                            else ret ([], Err (ErrMsg (''failed to create a tmp single-platform image '' @ Quote pushRef @ '': '' @ Error err))))
                     (\<lambda>platImg. case platImg of
                         None \<Rightarrow> panic ''nil pointer dereference''
                       | Some img \<Rightarrow>
                           and_then (push_image env ref refDomain pushRef tag ac)
                             (\<lambda>out. and_then (ignore_err (ie_Delete env (img_Name img))) (\<lambda>_. ret out))))
           | Err err \<Rightarrow> ret ([], Err (NewInvalidFormat err))
           | Panic p \<Rightarrow> panic p
           | Hang \<Rightarrow> (\<lambda>w. (Hang, w)))
      | Err err \<Rightarrow> ret ([], Err (NewInvalidFormat (ErrWrap ''failed to canonicalize the ref: '' err [])))
      | Panic p \<Rightarrow> panic p
      | Hang \<Rightarrow> (\<lambda>w. (Hang, w)))"

section \<open>Removal\<close>

fun check_used :: "string \<Rightarrow> bool \<Rightarrow> string gomap \<Rightarrow> string gomap \<Rightarrow> image list \<Rightarrow> gerr option" where
  "check_used name force stopped running [] = None"
| "check_used name force stopped running (img # imgs) =
     (case map_of running (img_Name img) of
        Some cid \<Rightarrow> Some (NewConflict (ErrMsg (''unable to delete '' @ name @
           '' (cannot be forced) - image is being used by running container '' @ cid)))
      | None \<Rightarrow>
          (case map_of stopped (img_Name img) of
             Some cid \<Rightarrow> if force then check_used name force stopped running imgs
                else Some (NewConflict (ErrMsg (''unable to delete '' @ name @
                  '' (must be forced) - image is being used by stopped container '' @ cid)))
           | None \<Rightarrow> check_used name force stopped running imgs))"

fun delete_images :: "('w, 'i, 'p, 'v) image_env \<Rightarrow> image list \<Rightarrow> string list \<Rightarrow> string list \<Rightarrow> ('w, string list \<times> string list) io" where
  "delete_images env [] deleted untagged = ret (untagged, deleted)"
| "delete_images env (img # imgs) deleted untagged =
     and_then (or_else (ie_Digests env img) (\<lambda>_. ret []) ret) (\<lambda>digests.
     and_then (ie_Delete env (img_Name img)) (\<lambda>_.
       delete_images env imgs (deleted @ digests) (untagged @ [img_Name img @ '':'' @ img_Digest img])))"

text \<open>The pair is in the order in which the code returns it; the interface names its first component
  \<open>deleted\<close> and the second \<open>untagged\<close>.\<close>

definition image_Remove :: "('w, 'c) containerd_client \<Rightarrow> ('w, 'i, 'p, 'v) image_env \<Rightarrow> string \<Rightarrow> bool \<Rightarrow>
    ('w, string list \<times> string list) io" where
  "image_Remove cl env name force =
     and_then (nctl_SearchImage env name) (\<lambda>(matchCount, uniqueCount, imgs).
       if matchCount = 0 then fail (NewNotFound (ErrMsg (''no such image: '' @ name)))
       else if matchCount > 1 \<and> \<not> (force \<and> uniqueCount = 1)
       then fail (NewConflict (ErrMsg (''unable to delete '' @ name @
              '' (must be forced) - image is referenced in multiple repositories'')))
       else and_then (GetUsedImages cl) (\<lambda>(stoppedImgs, runningImgs).
         case check_used name force stoppedImgs runningImgs imgs of
           Some err \<Rightarrow> fail err
         | None \<Rightarrow> delete_images env imgs [] []))"

section \<open>Tagging\<close>

definition getFullImageName :: "('w, 'i, 'p, 'v) image_env \<Rightarrow> string \<Rightarrow> ('w, string) io" where
  "getFullImageName env name =
     or_else (ie_Walk env name) (\<lambda>err. fail (ErrWrap ''err from image walker: '' err []))
       (\<lambda>(matchCount, fs).
          if matchCount < 1 then fail (NewNotFound (ErrMsg (''no such image: '' @ name)))
          else ret (fold (\<lambda>f srcName. if srcName = [] then img_Name (fd_Image f) else srcName) fs []))"

definition image_tagTopic :: "('w, 'i, 'p, 'v) image_env \<Rightarrow> string" where
  "image_tagTopic env = ''/'' @ ie_TopicPrefix env @ ''/image/tag''"

definition image_getTagEvent :: "string \<Rightarrow> string \<Rightarrow> event" where
  "image_getTagEvent digest imgName =
     \<lparr>ev_ID = digest, ev_Status = ''tag'', ev_Type = ''image'', ev_Action = ''tag'', ev_Actor = digest, ev_name = imgName\<rparr>"

definition Tag :: "('w, 'i, 'p, 'v) image_env \<Rightarrow> string \<Rightarrow> string \<Rightarrow> string \<Rightarrow> ('w, unit) io" where
  "Tag env srcImg repo tag =
     and_then (getFullImageName env srcImg) (\<lambda>srcImgName.
     and_then (ie_Get env srcImgName) (\<lambda>image0.
       let rawRef = repo @ '':'' @ tag
       in or_else (lift_res (ie_ParseRef env rawRef))
            (\<lambda>err. fail (ErrWrap ''target parse error: '' err []))
            (\<lambda>target. let image = image0\<lparr>img_Name := target\<rparr>
               in and_then (or_else (ie_Create env image)
                     (\<lambda>err. if cerr_IsAlreadyExists err
                            then and_then (ie_Delete env (img_Name image)) (\<lambda>_. ie_Create env image)
                            else fail err)
                     ret)
                    (\<lambda>_. ie_Publish env (image_tagTopic env) (image_getTagEvent (img_Digest image) rawRef)))))"

section \<open>Handlers\<close>

definition pull_code :: "gerr \<Rightarrow> int" where
  "pull_code err = (if IsNotFound err then 404 else if IsInvalidFormat err then 400 else 500)"

definition image_remove_code :: "gerr \<Rightarrow> int" where
  "image_remove_code err = (if IsNotFound err then 404 else if IsConflict err then 409 else 500)"

interpretation pull_code: status_map pull_code
  by unfold_locales (auto simp: pull_code_def errdefs_defs)

interpretation image_remove_code: status_map image_remove_code
  by unfold_locales (auto simp: image_remove_code_def errdefs_defs)

text \<open>The data of a successful response: removal entries, an inspected image, summaries or a text.\<close>

datatype 'i image_data = IRemoved "(string \<times> string) list" | IInspected 'i | ISummaries "ImageSummary list" | IText string

definition handler_image_inspect :: "(string \<Rightarrow> ('w, 'i) io) \<Rightarrow> http_req \<Rightarrow> ('w, 'i image_data) handler" where
  "handler_image_inspect svc_Inspect r =
     serve (svc_Inspect (mux_var r ''name'')) (\<lambda>image. JSON 200 (CData (IInspected image)))
       (\<lambda>err. SendErrorResponse (missing_code err) err)"

definition handler_image_list :: "('w, ImageSummary list) io \<Rightarrow> ('w, 'i image_data) handler" where
  "handler_image_list svc_List =
     serve svc_List (\<lambda>resp. JSON 200 (CData (ISummaries resp))) (\<lambda>err. JSON 500 (CErr (NewError err)))"

definition handler_tag :: "(string \<Rightarrow> string \<Rightarrow> string \<Rightarrow> ('w, unit) io) \<Rightarrow> http_req \<Rightarrow> ('w, 'i image_data) handler" where
  "handler_tag svc_Tag r =
     serve (svc_Tag (mux_var r ''name'') (query_get r ''repo'') (query_get r ''tag''))
       (\<lambda>_. JSON 201 (CData (IText ''No error'')))
       (\<lambda>err. if IsNotFound err then JSON 404 (CErr (NewError err)) else JSON 500 (CErr (NewError err)))"

definition buildRemoveResp :: "string list \<Rightarrow> string list \<Rightarrow> (string \<times> string) list" where
  "buildRemoveResp untagged deleted = map (\<lambda>i. (''Untagged'', i)) untagged @ map (\<lambda>i. (''Deleted'', i)) deleted"

text \<open>The handler names the service's first result \<open>deleted\<close> and its second \<open>untagged\<close>.\<close>

definition handler_image_remove :: "(string \<Rightarrow> bool \<Rightarrow> ('w, string list \<times> string list) io) \<Rightarrow> http_req \<Rightarrow>
    ('w, 'i image_data) handler" where
  "handler_image_remove svc_Remove r =
     serve (svc_Remove (mux_var r ''name'') (query_flag r ''force''))
       (\<lambda>(deleted, untagged). JSON 200 (CData (IRemoved (buildRemoveResp untagged deleted))))
       (\<lambda>err. SendErrorResponse (image_remove_code err) err)"

definition handler_load :: "(bool \<Rightarrow> ('w, string list \<times> gerr option) io) \<Rightarrow> http_req \<Rightarrow> ('w, 'a) handler" where
  "handler_load svc_Load r rw =
     and_then (svc_Load (query_flag r ''quiet'')) (\<lambda>(writes, err).
       let out = fold (\<lambda>b sw. snd (sw_Write b sw)) writes (NewStreamWriter rw)
       in ret (responseWriter (case err of None \<Rightarrow> out | Some e \<Rightarrow> snd (sw_WriteError 500 e out))))"

text \<open>Writes of raw bytes to the response; a platform that is given must decode.\<close>

definition handler_export :: "(string \<Rightarrow> 'p option \<Rightarrow> ('w, string list \<times> gerr option) io) \<Rightarrow> (string \<Rightarrow> 'p res) \<Rightarrow> http_req \<Rightarrow>
    ('w, 'a) handler" where
  "handler_export svc_Export dec r =
     parsed (let p = query_get r ''platform''
             in if p = [] then Ok None
                else (case dec p of Ok x \<Rightarrow> Ok (Some x) | Err e \<Rightarrow> Err e | Panic q \<Rightarrow> Panic q | Hang \<Rightarrow> Hang))
       (\<lambda>err. SendErrorResponse 400 err)
       (\<lambda>platform rw. and_then (svc_Export (mux_var r ''name'') platform) (\<lambda>(writes, err).
          let rw1 = fold (\<lambda>b w. snd (put_chunk (CRaw b) w)) writes (header_set ''Content-Type'' ''application/x-tar'' rw)
          in ret (case err of None \<Rightarrow> rw1 | Some e \<Rightarrow> SendErrorResponse (missing_code e) e rw1)))"

definition splitRE :: "string \<Rightarrow> string \<times> string option" where
  "splitRE s =
     (let isSep = (\<lambda>c. c = CHR ''@'' \<or> c = CHR '':'')
      in (takeWhile (\<lambda>c. \<not> isSep c) s, if list_ex isSep s then Some (tl (dropWhile (\<lambda>c. \<not> isSep c) s)) else None))"

definition parseNameAndTag :: "http_req \<Rightarrow> (string \<times> string) res" where
  "parseNameAndTag r =
     (let nameParam = query_get r ''fromImage''
      in if nameParam = [] then Err (ErrMsg ''fromImage must be specified'')
         else let (name, part) = splitRE nameParam
              in if name = [] then Err (ErrMsg (''invalid image: '' @ nameParam))
                 else let tag0 = (case part of None \<Rightarrow> [] | Some t \<Rightarrow> t);
                          tag = (if query_get r ''tag'' \<noteq> [] then query_get r ''tag'' else tag0)
                      in if tag = [] then Err (ErrMsg ''image tag/digest must be specified'') else Ok (name, tag))"

definition handleUnsupportedParams :: "http_req \<Rightarrow> string list" where
  "handleUnsupportedParams r =
     (if query_get r ''fromSrc'' \<noteq> [] then [''fromSrc parameter specified but importing images is not supported''] else []) @
     (if query_get r ''repo'' \<noteq> [] then [''repo parameter specified but importing images is not supported''] else []) @
     (if query_get r ''message'' \<noteq> [] then [''message parameter specified but importing images is not supported''] else []) @
     (if query_get r ''changes'' \<noteq> [] then [''changes parameter is not supported''] else [])"

text \<open>The header is looked up by its canonical name; warnings only reach the log.\<close>

definition handler_pull :: "(string \<Rightarrow> string \<Rightarrow> string \<Rightarrow> AuthConfig option \<Rightarrow> ('w, string list \<times> gerr option) io) \<Rightarrow>
    (string \<Rightarrow> AuthConfig res) \<Rightarrow> http_req \<Rightarrow> ('w, 'a) handler" where
  "handler_pull svc_Pull dec r rw =
     (case DecodeAuthConfig dec (map_str (req_header r) AuthHeader) of
        (_, Some err) \<Rightarrow> ret (SendErrorResponse 400 (ErrMsg (''failed to decode auth header: '' @ Error err)) rw)
      | (authCfg, None) \<Rightarrow>
          parsed (parseNameAndTag r) (\<lambda>err. SendErrorResponse 400 err) (\<lambda>(name, tag) rw.
            and_then (svc_Pull name tag (query_get r ''platform'') (Some authCfg)) (\<lambda>(writes, err).
              let pw = fold (\<lambda>b pw. snd (pw_Write b pw)) writes (NewPullJobWriter rw)
              in ret (responseWriter (pw_stream (case err of
                   Some e \<Rightarrow> snd (pw_WriteError (pull_code e) e pw)
                 | None \<Rightarrow> snd (pw_Write (''Pulled '' @ name @ '':'' @ tag @ [CHR 0x0A]) pw)))))) rw)"

definition handler_push :: "(string \<Rightarrow> string \<Rightarrow> AuthConfig option \<Rightarrow> ('w, string list \<times> PushResult option res) io) \<Rightarrow>
    (string \<Rightarrow> AuthConfig res) \<Rightarrow> (PushResult \<Rightarrow> string) \<Rightarrow> http_req \<Rightarrow> ('w, 'a) handler" where
  "handler_push svc_Push dec marshal r rw =
     (case DecodeAuthConfig dec (map_str (req_header r) AuthHeader) of
        (_, Some err) \<Rightarrow> ret (SendErrorResponse 500 (ErrWrap ''failed to decode the auth header: '' err []) rw)
      | (authCfg, None) \<Rightarrow>
          and_then (svc_Push (mux_var r ''name'') (query_get r ''tag'') (Some authCfg)) (\<lambda>(writes, out).
            let sw = fold (\<lambda>b sw. snd (sw_Write b sw)) writes (NewStreamWriter rw)
            in case out of
                 Err e \<Rightarrow> ret (responseWriter (snd (sw_WriteError (pull_code e) e sw)))
               | Ok None \<Rightarrow> ret (responseWriter sw)
               | Ok (Some result) \<Rightarrow> ret (responseWriter (snd (sw_WriteAux (marshal result) sw)))
               | Panic p \<Rightarrow> panic p
               | Hang \<Rightarrow> (\<lambda>w. (Hang, w))))"

section \<open>Removal is guarded\<close>

lemma check_used_None:
  "check_used name force stopped running imgs = None \<longleftrightarrow>
     (\<forall>img\<in>set imgs. map_of running (img_Name img) = None \<and> (map_of stopped (img_Name img) = None \<or> force))"
  by (induction imgs) (auto split: option.splits)

lemma check_used_Some: "check_used name force stopped running imgs = Some e \<Longrightarrow> IsConflict e"
  by (induction imgs) (auto simp: errdefs_defs split: option.splits if_splits)

text \<open>What may be removed: one match, or several of one image when forced; never an image a running container uses,
  and one that a stopped container uses only when forced.\<close>

definition removable :: "bool \<Rightarrow> nat \<Rightarrow> nat \<Rightarrow> string gomap \<Rightarrow> string gomap \<Rightarrow> image list \<Rightarrow> bool" where
  "removable force n unique stopped running imgs \<longleftrightarrow> n \<noteq> 0 \<and> (n > 1 \<longrightarrow> force \<and> unique = 1) \<and>
     (\<forall>img\<in>set imgs. map_of running (img_Name img) = None \<and> (map_of stopped (img_Name img) = None \<or> force))"

text \<open>
  An image is removed only when it may be: the removal of a name that matches nothing is not found, and
  one that matches several images without force, an image in use by a running container, or one
  in use by a stopped container without force is a conflict; in these cases only the
  lookups have run. Otherwise the removal is the deletion of exactly the matched images.
\<close>

theorem image_remove_guards:
  assumes search: "nctl_SearchImage env name w = (Ok (n, unique, imgs), w1)"
    and used: "GetUsedImages cl w1 = (Ok (stopped, running), w2)"
  shows "if removable force n unique stopped running imgs
    then image_Remove cl env name force w = delete_images env imgs [] [] w2
    else \<exists>e w'. image_Remove cl env name force w = (Err e, w') \<and> w' \<in> {w1, w2} \<and>
      image_remove_code e = (if n = 0 then 404 else 409)"
proof -
  have codes: "image_remove_code (NewNotFound e) = 404" "IsConflict e \<Longrightarrow> image_remove_code e = 409"
    "image_remove_code (NewConflict e) = 409" for e
    by (auto simp: image_remove_code_def errdefs_defs split: option.splits)
  consider "n = 0" | "n > 1" "\<not> (force \<and> unique = 1)" | "n \<noteq> 0" "n > 1 \<longrightarrow> force \<and> unique = 1" by linarith
  then show ?thesis
  proof cases
    case 1
    with search codes show ?thesis by (simp add: image_Remove_def and_then_def removable_def)
  next
    case 2
    with search codes show ?thesis by (auto simp: image_Remove_def and_then_def removable_def)
  next
    case 3
    show ?thesis
    proof (cases "check_used name force stopped running imgs")
      case None
      then have "removable force n unique stopped running imgs"
        using 3 check_used_None [of name force stopped running imgs] by (simp add: removable_def)
      with None 3 search used show ?thesis by (auto simp: image_Remove_def and_then_def)
    next
      case (Some e)
      then have "\<not> removable force n unique stopped running imgs"
        using check_used_None [of name force stopped running imgs] unfolding removable_def by auto
      moreover have "image_Remove cl env name force w = (Err e, w2)"
        using Some 3 search used by (auto simp: image_Remove_def and_then_def)
      ultimately show ?thesis using 3 codes(2) [OF check_used_Some [OF Some]] by auto
    qed
  qed
qed

section \<open>The response of a removal\<close>

lemma delete_images_all:
  assumes "\<And>img w. ie_Digests env img w = (Ok (dg img), w)"
    and "\<And>img w. img \<in> set imgs \<Longrightarrow> fst (ie_Delete env (img_Name img) w) = Ok ()"
  shows "fst (delete_images env imgs deleted untagged w) =
    Ok (untagged @ map (\<lambda>img. img_Name img @ '':'' @ img_Digest img) imgs, deleted @ concat (map dg imgs))"
  using assms(2)
proof (induction imgs arbitrary: deleted untagged w)
  case (Cons img imgs)
  obtain w' where "ie_Delete env (img_Name img) w = (Ok (), w')"
    using Cons.prems [of img w] by (cases "ie_Delete env (img_Name img) w") auto
  then show ?case
    using Cons.IH Cons.prems assms(1) by (simp add: and_then_def or_else_def)
qed simp

text \<open>
  The response to \<open>DELETE /images/{name}\<close> has the two kinds of entries exchanged: the layer digests that were
  deleted are listed as \<open>Untagged\<close> and the image names that were untagged as \<open>Deleted\<close>, since the
  service returns its results in the opposite order of the interface the handler reads.
\<close>

theorem image_remove_swapped:
  fixes rw :: "'i image_data respw"
  assumes dg: "\<And>img w. ie_Digests env img w = (Ok (dg img), w)"
    and del: "\<And>img w. img \<in> set imgs \<Longrightarrow> fst (ie_Delete env (img_Name img) w) = Ok ()"
    and rem: "image_Remove cl env (mux_var r ''name'') (query_flag r ''force'') w = delete_images env imgs [] [] wd"
    and fresh: "w_sent rw = None" "w_broken rw = None"
  shows "\<exists>rw' w'. handler_image_remove (image_Remove cl env) r rw w = (Ok rw', w') \<and> status_of rw' = Some 200 \<and>
    w_body rw' = w_body rw @ [CData (IRemoved
      (map (\<lambda>d. (''Untagged'', d)) (concat (map dg imgs)) @
       map (\<lambda>img. (''Deleted'', img_Name img @ '':'' @ img_Digest img)) imgs))]"
proof -
  obtain w' where "delete_images env imgs [] [] wd =
      (Ok (map (\<lambda>img. img_Name img @ '':'' @ img_Digest img) imgs, concat (map dg imgs)), w')"
    using delete_images_all [of env dg imgs "[]" "[]" wd, OF dg del] by (cases "delete_images env imgs [] [] wd") auto
  then show ?thesis
    using rem fresh JSON_fresh [of rw 200]
    by (simp add: handler_image_remove_def serve_def or_else_def buildRemoveResp_def comp_def)
qed

section \<open>Tagging\<close>

text \<open>An image store in a world: what \<open>Get\<close>, \<open>Create\<close> and \<open>Delete\<close> of containerd's image store do to the map from names to
  digests; \<open>Create\<close> refuses a name that exists; publishing an event, walking the images and listing layers leave the store alone.\<close>

definition image_store_ok :: "('w \<Rightarrow> string \<Rightarrow> string option) \<Rightarrow> ('w, 'i, 'p, 'v) image_env \<Rightarrow> bool" where
  "image_store_ok store env \<longleftrightarrow>
     (\<forall>n w. snd (ie_Get env n w) = w \<and> fst (ie_Get env n w) =
        (case store w n of None \<Rightarrow> Err (ErrExt [XNotFound] n) | Some d \<Rightarrow> Ok \<lparr>img_Name = n, img_Digest = d\<rparr>)) \<and>
     (\<forall>img w. case ie_Create env img w of
        (Ok _, w') \<Rightarrow> store w (img_Name img) = None \<and> store w' = (store w)(img_Name img \<mapsto> img_Digest img)
      | (Err e, w') \<Rightarrow> store w' = store w \<and> (cerr_IsAlreadyExists e \<longleftrightarrow> store w (img_Name img) \<noteq> None)
      | _ \<Rightarrow> False) \<and>
     (\<forall>n w. case ie_Delete env n w of
        (Ok _, w') \<Rightarrow> store w' = (store w)(n := None)
      | (Err e, w') \<Rightarrow> store w' = store w
      | _ \<Rightarrow> False) \<and>
     (\<forall>t e w. store (snd (ie_Publish env t e w)) = store w) \<and>
     (\<forall>n w. store (snd (ie_Walk env n w)) = store w) \<and> (\<forall>img w. store (snd (ie_Digests env img w)) = store w)"

lemma image_store_Create:
  assumes "image_store_ok store env"
  shows "ie_Create env img w = (Ok x, w') \<Longrightarrow> store w' = (store w)(img_Name img \<mapsto> img_Digest img)"
    and "ie_Create env img w = (Err e, w') \<Longrightarrow> store w' = store w"
    and "ie_Delete env n w = (Ok x, w') \<Longrightarrow> store w' = (store w)(n := None)"
    and "ie_Delete env n w = (Err e, w') \<Longrightarrow> store w' = store w"
    and "ie_Publish env t ev w = (r, w') \<Longrightarrow> store w' = store w"
    and "ie_Walk env n w = (rw, w') \<Longrightarrow> store w' = store w"
    and "ie_Digests env img w = (rd, w') \<Longrightarrow> store w' = store w"
proof -
  have c: "case ie_Create env img w of
        (Ok _, w') \<Rightarrow> store w (img_Name img) = None \<and> store w' = (store w)(img_Name img \<mapsto> img_Digest img)
      | (Err e, w') \<Rightarrow> store w' = store w \<and> (cerr_IsAlreadyExists e \<longleftrightarrow> store w (img_Name img) \<noteq> None)
      | _ \<Rightarrow> False"
    and d: "case ie_Delete env n w of (Ok _, w') \<Rightarrow> store w' = (store w)(n := None) | (Err e, w') \<Rightarrow> store w' = store w | _ \<Rightarrow> False"
    and p: "store (snd (ie_Publish env t ev w)) = store w" "store (snd (ie_Walk env n w)) = store w" "store (snd (ie_Digests env img w)) = store w"
    using assms by (simp_all add: image_store_ok_def)
  show "ie_Create env img w = (Ok x, w') \<Longrightarrow> store w' = (store w)(img_Name img \<mapsto> img_Digest img)"
    "ie_Create env img w = (Err e, w') \<Longrightarrow> store w' = store w"
    "ie_Delete env n w = (Ok x, w') \<Longrightarrow> store w' = (store w)(n := None)"
    "ie_Delete env n w = (Err e, w') \<Longrightarrow> store w' = store w"
    "ie_Publish env t ev w = (r, w') \<Longrightarrow> store w' = store w"
    "ie_Walk env n w = (rw, w') \<Longrightarrow> store w' = store w"
    "ie_Digests env img w = (rd, w') \<Longrightarrow> store w' = store w"
    using c d p by simp_all
qed

text \<open>
  When \<open>Tag\<close> succeeds, the new name has the digest of the image that the source name was resolved to, and
  every other name is as before, whether the new name existed or not.
\<close>

theorem tag_points_to_source:
  assumes ok: "image_store_ok store env" and src: "getFullImageName env srcImg w = (Ok src, w1)"
    and parse: "ie_ParseRef env (repo @ '':'' @ tag) = Ok target"
    and tagged: "Tag env srcImg repo tag w = (Ok (), w')"
  shows "\<exists>d. store w1 src = Some d \<and> store w' = (store w1)(target \<mapsto> d)"
proof -
  note S = image_store_Create [OF ok]
  have get: "ie_Get env src w1 = (case store w1 src of None \<Rightarrow> Err (ErrExt [XNotFound] src)
      | Some d \<Rightarrow> Ok \<lparr>img_Name = src, img_Digest = d\<rparr>, w1)"
    using ok unfolding image_store_ok_def by (metis prod.collapse)
  then obtain d where d: "store w1 src = Some d"
    using tagged src by (cases "store w1 src") (auto simp: Tag_def and_then_def)
  let ?img = "\<lparr>img_Name = target, img_Digest = d\<rparr>"
  obtain w2 where w2: "or_else (ie_Create env ?img) (\<lambda>err. if cerr_IsAlreadyExists err
        then and_then (ie_Delete env target) (\<lambda>_. ie_Create env ?img) else fail err) ret w1 = (Ok (), w2)"
    and pub: "ie_Publish env (image_tagTopic env) (image_getTagEvent d (repo @ '':'' @ tag)) w2 = (Ok (), w')"
    using tagged src get d parse by (auto simp: Tag_def and_then_def or_else_def Let_def split: prod.splits res.splits cong: if_cong)
  consider (fresh) x wa where "ie_Create env ?img w1 = (Ok x, wa)" "ret x wa = (Ok (), w2)"
    | (again) e wa where "ie_Create env ?img w1 = (Err e, wa)"
        "(if cerr_IsAlreadyExists e then and_then (ie_Delete env target) (\<lambda>_. ie_Create env ?img) else fail e) wa = (Ok (), w2)"
    using or_else_OkD [OF w2] by blast
  then have "store w2 = (store w1)(target \<mapsto> d)"
  proof cases
    case fresh
    then show ?thesis using S(1) [of ?img w1 x wa] by simp
  next
    case again
    then obtain x wb where "ie_Delete env target wa = (Ok x, wb)" "ie_Create env ?img wb = (Ok (), w2)"
      by (auto split: if_splits dest!: and_then_OkD)
    then have "store w2 = ((store wa)(target := None))(target \<mapsto> d)"
      using S(1) [of ?img wb "()" w2] S(3) [of target wa x wb] by simp
    then show ?thesis using S(2) [OF again(1)] by simp
  qed
  then show ?thesis using d S(5) [OF pub] by simp
qed

section \<open>Names of pulled images\<close>

lemma splitRE_at:
  "list_all (\<lambda>c. c \<noteq> CHR ''@'' \<and> c \<noteq> CHR '':'') base \<Longrightarrow> sep = CHR ''@'' \<or> sep = CHR '':'' \<Longrightarrow>
     splitRE (base @ sep # rest) = (base, Some rest)"
  by (induction base) (auto simp: splitRE_def Let_def)

text \<open>
  The reference that is pulled is the one the client named: a \<open>fromImage\<close> with a tag, or with a sha256
  digest behind \<open>@\<close>, is put together again unchanged, even when its registry has a port and so is
  split at the wrong colon. A separate \<open>tag\<close> parameter replaces everything behind the first
  separator, so it also replaces the port and the path of such a registry.
\<close>

theorem pull_reference:
  assumes from_image: "query_get r ''fromImage'' = base @ sep # rest" and base: "base \<noteq> []"
      "list_all (\<lambda>c. c \<noteq> CHR ''@'' \<and> c \<noteq> CHR '':'') base"
    and sep: "sep = CHR ''@'' \<and> HasPrefix rest ''sha256:'' \<or> sep = CHR '':'' \<and> \<not> HasPrefix rest ''sha256:''" and rest: "rest \<noteq> []"
  shows "parseNameAndTag r = Ok (base, if query_get r ''tag'' = [] then rest else query_get r ''tag'') \<and>
    toImageRef base rest = query_get r ''fromImage''"
  using assms splitRE_at [OF base(2), of sep rest]
  by (auto simp: parseNameAndTag_def toImageRef_def)

theorem pull_reference_witness:
  "parseNameAndTag \<lparr>vars = [], query = [(''fromImage'', [''localhost:5000/app:v1'']), (''tag'', [''v2''])], req_header = []\<rparr>
     = Ok (''localhost'', ''v2'') \<and> toImageRef ''localhost'' ''5000/app:v1'' = ''localhost:5000/app:v1''"
  using pull_reference [of "\<lparr>vars = [], query = [(''fromImage'', [''localhost:5000/app:v1'']), (''tag'', [''v2''])], req_header = []\<rparr>"
      "''localhost''" "CHR '':''" "''5000/app:v1''"]
  by (simp add: query_get_def HasPrefix_def)

section \<open>An image store of two images\<close>

type_synonym image_world = "string gomap"

definition image_world_create :: "image \<Rightarrow> (image_world, unit) io" where
  "image_world_create img w =
     (case map_of w (img_Name img) of
        None \<Rightarrow> (Ok (), map_put (img_Name img) (img_Digest img) w)
      | Some _ \<Rightarrow> (Err (ErrExt [XAlreadyExists] ''already exists''), w))"

definition two_images :: "(image_world, unit, unit, unit) image_env" where
  "two_images = \<lparr>ie_ParseRef = Ok, ie_List = (\<lambda>_ w. (Ok (map (\<lambda>(n, d). \<lparr>img_Name = n, img_Digest = d\<rparr>) w), w)),
     ie_Walk = (\<lambda>n w. (Ok (1, [\<lparr>fd_Image = \<lparr>img_Name = n, img_Digest = map_str w n\<rparr>, UniqueImages = 1\<rparr>]), w)),
     ie_Get = (\<lambda>n w. (case map_of w n of None \<Rightarrow> Err (ErrExt [XNotFound] n) | Some d \<Rightarrow> Ok \<lparr>img_Name = n, img_Digest = d\<rparr>, w)),
     ie_Create = image_world_create, ie_Delete = (\<lambda>n w. (Ok (), map_del n w)), ie_Digests = (\<lambda>img. ret [''layer'']),
     ie_Publish = (\<lambda>_ _. ret ()), ie_TopicPrefix = ''finch'', ie_Inspect = (\<lambda>_. ret ()), ie_SetID = (\<lambda>_ i. i),
     ie_Export = (\<lambda>_ _. ret ([], None)), ie_DefaultPlatform = (), ie_ParsePlatform = (\<lambda>_. Ok ()),
     ie_ParseDockerRef = (\<lambda>r. Ok (r, ''docker.io'')), ie_DockerHost = Ok, ie_Resolver = (\<lambda>_ _. ret ()), ie_Pull = (\<lambda>_ _ _. ret ([], None)),
     ie_Convert = (\<lambda>_ _. ret None), ie_Push = (\<lambda>_ _ _. ret ([], None)), ie_Size = (\<lambda>_. ret 0), ie_All = ret [],
     ie_IsUnpacked = (\<lambda>_. ret (True, None)), ie_CreatedAt = (\<lambda>_. ret 0), ie_DataStore = ret [], ie_Mkdir = (\<lambda>_. ret ()),
     ie_FifoName = ret [], ie_OpenFifo = (\<lambda>_. ret ()), ie_RemoveFile = (\<lambda>_. ret ()), ie_Load = (\<lambda>_ _. ret ([], None))\<rparr>"

definition image_world0 :: image_world where
  "image_world0 = [(''app:v1'', ''sha256:1''), (''app:v2'', ''sha256:2'')]"

definition idle_client :: "(image_world, unit) containerd_client" where
  "idle_client = \<lparr>L_Name = [], L_Networks = [], L_MACAddress = [], L_IPAddress = [], L_Ports = [], c_ID = (\<lambda>_. ''abc''),
     Containers = (\<lambda>_. ret [()]), c_Task = (\<lambda>_. ret 7), t_Status = (\<lambda>_. ret Running), c_Labels = (\<lambda>_. ret []),
     c_SetLabels = (\<lambda>_ _. ret ()), c_Annotations = (\<lambda>_. ret None), c_Update = (\<lambda>_ _ _. ret ()), c_ImageName = (\<lambda>_. ret ''app:v1''),
     cu_ContainerStatus = (\<lambda>_. ret Running)\<rparr>"

lemma two_images_search:
  "nctl_SearchImage two_images n w = (Ok (1, 1, [\<lparr>img_Name = n, img_Digest = map_str w n\<rparr>]), w)"
  "GetUsedImages idle_client w = (Ok ([], [(''app:v1'', ''abc'')]), w)"
  by (simp_all add: nctl_SearchImage_def two_images_def GetUsedImages_def idle_client_def and_then_def or_else_def map_put_def)

theorem image_remove_guards_witness:
  "\<exists>e w'. image_Remove idle_client two_images ''app:v1'' True image_world0 = (Err e, w') \<and> w' \<in> {image_world0, image_world0} \<and>
     image_remove_code e = 409"
  using image_remove_guards [OF two_images_search(1) two_images_search(2), of True "''app:v1''" image_world0]
  by (simp add: removable_def)

theorem image_remove_swapped_witness:
  "\<exists>rw' w'. handler_image_remove (image_Remove idle_client two_images) \<lparr>vars = [(''name'', ''app:v2'')], query = [], req_header = []\<rparr>
       (new_respw True :: unit image_data respw) image_world0 = (Ok rw', w') \<and> status_of rw' = Some 200 \<and>
     w_body rw' = [CData (IRemoved [(''Untagged'', ''layer''), (''Deleted'', ''app:v2:sha256:2'')])]"
proof -
  let ?r = "\<lparr>vars = [(''name'', ''app:v2'')], query = [], req_header = []\<rparr>"
  let ?imgs = "[\<lparr>img_Name = ''app:v2'', img_Digest = ''sha256:2''\<rparr>]"
  have "image_Remove idle_client two_images ''app:v2'' False image_world0 = delete_images two_images ?imgs [] [] image_world0"
    by (simp add: image_Remove_def and_then_def two_images_search image_world0_def map_str_def)
  then have rem: "image_Remove idle_client two_images (mux_var ?r ''name'') (query_flag ?r ''force'') image_world0 =
      delete_images two_images ?imgs [] [] image_world0"
    by (simp add: mux_var_def map_str_def query_flag_def query_get_def ParseBool_def)
  have "\<And>img w. ie_Digests two_images img w = (Ok [''layer''], w)" "\<And>n w. fst (ie_Delete two_images n w) = Ok ()"
    by (simp_all add: two_images_def)
  from image_remove_swapped [where dg = "\<lambda>_. [''layer'']" and rw = "new_respw True :: unit image_data respw",
      OF this(1) this(2) rem] show ?thesis by (simp add: new_respw_def)
qed

lemma two_images_ok: "image_store_ok map_of two_images"
  unfolding image_store_ok_def
  by (auto simp: two_images_def image_world_create_def cerr_IsAlreadyExists_def fun_eq_iff split: option.splits)

theorem tag_points_to_source_witness:
  "\<exists>d. map_of image_world0 ''app:v1'' = Some d \<and>
     map_of (snd (Tag two_images ''app:v1'' ''app'' ''v2'' image_world0)) = (map_of image_world0)(''app:v2'' \<mapsto> d)"
  using tag_points_to_source [OF two_images_ok, of "''app:v1''" image_world0 "''app:v1''" image_world0 "''app''" "''v2''" "''app:v2''"
      "snd (Tag two_images ''app:v1'' ''app'' ''v2'' image_world0)"]
  by (simp add: two_images_def getFullImageName_def or_else_def Tag_def and_then_def image_world_create_def image_world0_def
      cerr_IsAlreadyExists_def map_del_def Let_def cong: if_cong)

end
