(* ===== verification/Image_Store.thy ===== *)
theory Image_Store
  imports Images
begin

text \<open>
  The image service against an abstract image store, a map from names to digests. Tagging and removal are its steps, with what is left behind when one of the calls of
  containerd's store fails half-way.
\<close>

section \<open>The abstract store\<close>

type_synonym image_map = "string \<Rightarrow> string option"

datatype image_op = OpTag string string | OpUntag "string list"

text \<open>One request; the flag says whether it succeeds. A target that exists is deleted before it is created again, and an event is published
  after the store has been changed, so that a request that fails may have lost the target or have set it.\<close>

inductive image_step :: "image_map \<Rightarrow> image_op \<Rightarrow> bool \<Rightarrow> image_map \<Rightarrow> bool" where
  tagged: "S src = Some d \<Longrightarrow> image_step S (OpTag src target) True (S(target \<mapsto> d))"
| unchanged: "image_step S opr False S"
| lost: "S target = Some d \<Longrightarrow> image_step S (OpTag src target) False (S(target := None))"
| unannounced: "S src = Some d \<Longrightarrow> image_step S (OpTag src target) False (S(target \<mapsto> d))"
| removed: "image_step S (OpUntag ns) True (S |` (- set ns))"
| partly: "k < length ns \<Longrightarrow> image_step S (OpUntag ns) False (S |` (- set (take k ns)))"

inductive_cases untag_doneE: "image_step S (OpUntag ns) True S'"
inductive_cases untag_failedE: "image_step S (OpUntag ns) False S'"

text \<open>What no removal touches.\<close>

lemma untag_others:
  assumes "image_step S (OpUntag ns) ok S'" "n \<notin> set ns"
  shows "S' n = S n"
proof (cases ok)
  case True
  then show ?thesis using assms by (auto elim!: untag_doneE simp: restrict_map_def)
next
  case False
  have "n \<notin> set (take k ns)" for k using assms(2) in_set_takeD by fast
  then show ?thesis using assms(1) False by (auto elim!: untag_failedE simp: restrict_map_def)
qed

section \<open>Removal\<close>

lemma restrict_one: "(S(n := None)) |` A = S |` (A - {n})"
  by (auto simp: restrict_map_def)

lemma delete_images_step:
  assumes ok: "image_store_ok store env"
  shows "case delete_images env imgs deleted untagged w of
      (Ok _, w') \<Rightarrow> store w' = store w |` (- set (map img_Name imgs))
    | (Err e, w') \<Rightarrow> \<exists>k < length imgs. store w' = store w |` (- set (take k (map img_Name imgs)))
    | _ \<Rightarrow> True"
proof (induction imgs arbitrary: deleted untagged w)
  case Nil
  show ?case by (simp add: ret_def restrict_map_def)
next
  case (Cons img imgs)
  note S = image_store_Create [OF ok]
  obtain rd wd where dg: "ie_Digests env img w = (rd, wd)" by fastforce
  have wd: "store wd = store w" using S(7) [OF dg] .
  obtain r w1 where del: "ie_Delete env (img_Name img) wd = (r, w1)" by fastforce
  let ?ds = "case rd of Ok ds \<Rightarrow> ds | _ \<Rightarrow> []"
  have run: "delete_images env (img # imgs) deleted untagged w =
      and_then (ie_Delete env (img_Name img)) (\<lambda>_. delete_images env imgs (deleted @ ?ds) (untagged @ [img_Name img @ '':'' @ img_Digest img])) wd"
    if "\<forall>p. rd \<noteq> Panic p" "rd \<noteq> Hang"
    using that dg by (cases rd) (simp_all add: and_then_def or_else_def ret_def)
  show ?case
  proof (cases "(\<exists>p. rd = Panic p) \<or> rd = Hang")
    case True
    then show ?thesis using dg by (auto simp: and_then_def or_else_def)
  next
    case False
    define ds where "ds = ?ds"
    with run False have run: "delete_images env (img # imgs) deleted untagged w =
      and_then (ie_Delete env (img_Name img)) (\<lambda>_. delete_images env imgs (deleted @ ds) (untagged @ [img_Name img @ '':'' @ img_Digest img])) wd" by blast
    show ?thesis
    proof (cases r)
      case (Ok x)
      let ?rest = "delete_images env imgs (deleted @ ds) (untagged @ [img_Name img @ '':'' @ img_Digest img]) w1"
      have w1: "store w1 = (store w)(img_Name img := None)" using S(3) [OF del [unfolded Ok]] wd by simp
      have eq: "delete_images env (img # imgs) deleted untagged w = ?rest"
        unfolding run using del Ok by (simp add: and_then_def)
      obtain q w' where rest: "?rest = (q, w')" by fastforce
      have "- set ns - {img_Name img} = - set (img_Name img # ns)" for ns by auto
      then have cut: "store w1 |` (- set ns) = store w |` (- set (img_Name img # ns))" for ns
        unfolding w1 restrict_one by metis
      have cuts: "store w1 |` (- set ns) = store w |` (- insert (img_Name img) (set ns))" for ns using cut [of ns] by simp
      show ?thesis
      proof (cases q)
        case (Ok p)
        then show ?thesis
          using Cons.IH [of w1 "deleted @ ds" "untagged @ [img_Name img @ '':'' @ img_Digest img]"] cuts [of "map img_Name imgs"] eq rest by simp
      next
        case (Err e)
        with Cons.IH [of w1 "deleted @ ds" "untagged @ [img_Name img @ '':'' @ img_Digest img]"] rest
        obtain k where "k < length imgs" "store w' = store w1 |` (- set (take k (map img_Name imgs)))" by auto
        then have "Suc k < length (img # imgs)" "store w' = store w |` (- set (take (Suc k) (map img_Name (img # imgs))))"
          using cuts by simp_all
        then show ?thesis using eq rest Err by auto
      qed (use eq rest in simp_all)
    next
      case (Err e)
      then have "store w1 = store w" using S(4) [OF del [unfolded Err]] wd by simp
      then show ?thesis unfolding run using del Err by (auto simp: and_then_def intro!: exI [of _ 0])
    qed (use run del in \<open>simp_all add: and_then_def\<close>)
  qed
qed

section \<open>Tagging\<close>

lemma getFullImageName_store:
  assumes "image_store_ok store env" "getFullImageName env name w = (r, w')"
  shows "store w' = store w"
proof -
  obtain q v where walk: "ie_Walk env name w = (q, v)" by fastforce
  show ?thesis
    using assms(2) image_store_Create(6) [OF assms(1) walk] walk
    by (cases q) (auto simp: getFullImageName_def or_else_def ret_def fail_def split: if_splits)
qed

lemma image_store_Get:
  assumes "image_store_ok store env"
  shows "ie_Get env n w = (case store w n of None \<Rightarrow> Err (ErrExt [XNotFound] n) | Some d \<Rightarrow> Ok \<lparr>img_Name = n, img_Digest = d\<rparr>, w)"
proof -
  have "snd (ie_Get env n w) = w" "fst (ie_Get env n w) =
      (case store w n of None \<Rightarrow> Err (ErrExt [XNotFound] n) | Some d \<Rightarrow> Ok \<lparr>img_Name = n, img_Digest = d\<rparr>)"
    using assms unfolding image_store_ok_def by blast+
  then show ?thesis by (simp only: prod_eq_iff fst_conv snd_conv)
qed

text \<open>The target is created, or deleted and created again.\<close>

definition retag :: "('w, 'i, 'p, 'v) image_env \<Rightarrow> image \<Rightarrow> ('w, unit) io" where
  "retag env img =
     or_else (ie_Create env img)
       (\<lambda>err. if cerr_IsAlreadyExists err then and_then (ie_Delete env (img_Name img)) (\<lambda>_. ie_Create env img) else fail err) ret"

lemma create_refused:
  assumes "image_store_ok store env" "ie_Create env img w = (Err e, w')" "cerr_IsAlreadyExists e"
  shows "\<exists>d. store w (img_Name img) = Some d"
proof -
  have "case ie_Create env img w of
      (Ok _, w') \<Rightarrow> store w (img_Name img) = None \<and> store w' = (store w)(img_Name img \<mapsto> img_Digest img)
    | (Err e, w') \<Rightarrow> store w' = store w \<and> (cerr_IsAlreadyExists e \<longleftrightarrow> store w (img_Name img) \<noteq> None)
    | _ \<Rightarrow> False"
    using assms(1) by (simp add: image_store_ok_def)
  then show ?thesis using assms(2,3) by simp
qed

lemma retag_runs:
  "retag env img w = (case ie_Create env img w of
      (Err e, v) \<Rightarrow> if cerr_IsAlreadyExists e then (case ie_Delete env (img_Name img) v of (Ok _, u) \<Rightarrow> ie_Create env img u
          | (Err e, u) \<Rightarrow> (Err e, u) | (Panic p, u) \<Rightarrow> (Panic p, u) | (Hang, u) \<Rightarrow> (Hang, u)) else (Err e, v)
    | (r, v) \<Rightarrow> (r, v))"
  by (simp add: retag_def or_else_def and_then_def ret_def fail_def split: prod.split res.split)

definition retagged :: "image_map \<Rightarrow> image \<Rightarrow> unit res \<Rightarrow> image_map \<Rightarrow> bool" where
  "retagged S img r S' \<longleftrightarrow> (case r of
      Ok _ \<Rightarrow> S' = S(img_Name img \<mapsto> img_Digest img)
    | Err e \<Rightarrow> S' = S \<or> (\<exists>d. S (img_Name img) = Some d) \<and> S' = S(img_Name img := None)
    | _ \<Rightarrow> True)"

lemma retag_store:
  assumes ok: "image_store_ok store env" and run: "retag env img w = (r, w')"
  shows "retagged (store w) img r (store w')"
proof -
  note S = image_store_Create [OF ok]
  obtain c v where c: "ie_Create env img w = (c, v)" by (rule prod.exhaust)
  show ?thesis
  proof (cases c)
    case (Ok x)
    have "store v = (store w)(img_Name img \<mapsto> img_Digest img)" using S(1) [OF c [unfolded Ok]] .
    with run c Ok show ?thesis by (auto simp: retag_runs retagged_def)
  next
    case (Err e1)
    have v: "store v = store w" using S(2) [OF c [unfolded Err]] .
    show ?thesis
    proof (cases "cerr_IsAlreadyExists e1")
      case True
      have old: "\<exists>d. store w (img_Name img) = Some d" using create_refused [OF ok c [unfolded Err] True] .
      obtain q u where q: "ie_Delete env (img_Name img) v = (q, u)" by (rule prod.exhaust)
      show ?thesis
      proof (cases q)
        case (Ok x)
        have u: "store u = (store w)(img_Name img := None)" using S(3) [OF q [unfolded Ok]] v by simp
        have again: "ie_Create env img u = (r, w')" using run c Err True q Ok by (simp add: retag_runs)
        show ?thesis
        proof (cases r)
          case (Ok y)
          show ?thesis using S(1) [OF again [unfolded Ok]] u Ok by (simp add: retagged_def)
        next
          case (Err e2)
          show ?thesis using S(2) [OF again [unfolded Err]] u old Err by (simp add: retagged_def)
        qed (simp_all add: retagged_def)
      next
        case (Err e2)
        have "store u = store w" using S(4) [OF q [unfolded Err]] v by simp
        moreover have "r = Err e2" "w' = u" using run c \<open>c = Err e1\<close> True q Err by (simp_all add: retag_runs)
        ultimately show ?thesis by (simp add: retagged_def)
      qed (use run c Err True q in \<open>auto simp: retag_runs retagged_def\<close>)
    next
      case False
      with run c Err v show ?thesis by (auto simp: retag_runs retagged_def)
    qed
  qed (use run c in \<open>auto simp: retag_runs retagged_def\<close>)
qed

lemma Tag_step:
  assumes ok: "image_store_ok store env" and run: "Tag env srcImg repo tag w = (r, w')"
  shows "r = Ok u \<Longrightarrow> \<exists>src target. fst (getFullImageName env srcImg w) = Ok src \<and> ie_ParseRef env (repo @ '':'' @ tag) = Ok target \<and>
      image_step (store w) (OpTag src target) True (store w')"
    and "r = Err e \<Longrightarrow> store w' = store w \<or> (\<exists>src target. fst (getFullImageName env srcImg w) = Ok src \<and>
      ie_ParseRef env (repo @ '':'' @ tag) = Ok target \<and> image_step (store w) (OpTag src target) False (store w'))"
proof -
  obtain g v where g: "getFullImageName env srcImg w = (g, v)" by fastforce
  have v: "store v = store w" using getFullImageName_store [OF ok g] .
  have both: "(r = Ok u \<longrightarrow> (\<exists>src target. g = Ok src \<and> ie_ParseRef env (repo @ '':'' @ tag) = Ok target \<and>
      image_step (store w) (OpTag src target) True (store w'))) \<and>
    (r = Err e \<longrightarrow> store w' = store w \<or> (\<exists>src target. g = Ok src \<and>
      ie_ParseRef env (repo @ '':'' @ tag) = Ok target \<and> image_step (store w) (OpTag src target) False (store w')))"
  proof (cases g)
    case (Ok src)
    have get: "ie_Get env src v = (case store w src of None \<Rightarrow> Err (ErrExt [XNotFound] src) | Some d \<Rightarrow> Ok \<lparr>img_Name = src, img_Digest = d\<rparr>, v)"
      unfolding image_store_Get [OF ok] v ..
    show ?thesis
    proof (cases "store w src")
      case None
      with run g Ok get v show ?thesis by (auto simp: Tag_def and_then_def)
    next
      case (Some d)
      show ?thesis
      proof (cases "ie_ParseRef env (repo @ '':'' @ tag)")
        case (Ok target)
        let ?img = "\<lparr>img_Name = target, img_Digest = d\<rparr>"
        obtain q v1 where q: "retag env ?img v = (q, v1)" by fastforce
        obtain q2 v2 where q2: "ie_Publish env (image_tagTopic env) (image_getTagEvent d (repo @ '':'' @ tag)) v1 = (q2, v2)" by fastforce
        have "(r, w') = (case q of Ok _ \<Rightarrow> (q2, v2) | Err e \<Rightarrow> (Err e, v1) | Panic p \<Rightarrow> (Panic p, v1) | Hang \<Rightarrow> (Hang, v1))"
          using run g \<open>g = Ok src\<close> get Some Ok q q2
          by (cases q) (auto simp: Tag_def and_then_def [of "getFullImageName env srcImg"] and_then_def [of "ie_Get env src"] or_else_def [of "lift_res _"]
              and_then_def [of "retag _ _"] retag_def [symmetric] Let_def)
        then show ?thesis
          using \<open>g = Ok src\<close> Ok v retag_store [OF ok q, unfolded retagged_def] image_store_Create(5) [OF ok q2] image_step.intros(1,3,4) [of "store w"] Some
          by (cases q) auto
      qed (use run g Ok get Some v in \<open>auto simp: Tag_def and_then_def or_else_def fail_def Let_def\<close>)
    qed
  qed (use run g v in \<open>auto simp: Tag_def and_then_def\<close>)
  then show "r = Ok u \<Longrightarrow> \<exists>src target. fst (getFullImageName env srcImg w) = Ok src \<and> ie_ParseRef env (repo @ '':'' @ tag) = Ok target \<and>
      image_step (store w) (OpTag src target) True (store w')"
    "r = Err e \<Longrightarrow> store w' = store w \<or> (\<exists>src target. fst (getFullImageName env srcImg w) = Ok src \<and>
      ie_ParseRef env (repo @ '':'' @ tag) = Ok target \<and> image_step (store w) (OpTag src target) False (store w'))"
    by (simp_all add: g)
qed

section \<open>The refinement\<close>

text \<open>What a removal has found: its matches, and what containers use; it is allowed.\<close>

definition may_remove :: "('w, 'c) containerd_client \<Rightarrow> ('w, 'i, 'p, 'v) image_env \<Rightarrow> string \<Rightarrow> bool \<Rightarrow> 'w \<Rightarrow> image list \<Rightarrow> bool" where
  "may_remove cl env name force w imgs \<longleftrightarrow>
     (\<exists>n unique w1 stopped running w2. nctl_SearchImage env name w = (Ok (n, unique, imgs), w1) \<and>
        GetUsedImages cl w1 = (Ok (stopped, running), w2) \<and> removable force n unique stopped running imgs)"

lemma Remove_step:
  assumes ok: "image_store_ok store env" and idle: "\<And>v. store (snd (GetUsedImages cl v)) = store v"
    and run: "image_Remove cl env name force w = (r, w')"
  shows "r = Ok out \<Longrightarrow> \<exists>imgs. may_remove cl env name force w imgs \<and> image_step (store w) (OpUntag (map img_Name imgs)) True (store w')"
    and "r = Err e \<Longrightarrow> store w' = store w \<or>
      (\<exists>imgs. may_remove cl env name force w imgs \<and> image_step (store w) (OpUntag (map img_Name imgs)) False (store w'))"
proof -
  obtain q w1 where q: "nctl_SearchImage env name w = (q, w1)" by (rule prod.exhaust)
  obtain walked v where walk: "ie_Walk env name w = (walked, v)" by (rule prod.exhaust)
  then have "w1 = v" using q by (cases walked) (auto simp: nctl_SearchImage_def and_then_def ret_def)
  then have w1: "store w1 = store w" using image_store_Create(6) [OF ok walk] by simp
  obtain g w2 where g: "GetUsedImages cl w1 = (g, w2)" by (rule prod.exhaust)
  have w2: "store w2 = store w" using idle [of w1] g w1 by simp
  have "(r = Ok out \<longrightarrow> (\<exists>imgs. may_remove cl env name force w imgs \<and> image_step (store w) (OpUntag (map img_Name imgs)) True (store w'))) \<and>
    (r = Err e \<longrightarrow> store w' = store w \<or>
      (\<exists>imgs. may_remove cl env name force w imgs \<and> image_step (store w) (OpUntag (map img_Name imgs)) False (store w')))"
  proof (cases "(\<exists>n unique imgs. q = Ok (n, unique, imgs)) \<and> (\<exists>stopped running. g = Ok (stopped, running))")
    case True
    then obtain n unique imgs stopped running where found: "q = Ok (n, unique, imgs)" "g = Ok (stopped, running)" by blast
    note guards = image_remove_guards [OF q [unfolded found] g [unfolded found], of force]
    show ?thesis
    proof (cases "removable force n unique stopped running imgs")
      case True
      then have may: "may_remove cl env name force w imgs" using q g found unfolding may_remove_def by blast
      have "delete_images env imgs [] [] w2 = (r, w')" using guards True run by simp
      then show ?thesis
        using delete_images_step [OF ok, where imgs = imgs and deleted = "[]" and untagged = "[]" and w = w2] may w2 image_step.removed [of "store w" "map img_Name imgs"]
          image_step.partly [of _ "map img_Name imgs" "store w"] by (cases r) fastforce+
    next
      case False
      with guards run w1 w2 show ?thesis by auto
    qed
  next
    case False
    with run q g w1 w2 show ?thesis
      by (cases q; cases g) (auto simp: image_Remove_def and_then_def fail_def split: if_splits)
  qed
  then show "r = Ok out \<Longrightarrow> \<exists>imgs. may_remove cl env name force w imgs \<and> image_step (store w) (OpUntag (map img_Name imgs)) True (store w')"
    "r = Err e \<Longrightarrow> store w' = store w \<or>
      (\<exists>imgs. may_remove cl env name force w imgs \<and> image_step (store w) (OpUntag (map img_Name imgs)) False (store w'))" by simp_all
qed

text \<open>
  C6: Tagging and removing images refine an abstract map from names to digests. A tag that succeeds gives the new name the digest of the image that
  the source name was resolved to and changes no other name; a removal that succeeds deletes exactly the matched names, and only if it is allowed: none is used by a running
  container, or by a stopped one unless forced. An error leaves the map as it was, or a removal cut short after some of the matched names, or a tag
  whose target was deleted and not created again, or whose event could not be published.
\<close>

theorem image_store_refined:
  assumes "image_store_ok store env" and "\<And>v. store (snd (GetUsedImages cl v)) = store v"
  shows "(Tag env srcImg repo tag w = (Ok u, w1) \<longrightarrow>
      (\<exists>src target. fst (getFullImageName env srcImg w) = Ok src \<and> ie_ParseRef env (repo @ '':'' @ tag) = Ok target \<and>
         image_step (store w) (OpTag src target) True (store w1))) \<and>
    (Tag env srcImg repo tag w = (Err e1, w1) \<longrightarrow> store w1 = store w \<or>
      (\<exists>src target. fst (getFullImageName env srcImg w) = Ok src \<and> ie_ParseRef env (repo @ '':'' @ tag) = Ok target \<and>
         image_step (store w) (OpTag src target) False (store w1))) \<and>
    (image_Remove cl env name force w = (Ok out, w2) \<longrightarrow>
      (\<exists>imgs. may_remove cl env name force w imgs \<and> image_step (store w) (OpUntag (map img_Name imgs)) True (store w2))) \<and>
    (image_Remove cl env name force w = (Err e2, w2) \<longrightarrow> store w2 = store w \<or>
      (\<exists>imgs. may_remove cl env name force w imgs \<and> image_step (store w) (OpUntag (map img_Name imgs)) False (store w2)))"
  using Tag_step [OF assms(1), of srcImg repo tag w _ w1] Remove_step [OF assms, of name force w _ w2] by simp

text \<open>Moving a tag is not atomic: if the second creation fails, the target that existed is gone.\<close>

theorem tag_failure_loses_target:
  assumes ok: "image_store_ok store env" and src: "getFullImageName env srcImg w = (Ok src, w1)" "store w1 src = Some d"
    and target: "ie_ParseRef env (repo @ '':'' @ tag) = Ok target"
    and calls: "ie_Create env \<lparr>img_Name = target, img_Digest = d\<rparr> w1 = (Err e1, w2)" "cerr_IsAlreadyExists e1"
      "ie_Delete env target w2 = (Ok x, w3)" "ie_Create env \<lparr>img_Name = target, img_Digest = d\<rparr> w3 = (Err e2, w4)"
  shows "Tag env srcImg repo tag w = (Err e2, w4) \<and> (\<exists>d'. store w1 target = Some d') \<and> store w4 = (store w1)(target := None)"
proof -
  note S = image_store_Create [OF ok]
  have get: "ie_Get env src w1 = (Ok \<lparr>img_Name = src, img_Digest = d\<rparr>, w1)"
    by (simp add: image_store_Get [OF ok] src(2))
  have "store w4 = (store w1)(target := None)" using S(2) [OF calls(4)] S(3) [OF calls(3)] S(2) [OF calls(1)] by simp
  moreover have "\<exists>d'. store w1 target = Some d'" using create_refused [OF ok calls(1,2)] by simp
  moreover have "Tag env srcImg repo tag w = (Err e2, w4)"
    using src(1) get target calls by (simp add: Tag_def and_then_def or_else_def lift_res_def Let_def)
  ultimately show ?thesis by simp
qed

lemma idle_used: "snd (GetUsedImages idle_client v) = v"
  by (simp add: GetUsedImages_def idle_client_def and_then_def or_else_def)

theorem image_store_refined_witness:
  "(\<exists>src target. ie_ParseRef two_images ''app:v3'' = Ok target \<and> image_step (map_of image_world0) (OpTag src target) True
      (map_of [(''app:v1'', ''sha256:1''), (''app:v2'', ''sha256:2''), (''app:v3'', ''sha256:1'')])) \<and>
   (\<exists>imgs :: image list. image_step (map_of image_world0) (OpUntag (map img_Name imgs)) True (map_of [(''app:v1'', ''sha256:1'')]))"
proof -
  have "Tag two_images ''app:v1'' ''app'' ''v3'' image_world0 = (Ok (), [(''app:v1'', ''sha256:1''), (''app:v2'', ''sha256:2''), (''app:v3'', ''sha256:1'')])"
    by (simp add: two_images_def getFullImageName_def or_else_def Tag_def and_then_def image_world_create_def image_world0_def
      map_put_def ret_def Let_def)
  moreover
  have calls: "ie_Digests two_images img v = (Ok [''layer''], v)" "ie_Delete two_images n v = (Ok (), map_del n v)" for img n v
    by (simp_all add: two_images_def ret_def)
  have "image_Remove idle_client two_images ''app:v2'' False image_world0 =
      (Ok ([''app:v2:sha256:2''], [''layer'']), [(''app:v1'', ''sha256:1'')])"
    by (simp add: image_Remove_def and_then_def two_images_search image_world0_def map_str_def or_else_def ret_def map_del_def calls)
  ultimately show ?thesis
    using image_store_refined [OF two_images_ok, of idle_client "''app:v1''" "''app''" "''v3''" image_world0 "()"
      "[(''app:v1'', ''sha256:1''), (''app:v2'', ''sha256:2''), (''app:v3'', ''sha256:1'')]" undefined "''app:v2''" False
      "([''app:v2:sha256:2''], [''layer''])" "[(''app:v1'', ''sha256:1'')]" undefined] idle_used
    by auto
qed

end
