(* ===== verification/Container_Create.thy ===== *)
theory Container_Create
  imports Container_Api
begin

text \<open>
  \<open>POST /containers/create\<close> (\<open>src/api/handlers/container/create.go\<close>): the request is checked
  and translated into nerdctl's create and network options, piece by piece in the order of the handler.

  What lies outside the repository is the record \<open>create_lib\<close>: nerdctl's defaults and port
  parser, the string forms of ulimits and block I/O devices, the parts of a port name, and the file system
  calls of the device check.
\<close>

section \<open>Environment\<close>

record file_info =
  fi_Dir :: bool
  fi_Symlink :: bool
  fi_Device :: bool

record ('w, 'u, 'b, 'p) create_lib =
  defaults_Runtime :: string
  defaults_CgroupnsMode :: string
  Ulimit_String :: "'u \<Rightarrow> string"
  Device_String :: "'b \<Rightarrow> string"
  Port_Port :: "string \<Rightarrow> string"
  Port_Proto :: "string \<Rightarrow> string"
  ParseFlagP :: "string \<Rightarrow> 'p list res"
  os_Lstat :: "string \<Rightarrow> ('w, file_info) io"
  os_StatInfo :: "string \<Rightarrow> ('w, file_info) io"
  EvalSymlinks :: "string \<Rightarrow> ('w, string) io"

section \<open>Translations\<close>

definition restart_policy :: "RestartPolicy \<Rightarrow> string" where
  "restart_policy rp =
     (if rp_Name rp = [] then ''no''
      else if MaximumRetryCount rp > 0 then rp_Name rp @ '':'' @ Itoa (MaximumRetryCount rp) else rp_Name rp)"

text \<open>A requested volume is added unless a bind mounts its path or it is in the list already.\<close>

definition volume_contained :: "string \<Rightarrow> string list \<Rightarrow> bool" where
  "volume_contained newVolume volumes \<longleftrightarrow>
     list_ex (\<lambda>volume. let bindOpts = Split volume (CHR '':'')
                       in length bindOpts > 1 \<and> newVolume = bindOpts ! 1 \<or> newVolume = volume) volumes"

definition add_volumes :: "string list \<Rightarrow> string list \<Rightarrow> string list" where
  "add_volumes requested binds =
     fold (\<lambda>newVolume volumes. if volume_contained newVolume volumes then volumes else volumes @ [newVolume]) requested binds"

definition translateTmpfs :: "string gomap \<Rightarrow> string list" where
  "translateTmpfs tmpfs = map (\<lambda>(dest, options). if options = [] then dest else dest @ '':'' @ options) tmpfs"

definition translateSysctls :: "string gomap \<Rightarrow> string list" where
  "translateSysctls sysctls = map (\<lambda>(key, val). key @ ''='' @ val) sysctls"

definition translateAnnotations :: "string gomap \<Rightarrow> string list" where
  "translateAnnotations annotations = map (\<lambda>(key, val). key @ ''='' @ val) annotations"

definition translateDevices :: "DeviceMapping list \<Rightarrow> string list" where
  "translateDevices devices =
     map (\<lambda>d. PathOnHost d @
        (if PathInContainer d \<noteq> []
         then '':'' @ PathInContainer d @ (if CgroupPermissions d \<noteq> [] then '':'' @ CgroupPermissions d else [])
         else if CgroupPermissions d \<noteq> [] then '':'' @ CgroupPermissions d else [])) devices"

text \<open>The string forms of a list of pointers; a nil pointer panics.\<close>

fun pointer_strings :: "('x \<Rightarrow> string) \<Rightarrow> 'x option list \<Rightarrow> string list res" where
  "pointer_strings f [] = Ok []"
| "pointer_strings f (None # ps) = Panic ''nil pointer dereference''"
| "pointer_strings f (Some x # ps) = (case pointer_strings f ps of Ok ss \<Rightarrow> Ok (f x # ss) | r \<Rightarrow> r)"

definition weightDevicesToStrings :: "('b \<Rightarrow> string) \<Rightarrow> 'b option list \<Rightarrow> string list res" where
  "weightDevicesToStrings f devices = pointer_strings f devices"

definition throttleDevicesToStrings :: "('b \<Rightarrow> string) \<Rightarrow> 'b option list \<Rightarrow> string list res" where
  "throttleDevicesToStrings f devices = pointer_strings f devices"

definition port_string :: "('w, 'u, 'b, 'p) create_lib \<Rightarrow> string \<Rightarrow> PortBinding \<Rightarrow> string" where
  "port_string lib portName portBinding =
     (if HostIP portBinding \<noteq> [] then HostIP portBinding @ '':'' else []) @ HostPort portBinding @ '':'' @
     Port_Port lib portName @ ''/'' @ Port_Proto lib portName"

fun parse_ports :: "(string \<Rightarrow> 'p list res) \<Rightarrow> string list \<Rightarrow> string list \<Rightarrow> 'p list \<Rightarrow> 'p list res" where
  "parse_ports parse [] seen ports = Ok ports"
| "parse_ports parse (portStr # ss) seen ports =
     (if portStr \<in> set seen then parse_ports parse ss seen ports
      else case parse portStr of
             Ok portMaps \<Rightarrow> parse_ports parse ss (portStr # seen) (ports @ portMaps)
           | Err err \<Rightarrow> Err (ErrWrap (''failed to parse port mapping '' @ Quote portStr @ '': '') err [])
           | Panic p \<Rightarrow> Panic p
           | Hang \<Rightarrow> Hang)"

definition translatePortMappings :: "('w, 'u, 'b, 'p) create_lib \<Rightarrow> PortMap \<Rightarrow> 'p list res" where
  "translatePortMappings lib portMappings =
     parse_ports (ParseFlagP lib)
       (concat (map (\<lambda>(portName, portBindings). map (port_string lib portName) portBindings) portMappings)) [] []"

section \<open>The device check\<close>

definition errGatheringDeviceInfo :: string where
  "errGatheringDeviceInfo = ''error gathering device information while adding custom device''"

definition device_error :: "string \<Rightarrow> string \<Rightarrow> string" where
  "device_error path why = errGatheringDeviceInfo @ '' '' @ Quote path @ '': '' @ why"

text \<open>\<open>None\<close> is a valid device; \<open>Some msg\<close> is the message of the 400 response that the check sends.\<close>

definition validateDevice :: "('w, 'u, 'b, 'p) create_lib \<Rightarrow> string \<Rightarrow> ('w, string option) io" where
  "validateDevice lib pathOnHost =
     (if pathOnHost = [] then ret (Some errGatheringDeviceInfo)
      else or_else (os_Lstat lib pathOnHost)
        (\<lambda>err. ret (Some (device_error pathOnHost (Error err))))
        (\<lambda>src. or_else (if fi_Symlink src then EvalSymlinks lib pathOnHost else ret pathOnHost)
          (\<lambda>err. ret (Some (device_error pathOnHost (Error err))))
          (\<lambda>resolvedPath. or_else (os_StatInfo lib resolvedPath)
            (\<lambda>err. ret (Some (device_error pathOnHost (Error err))))
            (\<lambda>src. if \<not> fi_Dir src \<and> \<not> fi_Device src then ret (Some (device_error pathOnHost ''not a device''))
                   else ret None))))"

fun validate_devices :: "('w, 'u, 'b, 'p) create_lib \<Rightarrow> DeviceMapping list \<Rightarrow> ('w, string option) io" where
  "validate_devices lib [] = ret None"
| "validate_devices lib (d # ds) =
     and_then (validateDevice lib (PathOnHost d))
       (\<lambda>r. case r of Some msg \<Rightarrow> ret (Some msg) | None \<Rightarrow> validate_devices lib ds)"

section \<open>The options\<close>

text \<open>\<open>uint64(x)\<close> of a signed 64-bit number.\<close>

definition to_uint64 :: "int \<Rightarrow> int" where
  "to_uint64 i = i mod 2 ^ 64"

definition positive_or :: "int \<Rightarrow> int \<Rightarrow> int" where
  "positive_or dflt v = (if v > 0 then v else dflt)"

record blkio_strings =
  bs_weight :: "string list"
  bs_readBps :: "string list"
  bs_writeBps :: "string list"
  bs_readIOps :: "string list"
  bs_writeIOps :: "string list"

definition createOpt_of :: "('w, 'u, 'b, 'p) create_lib \<Rightarrow> string \<Rightarrow> string \<Rightarrow> ContainerConfig \<Rightarrow> ('u, 'b) ContainerHostConfig \<Rightarrow>
    string list \<Rightarrow> blkio_strings \<Rightarrow> ContainerCreateOptions" where
  "createOpt_of lib name platform req hc ulimits blk =
     \<lparr>NerdctlCmd = [], NerdctlArgs = [],
      o_Interactive = False, o_TTY = False, o_Detach = True,
      o_Restart = restart_policy (RestartPolicy hc), o_Rm = AutoRemove hc, o_Pull = ''missing'',
      o_StopSignal = (if StopSignal req \<noteq> [] then StopSignal req else ''SIGTERM''),
      o_StopTimeout = (case StopTimeout req of None \<Rightarrow> 10 | Some t \<Rightarrow> t),
      o_CidFile = ContainerIDFile hc, o_OomKillDisable = OomKillDisable hc, o_Pid = PidMode hc,
      o_Platform = platform, o_Isolation = ''default'',
      o_CPUSetCPUs = CPUSetCPUs hc, o_CPUSetMems = CPUSetMems hc, o_CPUShares = to_uint64 (CPUShares hc),
      o_CPUQuota = (if CPUQuota hc \<noteq> 0 then CPUQuota hc else -1), o_CPUPeriod = to_uint64 (CPUPeriod hc),
      o_Memory = (if Memory hc > 0 then Itoa (Memory hc) else []),
      o_MemorySwap = (if MemorySwap hc \<noteq> 0 then Itoa (MemorySwap hc) else []),
      o_MemoryReservation = (if MemoryReservation hc \<noteq> 0 then Itoa (MemoryReservation hc) else []),
      o_MemorySwappiness64 = positive_or (-1) (MemorySwappiness hc),
      o_Ulimit = ulimits, o_PidsLimit = positive_or (-1) (PidsLimit hc),
      o_Cgroupns = (if CgroupnsMode hc \<noteq> [] then CgroupnsMode hc else defaults_CgroupnsMode lib),
      o_BlkioWeight = BlkioWeight hc, o_BlkioWeightDevice = bs_weight blk, o_BlkioDeviceReadBps = bs_readBps blk,
      o_BlkioDeviceWriteBps = bs_writeBps blk, o_BlkioDeviceReadIOps = bs_readIOps blk, o_BlkioDeviceWriteIOps = bs_writeIOps blk,
      o_IPC = IpcMode hc, o_ShmSize = (if ShmSize hc > 0 then Itoa (ShmSize hc) else []),
      o_Device = translateDevices (Devices hc), o_User = User req, o_GroupAdd = GroupAdd hc,
      o_SecurityOpt = SecurityOpt hc, o_CapAdd = CapAdd hc, o_CapDrop = CapDrop hc, o_Privileged = Privileged hc,
      o_Runtime = (if Runtime hc \<noteq> [] then Runtime hc else defaults_Runtime lib), o_Sysctl = translateSysctls (Sysctls hc),
      o_Volume = add_volumes (Volumes req) (Binds hc), o_VolumesFrom = VolumesFrom hc, o_Tmpfs = translateTmpfs (Tmpfs hc),
      o_Env = Env req, o_Workdir = WorkingDir req, o_Entrypoint = Entrypoint req,
      o_EntrypointChanged = (length (Entrypoint req) > 0),
      o_Name = name, o_Label = map (\<lambda>(key, val). key @ ''='' @ val) (Labels req),
      o_Annotations = translateAnnotations (Annotations hc),
      o_LogDriver = (if lc_Type (LogConfig hc) \<noteq> [] then lc_Type (LogConfig hc) else ''json-file''),
      o_LogOpt = Flatten (lc_Config (LogConfig hc)) KeyEqualsValueFormat,
      o_VerifyProvider = ''none'', o_ReadOnly = ReadonlyRootfs hc\<rparr>"

definition network_mode :: "ContainerConfig \<Rightarrow> ('u, 'b) ContainerHostConfig \<Rightarrow> string" where
  "network_mode req hc =
     (if NetworkDisabled req then ''none''
      else if NetworkMode hc = [] \<or> NetworkMode hc = ''default'' then ''bridge'' else NetworkMode hc)"

definition netOpt_of :: "ContainerConfig \<Rightarrow> ('u, 'b) ContainerHostConfig \<Rightarrow> 'p list \<Rightarrow> 'p NetworkOptions" where
  "netOpt_of req hc portMappings =
     \<lparr>n_Hostname = Hostname req, n_NetworkSlice = [network_mode req hc], n_DNSServers = DNS hc,
      n_DNSResolvConfOptions = DNSOptions hc, n_DNSSearchDomains = DNSSearch hc, n_PortMappings = portMappings,
      n_AddHost = ExtraHosts hc, n_MACAddress = MacAddress req, n_UTSNamespace = UTSMode hc\<rparr>"

definition create_code :: "gerr \<Rightarrow> int" where
  "create_code err = (if IsNotFound err then 404 else if IsInvalidFormat err then 400 else if IsConflict err then 409 else 500)"

interpretation create_code: status_map create_code
  by unfold_locales (auto simp: create_code_def errdefs_defs)

text \<open>The five lists of block I/O devices, in the order in which the handler converts them.\<close>

definition blkio_of :: "('w, 'u, 'b, 'p) create_lib \<Rightarrow> ('u, 'b) ContainerHostConfig \<Rightarrow> ('w, blkio_strings) io" where
  "blkio_of lib hc =
     and_then (lift_res (weightDevicesToStrings (Device_String lib) (BlkioWeightDevice hc))) (\<lambda>a.
     and_then (lift_res (throttleDevicesToStrings (Device_String lib) (BlkioDeviceReadBps hc))) (\<lambda>b.
     and_then (lift_res (throttleDevicesToStrings (Device_String lib) (BlkioDeviceWriteBps hc))) (\<lambda>c.
     and_then (lift_res (throttleDevicesToStrings (Device_String lib) (BlkioDeviceReadIOps hc))) (\<lambda>d.
     and_then (lift_res (throttleDevicesToStrings (Device_String lib) (BlkioDeviceWriteIOps hc))) (\<lambda>e.
       ret \<lparr>bs_weight = a, bs_readBps = b, bs_writeBps = c, bs_readIOps = d, bs_writeIOps = e\<rparr>)))))"

definition bad_request :: "string \<Rightarrow> 'a respw \<Rightarrow> 'a respw" where
  "bad_request msg = JSON 400 (CErr (NewErrorFromMsg msg))"

definition bad_cgroupns :: string where
  "bad_cgroupns = ''invalid cgroup namespace mode, valid values are: '' @ [CHR 0x27] @ ''private'' @ [CHR 0x27] @ '' or '' @
     [CHR 0x27] @ ''host'' @ [CHR 0x27]"

definition container_handler_create :: "('w, 'u, 'b, 'p) create_lib \<Rightarrow>
    (string \<Rightarrow> string list \<Rightarrow> ContainerCreateOptions \<Rightarrow> 'p NetworkOptions \<Rightarrow> ('w, string) io) \<Rightarrow>
    http_req \<Rightarrow> ('u, 'b) ContainerCreateRequest res \<Rightarrow> ('w, string) handler" where
  "container_handler_create lib svc_Create r body =
     parsed body (\<lambda>err. JSON 400 (CErr (NewError err))) (\<lambda>request rw.
       let req = rq_Config request; hc = HostConfig request
       in if AttachStdin req then ret (bad_request ''AttachStdin is currently not supported during create'' rw)
          else and_then (lift_res (pointer_strings (Ulimit_String lib) (Ulimits hc))) (\<lambda>ulimits.
            if CgroupnsMode hc \<noteq> [] \<and> \<not> CgroupnsMode_Valid (CgroupnsMode hc)
            then ret (bad_request bad_cgroupns rw)
            else and_then (validate_devices lib (Devices hc)) (\<lambda>v. case v of
              Some msg \<Rightarrow> ret (bad_request msg rw)
            | None \<Rightarrow> and_then (blkio_of lib hc) (\<lambda>blk.
                parsed (translatePortMappings lib (PortBindings hc)) (\<lambda>err. JSON 400 (CErr (NewError err)))
                  (\<lambda>portMappings.
                     serve (svc_Create (Image req) (Cmd req)
                         (createOpt_of lib (query_get r ''name'') (query_get r ''platform'') req hc ulimits blk)
                         (netOpt_of req hc portMappings))
                       (\<lambda>cid. JSON 201 (CData cid)) (\<lambda>err. SendErrorResponse (create_code err) err)) rw))))"

text \<open>A library in which every TCP port parses and everything under \<open>/dev\<close> is a device.\<close>

definition tcp_lib :: "(unit, unit, unit, string) create_lib" where
  "tcp_lib = \<lparr>defaults_Runtime = ''io.containerd.runc.v2'', defaults_CgroupnsMode = ''host'', Ulimit_String = (\<lambda>_. []),
     Device_String = (\<lambda>_. []), Port_Port = (\<lambda>p. fst (Cut p (CHR ''/''))), Port_Proto = (\<lambda>_. ''tcp''),
     ParseFlagP = (\<lambda>s. Ok [s]), os_Lstat = (\<lambda>_. ret \<lparr>fi_Dir = False, fi_Symlink = False, fi_Device = True\<rparr>),
     os_StatInfo = (\<lambda>p. ret \<lparr>fi_Dir = False, fi_Symlink = False, fi_Device = HasPrefix p ''/dev/''\<rparr>), EvalSymlinks = ret\<rparr>"

section \<open>Volumes\<close>

text \<open>What a volume entry mounts: its second part when it has one, and itself.\<close>

definition mounts_at :: "string \<Rightarrow> string \<Rightarrow> bool" where
  "mounts_at volume path \<longleftrightarrow> path = volume \<or> (length (Split volume (CHR '':'')) > 1 \<and> path = Split volume (CHR '':'') ! 1)"

lemma volume_contained_iff: "volume_contained v vols \<longleftrightarrow> (\<exists>vol\<in>set vols. mounts_at vol v)"
  by (auto simp: volume_contained_def mounts_at_def list_ex_iff Let_def)

lemma add_volumes_invariant:
  "\<exists>added. add_volumes requested binds = binds @ added \<and> set added \<subseteq> set requested \<and> distinct added \<and>
     (\<forall>v\<in>set added. \<not> volume_contained v binds) \<and> (\<forall>v\<in>set requested. volume_contained v (binds @ added))"
proof (induction requested arbitrary: binds)
  case (Cons v vs)
  show ?case
  proof (cases "volume_contained v binds")
    case True
    obtain added where "add_volumes vs binds = binds @ added" "set added \<subseteq> set vs" "distinct added"
      "\<forall>v\<in>set added. \<not> volume_contained v binds" "\<forall>v\<in>set vs. volume_contained v (binds @ added)"
      using Cons by blast
    with True show ?thesis by (intro exI [of _ added]) (auto simp: add_volumes_def volume_contained_iff)
  next
    case False
    obtain added where "add_volumes vs (binds @ [v]) = (binds @ [v]) @ added" "set added \<subseteq> set vs" "distinct added"
      "\<forall>x\<in>set added. \<not> volume_contained x (binds @ [v])" "\<forall>x\<in>set vs. volume_contained x ((binds @ [v]) @ added)"
      using Cons by blast
    moreover have "mounts_at v v" by (simp add: mounts_at_def)
    ultimately show ?thesis using False
      by (intro exI [of _ "v # added"]) (auto simp: add_volumes_def volume_contained_iff)
  qed
qed (simp add: add_volumes_def)

text \<open>
  The volumes handed to nerdctl are the request's bind mounts, unchanged and first, followed by
  requested volumes, none of them twice and none at a path that a bind mount already covers; every
  requested volume is mounted by some entry.
\<close>

theorem create_volumes:
  "\<exists>added. o_Volume (createOpt_of lib name platform req hc ulimits blk) = Binds hc @ added \<and>
     set added \<subseteq> set (Volumes req) \<and> distinct added \<and>
     (\<forall>v\<in>set added. \<not> (\<exists>b\<in>set (Binds hc). mounts_at b v)) \<and>
     (\<forall>v\<in>set (Volumes req). \<exists>vol\<in>set (Binds hc @ added). mounts_at vol v)"
  using add_volumes_invariant [of "Volumes req" "Binds hc"]
  by (simp add: createOpt_of_def volume_contained_iff)

theorem create_volumes_witness:
  "\<exists>added. [''/tmp:/work:ro'', ''data''] = [''/tmp:/work:ro''] @ added \<and> set added \<subseteq> {''/work'', ''data''} \<and> distinct added \<and>
     (\<forall>v\<in>set added. \<not> mounts_at ''/tmp:/work:ro'' v)"
  using create_volumes [where lib = "tcp_lib" and name = "[]" and platform = "[]" and ulimits = "[]"
      and req = "zero_config\<lparr>Volumes := [''/work'', ''data'']\<rparr>" and hc = "zero_host_config\<lparr>Binds := [''/tmp:/work:ro'']\<rparr>"
      and blk = "\<lparr>bs_weight = [], bs_readBps = [], bs_writeBps = [], bs_readIOps = [], bs_writeIOps = []\<rparr>"]
  by (simp add: createOpt_of_def zero_config_def zero_host_config_def add_volumes_def volume_contained_def)

section \<open>Ports\<close>

fun firsts :: "'x list \<Rightarrow> 'x list \<Rightarrow> 'x list" where
  "firsts seen [] = []"
| "firsts seen (x # xs) = (if x \<in> set seen then firsts seen xs else x # firsts (x # seen) xs)"

lemma firsts_props: "set (firsts seen xs) = set xs - set seen \<and> distinct (firsts seen xs)"
  by (induction xs arbitrary: seen) auto

lemma parse_ports_firsts:
  assumes "\<forall>s\<in>set ss - set seen. parse s = Ok (f s)"
  shows "parse_ports parse ss seen ports = Ok (ports @ concat (map f (firsts seen ss)))"
  using assms by (induction ss arbitrary: seen ports) auto

lemma parse_ports_Err:
  assumes "\<forall>s\<in>set ss. case parse s of Ok _ \<Rightarrow> True | Err _ \<Rightarrow> True | _ \<Rightarrow> False"
    and "\<exists>s\<in>set ss - set seen. \<forall>p. parse s \<noteq> Ok p"
  shows "\<exists>e. parse_ports parse ss seen ports = Err e"
  using assms
proof (induction ss arbitrary: seen ports)
  case (Cons s ss)
  show ?case
  proof (cases "s \<in> set seen")
    case True
    with Cons show ?thesis by (auto intro: Cons.IH)
  next
    case False
    with Cons.prems(1) consider p where "parse s = Ok p" | e where "parse s = Err e"
      by (cases "parse s") auto
    then show ?thesis
    proof cases
      case 1
      with Cons False show ?thesis by (auto intro!: Cons.IH)
    next
      case 2
      with False show ?thesis by simp
    qed
  qed
qed simp

definition port_strings :: "('w, 'u, 'b, 'p) create_lib \<Rightarrow> PortMap \<Rightarrow> string list" where
  "port_strings lib pm = concat (map (\<lambda>(portName, bs). map (port_string lib portName) bs) pm)"

text \<open>
  The port bindings of a request are translated by nerdctl's parser, each different binding exactly
  once, however often it is repeated; the translation fails exactly when the
  parser rejects one of them.
\<close>

theorem create_port_mappings:
  assumes "\<forall>s. case ParseFlagP lib s of Ok _ \<Rightarrow> True | Err _ \<Rightarrow> True | _ \<Rightarrow> False"
  shows "case translatePortMappings lib pm of
      Ok ports \<Rightarrow> \<exists>ss f. distinct ss \<and> set ss = set (port_strings lib pm) \<and> (\<forall>s\<in>set ss. ParseFlagP lib s = Ok (f s)) \<and>
        ports = concat (map f ss)
    | Err _ \<Rightarrow> \<exists>s\<in>set (port_strings lib pm). \<exists>e. ParseFlagP lib s = Err e
    | _ \<Rightarrow> False"
proof (cases "\<forall>s\<in>set (port_strings lib pm). \<exists>p. ParseFlagP lib s = Ok p")
  case True
  then obtain f where f: "\<forall>s\<in>set (port_strings lib pm). ParseFlagP lib s = Ok (f s)" by metis
  then have "translatePortMappings lib pm = Ok (concat (map f (firsts [] (port_strings lib pm))))"
    unfolding translatePortMappings_def port_strings_def by (subst parse_ports_firsts [where f = f]) auto
  with f show ?thesis
    using firsts_props [of "[]" "port_strings lib pm"] by auto
next
  case False
  then have "\<exists>e. translatePortMappings lib pm = Err e"
    unfolding translatePortMappings_def using assms by (intro parse_ports_Err) (auto simp: port_strings_def)
  moreover have "\<exists>s\<in>set (port_strings lib pm). \<exists>e. ParseFlagP lib s = Err e"
  proof -
    from False obtain s where s: "s \<in> set (port_strings lib pm)" "\<nexists>p. ParseFlagP lib s = Ok p" by blast
    with assms have "\<exists>e. ParseFlagP lib s = Err e" by (cases "ParseFlagP lib s") (auto dest: spec [of _ s])
    with s show ?thesis by blast
  qed
  ultimately show ?thesis by (elim exE) simp
qed

theorem create_port_mappings_witness:
  "\<exists>ss f. distinct ss \<and>
     set ss = set (port_strings tcp_lib [(''80/tcp'', [\<lparr>HostIP = [], HostPort = ''8080''\<rparr>, \<lparr>HostIP = [], HostPort = ''8080''\<rparr>])]) \<and>
     (\<forall>s\<in>set ss. ParseFlagP tcp_lib s = Ok (f s)) \<and> [''8080:80/tcp''] = concat (map f ss)"
  using create_port_mappings [of tcp_lib "[(''80/tcp'', [\<lparr>HostIP = [], HostPort = ''8080''\<rparr>, \<lparr>HostIP = [], HostPort = ''8080''\<rparr>])]"]
  by (simp add: tcp_lib_def translatePortMappings_def port_string_def Cut_def)

section \<open>Requests that are refused\<close>

text \<open>The file system calls of the check answer and change nothing.\<close>

definition answers :: "('w, 'a) io \<Rightarrow> bool" where
  "answers m \<longleftrightarrow> pure_io m \<and> (\<forall>w. fst (m w) \<noteq> Hang \<and> (\<forall>p. fst (m w) \<noteq> Panic p))"

definition device_check_reads :: "('w, 'u, 'b, 'p) create_lib \<Rightarrow> bool" where
  "device_check_reads lib \<longleftrightarrow> (\<forall>p. answers (os_Lstat lib p) \<and> answers (os_StatInfo lib p) \<and> answers (EvalSymlinks lib p))"

text \<open>A host path that is a directory or a device, through a symbolic link if it is one.\<close>

definition usable_device :: "('w, 'u, 'b, 'p) create_lib \<Rightarrow> 'w \<Rightarrow> string \<Rightarrow> bool" where
  "usable_device lib w p \<longleftrightarrow> p \<noteq> [] \<and>
     (\<exists>i p' j. fst (os_Lstat lib p w) = Ok i \<and> (if fi_Symlink i then fst (EvalSymlinks lib p w) = Ok p' else p' = p) \<and>
        fst (os_StatInfo lib p' w) = Ok j \<and> (fi_Dir j \<or> fi_Device j))"

lemma answersE:
  assumes "answers m"
  obtains (Ok) x where "m w = (Ok x, w)" | (Err) e where "m w = (Err e, w)"
proof (cases "m w")
  case (Pair r w')
  then have "w' = w" "r \<noteq> Hang" "\<And>p. r \<noteq> Panic p"
    using assms by (auto simp: answers_def dest: pure_ioD spec [of _ w])
  with Pair that show thesis by (cases r) auto
qed

lemma validateDevice_iff:
  assumes "device_check_reads lib"
  shows "\<exists>v. validateDevice lib p w = (Ok v, w) \<and> (v = None \<longleftrightarrow> usable_device lib w p)"
proof (cases "p = []")
  case False
  have a: "answers (os_Lstat lib q)" "answers (os_StatInfo lib q)" "answers (EvalSymlinks lib q)" for q
    using assms by (simp_all add: device_check_reads_def)
  have last: "\<exists>v. or_else (os_StatInfo lib q) (\<lambda>err. ret (Some (device_error p (Error err))))
      (\<lambda>src. if \<not> fi_Dir src \<and> \<not> fi_Device src then ret (Some (device_error p ''not a device'')) else ret None) w = (Ok v, w) \<and>
      (v = None \<longleftrightarrow> (\<exists>j. fst (os_StatInfo lib q w) = Ok j \<and> (fi_Dir j \<or> fi_Device j)))" for q
    by (rule answersE [OF a(2), of q w]) (auto simp: or_else_def)
  show ?thesis
  proof (rule answersE [OF a(1), of p w])
    fix i assume i: "os_Lstat lib p w = (Ok i, w)"
    show ?thesis
    proof (cases "fi_Symlink i")
      case True
      show ?thesis
      proof (rule answersE [OF a(3), of p w])
        fix q assume "EvalSymlinks lib p w = (Ok q, w)"
        with True False i last [of q] show ?thesis by (simp add: validateDevice_def usable_device_def or_else_def)
      next
        fix e assume "EvalSymlinks lib p w = (Err e, w)"
        with True False i show ?thesis by (simp add: validateDevice_def usable_device_def or_else_def)
      qed
    next
      case no: False
      with False i last [of p] show ?thesis by (simp add: validateDevice_def usable_device_def or_else_def)
    qed
  next
    fix e assume "os_Lstat lib p w = (Err e, w)"
    with False show ?thesis by (simp add: validateDevice_def usable_device_def or_else_def)
  qed
qed (simp add: validateDevice_def usable_device_def)

lemma validate_devices_first:
  assumes "device_check_reads lib"
  shows "\<exists>v. validate_devices lib ds w = (Ok v, w) \<and> (v = None \<longleftrightarrow> (\<forall>d\<in>set ds. usable_device lib w (PathOnHost d)))"
proof (induction ds)
  case (Cons d ds)
  obtain v where v: "validateDevice lib (PathOnHost d) w = (Ok v, w)" "v = None \<longleftrightarrow> usable_device lib w (PathOnHost d)"
    using validateDevice_iff [OF assms] by blast
  with Cons show ?case by (cases v) (auto simp: and_then_def)
qed simp

text \<open>A request that the handler must refuse before it calls the service.\<close>

definition invalid_request :: "('w, 'u, 'b, 'p) create_lib \<Rightarrow> 'w \<Rightarrow> ('u, 'b) ContainerCreateRequest \<Rightarrow> bool" where
  "invalid_request lib w request \<longleftrightarrow>
     AttachStdin (rq_Config request) \<or>
     CgroupnsMode (HostConfig request) \<notin> {[], ''private'', ''host''} \<or>
     (\<exists>d\<in>set (Devices (HostConfig request)). \<not> usable_device lib w (PathOnHost d)) \<or>
     (\<exists>e. translatePortMappings lib (PortBindings (HostConfig request)) = Err e)"

lemma pointer_strings_Some: "None \<notin> set ps \<Longrightarrow> \<exists>ss. pointer_strings f ps = Ok ss"
  by (induction ps rule: pointer_strings.induct) auto

lemma blkio_of_Some:
  assumes "None \<notin> set (BlkioWeightDevice hc) \<union> set (BlkioDeviceReadBps hc) \<union> set (BlkioDeviceWriteBps hc) \<union>
    set (BlkioDeviceReadIOps hc) \<union> set (BlkioDeviceWriteIOps hc)"
  shows "\<exists>blk. blkio_of lib hc w = (Ok blk, w)"
proof -
  have "\<exists>ss. pointer_strings (Device_String lib) (BlkioWeightDevice hc) = Ok ss"
    "\<exists>ss. pointer_strings (Device_String lib) (BlkioDeviceReadBps hc) = Ok ss"
    "\<exists>ss. pointer_strings (Device_String lib) (BlkioDeviceWriteBps hc) = Ok ss"
    "\<exists>ss. pointer_strings (Device_String lib) (BlkioDeviceReadIOps hc) = Ok ss"
    "\<exists>ss. pointer_strings (Device_String lib) (BlkioDeviceWriteIOps hc) = Ok ss"
    using assms by (auto intro!: pointer_strings_Some)
  then show ?thesis
    by (auto simp: blkio_of_def weightDevicesToStrings_def throttleDevicesToStrings_def and_then_def)
qed

definition no_nil :: "('u, 'b) ContainerHostConfig \<Rightarrow> bool" where
  "no_nil hc \<longleftrightarrow> None \<notin> set (Ulimits hc) \<and> None \<notin> set (BlkioWeightDevice hc) \<union> set (BlkioDeviceReadBps hc) \<union>
     set (BlkioDeviceWriteBps hc) \<union> set (BlkioDeviceReadIOps hc) \<union> set (BlkioDeviceWriteIOps hc)"

text \<open>
  C9: A create request that attaches stdin, names an unknown cgroup namespace mode, lists a host path
  that is neither a device nor a directory, or has a port binding nerdctl's parser rejects is answered 400, whatever
  the service would do: it is not called and nothing changes.
\<close>

theorem create_rejects_before_service:
  fixes rw :: "string respw"
  assumes reads: "device_check_reads lib" and nil: "no_nil (HostConfig request)" and bad: "invalid_request lib w request"
    and fresh: "w_sent rw = None"
  shows "\<exists>rw'. container_handler_create lib svc r (Ok request) rw w = (Ok rw', w) \<and> status_of rw' = Some 400"
proof -
  let ?hc = "HostConfig request"
  have unsent: "status_of rw = None" using fresh by (simp add: status_of_def)
  then have bad_request: "status_of (bad_request m rw) = Some 400" for m
    by (simp add: bad_request_def)
  note H = container_handler_create_def parsed_def Let_def and_then_def CgroupnsMode_Valid_def
  obtain us where us: "pointer_strings (Ulimit_String lib) (Ulimits ?hc) = Ok us"
    using pointer_strings_Some [OF nil [unfolded no_nil_def, THEN conjunct1]] by blast
  obtain blk where blk: "blkio_of lib ?hc w = (Ok blk, w)"
    using blkio_of_Some [OF nil [unfolded no_nil_def, THEN conjunct2], of lib w] by blast
  obtain v where v: "validate_devices lib (Devices ?hc) w = (Ok v, w)"
    "v = None \<longleftrightarrow> (\<forall>d\<in>set (Devices ?hc). usable_device lib w (PathOnHost d))"
    using validate_devices_first [OF reads] by blast
  show ?thesis
  proof (cases "AttachStdin (rq_Config request) \<or> CgroupnsMode ?hc \<notin> {[], ''private'', ''host''}")
    case True
    then show ?thesis
      using us by (cases "AttachStdin (rq_Config request)") (simp_all add: H bad_request)
  next
    case False
    then consider msg where "v = Some msg" | e where "v = None" "translatePortMappings lib (PortBindings ?hc) = Err e"
      using bad v(2) unfolding invalid_request_def by (cases v) blast+
    then show ?thesis
      using False us v(1) blk by cases (simp_all add: H bad_request unsent)
  qed
qed

definition bad_device_request :: "(unit, unit) ContainerCreateRequest" where
  "bad_device_request = \<lparr>rq_Config = zero_config, HostConfig = zero_host_config
     \<lparr>Devices := [\<lparr>PathOnHost = ''/etc/passwd'', PathInContainer = [], CgroupPermissions = ''rw''\<rparr>]\<rparr>\<rparr>"

theorem create_rejects_before_service_witness:
  "\<exists>rw'. container_handler_create tcp_lib (\<lambda>_ _ _ _. ret ''created'') \<lparr>vars = [], query = [], req_header = []\<rparr>
     (Ok bad_device_request) (new_respw True) () = (Ok rw', ()) \<and> status_of rw' = Some 400"
proof (rule create_rejects_before_service)
  show "device_check_reads tcp_lib"
    by (auto simp: device_check_reads_def answers_def tcp_lib_def)
  show "no_nil (HostConfig bad_device_request)"
    by (simp add: no_nil_def bad_device_request_def zero_host_config_def)
  show "invalid_request tcp_lib () bad_device_request"
    by (simp add: invalid_request_def bad_device_request_def zero_host_config_def tcp_lib_def usable_device_def HasPrefix_def)
qed (simp add: new_respw_def)

end
