(* ===== verification/Paths.thy ===== *)
theory Paths
  imports Errdefs
begin

text \<open>
  Lemmas on slash-separated paths: the absolute path of a list of proper elements, and what \<open>path.Clean\<close>,
  \<open>path.Dir\<close> and \<open>path.Join\<close> do to it.
\<close>

definition proper :: "string \<Rightarrow> bool" where
  "proper e \<longleftrightarrow> e \<noteq> [] \<and> e \<noteq> ''.'' \<and> e \<noteq> ''..'' \<and> CHR ''/'' \<notin> set e"

definition abs_path :: "string list \<Rightarrow> string" where
  "abs_path es = CHR ''/'' # Join es ''/''"

text \<open>The elements that \<open>path.Clean\<close> leaves of a rooted path.\<close>

definition cleaned :: "string \<Rightarrow> string list" where
  "cleaned p = clean_elems True [] (Split p (CHR ''/''))"

lemma Split_slash [simp]: "Split (CHR ''/'' # s) (CHR ''/'') = [] # Split s (CHR ''/'')"
  by simp

lemma Join_Cons: "es \<noteq> [] \<Longrightarrow> Join (e # es) sep = e @ sep @ Join es sep"
  by (cases es) auto

lemma Join_snoc: "es \<noteq> [] \<Longrightarrow> Join (es @ [e]) sep = Join es sep @ sep @ e"
proof (induction es)
  case (Cons a es)
  then show ?case by (cases "es = []") (simp_all add: Join_Cons)
qed simp

lemma Split_append:
  "c \<in> set sep \<Longrightarrow> sep = [c] \<Longrightarrow> Split (a @ sep @ b) c = Split a c @ Split b c"
  by (induction a) (auto split: list.splits)

lemma Split_Join:
  assumes "es \<noteq> []" "\<forall>e\<in>set es. c \<notin> set e"
  shows "Split (Join es [c]) c = es"
  using assms
proof (induction es)
  case (Cons e es)
  show ?case
  proof (cases "es = []")
    case False
    then have "Split (Join (e # es) [c]) c = e # Split (Join es [c]) c"
      using Cons.prems by (simp add: Join_Cons Split_append_sep)
    with False Cons show ?thesis by simp
  qed (use Cons.prems in simp)
qed simp

lemma clean_elems_drop:
  "clean_elems True acc es = clean_elems True acc (filter (\<lambda>e. e \<noteq> [] \<and> e \<noteq> ''.'') es)"
  by (induction True acc es rule: clean_elems.induct) (auto split: list.splits)

lemma clean_elems_proper:
  "\<forall>e\<in>set es. e \<noteq> ''..'' \<Longrightarrow> clean_elems True acc es = rev acc @ filter (\<lambda>e. e \<noteq> [] \<and> e \<noteq> ''.'') es"
  by (induction es arbitrary: acc) auto

lemma clean_elems_append:
  "\<forall>e\<in>set es. proper e \<Longrightarrow> clean_elems True [] (es @ fs) = clean_elems True (rev es) fs"
proof -
  have "\<forall>e\<in>set es. proper e \<Longrightarrow> clean_elems True acc (es @ fs) = clean_elems True (rev es @ acc) fs" for acc
    by (induction es arbitrary: acc) (auto simp: proper_def)
  from this [of "[]"] show "\<forall>e\<in>set es. proper e \<Longrightarrow> clean_elems True [] (es @ fs) = clean_elems True (rev es) fs" by simp
qed

lemma clean_elems_all_proper:
  "\<forall>e\<in>set acc. proper e \<Longrightarrow> \<forall>e\<in>set es. CHR ''/'' \<notin> set e \<Longrightarrow> \<forall>e\<in>set (clean_elems True acc es). proper e"
proof (induction es arbitrary: acc)
  case (Cons e es)
  have es: "\<forall>e\<in>set es. CHR ''/'' \<notin> set e" using Cons.prems by simp
  consider "e = [] \<or> e = ''.''" | "e = ''..''" "acc = []" | a as where "e = ''..''" "acc = a # as" "proper a" | "proper e"
    using Cons.prems by (cases acc) (auto simp: proper_def)
  then show ?case
  proof cases
    case 1
    then show ?thesis using Cons.IH [OF Cons.prems(1) es] by auto
  next
    case 2
    then show ?thesis using Cons.IH [of "[]", OF _ es] by simp
  next
    case 3
    then have "clean_elems True acc (e # es) = clean_elems True as es" by (simp add: proper_def)
    then show ?thesis using Cons.IH [of as, OF _ es] Cons.prems(1) 3 by simp
  next
    case 4
    then have "clean_elems True acc (e # es) = clean_elems True (e # acc) es" by (simp add: proper_def)
    then show ?thesis using Cons.IH [of "e # acc", OF _ es] Cons.prems(1) 4 by simp
  qed
qed simp

lemma cleaned_proper: "\<forall>e\<in>set (cleaned p). proper e"
  unfolding cleaned_def using Split_parts_no_sep by (intro clean_elems_all_proper) auto

lemma Clean_rooted: "HasPrefix p ''/'' \<Longrightarrow> Clean p = abs_path (cleaned p)"
  by (simp add: Clean_def cleaned_def abs_path_def Let_def)

lemma proper_no_slash: "\<forall>e\<in>set es. proper e \<Longrightarrow> \<forall>e\<in>set es. CHR ''/'' \<notin> set e"
  by (auto simp: proper_def)

lemma Split_abs_path:
  assumes "\<forall>e\<in>set es. proper e"
  shows "Split (abs_path es) (CHR ''/'') = [] # (if es = [] then [[]] else es)"
  using Split_Join [of es "CHR ''/''"] proper_no_slash [OF assms] by (simp add: abs_path_def)

lemma cleaned_abs_path: "\<forall>e\<in>set es. proper e \<Longrightarrow> cleaned (abs_path es) = es"
  by (auto simp: cleaned_def Split_abs_path clean_elems_proper proper_def filter_id_conv)

lemma abs_path_inject:
  "\<forall>e\<in>set es. proper e \<Longrightarrow> \<forall>e\<in>set fs. proper e \<Longrightarrow> abs_path es = abs_path fs \<longleftrightarrow> es = fs"
  by (metis cleaned_abs_path)

lemma abs_path_rooted [simp]: "HasPrefix (abs_path es) ''/''"
  by (simp add: abs_path_def HasPrefix_def)

text \<open>The parent of a non-root path drops the last element.\<close>

lemma path_Split_snoc:
  assumes "CHR ''/'' \<notin> set e"
  shows "path_Split (d @ CHR ''/'' # e) = (d @ ''/'', e)"
proof -
  have "takeWhile (\<lambda>c. c \<noteq> CHR ''/'') (rev e @ CHR ''/'' # rev d) = rev e"
    "dropWhile (\<lambda>c. c \<noteq> CHR ''/'') (rev e @ CHR ''/'' # rev d) = CHR ''/'' # rev d"
    using assms by (subst takeWhile_append2 dropWhile_append2; auto)+
  then show ?thesis by (simp add: path_Split_def)
qed

lemma Dir_abs_path:
  assumes "\<forall>e\<in>set (es @ [e]). proper e"
  shows "Dir (abs_path (es @ [e])) = abs_path es"
proof -
  have ns: "CHR ''/'' \<notin> set e" using assms by (simp add: proper_def)
  show ?thesis
  proof (cases "es = []")
    case True
    then have "Dir (abs_path (es @ [e])) = Clean ''/''"
      using path_Split_snoc [OF ns, of "[]"] by (simp add: Dir_def abs_path_def)
    with True show ?thesis by (simp add: Clean_rooted HasPrefix_def cleaned_def abs_path_def)
  next
    case False
    have "abs_path (es @ [e]) = abs_path es @ CHR ''/'' # e"
      using False by (simp add: abs_path_def Join_snoc)
    then have "Dir (abs_path (es @ [e])) = Clean (abs_path es @ ''/'')"
      using path_Split_snoc [OF ns, of "abs_path es"] by (simp add: Dir_def)
    also have "\<dots> = abs_path (cleaned (abs_path es @ ''/''))"
      by (intro Clean_rooted) (simp add: abs_path_def HasPrefix_def)
    also have "cleaned (abs_path es @ ''/'') = es"
      using assms False Split_append [of "CHR ''/''" "''/''" "abs_path es" "[]"] Split_abs_path [of es]
      by (auto simp: cleaned_def clean_elems_proper proper_def filter_id_conv)
    finally show ?thesis .
  qed
qed

text \<open>Joining a path to a rooted one.\<close>

lemma path_Join_abs:
  assumes "\<forall>e\<in>set rs. proper e"
  shows "path_Join [abs_path rs, s] = abs_path (clean_elems True (rev rs) (Split s (CHR ''/'')))"
proof -
  have sp: "Split (abs_path rs) (CHR ''/'') = [] # (if rs = [] then [[]] else rs)"
    by (rule Split_abs_path) (rule assms)
  have step: "clean_elems True [] (([] # (if rs = [] then [[]] else rs)) @ fs) = clean_elems True (rev rs) fs" for fs
    using clean_elems_append [OF assms, of fs] by auto
  show ?thesis
  proof (cases "s = []")
    case True
    have "path_Join [abs_path rs, s] = abs_path (cleaned (abs_path rs))"
      using True Clean_rooted [of "abs_path rs"] by (simp add: path_Join_def) (simp add: abs_path_def)
    with True assms show ?thesis by (simp add: cleaned_abs_path)
  next
    case False
    have "path_Join [abs_path rs, s] = Clean (abs_path rs @ ''/'' @ s)"
      using False by (simp add: path_Join_def abs_path_def)
    also have "\<dots> = abs_path (cleaned (abs_path rs @ ''/'' @ s))"
      by (intro Clean_rooted) (simp add: abs_path_def HasPrefix_def)
    also have "cleaned (abs_path rs @ ''/'' @ s) = clean_elems True (rev rs) (Split s (CHR ''/''))"
      unfolding cleaned_def using Split_append [of "CHR ''/''" "''/''" "abs_path rs" s] step by (simp add: sp)
    finally show ?thesis .
  qed
qed

text \<open>Relative paths stay relative.\<close>

abbreviation segment :: "string \<Rightarrow> bool" where
  "segment e \<equiv> e \<noteq> [] \<and> CHR ''/'' \<notin> set e"

lemma clean_elems_relative:
  "list_all segment acc \<Longrightarrow> list_all (\<lambda>e. CHR ''/'' \<notin> set e) es \<Longrightarrow> list_all segment (clean_elems False acc es)"
proof (induction es arbitrary: acc)
  case (Cons e es)
  have es: "list_all (\<lambda>e. CHR ''/'' \<notin> set e) es" using Cons.prems by simp
  consider "e = [] \<or> e = ''.''" | "e = ''..''" | "e \<noteq> []" "e \<noteq> ''.''" "e \<noteq> ''..''" by blast
  then show ?case
  proof cases
    case 1
    then show ?thesis using Cons.IH [OF Cons.prems(1) es] by auto
  next
    case 2
    then show ?thesis
      using Cons.IH [of "''..'' # acc", OF _ es] Cons.IH [of "tl acc", OF _ es] Cons.prems(1)
      by (cases acc) auto
  next
    case 3
    then show ?thesis using Cons.IH [of "e # acc", OF _ es] Cons.prems by simp
  qed
qed (simp add: list_all_iff)

lemma Clean_relative:
  assumes "\<not> HasPrefix p ''/''"
  shows "\<not> HasPrefix (Clean p) ''/''"
proof -
  let ?es = "clean_elems False [] (Split p (CHR ''/''))"
  have "list_all segment ?es"
    using Split_parts_no_sep by (intro clean_elems_relative) (auto simp: list_all_iff)
  then have "\<not> HasPrefix (Join es ''/'') ''/''" if "?es = es" "es \<noteq> []" for es
    using that by (cases es; cases "hd es"; cases "tl es") (auto simp: HasPrefix_def)
  then show ?thesis using assms by (simp add: Clean_def Let_def HasPrefix_def)
qed

lemma path_Split_prefix: "p = fst (path_Split p) @ snd (path_Split p)"
  unfolding path_Split_def by (metis fst_conv rev_append rev_rev_ident snd_conv takeWhile_dropWhile_id)

lemma Dir_relative:
  assumes "\<not> HasPrefix p ''/''"
  shows "\<not> HasPrefix (Dir p) ''/''"
proof -
  have "\<not> HasPrefix (fst (path_Split p)) ''/''"
    using assms path_Split_prefix [of p] by (metis HasPrefix_iff append.assoc)
  then show ?thesis by (simp add: Dir_def Clean_relative)
qed

end
