(* ===== verification/Archives.thy ===== *)
theory Archives
  imports Container_Api Paths Effects
begin

text \<open>
  Copying files out of and into a container: \<open>get_archive.go\<close> and \<open>put_archive.go\<close> of
  \<open>src/internal/service/container\<close>, the tar commands of \<open>src/pkg/archive\<close>, and the two handlers of
  \<open>src/api/handlers/container\<close>.

  The calls of containerd, the file system and tar that the code makes are the record \<open>archive_env\<close>.
\<close>

section \<open>Environment\<close>

record oci_mount =
  m_Destination :: string
  m_Options :: "string list"

record oci_spec =
  s_Root :: "(bool \<times> string) option"
  s_Mounts :: "oci_mount list"

record ('w, 'c, 'm) archive_env =
  c_Spec :: "'c \<Rightarrow> ('w, oci_spec) io"
  c_SnapshotKey :: "'c \<Rightarrow> ('w, string) io"
  ListSnapshotMounts :: "string \<Rightarrow> ('w, 'm) io"
  TempDir :: "('w, string) io"
  MountAll :: "'m \<Rightarrow> string \<Rightarrow> ('w, unit) io"
  Unmount :: "string \<Rightarrow> ('w, unit) io"
  fs_RemoveAll :: "string \<Rightarrow> ('w, unit) io"
  fs_IsDir :: "string \<Rightarrow> ('w, bool) io"
  FindTarBinary :: "string res"
  tar_Run :: "string \<Rightarrow> string list \<Rightarrow> string \<Rightarrow> ('w, string list \<times> gerr option) io"
  Untar :: "string \<Rightarrow> bool \<Rightarrow> ('w, unit) io"

section \<open>The root of a container's files\<close>

text \<open>The clean-up function is returned beside the outcome, also with an error.\<close>

type_synonym ('w, 'a) with_cleanup = "('w, (gerr + 'a) \<times> ('w, unit) io option) io"

definition failed :: "gerr \<Rightarrow> ('w, 'a) with_cleanup" where
  "failed err = ret (Inl err, None)"

definition mountSnapshotForContainer :: "('w, 'c, 'm) archive_env \<Rightarrow> 'c \<Rightarrow> ('w, string) with_cleanup" where
  "mountSnapshotForContainer env con =
     or_else (c_SnapshotKey env con) failed (\<lambda>snapKey.
     or_else (ListSnapshotMounts env snapKey) failed (\<lambda>mounts.
     or_else (TempDir env) failed (\<lambda>tempDir.
     or_else (MountAll env mounts tempDir)
       (\<lambda>err. ret (Inl err, Some (ignore_err (fs_RemoveAll env tempDir))))
       (\<lambda>_. ret (Inr tempDir, Some (and_then (ignore_err (Unmount env tempDir)) (\<lambda>_. ignore_err (fs_RemoveAll env tempDir))))))))"

text \<open>Both services find the root the same way: the \<open>/proc\<close> root of a running task, else a mounted snapshot.\<close>

definition container_root :: "('w, 'c) containerd_client \<Rightarrow> ('w, 'c, 'm) archive_env \<Rightarrow> 'c \<Rightarrow> ('w, string) with_cleanup" where
  "container_root cl env con =
     or_else (c_Task cl con)
       (\<lambda>err. if \<not> cerr_IsNotFound err then failed err else mountSnapshotForContainer env con)
       (\<lambda>pid. or_else (t_Status cl con) failed
          (\<lambda>status. if status = Running then ret (Inr (''/proc/'' @ Itoa (int pid) @ ''/root''), None)
                    else mountSnapshotForContainer env con))"

definition not_exist_is_missing :: "gerr \<Rightarrow> gerr" where
  "not_exist_is_missing err = (if os_IsNotExist err then NewNotFound err else err)"

definition GetPathToFilesInContainer :: "('w, 'c) containerd_client \<Rightarrow> ('w, 'c, 'm) archive_env \<Rightarrow> string \<Rightarrow> string \<Rightarrow>
    ('w, string) with_cleanup" where
  "GetPathToFilesInContainer cl env cid srcPath =
     or_else (getContainer cl cid) failed (\<lambda>con.
     and_then (container_root cl env con) (\<lambda>(r, cleanup).
       case r of
         Inr root \<Rightarrow>
           (let filePath = path_Join [root, srcPath]
            in or_else (fs_IsDir env filePath)
                 (\<lambda>err. ret (Inl (not_exist_is_missing err), cleanup))
                 (\<lambda>_. ret (Inr filePath, cleanup)))
       | Inl err \<Rightarrow> ret (Inl err, cleanup)))"

section \<open>Writing a tar archive\<close>

record tar_cmd =
  tc_Binary :: string
  tc_Args :: "string list"
  tc_Dir :: string

definition CreateTarCommand :: "('w, 'c, 'm) archive_env \<Rightarrow> string \<Rightarrow> bool \<Rightarrow> tar_cmd res" where
  "CreateTarCommand env srcPath slashDot =
     (case FindTarBinary env of
        Ok tarBinary \<Rightarrow>
          (let (tarDir, tarPath) = (if slashDot then (srcPath, ''.'') else (Dir srcPath, Base srcPath))
           in Ok \<lparr>tc_Binary = tarBinary, tc_Args = [''-c'', ''-f'', ''-'', tarPath], tc_Dir = tarDir\<rparr>)
      | Err err \<Rightarrow> Err err
      | Panic p \<Rightarrow> Panic p
      | Hang \<Rightarrow> Hang)"

definition CreateExtractCmd :: "('w, 'c, 'm) archive_env \<Rightarrow> string \<Rightarrow> tar_cmd res" where
  "CreateExtractCmd env destDir =
     (case FindTarBinary env of
        Ok tarBinary \<Rightarrow> Ok \<lparr>tc_Binary = tarBinary, tc_Args = [''-x'', ''-f'', ''-''], tc_Dir = destDir\<rparr>
      | Err err \<Rightarrow> Err err
      | Panic p \<Rightarrow> Panic p
      | Hang \<Rightarrow> Hang)"

text \<open>\<open>ExtractInTemp\<close> makes a temporary directory first and \<open>Cleanup\<close> removes the directory of a command, if there is one.\<close>

definition ExtractInTemp :: "('w, 'c, 'm) archive_env \<Rightarrow> ('w, tar_cmd) io" where
  "ExtractInTemp env = and_then (TempDir env) (\<lambda>dir. lift_res (CreateExtractCmd env dir))"

definition Cleanup :: "('w, 'c, 'm) archive_env \<Rightarrow> tar_cmd option \<Rightarrow> ('w, unit) io" where
  "Cleanup env cmd = (case cmd of None \<Rightarrow> ret () | Some c \<Rightarrow> ignore_err (fs_RemoveAll env (tc_Dir c)))"

definition WriteFilesAsTarArchive :: "('w, 'c, 'm) archive_env \<Rightarrow> string \<Rightarrow> bool \<Rightarrow> ('w, string list \<times> gerr option) io" where
  "WriteFilesAsTarArchive env filePath slashDot =
     or_else (lift_res (CreateTarCommand env filePath slashDot)) (\<lambda>err. ret ([], Some err))
       (\<lambda>cmd. tar_Run env (tc_Binary cmd) (tc_Args cmd) (tc_Dir cmd))"

section \<open>Read-only mounts\<close>

text \<open>The recursion need not end; \<open>None\<close> is a run that never returns (the stack grows until the process dies).\<close>

partial_function (option) isParentDir :: "string \<Rightarrow> string \<Rightarrow> bool option" where
  "isParentDir filePath potentialParent =
     (if filePath = potentialParent then Some True
      else if filePath = ''/'' then Some False
      else isParentDir (Dir filePath) potentialParent)"

text \<open>The two nested loops, over the mounts and the options of each.\<close>

fun mount_check :: "string \<Rightarrow> string \<Rightarrow> string list \<Rightarrow> unit res" where
  "mount_check filePath dest [] = Ok ()"
| "mount_check filePath dest (option # options) =
     (if option = ''ro''
      then (case isParentDir filePath dest of
              None \<Rightarrow> Hang
            | Some True \<Rightarrow> Err (NewForbidden (ErrMsg (''mount point '' @ filePath @ '' is marked read-only'')))
            | Some False \<Rightarrow> mount_check filePath dest options)
      else mount_check filePath dest options)"

fun mounts_check :: "string \<Rightarrow> oci_mount list \<Rightarrow> unit res" where
  "mounts_check filePath [] = Ok ()"
| "mounts_check filePath (mount # mounts) =
     (case mount_check filePath (m_Destination mount) (m_Options mount) of
        Ok _ \<Rightarrow> mounts_check filePath mounts
      | r \<Rightarrow> r)"

definition isReadOnlyMount :: "('w, 'c, 'm) archive_env \<Rightarrow> 'c \<Rightarrow> string \<Rightarrow> ('w, unit) io" where
  "isReadOnlyMount env con containerPath =
     (let filePath = Clean containerPath
      in and_then (c_Spec env con) (\<lambda>spec.
           case s_Root spec of
             None \<Rightarrow> panic ''nil pointer dereference''
           | Some (readonly, rootPath) \<Rightarrow>
               if readonly then fail (NewForbidden (ErrMsg (''container rootfs: '' @ rootPath @ '' is marked read-only'')))
               else lift_res (mounts_check filePath (s_Mounts spec))))"

definition ExtractArchiveInContainer :: "('w, 'c) containerd_client \<Rightarrow> ('w, 'c, 'm) archive_env \<Rightarrow> string \<Rightarrow> string \<Rightarrow> bool \<Rightarrow>
    ('w, unit) io" where
  "ExtractArchiveInContainer cl env containerId containerPath overwrite =
     and_then (getContainer cl containerId) (\<lambda>con.
     and_then (isReadOnlyMount env con containerPath) (\<lambda>_.
     and_then (container_root cl env con) (\<lambda>(r, cleanup).
       case r of
         Inr root \<Rightarrow>
           defer_cleanup cleanup
             (let filePath = path_Join [root, containerPath]
              in or_else (fs_IsDir env filePath) (\<lambda>err. fail (not_exist_is_missing err))
                   (\<lambda>isDir. if \<not> isDir
                      then fail (NewInvalidFormat (ErrMsg (''extraction point: '' @ filePath @ '' is not a directory'')))
                      else Untar env filePath overwrite))
       | Inl err \<Rightarrow> fail err)))"

section \<open>Handlers\<close>

definition handler_getArchive :: "('w, 'c) containerd_client \<Rightarrow> ('w, 'c, 'm) archive_env \<Rightarrow> http_req \<Rightarrow> ('w, 'a) handler" where
  "handler_getArchive cl env r rw =
     (let path = query_get r ''path''
      in if path = [] then ret (JSON 400 (CErr (NewErrorFromMsg ''must specify a file or directory path'')) rw)
         else and_then (GetPathToFilesInContainer cl env (mux_var r ''id'') path) (\<lambda>(r, cleanup).
           defer_cleanup cleanup
             (case r of
                Inr filePath \<Rightarrow>
                  and_then (WriteFilesAsTarArchive env filePath (HasSuffix path ''/.'')) (\<lambda>(writes, err).
                    ret (fold (\<lambda>b w. snd (put_chunk (CRaw b) w)) writes
                           (WriteHeader 200 (header_set ''Content-Type'' ''application/x-tar'' rw))))
              | Inl err \<Rightarrow> ret (SendErrorResponse (missing_code err) err rw))))"

definition archive_code :: "gerr \<Rightarrow> int" where
  "archive_code err =
     (if IsNotFound err then 404 else if IsForbiddenError err then 403 else if IsInvalidFormat err then 400 else 500)"

interpretation archive_code: status_map archive_code
  by unfold_locales (auto simp: archive_code_def errdefs_defs)

text \<open>\<open>boolValue\<close> is \<open>httputils.BoolValue\<close> of docker.\<close>

definition handler_putArchive :: "(string \<Rightarrow> string \<Rightarrow> bool \<Rightarrow> ('w, unit) io) \<Rightarrow> (http_req \<Rightarrow> string \<Rightarrow> bool) \<Rightarrow>
    http_req \<Rightarrow> ('w, 'a) handler" where
  "handler_putArchive svc_Extract boolValue r rw =
     (let path = query_get r ''path''
      in if path = [] then ret (JSON 400 (CErr (NewErrorFromMsg ''must specify a file or directory path'')) rw)
         else serve (svc_Extract (mux_var r ''id'') path (boolValue r ''noOverwriteDirNonDir''))
                (\<lambda>_. WriteHeader 200) (\<lambda>err. SendErrorResponse (archive_code err) err) rw)"

section \<open>The parent directory check\<close>

lemma isParentDir_abs:
  assumes "\<forall>e\<in>set es. proper e"
  shows "isParentDir (abs_path es) p = Some (\<exists>k \<le> length es. p = abs_path (take k es))"
  using assms
proof (induction es rule: rev_induct)
  case Nil
  have "abs_path [] = ''/''" by (simp add: abs_path_def)
  then show ?case by (subst isParentDir.simps) auto
next
  case (snoc e es)
  have split: "(\<exists>k \<le> length (es @ [e]). p = abs_path (take k (es @ [e]))) \<longleftrightarrow>
      p = abs_path (es @ [e]) \<or> (\<exists>k \<le> length es. p = abs_path (take k es))"
    by (auto simp: le_Suc_eq)
  have "abs_path (es @ [e]) \<noteq> ''/''"
    using snoc.prems abs_path_inject [of "es @ [e]" "[]"] by (auto simp: abs_path_def)
  then have "isParentDir (abs_path (es @ [e])) p =
      (if abs_path (es @ [e]) = p then Some True else isParentDir (abs_path es) p)"
    using snoc.prems by (subst isParentDir.simps) (simp add: Dir_abs_path)
  then show ?case
    using snoc split by auto
qed

text \<open>A relative path never reaches the root, and so the recursion never ends when the mount point is absolute.\<close>

lemma isParentDir_relative:
  assumes "\<not> HasPrefix q ''/''" and "HasPrefix p ''/''"
  shows "isParentDir q p = None"
proof -
  have "isParentDir q p = Some y \<Longrightarrow> \<not> HasPrefix q ''/'' \<and> HasPrefix p ''/'' \<longrightarrow> False" for y
  proof (erule isParentDir.raw_induct [where P = "\<lambda>q p y. \<not> HasPrefix q ''/'' \<and> HasPrefix p ''/'' \<longrightarrow> False", rotated], rule impI)
    fix f q p y
    assume IH: "\<And>q p y. f q p = Some y \<Longrightarrow> \<not> HasPrefix q ''/'' \<and> HasPrefix p ''/'' \<longrightarrow> False"
      and body: "(if q = p then Some True else if q = ''/'' then Some False else f (Dir q) p) = Some y"
      and rel: "\<not> HasPrefix q ''/'' \<and> HasPrefix p ''/''"
    then have "q \<noteq> p" "q \<noteq> ''/''" by (auto simp: HasPrefix_def)
    then have "f (Dir q) p = Some y" using body by simp
    then show False using IH Dir_relative rel by blast
  qed
  with assms show ?thesis by (cases "isParentDir q p") auto
qed

definition ro_covers :: "oci_mount \<Rightarrow> string list \<Rightarrow> bool" where
  "ro_covers m es \<longleftrightarrow> ''ro'' \<in> set (m_Options m) \<and> (\<exists>k \<le> length es. m_Destination m = abs_path (take k es))"

lemma mount_check_abs:
  assumes "\<forall>e\<in>set es. proper e"
  shows "mount_check (abs_path es) dest opts =
    (if ''ro'' \<in> set opts \<and> (\<exists>k \<le> length es. dest = abs_path (take k es))
     then Err (NewForbidden (ErrMsg (''mount point '' @ abs_path es @ '' is marked read-only''))) else Ok ())"
proof (cases "\<exists>k \<le> length es. dest = abs_path (take k es)")
  case True
  then have "isParentDir (abs_path es) dest = Some True" by (simp add: isParentDir_abs [OF assms])
  then have "mount_check (abs_path es) dest opts =
      (if ''ro'' \<in> set opts then Err (NewForbidden (ErrMsg (''mount point '' @ abs_path es @ '' is marked read-only''))) else Ok ())"
    by (induction opts) auto
  with True show ?thesis by simp
next
  case False
  then have "isParentDir (abs_path es) dest = Some False" by (simp add: isParentDir_abs [OF assms])
  then have "mount_check (abs_path es) dest opts = Ok ()" by (induction opts) auto
  with False show ?thesis by auto
qed

lemma mounts_check_abs:
  assumes "\<forall>e\<in>set es. proper e"
  shows "mounts_check (abs_path es) ms =
    (if \<exists>m\<in>set ms. ro_covers m es
     then Err (NewForbidden (ErrMsg (''mount point '' @ abs_path es @ '' is marked read-only''))) else Ok ())"
  by (induction ms) (auto simp: mount_check_abs [OF assms] ro_covers_def)


text \<open>
  C40: For a relative path the read-only check does not return as soon as the container has a read-only
  mount at an absolute path: the recursion over parent directories ends in \<open>.\<close>, whose parent is itself.
\<close>

theorem relative_path_diverges:
  assumes found: "getContainer cl cid w = (Ok con, w)" and spec: "c_Spec env con w = (Ok spec, w)"
    and root: "s_Root spec = Some (False, rootPath)"
    and ro: "m \<in> set (s_Mounts spec)" "''ro'' \<in> set (m_Options m)" and dests: "\<forall>m\<in>set (s_Mounts spec). HasPrefix (m_Destination m) ''/''"
    and rel: "\<not> HasPrefix p ''/''"
  shows "ExtractArchiveInContainer cl env cid p ow w = (Hang, w)"
proof -
  have one: "HasPrefix d ''/'' \<Longrightarrow> mount_check (Clean p) d opts = (if ''ro'' \<in> set opts then Hang else Ok ())" for d opts
    using isParentDir_relative [OF Clean_relative [OF rel]] by (induction opts) auto
  have "\<forall>m\<in>set ms. HasPrefix (m_Destination m) ''/'' \<Longrightarrow>
      mounts_check (Clean p) ms = (if \<exists>m\<in>set ms. ''ro'' \<in> set (m_Options m) then Hang else Ok ())" for ms
    by (induction ms) (auto simp: one)
  with dests ro have "mounts_check (Clean p) (s_Mounts spec) = Hang" by auto
  then show ?thesis
    using found spec root by (simp add: ExtractArchiveInContainer_def isReadOnlyMount_def and_then_def)
qed

section \<open>Where files are read and written\<close>

lemma clean_up_levels:
  "clean_elems True acc (replicate n ''..'' @ es) = clean_elems True (drop n acc) es" if "\<forall>e\<in>set acc. proper e"
  using that
proof (induction n arbitrary: acc)
  case (Suc n)
  show ?case
  proof (cases acc)
    case Nil
    with Suc show ?thesis by simp
  next
    case (Cons a as)
    with Suc.prems have "a \<noteq> ''..''" by (simp add: proper_def)
    with Cons Suc show ?thesis by simp
  qed
qed simp

lemma Join_below:
  assumes root: "\<forall>e\<in>set rs. proper e" and no_up: "''..'' \<notin> set (Split s (CHR ''/''))"
  shows "path_Join [abs_path rs, s] = abs_path (rs @ filter (\<lambda>e. e \<noteq> [] \<and> e \<noteq> ''.'') (Split s (CHR ''/'')))"
proof -
  have "\<forall>e\<in>set (Split s (CHR ''/'')). e \<noteq> ''..''" using no_up by metis
  then show ?thesis
    unfolding path_Join_abs [OF root] by (simp only: clean_elems_proper rev_rev_ident)
qed

lemma Join_escapes:
  assumes root: "\<forall>e\<in>set rs. proper e" and target: "\<forall>e\<in>set ts. proper e" "ts \<noteq> []"
  shows "path_Join [abs_path rs, Join (replicate (length rs) ''..'' @ ts) ''/''] = abs_path ts"
proof -
  have "\<forall>e\<in>set (replicate (length rs) ''..'' @ ts). CHR ''/'' \<notin> set e"
    using proper_no_slash [OF target(1)] by (simp add: set_replicate_conv_if)
  then have split: "Split (Join (replicate (length rs) ''..'' @ ts) ''/'') (CHR ''/'') = replicate (length rs) ''..'' @ ts"
    using target(2) by (intro Split_Join) simp_all
  have "clean_elems True (rev rs) (replicate (length rs) ''..'' @ ts) = clean_elems True (drop (length rs) (rev rs)) ts"
    using root by (intro clean_up_levels) simp
  also have "\<dots> = ts"
    using clean_elems_append [OF target(1), of "[]"] by simp
  finally show ?thesis
    by (simp only: path_Join_abs [OF root] split)
qed


section \<open>Temporary directories\<close>

text \<open>\<open>live\<close> is what temporary directories the world holds. Only \<open>TempDir\<close> and \<open>RemoveAll\<close> change it.\<close>

abbreviation keeps :: "('w \<Rightarrow> string set) \<Rightarrow> ('w, 'a) io \<Rightarrow> bool" where
  "keeps live \<equiv> moves (\<lambda>w w'. live w' = live w)"

interpretation keeps: io_effect "\<lambda>w w'. live w' = live w" for live :: "'w \<Rightarrow> string set"
  by unfold_locales simp_all

definition temp_laws :: "('w \<Rightarrow> string set) \<Rightarrow> ('w, 'c) containerd_client \<Rightarrow> ('w, 'c, 'm) archive_env \<Rightarrow> bool" where
  "temp_laws live cl env \<longleftrightarrow>
     (\<forall>cid. keeps live (getContainer cl cid)) \<and> (\<forall>c. keeps live (c_Task cl c)) \<and> (\<forall>c. keeps live (t_Status cl c)) \<and>
     (\<forall>c. keeps live (c_Spec env c)) \<and> (\<forall>c. keeps live (c_SnapshotKey env c)) \<and> (\<forall>k. keeps live (ListSnapshotMounts env k)) \<and>
     (\<forall>m d. keeps live (MountAll env m d) \<and> comes_back (MountAll env m d)) \<and>
     (\<forall>d. keeps live (Unmount env d) \<and> comes_back (Unmount env d)) \<and>
     (\<forall>p. keeps live (fs_IsDir env p) \<and> comes_back (fs_IsDir env p)) \<and>
     (\<forall>b a d. keeps live (tar_Run env b a d) \<and> comes_back (tar_Run env b a d)) \<and>
     (\<forall>p ow. keeps live (Untar env p ow) \<and> comes_back (Untar env p ow)) \<and>
     (\<forall>t. FindTarBinary env \<noteq> Panic t) \<and> FindTarBinary env \<noteq> Hang \<and>
     (\<forall>w. case TempDir env w of (Ok d, w') \<Rightarrow> d \<notin> live w \<and> live w' = insert d (live w) | (_, w') \<Rightarrow> live w' = live w) \<and>
     (\<forall>d w. live (snd (fs_RemoveAll env d w)) = live w - {d})"

text \<open>A result and its clean-up: the clean-up, if any, removes the one directory that was made.\<close>

definition held :: "('w \<Rightarrow> string set) \<Rightarrow> 'w \<Rightarrow> ((gerr + 'a) \<times> ('w, unit) io option) res \<times> 'w \<Rightarrow> bool" where
  "held live w out \<longleftrightarrow>
     (case out of
        (Ok (x, Some c), w') \<Rightarrow> (\<exists>d. d \<notin> live w \<and> live w' = insert d (live w) \<and> (\<forall>v. live (snd (c v)) = live v - {d}))
      | (_, w') \<Rightarrow> live w' = live w)"

lemma held_world: "live w1 = live w \<Longrightarrow> held live w1 out \<Longrightarrow> held live w out"
  unfolding held_def by (simp only:)

lemma held_or_else:
  assumes "keeps live m" "\<And>e w. held live w (h e w)" "\<And>x w. held live w (k x w)"
  shows "held live w (or_else m h k w)"
proof -
  obtain r w1 where m: "m w = (r, w1)" by fastforce
  have w1: "live w1 = live w" using movesD [OF assms(1) m] by simp
  show ?thesis
  proof (cases r)
    case (Ok x)
    with m have "or_else m h k w = k x w1" by (simp add: or_else_def)
    then show ?thesis using held_world [of live, OF w1 assms(3)] by simp
  next
    case (Err e)
    with m have "or_else m h k w = h e w1" by (simp add: or_else_def)
    then show ?thesis using held_world [of live, OF w1 assms(2)] by simp
  qed (use m w1 in \<open>simp_all add: or_else_def held_def\<close>)
qed

lemma held_failed: "held live w (failed e w)"
  by (simp add: failed_def held_def ret_def)

lemma temp_lawsD:
  assumes "temp_laws live cl env"
  shows "keeps live (getContainer cl cid)" "keeps live (c_Task cl c)" "keeps live (t_Status cl c)" "keeps live (c_Spec env c)"
    "keeps live (c_SnapshotKey env c)" "keeps live (ListSnapshotMounts env k)" "keeps live (MountAll env m d)"
    "keeps live (Unmount env d)" "keeps live (fs_IsDir env p)" "keeps live (tar_Run env b a d)" "keeps live (Untar env p ow)"
    "comes_back (MountAll env m d)" "comes_back (Unmount env d)" "comes_back (fs_IsDir env p)"
    "comes_back (tar_Run env b a d)" "comes_back (Untar env p ow)"
  using assms by (simp_all add: temp_laws_def)

lemma comes_back_or_else:
  assumes "comes_back m" "keeps live m"
    and "\<And>e w1. live w1 = live w \<Longrightarrow> P (h e w1)" "\<And>x w1. live w1 = live w \<Longrightarrow> P (k x w1)"
  shows "P (or_else m h k w)"
proof -
  obtain r w1 where m: "m w = (r, w1)" by fastforce
  have "live w1 = live w" using movesD [OF assms(2) m] by simp
  moreover have "(\<exists>x. r = Ok x) \<or> (\<exists>e. r = Err e)" using assms(1) m by (metis comes_back_def fst_conv)
  ultimately show ?thesis using m assms(3,4) by (auto simp: or_else_def)
qed

lemma RemoveAll_live:
  assumes "temp_laws live cl env"
  shows "live (snd (ignore_err (fs_RemoveAll env d) v)) = live v - {d}"
proof -
  have "live (snd (fs_RemoveAll env d v)) = live v - {d}" using assms by (simp add: temp_laws_def)
  moreover have "snd (ignore_err m v) = snd (m v)" for m :: "('a, unit) io"
    by (simp add: ignore_err_def or_else_def ret_def split: prod.splits res.splits)
  ultimately show ?thesis by simp
qed

lemma Unmount_live:
  assumes "temp_laws live cl env"
  shows "live (snd (and_then (ignore_err (Unmount env d)) (\<lambda>_. ignore_err (fs_RemoveAll env d)) v)) = live v - {d}"
proof -
  have "and_then (ignore_err m) k = or_else m (\<lambda>_. k ()) k" for m :: "('a, unit) io" and k :: "unit \<Rightarrow> ('a, unit) io"
    by (auto simp: fun_eq_iff ignore_err_def or_else_def and_then_def ret_def split: prod.splits res.splits)
  then show ?thesis
    by (simp, intro comes_back_or_else [OF temp_lawsD(13,8) [OF assms], where P = "\<lambda>out. live (snd out) = live v - {d}" and w = v])
      (simp_all add: RemoveAll_live [OF assms])
qed

lemma held_TempDir:
  assumes laws: "temp_laws live cl env"
  shows "held live w (or_else (TempDir env) failed (\<lambda>tempDir.
     or_else (MountAll env mounts tempDir)
       (\<lambda>err. ret (Inl err, Some (ignore_err (fs_RemoveAll env tempDir))))
       (\<lambda>_. ret (Inr tempDir, Some (and_then (ignore_err (Unmount env tempDir)) (\<lambda>_. ignore_err (fs_RemoveAll env tempDir)))))) w)"
proof -
  obtain r w1 where t: "TempDir env w = (r, w1)" by fastforce
  have w1: "case r of Ok d \<Rightarrow> d \<notin> live w \<and> live w1 = insert d (live w) | _ \<Rightarrow> live w1 = live w"
  proof -
    have "\<forall>w. case TempDir env w of (Ok d, w') \<Rightarrow> d \<notin> live w \<and> live w' = insert d (live w) | (_, w') \<Rightarrow> live w' = live w"
      using laws by (simp add: temp_laws_def)
    from spec [OF this, of w] show ?thesis unfolding t by (simp split: res.splits)
  qed
  show ?thesis
  proof (cases r)
    case (Ok d)
    with w1 have d: "d \<notin> live w" "live w1 = insert d (live w)" by simp_all
    show ?thesis
      unfolding or_else_def [of "TempDir env"] t Ok prod.case res.case
      by (rule comes_back_or_else [OF temp_lawsD(12,7) [OF laws]])
        (use d in \<open>auto simp: held_def ret_def RemoveAll_live [OF laws] Unmount_live [OF laws]\<close>)
  qed (use t w1 in \<open>simp_all add: or_else_def held_def failed_def ret_def\<close>)
qed

lemma held_mount:
  assumes laws: "temp_laws live cl env"
  shows "held live w (mountSnapshotForContainer env con w)"
  unfolding mountSnapshotForContainer_def
  by (intro held_or_else held_failed held_TempDir [OF laws] temp_lawsD [OF laws])

lemma held_root:
  assumes laws: "temp_laws live cl env"
  shows "held live w (container_root cl env con w)"
  unfolding container_root_def
  by (intro held_or_else) (simp_all add: temp_lawsD [OF laws] held_failed held_mount [OF laws], simp_all add: held_def ret_def)

lemma held_stat:
  assumes laws: "temp_laws live cl env" and "held live w (Ok (x, c), w1)"
  shows "held live w (or_else (fs_IsDir env p) (\<lambda>err. ret (f err, c)) (\<lambda>_. ret (y, c)) w1)"
  by (rule comes_back_or_else [OF temp_lawsD(14,9) [OF laws]])
    (use assms(2) in \<open>auto simp: held_def ret_def split: option.splits\<close>)

lemma held_GetPath:
  assumes laws: "temp_laws live cl env"
  shows "held live w (GetPathToFilesInContainer cl env cid p w)"
  unfolding GetPathToFilesInContainer_def
proof (intro held_or_else held_failed temp_lawsD(1) [OF laws])
  fix con w
  show "held live w (and_then (container_root cl env con) (\<lambda>(r, cleanup).
       case r of
         Inr root \<Rightarrow>
           (let filePath = path_Join [root, p]
            in or_else (fs_IsDir env filePath) (\<lambda>err. ret (Inl (not_exist_is_missing err), cleanup)) (\<lambda>_. ret (Inr filePath, cleanup)))
       | Inl err \<Rightarrow> ret (Inl err, cleanup)) w)"
  proof -
    obtain out w1 where out: "container_root cl env con w = (out, w1)" by fastforce
    with held_root [OF laws, of w con] have H: "held live w (out, w1)" by simp
    show ?thesis
    proof (cases out)
      case (Ok xc)
      then obtain x c where out': "out = Ok (x, c)" by fastforce
      show ?thesis
        using H held_stat [OF laws, of w x c w1] unfolding and_then_def out out' Let_def
        by (cases x) (simp_all add: held_def ret_def)
    qed (use out H in \<open>simp_all add: and_then_def held_def\<close>)
  qed
qed

lemma defer_keeps:
  assumes "keeps live body" "comes_back body" "held live w (Ok (x, c), w1)"
  shows "live (snd (defer_cleanup c body w1)) = live w"
proof (cases c)
  case None
  then show ?thesis using assms by (simp add: defer_cleanup_def held_def moves_def)
next
  case (Some cl)
  then obtain d where d: "d \<notin> live w" "live w1 = insert d (live w)" "\<And>v. live (snd (cl v)) = live v - {d}"
    using assms(3) by (auto simp: held_def)
  obtain r w2 where b: "body w1 = (r, w2)" by fastforce
  then have "live w2 = live w1" "(\<exists>x. r = Ok x) \<or> (\<exists>e. r = Err e)"
    using movesD [OF assms(1) b] assms(2) b unfolding comes_back_def by (simp, metis fst_conv)
  with Some b d show ?thesis by (auto simp: defer_cleanup_def)
qed

lemma comes_back_io [intro]: "comes_back (ret x)" "comes_back (fail e)"
  by (simp_all add: comes_back_def ret_def fail_def)

lemma comes_back_or_elseI [intro]:
  assumes "comes_back m" "\<And>e. comes_back (h e)" "\<And>x. comes_back (k x)"
  shows "comes_back (or_else m h k)"
  unfolding comes_back_def
proof
  fix w
  have "(\<exists>x w1. m w = (Ok x, w1)) \<or> (\<exists>e w1. m w = (Err e, w1))" using assms(1) by (metis comes_back_def prod.collapse)
  then show "(\<exists>x. fst (or_else m h k w) = Ok x) \<or> (\<exists>e. fst (or_else m h k w) = Err e)"
  proof (elim disjE exE)
    show ?thesis if "m w = (Ok x, w1)" for x w1
      using that assms(3) [unfolded comes_back_def, rule_format, of x w1] by (simp add: or_else_def)
    show ?thesis if "m w = (Err e, w1)" for e w1
      using that assms(2) [unfolded comes_back_def, rule_format, of e w1] by (simp add: or_else_def)
  qed
qed

lemma get_body:
  assumes laws: "temp_laws live cl env"
  shows "keeps live (case x of
      Inr filePath \<Rightarrow> and_then (WriteFilesAsTarArchive env filePath b) (\<lambda>(writes, err). ret (g writes))
    | Inl err \<Rightarrow> ret (h err))"
    and "comes_back (case x of
      Inr filePath \<Rightarrow> and_then (WriteFilesAsTarArchive env filePath b) (\<lambda>(writes, err). ret (g writes))
    | Inl err \<Rightarrow> ret (h err))"
proof -
  have tar: "comes_back (lift_res (CreateTarCommand env p b))" for p b
    using laws by (auto simp: temp_laws_def CreateTarCommand_def comes_back_def split: res.splits)
  show "keeps live (case x of
      Inr filePath \<Rightarrow> and_then (WriteFilesAsTarArchive env filePath b) (\<lambda>(writes, err). ret (g writes))
    | Inl err \<Rightarrow> ret (h err))"
    unfolding WriteFilesAsTarArchive_def
    by (cases x) (auto simp: case_prod_beta intro!: keeps.moves_rules temp_lawsD [OF laws])
  show "comes_back (case x of
      Inr filePath \<Rightarrow> and_then (WriteFilesAsTarArchive env filePath b) (\<lambda>(writes, err). ret (g writes))
    | Inl err \<Rightarrow> ret (h err))"
    unfolding WriteFilesAsTarArchive_def and_then_or_else
    by (cases x) (auto simp: case_prod_beta intro!: comes_back_or_elseI comes_back_io temp_lawsD [OF laws] tar)
qed

lemma root_error:
  "container_root cl env con w = (Ok (Inl e, Some c), w1) \<Longrightarrow> \<exists>m d v v'. MountAll env m d v = (Err e, v')"
  by (auto simp: container_root_def mountSnapshotForContainer_def failed_def or_else_def ret_def
      split: prod.splits res.splits if_splits)

lemma isReadOnlyMount_keeps: "temp_laws live cl env \<Longrightarrow> keeps live (isReadOnlyMount env con p)"
  unfolding isReadOnlyMount_def Let_def
  by (intro keeps.moves_and_then) (auto intro!: keeps.moves_io temp_lawsD split: option.splits)

text \<open>What an upload may leave behind.\<close>

definition leaves :: "('w \<Rightarrow> string set) \<Rightarrow> ('w, 'c, 'm) archive_env \<Rightarrow> 'w \<Rightarrow> 'a res \<times> 'w \<Rightarrow> bool" where
  "leaves live env w out \<longleftrightarrow> live (snd out) = live w \<or>
     (\<exists>e d. (\<exists>m d v v'. MountAll env m d v = (Err e, v')) \<and> fst out = Err e \<and> d \<notin> live w \<and> live (snd out) = insert d (live w))"

lemma leaves_and_then:
  assumes "keeps live m" "\<And>x w. leaves live env w (k x w)"
  shows "leaves live env w (and_then m k w)"
proof -
  obtain r w1 where m: "m w = (r, w1)" by fastforce
  have w1: "live w1 = live w" using movesD [OF assms(1) m] by simp
  show ?thesis
  proof (cases r)
    case (Ok x)
    then show ?thesis using m w1 assms(2) [of w1 x] by (simp add: and_then_def leaves_def)
  qed (use m w1 in \<open>simp_all add: and_then_def leaves_def\<close>)
qed

lemma leaves_root:
  assumes laws: "temp_laws live cl env" and "\<And>root. keeps live (body root)" "\<And>root. comes_back (body root)"
  shows "leaves live env w (and_then (container_root cl env con)
    (\<lambda>(r, cleanup). case r of Inr root \<Rightarrow> defer_cleanup cleanup (body root) | Inl err \<Rightarrow> fail err) w)"
proof -
  obtain out w1 where out: "container_root cl env con w = (out, w1)" by fastforce
  with held_root [OF laws, of w con] have H: "held live w (out, w1)" by simp
  show ?thesis
  proof (cases out)
    case (Ok xc)
    then obtain x c where xc: "out = Ok (x, c)" by fastforce
    show ?thesis
    proof (cases x)
      case (Inr root)
      then show ?thesis
        using out defer_keeps [OF assms(2,3) H [unfolded xc]] xc by (simp add: and_then_def leaves_def)
    next
      case (Inl e)
      then show ?thesis
        using out H xc root_error [of cl env con w e _ w1]
        by (cases c) (auto simp: and_then_def leaves_def held_def fail_def)
    qed
  qed (use out H in \<open>simp_all add: and_then_def held_def leaves_def\<close>)
qed

lemma put_body:
  assumes laws: "temp_laws live cl env"
  shows "keeps live (let filePath = path_Join [root, p]
       in or_else (fs_IsDir env filePath) (\<lambda>err. fail (not_exist_is_missing err))
            (\<lambda>isDir. if \<not> isDir then fail (f filePath) else Untar env filePath ow))"
    and "comes_back (let filePath = path_Join [root, p]
       in or_else (fs_IsDir env filePath) (\<lambda>err. fail (not_exist_is_missing err))
            (\<lambda>isDir. if \<not> isDir then fail (f filePath) else Untar env filePath ow))"
  using temp_lawsD [OF laws] unfolding Let_def
  by (auto intro!: keeps.moves_rules comes_back_or_elseI comes_back_io)


section \<open>Witnesses\<close>

text \<open>
  A world of temporary directories with one container, which has a task or not, a read-only volume at
  \<open>/data\<close>, and a snapshotter that cannot mount.
\<close>

definition arch_client :: "nat option \<Rightarrow> (string list, unit) containerd_client" where
  "arch_client task = \<lparr>L_Name = [], L_Networks = [], L_MACAddress = [], L_IPAddress = [], L_Ports = [], c_ID = (\<lambda>_. ''abc''),
     Containers = (\<lambda>_. ret [()]),
     c_Task = (\<lambda>_. case task of Some pid \<Rightarrow> ret pid | None \<Rightarrow> fail (ErrExt [XNotFound] [])),
     t_Status = (\<lambda>_. ret Running), c_Labels = (\<lambda>_. ret []), c_SetLabels = (\<lambda>_ _. ret ()),
     c_Annotations = (\<lambda>_. ret None), c_Update = (\<lambda>_ _ _. ret ()), c_ImageName = (\<lambda>_. ret []),
     cu_ContainerStatus = (\<lambda>_. ret Running)\<rparr>"

definition arch_env :: "(string list, unit, unit) archive_env" where
  "arch_env = \<lparr>c_Spec = (\<lambda>_. ret \<lparr>s_Root = Some (False, ''rootfs''), s_Mounts = [\<lparr>m_Destination = ''/data'', m_Options = [''ro'']\<rparr>]\<rparr>),
     c_SnapshotKey = (\<lambda>_. ret ''snap''), ListSnapshotMounts = (\<lambda>_. ret ()),
     TempDir = (\<lambda>w. (Ok (CHR ''/'' # concat w), (CHR ''/'' # concat w) # w)), MountAll = (\<lambda>_ _. fail (ErrMsg ''cannot mount'')),
     Unmount = (\<lambda>_. ret ()), fs_RemoveAll = (\<lambda>d w. (Ok (), removeAll d w)), fs_IsDir = (\<lambda>_. ret True),
     FindTarBinary = Ok ''tar'', tar_Run = (\<lambda>_ _ _. ret ([''data''], None)), Untar = (\<lambda>_ _. ret ())\<rparr>"

lemma arch_found: "getContainer (arch_client t) cid w = (Ok (), w)"
  by (simp add: getContainer_def SearchContainer_def arch_client_def and_then_def pick_container_def Let_def)

lemma concat_length: "e \<in> set w \<Longrightarrow> length e \<le> length (concat w)"
  by (induction w) auto

lemma concat_fresh: "CHR ''/'' # concat w \<notin> set w"
  using concat_length [of "CHR ''/'' # concat w" w] by auto

lemma arch_laws: "temp_laws set (arch_client t) arch_env"
  unfolding temp_laws_def
  by (auto simp: moves_def comes_back_def arch_found arch_env_def ret_def fail_def concat_fresh)
    (auto simp: arch_client_def ret_def fail_def split: option.splits)

lemma arch_root: "container_root (arch_client (Some 7)) arch_env () w = (Ok (Inr (abs_path [''proc'', ''7'', ''root'']), None), w)"
proof -
  have "dec_digits 7 = ''7''" by code_simp
  then show ?thesis by (simp add: container_root_def arch_client_def or_else_def ret_def abs_path_def Itoa_def)
qed

lemma arch_spec: "c_Spec arch_env c w = (Ok \<lparr>s_Root = Some (False, ''rootfs''), s_Mounts = [\<lparr>m_Destination = ''/data'', m_Options = [''ro'']\<rparr>]\<rparr>, w)"
  by (simp add: arch_env_def ret_def)


lemma arch_put: "ExtractArchiveInContainer (arch_client None) arch_env ''abc'' ''/f'' False [] = (Err (ErrMsg ''cannot mount''), [''/''])"
proof -
  have "\<not> (\<exists>m\<in>set [\<lparr>m_Destination = ''/data'', m_Options = [''ro'']\<rparr>]. ro_covers m (cleaned ''/f''))"
    by (auto simp: ro_covers_def cleaned_def abs_path_def take_Cons' split: if_splits)
  then have "isReadOnlyMount arch_env () ''/f'' [] = (Ok (), [])"
    using mounts_check_abs [OF cleaned_proper, of "''/f''"] Clean_rooted [of "''/f''"]
    by (simp add: isReadOnlyMount_def arch_spec and_then_def HasPrefix_def del: mounts_check.simps)
  moreover have "mountSnapshotForContainer arch_env () [] =
      (Ok (Inl (ErrMsg ''cannot mount''), Some (ignore_err (fs_RemoveAll arch_env ''/''))), [''/''])"
    by (simp add: mountSnapshotForContainer_def arch_env_def or_else_def ret_def fail_def)
  moreover have "c_Task (arch_client None) () [] = (Err (ErrExt [XNotFound] []), [])"
    by (simp add: arch_client_def fail_def)
  ultimately show ?thesis
    by (simp add: ExtractArchiveInContainer_def and_then_def arch_found container_root_def or_else_def fail_def cerr_IsNotFound_def)
qed



theorem relative_path_diverges_witness:
  "ExtractArchiveInContainer (arch_client None) arch_env ''abc'' ''data/x'' True [] = (Hang, [])"
  using relative_path_diverges [OF arch_found [of None] arch_spec, where rootPath = "''rootfs''" and m = "\<lparr>m_Destination = ''/data'', m_Options = [''ro'']\<rparr>"
      and p = "''data/x''" and cid = "''abc''" and w = "[]" and ow = True]
  by (simp add: HasPrefix_def)

end
