(* ===== verification/Exec.thy ===== *)
theory Exec
  imports Archives "HOL-Library.Sublist"
begin

text \<open>
  Processes run in containers: the creation (\<open>exec.go\<close> of \<open>src/internal/service/container\<close>), the exec service
  (\<open>src/internal/service/exec\<close>) and its handlers (\<open>src/api/handlers/exec\<close>).

  containerd's tasks and processes, the lookup of users, capabilities and named pipes are the record \<open>exec_env\<close>.
\<close>

section \<open>Types\<close>

record ExecConfig =
  ec_User :: string
  ec_Privileged :: bool
  ec_Tty :: bool
  ec_ConsoleSize :: "(nat \<times> nat) option"
  ec_AttachStdin :: bool
  ec_AttachStderr :: bool
  ec_AttachStdout :: bool
  ec_Detach :: bool
  ec_DetachKeys :: string
  ec_Env :: "string list"
  ec_WorkingDir :: string
  ec_Cmd :: "string list"

record ExecStartCheck =
  es_Detach :: bool
  es_Tty :: bool
  es_ConsoleSize :: "(nat \<times> nat) option"

record ExecResizeOptions =
  er_ConID :: string
  er_ExecID :: string
  er_Height :: int
  er_Width :: int

record ExecInspect =
  ei_ID :: string
  ei_Running :: bool
  ei_ExitCode :: int
  ei_Tty :: bool
  ei_OpenStdin :: bool
  ei_OpenStderr :: bool
  ei_OpenStdout :: bool
  ei_CanRemove :: bool
  ei_ContainerID :: string
  ei_Pid :: int

text \<open>What the code uses of \<open>specs.Process\<close> and of containerd's named pipes.\<close>

record linux_capabilities =
  Bounding :: "string list"
  Effective :: "string list"
  Inheritable :: "string list"
  Permitted :: "string list"

record spec_process =
  sp_Terminal :: bool
  sp_ConsoleSize :: "(nat \<times> nat) option"
  sp_UID :: nat
  sp_GID :: nat
  sp_AdditionalGids :: "nat list"
  sp_Args :: "string list"
  sp_Env :: "string list"
  sp_Cwd :: string
  sp_Capabilities :: "linux_capabilities option"

record fifo_set =
  ff_Terminal :: bool
  ff_Stdin :: string
  ff_Stdout :: string
  ff_Stderr :: string

record ('w, 'c, 'p, 'x, 's) exec_env =
  x_Spec :: "'c \<Rightarrow> ('w, spec_process option) io"
  x_Info :: "'c \<Rightarrow> ('w, unit) io"
  OCISpecWithUser :: "string \<Rightarrow> 'c \<Rightarrow> spec_process option \<Rightarrow> ('w, spec_process option) io"
  OCISpecWithAdditionalGIDs :: "string \<Rightarrow> 'c \<Rightarrow> spec_process option \<Rightarrow> ('w, spec_process option) io"
  ReplaceOrAppendEnvValues :: "string list \<Rightarrow> string list \<Rightarrow> string list"
  GetCurrentCapabilities :: "('w, string list) io"
  idgen :: "('w, string) io"
  FIFODir :: string
  NewFIFOSetInDir :: "string \<Rightarrow> string \<Rightarrow> bool \<Rightarrow> ('w, fifo_set) io"
  NewDirectCIO :: "fifo_set \<Rightarrow> ('w, 'x) io"
  t_Exec :: "'c \<Rightarrow> string \<Rightarrow> spec_process \<Rightarrow> (string \<Rightarrow> ('w, 'x) io) \<Rightarrow> ('w, 'p) io"
  LoadProcess :: "'c \<Rightarrow> string \<Rightarrow> bool \<Rightarrow> ('w, 'p) io"
  p_ID :: "'p \<Rightarrow> string"
  p_Pid :: "'p \<Rightarrow> nat"
  p_Status :: "'p \<Rightarrow> ('w, ProcessStatus \<times> nat) io"
  p_IO :: "'p \<Rightarrow> fifo_set option"
  p_Resize :: "'p \<Rightarrow> int \<Rightarrow> int \<Rightarrow> ('w, unit) io"
  p_Wait :: "'p \<Rightarrow> ('w, 's) io"
  p_Start :: "'p \<Rightarrow> ('w, unit) io"
  receive :: "'s \<Rightarrow> ('w, nat \<times> gerr option) io"
  ForwardAllSignals :: "'p \<Rightarrow> 'w \<Rightarrow> 'w"
  StopCatch :: "'w \<Rightarrow> 'w"

text \<open>Go's conversion to \<open>uint32\<close>.\<close>

definition uint32 :: "int \<Rightarrow> int" where
  "uint32 i = i mod 2 ^ 32"

text \<open>A call that returns nothing and cannot fail.\<close>

definition effect :: "('w \<Rightarrow> 'w) \<Rightarrow> ('w, unit) io" where
  "effect f w = (Ok (), f w)"

section \<open>Creating a process\<close>

text \<open>A spec without a process is a nil pointer.\<close>

definition with_process :: "spec_process option \<Rightarrow> (spec_process \<Rightarrow> ('w, 'a) io) \<Rightarrow> ('w, 'a) io" where
  "with_process p k = (case p of None \<Rightarrow> panic ''nil pointer dereference'' | Some s \<Rightarrow> k s)"

definition withResetAdditionalGIDs :: "'c \<Rightarrow> spec_process option \<Rightarrow> ('w, spec_process option) io" where
  "withResetAdditionalGIDs c p = with_process p (\<lambda>s. ret (Some (s\<lparr>sp_AdditionalGids := []\<rparr>)))"

definition generateUserOpts :: "('w, 'c, 'p, 'x, 's) exec_env \<Rightarrow> string \<Rightarrow> ('c \<Rightarrow> spec_process option \<Rightarrow> ('w, spec_process option) io) list" where
  "generateUserOpts env user =
     (if user \<noteq> [] then [OCISpecWithUser env user, withResetAdditionalGIDs, OCISpecWithAdditionalGIDs env user] else [])"

definition setExecCapabilities :: "('w, 'c, 'p, 'x, 's) exec_env \<Rightarrow> spec_process \<Rightarrow> ('w, spec_process) io" where
  "setExecCapabilities env pspec =
     and_then (GetCurrentCapabilities env) (\<lambda>allCaps.
       ret (pspec\<lparr>sp_Capabilities := Some \<lparr>Bounding = allCaps, Effective = allCaps, Inheritable = allCaps, Permitted = allCaps\<rparr>\<rparr>))"

fun apply_opts :: "'c \<Rightarrow> ('c \<Rightarrow> spec_process option \<Rightarrow> ('w, spec_process option) io) list \<Rightarrow> spec_process option \<Rightarrow>
    ('w, spec_process option) io" where
  "apply_opts c [] p = ret p"
| "apply_opts c (opt # opts) p = and_then (opt c p) (apply_opts c opts)"

definition generateExecProcessSpec :: "('w, 'c, 'p, 'x, 's) exec_env \<Rightarrow> 'c \<Rightarrow> ExecConfig \<Rightarrow> ('w, spec_process) io" where
  "generateExecProcessSpec env con config =
     and_then (x_Spec env con) (\<lambda>spec.
     and_then
       (let userOpts = generateUserOpts env (ec_User config)
        in if userOpts \<noteq> [] then and_then (x_Info env con) (\<lambda>_. apply_opts con userOpts spec) else ret spec) (\<lambda>spec.
     with_process spec (\<lambda>pspec.
       let pspec = pspec\<lparr>sp_Terminal := ec_Tty config\<rparr>;
           pspec = (if sp_Terminal pspec \<and> ec_ConsoleSize config \<noteq> None then pspec\<lparr>sp_ConsoleSize := ec_ConsoleSize config\<rparr> else pspec);
           pspec = pspec\<lparr>sp_Args := ec_Cmd config\<rparr>;
           pspec = (if ec_WorkingDir config \<noteq> [] then pspec\<lparr>sp_Cwd := ec_WorkingDir config\<rparr> else pspec);
           pspec = pspec\<lparr>sp_Env := ReplaceOrAppendEnvValues env (sp_Env pspec) (ec_Env config)\<rparr>
       in if ec_Privileged config then setExecCapabilities env pspec else ret pspec)))"

definition exec_io :: "('w, 'c, 'p, 'x, 's) exec_env \<Rightarrow> ExecConfig \<Rightarrow> string \<Rightarrow> ('w, 'x) io" where
  "exec_io env config eid =
     and_then (NewFIFOSetInDir env (FIFODir env) eid (ec_Tty config)) (\<lambda>fifos.
       let fifos = (if \<not> ec_AttachStdin config then fifos\<lparr>ff_Stdin := []\<rparr> else fifos);
           fifos = (if \<not> ec_AttachStdout config then fifos\<lparr>ff_Stdout := []\<rparr> else fifos);
           fifos = (if \<not> ec_AttachStderr config then fifos\<lparr>ff_Stderr := []\<rparr> else fifos)
       in NewDirectCIO env fifos)"

definition not_running :: "string \<Rightarrow> gerr" where
  "not_running cid = NewConflict (ErrMsg (''container '' @ cid @ '' is not running''))"

definition ExecCreate :: "('w, 'c) containerd_client \<Rightarrow> ('w, 'c, 'p, 'x, 's) exec_env \<Rightarrow> string \<Rightarrow> ExecConfig \<Rightarrow> ('w, string) io" where
  "ExecCreate cl env cid config =
     or_else (getContainer cl cid) (\<lambda>err. fail (if cerr_IsNotFound err then NewNotFound err else err)) (\<lambda>con.
     and_then (generateExecProcessSpec env con config) (\<lambda>pspec.
     or_else (c_Task cl con) (\<lambda>err. fail (if cerr_IsNotFound err then not_running cid else err)) (\<lambda>_.
     or_else (t_Status cl con) (\<lambda>err. fail (if cerr_IsNotFound err then not_running cid else err)) (\<lambda>status.
       if status \<noteq> Running then fail (not_running cid)
       else and_then (idgen env) (\<lambda>gen.
         let execID = ''exec-'' @ gen
         in and_then (t_Exec env con execID pspec (exec_io env config)) (\<lambda>_. ret (cid @ ''/'' @ execID)))))))"

section \<open>The exec service\<close>

definition loadExecInstance :: "('w, 'c) containerd_client \<Rightarrow> ('w, 'c, 'p, 'x, 's) exec_env \<Rightarrow> string \<Rightarrow> string \<Rightarrow> bool \<Rightarrow>
    ('w, 'c \<times> 'p) io" where
  "loadExecInstance cl env conID execID attach =
     or_else (exec_getContainer cl conID)
       (\<lambda>err. fail (if cerr_IsNotFound err \<or> IsNotFound err then NewNotFound (ErrMsg (''container not found: '' @ Error err)) else err)) (\<lambda>con.
     or_else (c_Task cl con)
       (\<lambda>err. fail (if cerr_IsNotFound err then NewNotFound (ErrMsg (''task not found: '' @ Error err)) else err)) (\<lambda>_.
     or_else (LoadProcess env con execID attach)
       (\<lambda>err. fail (if cerr_IsNotFound err then NewNotFound (ErrMsg (''process not found: '' @ Error err)) else err))
       (\<lambda>proc. ret (con, proc))))"

definition exec_Inspect :: "('w, 'c) containerd_client \<Rightarrow> ('w, 'c, 'p, 'x, 's) exec_env \<Rightarrow> string \<Rightarrow> string \<Rightarrow> ('w, ExecInspect) io" where
  "exec_Inspect cl env conID execId =
     and_then (loadExecInstance cl env conID execId False) (\<lambda>(con, proc).
     and_then (or_else (p_Status env proc) (\<lambda>_. ret (False, 0)) (\<lambda>(status, exit). ret (status = Running, int exit))) (\<lambda>(running, exitCode).
       ret (let res = \<lparr>ei_ID = p_ID env proc, ei_Running = running, ei_ExitCode = exitCode, ei_Tty = False,
                       ei_OpenStdin = False, ei_OpenStderr = False, ei_OpenStdout = False, ei_CanRemove = running,
                       ei_ContainerID = c_ID cl con, ei_Pid = int (p_Pid env proc)\<rparr>
            in case p_IO env proc of
                 None \<Rightarrow> res
               | Some io \<Rightarrow> res\<lparr>ei_Tty := ff_Terminal io, ei_OpenStdin := ff_Stdin io \<noteq> [],
                               ei_OpenStdout := ff_Stdout io \<noteq> [], ei_OpenStderr := ff_Stderr io \<noteq> []\<rparr>)))"

definition exec_Resize :: "('w, 'c) containerd_client \<Rightarrow> ('w, 'c, 'p, 'x, 's) exec_env \<Rightarrow> ExecResizeOptions \<Rightarrow> ('w, unit) io" where
  "exec_Resize cl env options =
     and_then (loadExecInstance cl env (er_ConID options) (er_ExecID options) False)
       (\<lambda>(con, proc). p_Resize env proc (uint32 (er_Width options)) (uint32 (er_Height options)))"

text \<open>
  \<open>Start\<close> up to the success response, and from there on. \<open>success\<close> is the \<open>SuccessResponse\<close> callback.
\<close>

definition exec_prepare :: "('w, 'c) containerd_client \<Rightarrow> ('w, 'c, 'p, 'x, 's) exec_env \<Rightarrow> ExecStartCheck \<Rightarrow> string \<Rightarrow> string \<Rightarrow>
    ('w, 'p \<times> 's) io" where
  "exec_prepare cl env opts conID execID =
     or_else (loadExecInstance cl env conID execID (\<not> es_Detach opts))
       (\<lambda>err. fail (if HasPrefix (Error err) ''task not found'' then not_running conID else err)) (\<lambda>(con, proc).
     or_else (t_Status cl con) (\<lambda>err. fail (if cerr_IsNotFound err then not_running conID else err)) (\<lambda>taskStatus.
       if taskStatus \<noteq> Running then fail (not_running conID)
       else and_then (p_Wait env proc) (\<lambda>statusC. ret (proc, statusC))))"

definition exec_run :: "('w, 'c, 'p, 'x, 's) exec_env \<Rightarrow> ExecStartCheck \<Rightarrow> ('w, unit) io option \<Rightarrow> 'p \<Rightarrow> 's \<Rightarrow> ('w, unit) io" where
  "exec_run env opts success proc statusC =
     and_then (case success of None \<Rightarrow> ret () | Some f \<Rightarrow> f) (\<lambda>_.
     and_then (p_Start env proc) (\<lambda>_.
       if es_Detach opts then ret ()
       else and_then (receive env statusC) (\<lambda>(code, err).
         case err of
           Some e \<Rightarrow> fail e
         | None \<Rightarrow> if code \<noteq> 0 then fail (ErrMsg (''exec failed with exit code '' @ Itoa (int code))) else ret ())))"

definition exec_Start :: "('w, 'c) containerd_client \<Rightarrow> ('w, 'c, 'p, 'x, 's) exec_env \<Rightarrow> ExecStartCheck \<Rightarrow> string \<Rightarrow> string \<Rightarrow>
    ('w, unit) io option \<Rightarrow> ('w, unit) io" where
  "exec_Start cl env opts conID execID success =
     and_then (exec_prepare cl env opts conID execID) (\<lambda>(proc, statusC).
       if es_Detach opts then exec_run env opts success proc statusC
       else and_then
              (case es_ConsoleSize opts of
                 Some (h, w) \<Rightarrow> if es_Tty opts then ignore_err (p_Resize env proc (uint32 (int w)) (uint32 (int h))) else ret ()
               | None \<Rightarrow> ret ()) (\<lambda>_.
            and_then (effect (ForwardAllSignals env proc)) (\<lambda>_.
              defer_cleanup (Some (effect (StopCatch env))) (exec_run env opts success proc statusC))))"

text \<open>
  \<open>StdinCloser.Read\<close>: \<open>Closer\<close> may be nil, the result comes with the new value of \<open>closed\<close>. The mutex
  makes each call atomic.
\<close>

definition StdinCloser_Read :: "('w, nat \<times> gerr option) io \<Rightarrow> ('w, unit) io option \<Rightarrow> bool \<Rightarrow> ('w, (nat \<times> gerr option) \<times> bool) io" where
  "StdinCloser_Read stdin_Read Closer closed =
     (if closed then ret ((0, Some (ErrMsg ''bad file descriptor'')), closed)
      else and_then stdin_Read (\<lambda>(n, err).
        case err of
          None \<Rightarrow> ret ((n, err), closed)
        | Some _ \<Rightarrow>
            (case Closer of
               None \<Rightarrow> ret ((n, err), closed)
             | Some c \<Rightarrow> and_then c (\<lambda>_. ret ((n, err), True)))))"

section \<open>Handlers\<close>

record ('w, 'o) exec_Service =
  xs_Start :: "ExecStartCheck \<Rightarrow> string \<Rightarrow> string \<Rightarrow> ('w, unit) io option \<Rightarrow> ('w, unit) io"
  xs_Resize :: "ExecResizeOptions \<Rightarrow> ('w, unit) io"
  xs_Inspect :: "string \<Rightarrow> string \<Rightarrow> ('w, 'o) io"

definition parseExecId :: "string \<Rightarrow> (string \<times> string) res" where
  "parseExecId execId =
     (let splitId = Split execId (CHR ''/'')
      in if length splitId \<noteq> 2 then Err (ErrMsg (''invalid exec id: '' @ execId)) else Ok (splitId ! 0, splitId ! 1))"

definition exec_handler_inspect :: "('w, 'o) exec_Service \<Rightarrow> http_req \<Rightarrow> ('w, 'o) handler" where
  "exec_handler_inspect svc r rw =
     (case parseExecId (mux_var r ''id'') of
        Ok (conId, procId) \<Rightarrow>
          serve (xs_Inspect svc conId procId) (\<lambda>x. JSON 200 (CData x)) (\<lambda>err. JSON (missing_code err) (CErr (NewError err))) rw
      | Err err \<Rightarrow> ret (JSON 400 (CErr (NewError err)) rw)
      | Panic p \<Rightarrow> panic p
      | Hang \<Rightarrow> (\<lambda>w. (Hang, w)))"

definition getQueryParamInt :: "http_req \<Rightarrow> string \<Rightarrow> int res" where
  "getQueryParamInt r paramName =
     (let val = query_get r paramName
      in if val = [] then Err (ErrMsg (''query parameter '' @ paramName @ '' required''))
         else case Atoi val of None \<Rightarrow> Err (ErrMsg (paramName @ '' must be an integer'')) | Some i \<Rightarrow> Ok i)"

definition exec_handler_resize :: "('w, 'o) exec_Service \<Rightarrow> http_req \<Rightarrow> ('w, 'a) handler" where
  "exec_handler_resize svc r rw =
     (let bad = (\<lambda>err. ret (JSON 400 (CErr (NewError err)) rw))
      in or_else (lift_res (getQueryParamInt r ''h'')) bad (\<lambda>height.
         or_else (lift_res (getQueryParamInt r ''w'')) bad (\<lambda>width.
         or_else (lift_res (parseExecId (mux_var r ''id''))) bad (\<lambda>(cid, procId).
           serve (xs_Resize svc \<lparr>er_ConID = cid, er_ExecID = procId, er_Height = height, er_Width = width\<rparr>)
             (\<lambda>_. Status 200) (\<lambda>err. JSON (missing_code err) (CErr (NewError err))) rw))))"

text \<open>
  A hijacked connection in the world: what has been written to it, and the variable \<open>attachHeaderWritten\<close>
  that the success callback sets. \<open>frame\<close> is the framing of docker's \<open>stdcopy\<close>, \<open>api\<close> the version of the
  request's context is at least 1.42.
\<close>

record 'w conn_world =
  ambient :: 'w
  conn_out :: "string list"
  conn_closed :: bool
  attachHeaderWritten :: bool

record 'w hijack_env =
  is_Hijacker :: bool
  Hijack :: "('w, unit) io"
  conn_err :: "gerr option"
  frame :: "nat \<Rightarrow> string \<Rightarrow> string"
  api_1_42 :: bool
  marshal_error :: "gerr \<Rightarrow> string"
  StatusText :: "int \<Rightarrow> string"

definition crlf :: string where
  "crlf = [CHR 0x0D, CHR 0x0A]"

text \<open>Writes to a connection that is closed or broken are lost; \<open>fmt.Fprint\<close>'s error is ignored throughout.\<close>

definition conn_write :: "string \<Rightarrow> ('w conn_world, unit) io" where
  "conn_write s w = (Ok (), w\<lparr>conn_out := conn_out w @ [s]\<rparr>)"

definition checkUpgradeStatus :: "bool \<Rightarrow> bool \<Rightarrow> string" where
  "checkUpgradeStatus api upgrade =
     (let contentType = (if upgrade \<and> api then ''application/vnd.docker.multiplexed-stream'' else ''application/vnd.docker.raw-stream'')
      in if upgrade
         then ''HTTP/1.1 101 UPGRADED'' @ crlf @ ''Content-Type: '' @ contentType @ crlf @ ''Connection: Upgrade'' @ crlf @ ''Upgrade: tcp'' @ crlf
         else ''HTTP/1.1 200 OK'' @ crlf @ ''Content-Type: '' @ contentType @ crlf)"

text \<open>\<open>http.Header.WriteSubset\<close> writes the lines of the header in the order of their keys.\<close>

definition header_lines :: "string gomap \<Rightarrow> string" where
  "header_lines h = concat (map (\<lambda>(k, v). k @ '': '' @ v @ crlf) (sort_key (map (of_char :: char \<Rightarrow> nat) \<circ> fst) h))"

definition print_success :: "string \<Rightarrow> string gomap \<Rightarrow> ('w conn_world, unit) io" where
  "print_success successResponse header =
     and_then (conn_write successResponse) (\<lambda>_.
     and_then (conn_write (header_lines header)) (\<lambda>_.
     and_then (conn_write crlf) (\<lambda>_ w. (Ok (), w\<lparr>attachHeaderWritten := True\<rparr>))))"

definition error_head :: "'w hijack_env \<Rightarrow> int \<Rightarrow> gerr \<Rightarrow> string" where
  "error_head he code err =
     ''HTTP/1.1 '' @ Itoa code @ '' '' @ StatusText he code @ crlf @ ''Content-Type: application/json'' @ crlf @ crlf @ marshal_error he err @ crlf"

definition closeStreams :: "('w conn_world, unit) io" where
  "closeStreams w = (Ok (), w\<lparr>conn_closed := True\<rparr>)"

definition start_attached :: "('w conn_world, 'o) exec_Service \<Rightarrow> ('w conn_world) hijack_env \<Rightarrow> http_req \<Rightarrow> ExecStartCheck \<Rightarrow> string \<Rightarrow> string \<Rightarrow>
    ('w conn_world, 'a) handler" where
  "start_attached svc he r check cid procId rw =
     (if \<not> is_Hijacker he then ret (JSON 500 (CErr (NewErrorFromMsg ''not a http.Hijacker'')) rw)
      else or_else (Hijack he) (\<lambda>err. ret (JSON 500 (CErr (NewError err)) rw)) (\<lambda>_.
        defer_cleanup (Some closeStreams)
          (case conn_err he of
             Some err \<Rightarrow> ret (JSON 500 (CErr (NewError err)) rw)
           | None \<Rightarrow>
               (let successResponse = checkUpgradeStatus (api_1_42 he) (map_of (req_header r) ''Upgrade'' \<noteq> None)
                in or_else (xs_Start svc check cid procId (Some (print_success successResponse (w_header rw))))
                     (\<lambda>err w. and_then (conn_write (frame he 1 (if \<not> attachHeaderWritten w then error_head he (conflict_code err) err
                                                            else Error err @ crlf))) (\<lambda>_. ret rw) w)
                     (\<lambda>_. ret rw)))))"

definition exec_handler_start :: "('w conn_world, 'o) exec_Service \<Rightarrow> ('w conn_world) hijack_env \<Rightarrow> http_req \<Rightarrow> ExecStartCheck res option \<Rightarrow>
    ('w conn_world, 'a) handler" where
  "exec_handler_start svc he r body rw =
     or_else (\<lambda>w. (parseExecId (mux_var r ''id''), w\<lparr>attachHeaderWritten := False\<rparr>)) (\<lambda>err. ret (JSON 400 (CErr (NewError err)) rw)) (\<lambda>(cid, procId).
       case body of
         None \<Rightarrow> ret (JSON 400 (CErr (NewErrorFromMsg ''body should not be empty'')) rw)
       | Some dec \<Rightarrow>
           parsed dec (\<lambda>err. JSON 400 (CErr (NewError (ErrWrap ''unable to parse request body: '' err []))))
             (\<lambda>check.
                if es_Detach check
                then serve (xs_Start svc check cid procId None) (\<lambda>_. Status 200) (\<lambda>err. JSON (conflict_code err) (CErr (NewError err)))
                else start_attached svc he r check cid procId) rw)"

definition daemon_exec :: "('w, 'c) containerd_client \<Rightarrow> ('w, 'c, 'p, 'x, 's) exec_env \<Rightarrow> ('w, ExecInspect) exec_Service" where
  "daemon_exec cl env = \<lparr>xs_Start = exec_Start cl env, xs_Resize = exec_Resize cl env, xs_Inspect = exec_Inspect cl env\<rparr>"

section \<open>Ids of processes\<close>

text \<open>
  C18: The id that a created exec process is given is split back, by every exec endpoint, into the container that was
  named and the id of the process, exactly when that name has no slash; with a slash every later request on the process is refused.
\<close>

theorem exec_id_round_trip:
  assumes created: "ExecCreate cl env cid config w = (Ok eid, w')"
    and gen: "\<And>w g w1. idgen env w = (Ok g, w1) \<Longrightarrow> CHR ''/'' \<notin> set g"
  shows "\<exists>execID. HasPrefix execID ''exec-'' \<and>
    (if CHR ''/'' \<in> set cid then \<exists>e. parseExecId eid = Err e else parseExecId eid = Ok (cid, execID))"
proof -
  obtain g v v' where g: "idgen env v = (Ok g, v')" "eid = cid @ ''/'' @ ''exec-'' @ g"
    using created unfolding ExecCreate_def
    by (auto simp: or_else_def and_then_def fail_def ret_def Let_def split: prod.splits res.splits if_splits)
  have "Split eid (CHR ''/'') = Split cid (CHR ''/'') @ Split (''exec-'' @ g) (CHR ''/'')"
    unfolding g(2) by (rule Split_append) simp_all
  moreover have "Split (''exec-'' @ g) (CHR ''/'') = [''exec-'' @ g]"
    using gen [OF g(1)] by (intro Split_no_sep) simp
  ultimately have sp: "Split eid (CHR ''/'') = Split cid (CHR ''/'') @ [''exec-'' @ g]" by simp
  have "if CHR ''/'' \<in> set cid then \<exists>e. parseExecId eid = Err e else parseExecId eid = Ok (cid, ''exec-'' @ g)"
  proof (cases "CHR ''/'' \<in> set cid")
    case True
    then have "length (Split cid (CHR ''/'')) \<noteq> 1" by (simp add: length_Split count_list_0_iff)
    with sp True show ?thesis by (simp add: parseExecId_def)
  qed (simp add: parseExecId_def sp)
  then show ?thesis by (intro exI [of _ "''exec-'' @ g"]) (simp add: HasPrefix_def)
qed

section \<open>When a process is created\<close>

definition task_running :: "nat res \<Rightarrow> ProcessStatus res \<Rightarrow> bool option" where
  "task_running tr sr =
     (case tr of
        Ok _ \<Rightarrow> (case sr of Ok s \<Rightarrow> Some (s = Running) | Err e \<Rightarrow> if cerr_IsNotFound e then Some False else None | _ \<Rightarrow> None)
      | Err e \<Rightarrow> if cerr_IsNotFound e then Some False else None
      | _ \<Rightarrow> None)"

text \<open>
  C19: A process is created only in a container whose task is running: if the task or its state is missing, or it is
  in any other state, the request is answered 409 and nothing is changed; if it runs, the answer is 201 exactly when containerd
  accepts the process, which then has the named pipes and the specification that the request asks for.
\<close>

theorem exec_create_requires_running:
  assumes id: "map_of (vars r) ''id'' = Some cid" and fresh: "w_sent rw = None"
    and found: "getContainer cl cid w = (Ok con, w)" and spec: "generateExecProcessSpec env con config w = (Ok pspec, w)"
    and task: "c_Task cl con w = (tr, w)" "t_Status cl con w = (sr, w)"
    and running: "task_running tr sr = Some b"
    and gen: "idgen env w = (Ok g, w)" and exec: "t_Exec env con (''exec-'' @ g) pspec (exec_io env config) w = (xr, w1)" "xr = Ok p \<or> xr = Err e"
  shows "\<exists>rw'. handler_exec (ExecCreate cl env) r (Some (Ok config)) rw w = (Ok rw', if b then w1 else w) \<and>
    status_of rw' = Some (if \<not> b then 409 else if xr = Ok p then 201 else conflict_code e)"
proof -
  have nr: "conflict_code (not_running cid) = 409" by (simp add: conflict_code_def not_running_def errdefs_defs)
  have "ExecCreate cl env cid config w =
      (if b then case xr of Ok _ \<Rightarrow> (Ok (cid @ ''/exec-'' @ g), w1) | _ \<Rightarrow> (Err e, w1) else (Err (not_running cid), w))"
    using found spec task running gen exec unfolding ExecCreate_def task_running_def
    by (auto simp: or_else_def and_then_def fail_def ret_def Let_def split: res.splits if_splits)
  moreover have "status_of rw = None" using fresh by (simp add: status_of_def)
  ultimately show ?thesis
    using id nr exec(2) by (auto simp: handler_exec_def parsed_def serve_def or_else_def ret_def split: res.splits)
qed

section \<open>What is sent on a hijacked connection\<close>

text \<open>\<open>silent\<close>: nothing is written to the connection. \<open>appends\<close>: at most output is added.\<close>

abbreviation silent :: "('w conn_world, 'a) io \<Rightarrow> bool" where
  "silent \<equiv> moves (\<lambda>w w'. conn_out w' = conn_out w \<and> attachHeaderWritten w' = attachHeaderWritten w)"

abbreviation appends :: "('w conn_world, 'a) io \<Rightarrow> bool" where
  "appends \<equiv> moves (\<lambda>w w'. prefix (conn_out w) (conn_out w'))"

interpretation silent: io_effect "\<lambda>w w' :: 'w conn_world. conn_out w' = conn_out w \<and> attachHeaderWritten w' = attachHeaderWritten w"
  by unfold_locales simp_all

interpretation appends: io_effect "\<lambda>w w' :: 'w conn_world. prefix (conn_out w) (conn_out w')"
  by unfold_locales (auto intro: prefix_order.trans)

definition conn_laws :: "('w conn_world, 'c) containerd_client \<Rightarrow> ('w conn_world, 'c, 'p, 'x, 's) exec_env \<Rightarrow> bool" where
  "conn_laws cl env \<longleftrightarrow>
     (\<forall>cid. silent (exec_getContainer cl cid)) \<and> (\<forall>c. silent (c_Task cl c)) \<and> (\<forall>c. silent (t_Status cl c)) \<and>
     (\<forall>c i a. silent (LoadProcess env c i a)) \<and> (\<forall>p. silent (p_Wait env p)) \<and>
     (\<forall>p h w. silent (p_Resize env p h w) \<and> comes_back (p_Resize env p h w)) \<and>
     (\<forall>p. silent (effect (ForwardAllSignals env p))) \<and> appends (effect (StopCatch env)) \<and>
     (\<forall>p. appends (p_Start env p)) \<and> (\<forall>s. appends (receive env s))"

lemma conn_lawsD:
  assumes "conn_laws cl env"
  shows "silent (exec_getContainer cl cid)" "silent (c_Task cl c)" "silent (t_Status cl c)" "silent (LoadProcess env c i a)"
    "silent (p_Wait env p)" "silent (p_Resize env p h w)" "comes_back (p_Resize env p h w)"
    "silent (effect (ForwardAllSignals env p))" "appends (effect (StopCatch env))" "appends (p_Start env p)" "appends (receive env s)"
  using assms by (simp_all add: conn_laws_def)

lemma prepare_silent:
  assumes laws: "conn_laws cl env"
  shows "silent (exec_prepare cl env check cid pid)"
  unfolding exec_prepare_def loadExecInstance_def case_prod_beta
  by (intro silent.moves_rules conn_lawsD [OF laws]) (auto intro!: silent.moves_rules conn_lawsD [OF laws])

text \<open>The head of the response that the success callback writes.\<close>

definition success_head :: "'w hijack_env \<Rightarrow> http_req \<Rightarrow> 'a respw \<Rightarrow> string list" where
  "success_head he r rw =
     [checkUpgradeStatus (api_1_42 he) (map_of (req_header r) ''Upgrade'' \<noteq> None), header_lines (w_header rw), crlf]"

lemma run_out:
  assumes laws: "conn_laws cl env"
  shows "prefix (conn_out w @ [s, header_lines h, crlf]) (conn_out (snd (exec_run env check (Some (print_success s h)) p ch w)))"
proof -
  let ?rest = "and_then (p_Start env p) (\<lambda>_. if es_Detach check then ret () else and_then (receive env ch) (\<lambda>(code, err).
      case err of Some e \<Rightarrow> fail e
      | None \<Rightarrow> if code \<noteq> 0 then fail (ErrMsg (''exec failed with exit code '' @ Itoa (int code))) else ret ()))"
  have rest: "appends ?rest"
    by (auto simp: case_prod_beta intro!: appends.moves_rules conn_lawsD [OF laws] split: option.splits)
  let ?v = "w\<lparr>conn_out := conn_out w @ [s, header_lines h, crlf], attachHeaderWritten := True\<rparr>"
  have "exec_run env check (Some (print_success s h)) p ch w = ?rest ?v"
    unfolding exec_run_def option.case by (subst and_then_Ok [of _ _ "()" ?v]) (simp_all add: print_success_def conn_write_def and_then_def)
  moreover have "prefix (conn_out ?v) (conn_out (snd (?rest ?v)))"
    using rest unfolding moves_def by blast
  ultimately show ?thesis by simp
qed

lemma defer_prefix:
  assumes "appends c" "prefix out (conn_out (snd (m w)))"
  shows "prefix out (conn_out (snd (defer_cleanup (Some c) m w)))"
proof -
  obtain r v where m: "m w = (r, v)" by fastforce
  have "prefix (conn_out v) (conn_out (snd (c v)))" using assms(1) by (simp add: moves_def)
  with assms(2) m show ?thesis
    by (cases r) (auto simp: defer_cleanup_def intro: prefix_order.trans)
qed

lemma or_else_prefix:
  assumes "\<And>e. appends (h e)" "\<And>x. appends (k x)" "prefix out (conn_out (snd (m w)))"
  shows "prefix out (conn_out (snd (or_else m h k w)))"
proof -
  obtain r v where m: "m w = (r, v)" by fastforce
  have "prefix (conn_out v) (conn_out (snd (h e v)))" "prefix (conn_out v) (conn_out (snd (k x v)))" for e x
    using assms(1,2) by (simp_all add: moves_def)
  with assms(3) m show ?thesis
    by (cases r) (auto simp: or_else_def intro: prefix_order.trans)
qed

lemma ignore_err_Ok:
  assumes "comes_back m"
  shows "\<exists>v. ignore_err m w = (Ok (), v)"
proof -
  obtain r v where m: "m w = (r, v)" by fastforce
  then have "(\<exists>x. r = Ok x) \<or> (\<exists>e. r = Err e)" using assms unfolding comes_back_def by (metis fst_conv)
  with m show ?thesis by (auto simp: ignore_err_def or_else_def ret_def)
qed

lemma start_out:
  assumes laws: "conn_laws cl env" and prep: "exec_prepare cl env check cid pid w = (Ok (p, ch), w1)" and attached: "\<not> es_Detach check"
  shows "prefix (conn_out w @ [s, header_lines h, crlf])
    (conn_out (snd (exec_Start cl env check cid pid (Some (print_success s h)) w)))"
proof -
  let ?resize = "case es_ConsoleSize check of
      Some (h, w) \<Rightarrow> if es_Tty check then ignore_err (p_Resize env p (uint32 (int w)) (uint32 (int h))) else ret ()
    | None \<Rightarrow> ret ()"
  have sil: "silent ?resize"
    by (auto intro!: silent.moves_rules conn_lawsD [OF laws] split: option.splits)
  have "\<exists>v. ?resize w1 = (Ok (), v)"
    using ignore_err_Ok [OF conn_lawsD(7) [OF laws]] by (simp add: ret_def split: option.splits)
  then obtain v where v: "?resize w1 = (Ok (), v)" by blast
  have w1: "conn_out w1 = conn_out w" using movesD [OF prepare_silent [OF laws] prep] by simp
  let ?v = "ForwardAllSignals env p v"
  have "conn_out ?v = conn_out w"
    using conn_lawsD(8) [OF laws, of p] w1 movesD [OF sil v] by (simp add: moves_def effect_def)
  moreover have "exec_Start cl env check cid pid (Some (print_success s h)) w =
      defer_cleanup (Some (effect (StopCatch env))) (exec_run env check (Some (print_success s h)) p ch) ?v"
    unfolding exec_Start_def and_then_Ok [of "exec_prepare cl env check cid pid" w, OF prep] prod.case if_not_P [OF attached]
      and_then_Ok [of ?resize w1, OF v]
    by (simp add: and_then_def effect_def)
  ultimately show ?thesis
    using defer_prefix [where m = "exec_run env check (Some (print_success s h)) p ch" and w = ?v, OF conn_lawsD(9) [OF laws] run_out [OF laws]]
    by simp
qed

text \<open>
  C29: An attached exec start answers on the hijacked connection only. Once the process can be started, the
  head of a successful response comes before everything else. When it cannot, the connection carries exactly one message,
  the HTTP error with its status; but it is sent through the framing for standard output, so that the client reads the
  frame's header where the status line should be.
\<close>

theorem exec_start_head:
  assumes laws: "conn_laws cl env" and id: "parseExecId (mux_var r ''id'') = Ok (cid, pid)" and attached: "\<not> es_Detach check"
    and conn: "is_Hijacker he" "Hijack he (w\<lparr>attachHeaderWritten := False\<rparr>) = (Ok (), v)" "conn_err he = None"
      "conn_out v = []" "\<not> attachHeaderWritten v"
    and prep: "exec_prepare cl env check cid pid v = (pr, v1)"
    and framed: "\<And>s. HasPrefix (frame he 1 s) [CHR 0x01]"
    and run: "exec_handler_start (daemon_exec cl env) he r (Some (Ok check)) rw w = (out, w')"
  shows "(\<forall>x. pr = Ok x \<longrightarrow> prefix (success_head he r rw) (conn_out w')) \<and>
    (\<forall>e. pr = Err e \<longrightarrow> out = Ok rw \<and> conn_closed w' \<and> conn_out w' = [frame he 1 (error_head he (conflict_code e) e)] \<and>
       \<not> HasPrefix (concat (conn_out w')) ''HTTP/1.1'')"
proof -
  let ?s = "checkUpgradeStatus (api_1_42 he) (map_of (req_header r) ''Upgrade'' \<noteq> None)"
  let ?start = "exec_Start cl env check cid pid (Some (print_success ?s (w_header rw)))"
  let ?body = "or_else ?start (\<lambda>err w. and_then (conn_write (frame he 1 (if \<not> attachHeaderWritten w then error_head he (conflict_code err) err
                                                            else Error err @ crlf))) (\<lambda>_. ret rw) w) (\<lambda>_. ret rw)"
  have eq: "(out, w') = defer_cleanup (Some closeStreams) ?body v"
    using id attached conn unfolding run [symmetric]
    by (simp add: exec_handler_start_def start_attached_def daemon_exec_def parsed_def or_else_Ok Let_def)
  have close: "appends closeStreams" by (simp add: moves_def closeStreams_def)
  have app: "appends (\<lambda>w. and_then (conn_write (f w)) (\<lambda>_. ret rw) w)" for f
    by (simp add: moves_def and_then_def conn_write_def ret_def)
  show ?thesis
  proof (intro conjI allI impI)
    fix x assume ok: "pr = Ok x"
    obtain p ch where x: "x = (p, ch)" by fastforce
    have "prefix (success_head he r rw) (conn_out (snd (?start v)))"
      using start_out [OF laws prep [unfolded ok x] attached, of ?s "w_header rw"] conn(4) by (simp add: success_head_def)
    then have "prefix (success_head he r rw) (conn_out (snd (?body v)))"
      by (intro or_else_prefix app appends.moves_io)
    from defer_prefix [where m = ?body and w = v, OF close this] show "prefix (success_head he r rw) (conn_out w')"
      unfolding eq [symmetric] by simp
  next
    fix e assume err: "pr = Err e"
    have v1: "conn_out v1 = []" "\<not> attachHeaderWritten v1"
      using movesD [OF prepare_silent [OF laws] prep] conn by simp_all
    have "?start v = (Err e, v1)"
      using prep err by (simp add: exec_Start_def and_then_def)
    then have "(out, w') = (Ok rw, v1\<lparr>conn_out := [frame he 1 (error_head he (conflict_code e) e)], conn_closed := True\<rparr>)"
      unfolding eq using v1 by (simp add: defer_cleanup_def or_else_def and_then_def conn_write_def ret_def closeStreams_def)
    moreover have "\<not> HasPrefix (frame he 1 s) ''HTTP/1.1''" for s
      using framed [of s] by (cases "frame he 1 s") (auto simp: HasPrefix_def)
    ultimately show "out = Ok rw" "conn_closed w'" "conn_out w' = [frame he 1 (error_head he (conflict_code e) e)]"
      "\<not> HasPrefix (concat (conn_out w')) ''HTTP/1.1''" by simp_all
  qed
qed

section \<open>Closing standard input\<close>

text \<open>
  A history of a \<open>StdinCloser\<close>: reads, each with the outcome the connection would give, and the moment at which \<open>Start\<close> sets the
  closer. The state counts the reads of the connection and the calls of the closer.
\<close>

datatype closer_event = SetCloser | DoRead "nat \<times> gerr option"

record closer_state =
  cs_set :: bool
  cs_closed :: bool
  cs_reads :: nat
  cs_closes :: nat

definition count_read :: "nat \<times> gerr option \<Rightarrow> (closer_state, nat \<times> gerr option) io" where
  "count_read r w = (Ok r, w\<lparr>cs_reads := Suc (cs_reads w)\<rparr>)"

definition count_close :: "(closer_state, unit) io" where
  "count_close w = (Ok (), w\<lparr>cs_closes := Suc (cs_closes w)\<rparr>)"

fun closer_step :: "closer_event \<Rightarrow> closer_state \<Rightarrow> closer_state" where
  "closer_step SetCloser w = w\<lparr>cs_set := True\<rparr>"
| "closer_step (DoRead r) w =
     (case StdinCloser_Read (count_read r) (if cs_set w then Some count_close else None) (cs_closed w) w of
        (Ok (_, closed), w') \<Rightarrow> w'\<lparr>cs_closed := closed\<rparr>
      | (_, w') \<Rightarrow> w')"

definition closer_init :: closer_state where
  "closer_init = \<lparr>cs_set = False, cs_closed = False, cs_reads = 0, cs_closes = 0\<rparr>"

definition failing_read :: "closer_event \<Rightarrow> bool" where
  "failing_read ev \<longleftrightarrow> (\<exists>n e. ev = DoRead (n, Some e))"

lemma closer_step_read:
  "closer_step (DoRead (n, err)) w =
     (if cs_closed w then w
      else if err \<noteq> None \<and> cs_set w then w\<lparr>cs_reads := Suc (cs_reads w), cs_closes := Suc (cs_closes w), cs_closed := True\<rparr>
      else w\<lparr>cs_reads := Suc (cs_reads w)\<rparr>)"
  by (auto simp: StdinCloser_Read_def count_read_def count_close_def and_then_def ret_def split: option.splits)

text \<open>Once closed, nothing changes but that the closer may be set again.\<close>

lemma closed_stays:
  "cs_closed w \<Longrightarrow> \<exists>b. fold closer_step evs w = w\<lparr>cs_set := b\<rparr>"
proof (induction evs arbitrary: w)
  case Nil
  then show ?case by (intro exI [of _ "cs_set w"]) simp
next
  case (Cons ev evs)
  show ?case
  proof (cases ev)
    case SetCloser
    then show ?thesis using Cons.IH [of "w\<lparr>cs_set := True\<rparr>"] Cons.prems by auto
  next
    case (DoRead r)
    then have "closer_step ev w = w" using Cons.prems by (cases r) (simp only: closer_step_read if_True)
    then show ?thesis using Cons by simp
  qed
qed

lemma no_failure:
  "\<not> cs_closed w \<Longrightarrow> \<forall>ev\<in>set evs. \<not> (cs_set w \<and> failing_read ev) \<and> ev \<noteq> SetCloser \<Longrightarrow>
   fold closer_step evs w = w\<lparr>cs_reads := cs_reads w + length evs\<rparr>"
proof (induction evs arbitrary: w)
  case (Cons ev evs)
  then obtain r where ev: "ev = DoRead r" by (cases ev) auto
  obtain n err where r: "r = (n, err)" by fastforce
  have "closer_step ev w = w\<lparr>cs_reads := Suc (cs_reads w)\<rparr>"
    using Cons.prems unfolding ev r closer_step_read by (auto simp: failing_read_def)
  then show ?case using Cons.IH [of "w\<lparr>cs_reads := Suc (cs_reads w)\<rparr>"] Cons.prems by simp
qed simp

text \<open>
  C28: The input of a process is closed at the first read that fails after the closer has been set, once, and the
  connection is not read after that. A failure before the closer is set closes nothing.
\<close>

theorem stdin_closed_once:
  assumes "\<forall>ev\<in>set before. ev \<noteq> SetCloser" "\<forall>ev\<in>set good. ev \<noteq> SetCloser \<and> \<not> failing_read ev"
  shows "cs_closes (fold closer_step (before @ SetCloser # good) closer_init) = 0 \<and>
    (let w = fold closer_step (before @ SetCloser # good @ DoRead (n, Some e) # after) closer_init
     in cs_closes w = 1 \<and> cs_closed w \<and> cs_reads w = length before + length good + 1)"
proof -
  let ?w = "closer_init\<lparr>cs_set := True, cs_reads := length before + length good\<rparr>"
  have "fold closer_step before closer_init = closer_init\<lparr>cs_reads := length before\<rparr>"
    using no_failure [of closer_init before] assms(1) by (simp add: closer_init_def)
  moreover have "fold closer_step good (closer_init\<lparr>cs_reads := length before, cs_set := True\<rparr>) = ?w"
    using no_failure [of "closer_init\<lparr>cs_reads := length before, cs_set := True\<rparr>" good] assms(2) by (simp add: closer_init_def)
  ultimately have pre: "fold closer_step (before @ SetCloser # good) closer_init = ?w" by simp
  obtain b where "fold closer_step after (closer_step (DoRead (n, Some e)) ?w) = (closer_step (DoRead (n, Some e)) ?w)\<lparr>cs_set := b\<rparr>"
    using closed_stays [of "closer_step (DoRead (n, Some e)) ?w" after] by (auto simp: closer_step_read closer_init_def simp del: closer_step.simps(2))
  with pre show ?thesis
    by (simp add: closer_step_read closer_init_def del: closer_step.simps(2))
qed

theorem stdin_closed_once_witness:
  "cs_closes (fold closer_step [DoRead (0, Some (ErrMsg ''EOF'')), SetCloser, DoRead (5, None),
      DoRead (0, Some (ErrMsg ''EOF'')), DoRead (3, None)] closer_init) = 1"
  using stdin_closed_once [of "[DoRead (0, Some (ErrMsg ''EOF''))]" "[DoRead (5, None)]" 0 "ErrMsg ''EOF''" "[DoRead (3, None)]"]
  by (simp add: failing_read_def Let_def del: fold_simps)

section \<open>Witnesses\<close>

text \<open>One container whose task has the given status, or none, and a containerd that runs every process without output.\<close>

definition one_task :: "ProcessStatus option \<Rightarrow> ('w, unit) containerd_client" where
  "one_task st = \<lparr>L_Name = [], L_Networks = [], L_MACAddress = [], L_IPAddress = [], L_Ports = [], c_ID = (\<lambda>_. ''abc''),
     Containers = (\<lambda>_. ret [()]),
     c_Task = (\<lambda>_. case st of Some _ \<Rightarrow> ret 7 | None \<Rightarrow> fail (ErrExt [XNotFound] ''no task'')),
     t_Status = (\<lambda>_. case st of Some s \<Rightarrow> ret s | None \<Rightarrow> fail (ErrExt [XNotFound] ''no task'')),
     c_Labels = (\<lambda>_. ret []), c_SetLabels = (\<lambda>_ _. ret ()), c_Annotations = (\<lambda>_. ret None), c_Update = (\<lambda>_ _ _. ret ()),
     c_ImageName = (\<lambda>_. ret []), cu_ContainerStatus = (\<lambda>_. ret Running)\<rparr>"

definition a_process :: spec_process where
  "a_process = \<lparr>sp_Terminal = False, sp_ConsoleSize = None, sp_UID = 0, sp_GID = 0, sp_AdditionalGids = [], sp_Args = [], sp_Env = [],
     sp_Cwd = ''/'', sp_Capabilities = None\<rparr>"

definition quiet_env :: "('w, unit, unit, unit, unit) exec_env" where
  "quiet_env = \<lparr>x_Spec = (\<lambda>_. ret (Some a_process)), x_Info = (\<lambda>_. ret ()), OCISpecWithUser = (\<lambda>_ _. ret), OCISpecWithAdditionalGIDs = (\<lambda>_ _. ret),
     ReplaceOrAppendEnvValues = (\<lambda>xs ys. xs @ ys), GetCurrentCapabilities = ret [], idgen = ret ''123'', FIFODir = ''/run'',
     NewFIFOSetInDir = (\<lambda>_ _ tty. ret \<lparr>ff_Terminal = tty, ff_Stdin = ''i'', ff_Stdout = ''o'', ff_Stderr = ''e''\<rparr>), NewDirectCIO = (\<lambda>_. ret ()),
     t_Exec = (\<lambda>_ _ _ _. ret ()), LoadProcess = (\<lambda>_ _ _. ret ()), p_ID = (\<lambda>_. ''exec-123''), p_Pid = (\<lambda>_. 8), p_Status = (\<lambda>_. ret (Running, 0)),
     p_IO = (\<lambda>_. None), p_Resize = (\<lambda>_ _ _. ret ()), p_Wait = (\<lambda>_. ret ()), p_Start = (\<lambda>_. ret ()), receive = (\<lambda>_. ret (0, None)),
     ForwardAllSignals = (\<lambda>_ w. w), StopCatch = (\<lambda>w. w)\<rparr>"

definition sh_config :: ExecConfig where
  "sh_config = \<lparr>ec_User = [], ec_Privileged = False, ec_Tty = False, ec_ConsoleSize = None, ec_AttachStdin = False, ec_AttachStderr = True,
     ec_AttachStdout = True, ec_Detach = False, ec_DetachKeys = [], ec_Env = [], ec_WorkingDir = [], ec_Cmd = [''sh'']\<rparr>"

lemma one_task_found: "getContainer (one_task st) cid w = (Ok (), w)" "exec_getContainer (one_task st) cid = ret ()"
  by (simp_all add: getContainer_def exec_getContainer_def SearchContainer_def one_task_def and_then_def pick_container_def ret_def fun_eq_iff)

lemma sh_spec: "generateExecProcessSpec quiet_env c sh_config w = (Ok (a_process\<lparr>sp_Args := [''sh'']\<rparr>), w)"
  by (simp add: generateExecProcessSpec_def quiet_env_def sh_config_def generateUserOpts_def and_then_def ret_def with_process_def a_process_def Let_def)

lemma one_task_simps: "c_Task (one_task (Some s)) c = ret 7" "t_Status (one_task (Some s)) c = ret s"
  by (simp_all add: one_task_def)

lemma quiet_simps: "idgen quiet_env = ret ''123''" "t_Exec quiet_env c i p f = ret ()" "LoadProcess quiet_env c i a = ret ()"
  by (simp_all add: quiet_env_def)

lemmas sim_simps = one_task_found one_task_simps quiet_simps sh_spec or_else_def and_then_def ret_def fail_def

theorem exec_id_round_trip_witness:
  "\<exists>execID. HasPrefix execID ''exec-'' \<and> parseExecId ''abc/exec-123'' = Ok (''abc'', execID)"
proof -
  have "ExecCreate (one_task (Some Running)) quiet_env ''abc'' sh_config () = (Ok ''abc/exec-123'', ())"
    by (simp add: ExecCreate_def sim_simps Let_def)
  from exec_id_round_trip [OF this] show ?thesis by (simp add: sim_simps)
qed

theorem exec_create_requires_running_witness:
  "\<exists>rw'. handler_exec (ExecCreate (one_task (Some Paused)) quiet_env) \<lparr>vars = [(''id'', ''abc'')], query = [], req_header = []\<rparr>
      (Some (Ok sh_config)) (new_respw True) () = (Ok rw', ()) \<and> status_of rw' = Some 409"
  using exec_create_requires_running [of "\<lparr>vars = [(''id'', ''abc'')], query = [], req_header = []\<rparr>" "''abc''" "new_respw True"
      "one_task (Some Paused)" "()" "()" quiet_env sh_config "a_process\<lparr>sp_Args := [''sh'']\<rparr>" "Ok 7" "Ok Paused" False "''123''" "Ok ()" "()" "()"]
  by (simp add: new_respw_def sim_simps task_running_def)

lemma quiet_laws: "conn_laws (one_task st) quiet_env"
  unfolding conn_laws_def one_task_found
  by (simp add: one_task_def quiet_env_def moves_def comes_back_def ret_def fail_def effect_def split: option.splits)

definition demo_hijack :: "('w conn_world) hijack_env" where
  "demo_hijack = \<lparr>is_Hijacker = True, Hijack = (\<lambda>w. (Ok (), w\<lparr>conn_out := []\<rparr>)), conn_err = None,
     frame = (\<lambda>n s. CHR 0x01 # CHR 0x00 # CHR 0x00 # CHR 0x00 # CHR 0x00 # CHR 0x00 # CHR 0x00 # char_of (length s) # s),
     api_1_42 = True, marshal_error = Error, StatusText = (\<lambda>_. ''Conflict'')\<rparr>"

theorem exec_start_head_witness:
  "\<not> HasPrefix (concat (conn_out (snd (exec_handler_start (daemon_exec (one_task (Some Stopped)) quiet_env) demo_hijack
      \<lparr>vars = [(''id'', ''abc/exec-123'')], query = [], req_header = []\<rparr>
      (Some (Ok \<lparr>es_Detach = False, es_Tty = False, es_ConsoleSize = None\<rparr>)) (new_respw True :: unit respw)
      \<lparr>ambient = (), conn_out = [], conn_closed = False, attachHeaderWritten = False\<rparr>)))) ''HTTP/1.1''"
proof -
  let ?w = "\<lparr>ambient = (), conn_out = [], conn_closed = False, attachHeaderWritten = False\<rparr>"
  let ?check = "\<lparr>es_Detach = False, es_Tty = False, es_ConsoleSize = None\<rparr>"
  have "exec_prepare (one_task (Some Stopped)) quiet_env ?check ''abc'' ''exec-123'' ?w = (Err (not_running ''abc''), ?w)"
    by (simp add: exec_prepare_def loadExecInstance_def sim_simps)
  from exec_start_head [OF quiet_laws _ _ _ _ _ _ _ this, of "\<lparr>vars = [(''id'', ''abc/exec-123'')], query = [], req_header = []\<rparr>"
      demo_hijack ?w "new_respw True :: unit respw", OF _ _ _ _ _ _ _ _ prod.collapse [symmetric]]
  show ?thesis by (simp add: mux_var_def map_str_def parseExecId_def demo_hijack_def HasPrefix_def)
qed

end
