(* ===== verification/Logs.thy ===== *)
theory Logs
  imports Exec
begin

text \<open>
  Attaching to containers and reading their logs: \<open>attach.go\<close> and \<open>logs.go\<close> of \<open>src/internal/service/container\<close> and of
  \<open>src/api/handlers/container\<close>. Both are served by nerdctl's log viewer on a hijacked connection.

  The data store, the extensions of a container, its task and the log viewer are the record \<open>logs_env\<close>. The goroutine that stops
  the viewer when the task ends is only started here (\<open>go_watch\<close>); its messages come through the viewer.
\<close>

section \<open>Options\<close>

record AttachOptions =
  ao_UseStdin :: bool
  ao_UseStdout :: bool
  ao_UseStderr :: bool
  ao_Logs :: bool
  ao_Stream :: bool
  ao_MuxStreams :: bool

record LogsOptions =
  lg_Stdout :: bool
  lg_Stderr :: bool
  lg_Follow :: bool
  lg_Since :: int
  lg_Until :: int
  lg_Timestamps :: bool
  lg_Tail :: string
  lg_MuxStreams :: bool

text \<open>nerdctl's \<open>ContainerLogsOptions\<close>: a stream is nil, plain or multiplexed.\<close>

datatype log_stream = NoStream | PlainStream | FramedStream nat

record container_logs_options =
  cl_Stdout :: log_stream
  cl_Stderr :: log_stream
  cl_Follow :: bool
  cl_Timestamps :: bool
  cl_Tail :: nat
  cl_Since :: string
  cl_Until :: string

record log_view_options =
  lv_ContainerID :: string
  lv_Namespace :: string
  lv_DatastoreRootPath :: string
  lv_LogPath :: string
  lv_Follow :: bool
  lv_Timestamps :: bool
  lv_Tail :: nat
  lv_Since :: string
  lv_Until :: string

record ('w, 'c, 'v) logs_env =
  L_Namespace :: string
  GetDataStore :: "('w, string) io"
  c_Metadata :: "'c \<Rightarrow> ('w, string option) io"
  UnmarshalMetadata :: "string \<Rightarrow> string res"
  t_Delete :: "'c \<Rightarrow> ('w, unit) io"
  GetContainerTaskWait :: "'c \<Rightarrow> ('w, unit) io"
  go_watch :: "'c \<Rightarrow> 'w \<Rightarrow> 'w"
  InitContainerLogViewer :: "string gomap \<Rightarrow> log_view_options \<Rightarrow> ('w, 'v) io"
  PrintLogsTo :: "log_stream \<Rightarrow> log_stream \<Rightarrow> 'v \<Rightarrow> ('w, unit) io"

section \<open>Services\<close>

definition getLogPath :: "('w, 'c) containerd_client \<Rightarrow> ('w, 'c, 'v) logs_env \<Rightarrow> 'c \<Rightarrow> ('w, string) io" where
  "getLogPath cl env con =
     or_else (c_Metadata env con)
       (\<lambda>err. fail (ErrMsg (''get extensions for container '' @ c_ID cl con @ '',failed: '' @ Error err)))
       (\<lambda>metaData. case metaData of
           None \<Rightarrow> ret []
         | Some v \<Rightarrow> or_else (lift_res (UnmarshalMetadata env v))
                      (\<lambda>err. fail (ErrMsg (''unmarshal extensions for container '' @ c_ID cl con @ '',failed: '' @ Error err))) ret)"

text \<open>What attaching does to a container that is not running: it does not follow, and the task of a stopped one is deleted.\<close>

definition settle :: "('w, 'c) containerd_client \<Rightarrow> ('w, 'c, 'v) logs_env \<Rightarrow> 'c \<Rightarrow> container_logs_options \<Rightarrow> ('w, container_logs_options) io" where
  "settle cl env con opts =
     and_then (GetContainerStatus cl con) (\<lambda>status.
       if status \<noteq> Running then
         (if status = Stopped
          then and_then (or_else (c_Task cl con) (\<lambda>_. ret ()) (\<lambda>_. ignore_err (t_Delete env con))) (\<lambda>_. ret (opts\<lparr>cl_Follow := False\<rparr>))
          else ret (opts\<lparr>cl_Follow := False\<rparr>))
       else ret opts)"

definition attachLogs :: "('w, 'c) containerd_client \<Rightarrow> ('w, 'c, 'v) logs_env \<Rightarrow> 'c \<Rightarrow> container_logs_options \<Rightarrow> ('w, unit) io \<Rightarrow> ('w, unit) io" where
  "attachLogs cl env con opts printSuccessResp =
     and_then (GetDataStore env) (\<lambda>dataStore.
     and_then (c_Labels cl con) (\<lambda>l.
     and_then (getLogPath cl env con) (\<lambda>logPath.
     and_then (settle cl env con opts) (\<lambda>opts.
     and_then
       (if cl_Follow opts
        then or_else (GetContainerTaskWait env con)
               (\<lambda>err. fail (ErrMsg (''failed to get wait channel for task: '' @ Error err))) (\<lambda>_. effect (go_watch env con))
        else ret ()) (\<lambda>_.
     and_then (InitContainerLogViewer env l
         \<lparr>lv_ContainerID = c_ID cl con, lv_Namespace = map_str l (L_Namespace env), lv_DatastoreRootPath = dataStore, lv_LogPath = logPath,
          lv_Follow = cl_Follow opts, lv_Timestamps = cl_Timestamps opts, lv_Tail = cl_Tail opts, lv_Since = cl_Since opts,
          lv_Until = cl_Until opts\<rparr>) (\<lambda>logViewer.
     and_then printSuccessResp (\<lambda>_. PrintLogsTo env (cl_Stdout opts) (cl_Stderr opts) logViewer)))))))"

definition pick_stream :: "bool \<Rightarrow> bool \<Rightarrow> nat \<Rightarrow> log_stream" where
  "pick_stream use mux n = (if \<not> use then NoStream else if mux then FramedStream n else PlainStream)"

text \<open>\<open>getStreams\<close> is the callback that gives the streams and the function printing the success response.\<close>

definition Attach :: "('w, 'c) containerd_client \<Rightarrow> ('w, 'c, 'v) logs_env \<Rightarrow> string \<Rightarrow> AttachOptions \<Rightarrow> ('w, ('w, unit) io) io \<Rightarrow> ('w, unit) io" where
  "Attach cl env cid opts getStreams =
     and_then (getContainer cl cid) (\<lambda>con.
     and_then getStreams (\<lambda>printSuccessResp.
       if \<not> ao_Stream opts \<and> \<not> ao_Logs opts then printSuccessResp
       else attachLogs cl env con
              \<lparr>cl_Stdout = pick_stream (ao_UseStdout opts) (ao_MuxStreams opts) 1, cl_Stderr = pick_stream (ao_UseStderr opts) (ao_MuxStreams opts) 2,
               cl_Follow = ao_Stream opts, cl_Timestamps = False, cl_Tail = 0, cl_Since = (if ao_Logs opts then [] else ''0s''), cl_Until = []\<rparr>
              printSuccessResp))"

definition parse_tail :: "string \<Rightarrow> nat res" where
  "parse_tail s =
     (if s \<noteq> ''all'' \<and> s \<noteq> [] then (case ParseUint 16 s of None \<Rightarrow> Err (ErrMsg (ParseUint_error 16 s)) | Some n \<Rightarrow> Ok n)
      else Ok 0)"

definition Logs :: "('w, 'c) containerd_client \<Rightarrow> ('w, 'c, 'v) logs_env \<Rightarrow> string \<Rightarrow> LogsOptions \<Rightarrow> ('w, ('w, unit) io) io \<Rightarrow> ('w, unit) io" where
  "Logs cl env cid opts getStreams =
     and_then (getContainer cl cid) (\<lambda>con.
     and_then getStreams (\<lambda>printSuccessResp.
     and_then (lift_res (parse_tail (lg_Tail opts))) (\<lambda>tail.
       let until = Itoa (lg_Until opts);
           until = (if until = ''0'' then [] else until)
       in attachLogs cl env con
            \<lparr>cl_Stdout = pick_stream (lg_Stdout opts) (lg_MuxStreams opts) 1, cl_Stderr = pick_stream (lg_Stderr opts) (lg_MuxStreams opts) 2,
             cl_Follow = lg_Follow opts, cl_Timestamps = lg_Timestamps opts, cl_Tail = tail, cl_Since = Itoa (lg_Since opts), cl_Until = until\<rparr>
            printSuccessResp)))"

section \<open>Handlers\<close>

definition container_checkUpgradeStatus :: "bool \<Rightarrow> bool \<Rightarrow> string \<times> string" where
  "container_checkUpgradeStatus api upgrade =
     (let contentType = (if upgrade \<and> api then ''application/vnd.docker.multiplexed-stream'' else ''application/vnd.docker.raw-stream'')
      in (contentType,
          if upgrade
          then ''HTTP/1.1 101 UPGRADED'' @ crlf @ ''Content-Type: '' @ contentType @ crlf @ ''Connection: Upgrade'' @ crlf @ ''Upgrade: tcp'' @ crlf @ crlf
          else ''HTTP/1.1 200 OK'' @ crlf @ ''Content-Type: application/vnd.docker.raw-stream'' @ crlf @ crlf))"

definition plain_error :: "'w hijack_env \<Rightarrow> string \<Rightarrow> gerr \<Rightarrow> string" where
  "plain_error he contentType err =
     (let statusCode = missing_code err
      in ''HTTP/1.1 '' @ Itoa statusCode @ '' '' @ StatusText he statusCode @ crlf @ ''Content-Type: '' @ contentType @ crlf @ crlf @
         Error err @ crlf)"

text \<open>\<open>checkConnection\<close> runs beside the handler: the closer and the closing of the connection only at end of file.\<close>

definition checkConnection :: "('w, bool) io \<Rightarrow> ('w, unit) io \<Rightarrow> ('w, unit) io \<Rightarrow> ('w, unit) io" where
  "checkConnection readEOF closer conn_Close =
     and_then readEOF (\<lambda>eof. if eof then and_then closer (\<lambda>_. conn_Close) else ret ())"

text \<open>The two handlers share all but the options, the call of the service and the success response.\<close>

definition on_connection :: "('w conn_world) hijack_env \<Rightarrow> (('w conn_world, unit) io \<Rightarrow> ('w conn_world, unit) io) \<Rightarrow> string \<times> string \<Rightarrow>
    ('w conn_world, 'a) handler" where
  "on_connection he call types rw =
     (if \<not> is_Hijacker he then ret (JSON 400 (CErr (NewErrorFromMsg ''the response writer is not a http.Hijacker'')) rw)
      else or_else (Hijack he) (\<lambda>err. ret (JSON 500 (CErr (NewError err)) rw)) (\<lambda>_.
        case conn_err he of
          Some err \<Rightarrow> ret (JSON 500 (CErr (NewError err)) rw)
        | None \<Rightarrow>
            (let (contentType, successResponse) = types
             in and_then
                  (or_else (call (conn_write successResponse)) (\<lambda>err. conn_write (plain_error he contentType err)) (\<lambda>_. ret ()))
                  (\<lambda>_. and_then closeStreams (\<lambda>_. ret rw)))))"

definition handler_attach :: "(string \<Rightarrow> AttachOptions \<Rightarrow> ('w conn_world, ('w conn_world, unit) io) io \<Rightarrow> ('w conn_world, unit) io) \<Rightarrow>
    (http_req \<Rightarrow> string \<Rightarrow> bool) \<Rightarrow> ('w conn_world) hijack_env \<Rightarrow> http_req \<Rightarrow> ('w conn_world, 'a) handler" where
  "handler_attach svc_Attach BoolValue he r =
     on_connection he
       (\<lambda>success. svc_Attach (mux_var r ''id'')
          \<lparr>ao_UseStdin = BoolValue r ''stdin'', ao_UseStdout = BoolValue r ''stdout'', ao_UseStderr = BoolValue r ''stderr'',
           ao_Logs = BoolValue r ''logs'', ao_Stream = BoolValue r ''stream'', ao_MuxStreams = True\<rparr> (ret success))
       (container_checkUpgradeStatus (api_1_42 he) (map_of (req_header r) ''Upgrade'' \<noteq> None))"

definition logs_options :: "(http_req \<Rightarrow> string \<Rightarrow> bool) \<Rightarrow> (http_req \<Rightarrow> string \<Rightarrow> bool \<Rightarrow> bool) \<Rightarrow> (http_req \<Rightarrow> string \<Rightarrow> int) \<Rightarrow>
    (http_req \<Rightarrow> string \<Rightarrow> string) \<Rightarrow> http_req \<Rightarrow> LogsOptions" where
  "logs_options BoolValue BoolValueOrDefault Int64ValueOrZero Form_Get r =
     \<lparr>lg_Stdout = BoolValue r ''stdout'', lg_Stderr = BoolValue r ''stderr'', lg_Follow = BoolValueOrDefault r ''follow'' False,
      lg_Since = Int64ValueOrZero r ''since'', lg_Until = Int64ValueOrZero r ''until'',
      lg_Timestamps = BoolValueOrDefault r ''timestamps'' False, lg_Tail = Form_Get r ''tail'', lg_MuxStreams = True\<rparr>"

definition handler_logs :: "(string \<Rightarrow> LogsOptions \<Rightarrow> ('w conn_world, ('w conn_world, unit) io) io \<Rightarrow> ('w conn_world, unit) io) \<Rightarrow>
    (http_req \<Rightarrow> string \<Rightarrow> bool) \<Rightarrow> (http_req \<Rightarrow> string \<Rightarrow> bool \<Rightarrow> bool) \<Rightarrow> (http_req \<Rightarrow> string \<Rightarrow> int) \<Rightarrow> (http_req \<Rightarrow> string \<Rightarrow> string) \<Rightarrow>
    ('w conn_world) hijack_env \<Rightarrow> http_req \<Rightarrow> ('w conn_world, 'a) handler" where
  "handler_logs svc_Logs BoolValue BoolValueOrDefault Int64ValueOrZero Form_Get he r rw =
     (if \<not> (BoolValue r ''stdout'' \<or> BoolValue r ''stderr'')
      then ret (JSON 400 (CErr (NewErrorFromMsg ''you must choose at least one stream'')) rw)
      else on_connection he
        (\<lambda>success. svc_Logs (mux_var r ''id'') (logs_options BoolValue BoolValueOrDefault Int64ValueOrZero Form_Get r) (ret success))
        (container_checkUpgradeStatus (api_1_42 he) False) rw)"

section \<open>What is sent on the connection\<close>

definition logs_laws :: "('w conn_world, 'c) containerd_client \<Rightarrow> ('w conn_world, 'c, 'v) logs_env \<Rightarrow> bool" where
  "logs_laws cl env \<longleftrightarrow>
     (\<forall>cid. silent (getContainer cl cid)) \<and> (\<forall>c. silent (c_Labels cl c)) \<and> (\<forall>c. silent (c_Task cl c)) \<and> (\<forall>c. silent (t_Status cl c)) \<and>
     silent (GetDataStore env) \<and> (\<forall>c. silent (c_Metadata env c)) \<and> (\<forall>c. silent (t_Delete env c)) \<and>
     (\<forall>c. silent (GetContainerTaskWait env c)) \<and> (\<forall>c. silent (effect (go_watch env c))) \<and>
     (\<forall>l vo. silent (InitContainerLogViewer env l vo)) \<and> (\<forall>a b v. appends (PrintLogsTo env a b v))"

lemma logs_lawsD:
  assumes "logs_laws cl env"
  shows "silent (getContainer cl cid)" "silent (c_Labels cl c)" "silent (c_Task cl c)" "silent (t_Status cl c)" "silent (GetDataStore env)"
    "silent (c_Metadata env c)" "silent (t_Delete env c)" "silent (GetContainerTaskWait env c)" "silent (effect (go_watch env c))"
    "silent (InitContainerLogViewer env l vo)" "appends (PrintLogsTo env a b v)"
  using assms by (simp_all add: logs_laws_def)

text \<open>Either nothing has been written and the call did not succeed, or the success response came first.\<close>

definition headed :: "string \<Rightarrow> 'w conn_world \<Rightarrow> 'a res \<times> 'w conn_world \<Rightarrow> bool" where
  "headed s w out \<longleftrightarrow>
     conn_out (snd out) = conn_out w \<and> (\<forall>x. fst out \<noteq> Ok x) \<or> prefix (conn_out w @ [s]) (conn_out (snd out))"

lemma headed_and_then:
  assumes "silent m" "\<And>x w. headed s w (k x w)"
  shows "headed s w (and_then m k w)"
proof -
  obtain r v where m: "m w = (r, v)" by fastforce
  then have "conn_out v = conn_out w" using movesD [OF assms(1) m] by simp
  with m assms(2) [of v] show ?thesis by (cases r) (auto simp: and_then_def headed_def)
qed

lemma headed_success:
  assumes "appends m"
  shows "headed s w (and_then (conn_write s) (\<lambda>_. m) w)"
proof -
  have "prefix (conn_out (w\<lparr>conn_out := conn_out w @ [s]\<rparr>)) (conn_out (snd (m (w\<lparr>conn_out := conn_out w @ [s]\<rparr>))))"
    using assms unfolding moves_def by blast
  then show ?thesis by (simp add: headed_def and_then_def conn_write_def)
qed

lemma settle_silent: "logs_laws cl env \<Longrightarrow> silent (settle cl env con opts)"
  unfolding settle_def GetContainerStatus_def
  by (intro silent.moves_rules) (auto intro!: silent.moves_rules logs_lawsD)

lemma getLogPath_silent: "logs_laws cl env \<Longrightarrow> silent (getLogPath cl env con)"
  unfolding getLogPath_def
  by (auto intro!: silent.moves_rules logs_lawsD split: option.splits)

lemma headed_attachLogs:
  assumes laws: "logs_laws cl env"
  shows "headed s w (attachLogs cl env con opts (conn_write s) w)"
  unfolding attachLogs_def
  by (intro headed_and_then headed_success logs_lawsD [OF laws] settle_silent [OF laws] getLogPath_silent [OF laws])
    (auto intro!: silent.moves_rules logs_lawsD [OF laws])

lemma headed_Logs:
  assumes laws: "logs_laws cl env"
  shows "headed s w (Logs cl env cid opts (ret (conn_write s)) w)"
  unfolding Logs_def Let_def and_then_ret
  by (intro headed_and_then headed_attachLogs [OF laws] logs_lawsD [OF laws] silent.moves_io)

lemma headed_Attach:
  assumes laws: "logs_laws cl env"
  shows "headed s w (Attach cl env cid opts (ret (conn_write s)) w)"
proof -
  have "headed s w (conn_write s w)" for w :: "'a conn_world" by (simp add: headed_def conn_write_def)
  then show ?thesis
    unfolding Attach_def and_then_ret
    by (intro headed_and_then logs_lawsD [OF laws]) (simp add: headed_attachLogs [OF laws])
qed

lemma on_connection_out:
  assumes conn: "is_Hijacker he" "Hijack he w = (Ok (), v)" "conn_err he = None"
    and call: "call (conn_write s) v = (sr, v1)"
    and run: "on_connection he call (ct, s) rw w = (Ok rw', w')"
  shows "rw' = rw \<and> conn_closed w' \<and> conn_out w' = conn_out v1 @ (case sr of Err e \<Rightarrow> [plain_error he ct e] | _ \<Rightarrow> [])"
  using run conn call
  by (cases sr) (auto simp: on_connection_def or_else_def and_then_def closeStreams_def conn_write_def ret_def)

text \<open>
  C30: Reading logs answers on the hijacked connection, which begins with a status line and is closed at the
  end. If the log viewer cannot be set up, the error is the only message. Otherwise the success response comes first and the log after it;
  an error of the viewer is then written behind the log, as a second status line with a header of its own.
\<close>

theorem logs_on_connection:
  assumes laws: "logs_laws cl env"
    and conn: "is_Hijacker he" "Hijack he w = (Ok (), v)" "conn_err he = None" "conn_out v = []"
    and streams: "BV r ''stdout'' \<or> BV r ''stderr''"
    and types: "container_checkUpgradeStatus (api_1_42 he) False = (ct, success)"
    and call: "Logs cl env (mux_var r ''id'') (logs_options BV BD IV FG r) (ret (conn_write success)) v = (sr, v1)"
    and run: "handler_logs (Logs cl env) BV BD IV FG he r rw w = (Ok rw', w')"
  shows "rw' = rw \<and> conn_closed w' \<and>
    conn_out w' = conn_out v1 @ (case sr of Err e \<Rightarrow> [plain_error he ct e] | _ \<Rightarrow> []) \<and>
    (conn_out v1 = [] \<and> (\<exists>e. sr = Err e) \<or> prefix [success] (conn_out v1)) \<and>
    HasPrefix (concat (conn_out w')) ''HTTP/1.1 ''"
proof -
  have s: "HasPrefix success ''HTTP/1.1 ''" using types by (auto simp: container_checkUpgradeStatus_def HasPrefix_def)
  have e: "HasPrefix (plain_error he ct e) ''HTTP/1.1 ''" for e by (simp add: plain_error_def HasPrefix_def Let_def)
  have run': "on_connection he (\<lambda>success. Logs cl env (mux_var r ''id'') (logs_options BV BD IV FG r) (ret success)) (ct, success) rw w = (Ok rw', w')"
    using run streams types by (auto simp: handler_logs_def)
  note out = on_connection_out [OF conn(1-3) call run']
  have "sr = Ok () \<or> (\<exists>e. sr = Err e)"
    using run' conn call by (cases sr) (simp_all add: on_connection_def or_else_def and_then_def)
  moreover have "conn_out v1 = [] \<and> (\<forall>x. sr \<noteq> Ok x) \<or> prefix [success] (conn_out v1)"
    using headed_Logs [OF laws, of success v "mux_var r ''id''" "logs_options BV BD IV FG r"] unfolding headed_def call by (simp add: conn(4))
  ultimately have head: "conn_out v1 = [] \<and> (\<exists>e. sr = Err e) \<or> prefix [success] (conn_out v1)" by auto
  moreover have "HasPrefix (concat (conn_out w')) ''HTTP/1.1 ''"
    using head out s e by (auto simp: HasPrefix_iff prefix_def)
  ultimately show ?thesis using out by blast
qed

section \<open>Side effects of reading logs\<close>

text \<open>
  Logs are followed only while the container runs. Reading the logs of a stopped container deletes its task, and from then on the
  daemon takes the container for one that was created and never started.
\<close>

theorem logs_of_stopped:
  assumes task: "c_Task cl con w = (Ok pid, w)" and status: "t_Status cl con w = (Ok st, w)"
    and delete: "t_Delete env con w = (Ok (), w1)" "c_Task cl con w1 = (Err e, w1)" "cerr_IsNotFound e"
  shows "settle cl env con opts w =
      (Ok (if st = Running then opts else opts\<lparr>cl_Follow := False\<rparr>), if st = Stopped then w1 else w) \<and>
    (st = Stopped \<longrightarrow> GetContainerStatus cl con w = (Ok Stopped, w) \<and>
      GetContainerStatus cl con (snd (settle cl env con opts w)) = (Ok Created, w1))"
  using assms by (auto simp: settle_def GetContainerStatus_def or_else_def and_then_def ret_def ignore_err_def)

text \<open>
  The number of lines of a logs request is handed on unchanged if it is less than \<open>65536\<close> and is an error
  otherwise; but no lines at all, \<open>tail=0\<close>, cannot be asked for, it means the whole log.
\<close>

theorem logs_tail_bounds:
  "(if n < 65536 then parse_tail (dec_digits n) = Ok n else \<exists>e. parse_tail (dec_digits n) = Err e) \<and>
   parse_tail (dec_digits 0) = parse_tail ''all''"
proof -
  have "\<not> list_all is_digit ''all''" by (simp add: is_digit_def)
  then have "dec_digits n \<noteq> ''all''" using dec_digits_digits [of n] by metis
  then show ?thesis by (auto simp: parse_tail_def ParseUint_def is_digit_def)
qed

section \<open>Witnesses\<close>

text \<open>A log viewer that prints one line and then fails.\<close>

definition failing_viewer :: "('w conn_world, unit, unit) logs_env" where
  "failing_viewer = \<lparr>L_Namespace = ''nerdctl/namespace'', GetDataStore = ret ''/var'', c_Metadata = (\<lambda>_. ret None), UnmarshalMetadata = Ok,
     t_Delete = (\<lambda>_. ret ()), GetContainerTaskWait = (\<lambda>_. ret ()), go_watch = (\<lambda>_ w. w), InitContainerLogViewer = (\<lambda>_ _. ret ()),
     PrintLogsTo = (\<lambda>_ _ _. and_then (conn_write ''line'') (\<lambda>_. fail (ErrMsg ''read error'')))\<rparr>"

lemma viewer_laws: "logs_laws (one_task st) failing_viewer"
  unfolding logs_laws_def one_task_found failing_viewer_def
  by (auto simp: one_task_found moves_def one_task_def effect_def ret_def fail_def and_then_def conn_write_def split: option.splits)

lemma viewer_simps: "GetDataStore failing_viewer = ret ''/var''" "c_Metadata failing_viewer c = ret None"
  "InitContainerLogViewer failing_viewer l vo = ret ()"
  "PrintLogsTo failing_viewer a b x = and_then (conn_write ''line'') (\<lambda>_. fail (ErrMsg ''read error''))"
  by (simp_all add: failing_viewer_def)

lemma viewer_call:
  "Logs (one_task None) failing_viewer cid (logs_options (\<lambda>_ _. True) (\<lambda>_ _ d. d) (\<lambda>_ _. 0) (\<lambda>_ _. []) r) (ret (conn_write s)) v =
     (Err (ErrMsg ''read error''), v\<lparr>conn_out := conn_out v @ [s, ''line'']\<rparr>)"
proof -
  have st: "GetContainerStatus (one_task None) c v = (Ok Created, v)" for c
    by (simp add: GetContainerStatus_def or_else_def one_task_def ret_def fail_def cerr_IsNotFound_def)
  have lab: "c_Labels (one_task None) c = ret []" for c by (simp add: one_task_def)
  show ?thesis
    by (simp add: Logs_def logs_options_def parse_tail_def Let_def attachLogs_def settle_def getLogPath_def viewer_simps
        and_then_def or_else_def one_task_found st lab ret_def conn_write_def fail_def)
qed

theorem logs_on_connection_witness:
  "\<exists>w'. snd (handler_logs (Logs (one_task None) failing_viewer) (\<lambda>_ _. True) (\<lambda>_ _ d. d) (\<lambda>_ _. 0) (\<lambda>_ _. []) demo_hijack
      \<lparr>vars = [(''id'', ''abc'')], query = [], req_header = []\<rparr> (new_respw True :: unit respw)
      \<lparr>ambient = (), conn_out = [], conn_closed = False, attachHeaderWritten = False\<rparr>) = w' \<and>
    length (filter (\<lambda>s. HasPrefix s ''HTTP/1.1 '') (conn_out w')) = 2 \<and> conn_closed w'"
proof -
  let ?w = "\<lparr>ambient = (), conn_out = [], conn_closed = False, attachHeaderWritten = False\<rparr>"
  let ?r = "\<lparr>vars = [(''id'', ''abc'')], query = [], req_header = []\<rparr>"
  obtain ct s where types: "container_checkUpgradeStatus (api_1_42 (demo_hijack :: unit conn_world hijack_env)) False = (ct, s)" by fastforce
  have s: "HasPrefix s ''HTTP/1.1 ''" using types by (auto simp: container_checkUpgradeStatus_def HasPrefix_def)
  have hj: "is_Hijacker (demo_hijack :: unit conn_world hijack_env)" "Hijack demo_hijack ?w = (Ok (), ?w)"
    "conn_err (demo_hijack :: unit conn_world hijack_env) = None" by (simp_all add: demo_hijack_def)
  let ?run = "handler_logs (Logs (one_task None) failing_viewer) (\<lambda>_ _. True) (\<lambda>_ _ d. d) (\<lambda>_ _. 0) (\<lambda>_ _. []) demo_hijack ?r (new_respw True :: unit respw) ?w"
  have "\<exists>w'. ?run = (Ok (new_respw True), w')"
    using hj types
    by (simp add: handler_logs_def on_connection_def or_else_Ok or_else_Err viewer_call)
      (simp add: and_then_def or_else_def viewer_call, simp add: conn_write_def closeStreams_def ret_def and_then_def)
  then obtain w' where run: "?run = (Ok (new_respw True), w')" by blast
  from logs_on_connection [OF viewer_laws hj(1,2,3) _ _ types viewer_call run]
  have "conn_out w' = [s, ''line'', plain_error (demo_hijack :: unit conn_world hijack_env) ct (ErrMsg ''read error'')]" "conn_closed w'" by simp_all
  with run s show ?thesis by (simp add: plain_error_def HasPrefix_def Let_def)
qed

definition deletable :: "(bool, unit) containerd_client" where
  "deletable = (one_task (Some Stopped))\<lparr>c_Task := (\<lambda>_ w. (if w then Ok 7 else Err (ErrExt [XNotFound] ''no task''), w))\<rparr>"

definition deleting_env :: "(bool, unit, unit) logs_env" where
  "deleting_env = \<lparr>L_Namespace = [], GetDataStore = ret [], c_Metadata = (\<lambda>_. ret None), UnmarshalMetadata = Ok,
     t_Delete = (\<lambda>_ w. (Ok (), False)), GetContainerTaskWait = (\<lambda>_. ret ()), go_watch = (\<lambda>_ w. w), InitContainerLogViewer = (\<lambda>_ _. ret ()),
     PrintLogsTo = (\<lambda>_ _ _. ret ())\<rparr>"

theorem logs_of_stopped_witness:
  "GetContainerStatus deletable () True = (Ok Stopped, True) \<and>
   GetContainerStatus deletable () (snd (settle deletable deleting_env ()
     \<lparr>cl_Stdout = PlainStream, cl_Stderr = NoStream, cl_Follow = True, cl_Timestamps = False, cl_Tail = 0, cl_Since = [], cl_Until = []\<rparr> True)) =
     (Ok Created, False)"
proof -
  have "c_Task deletable () True = (Ok 7, True)" "t_Status deletable () True = (Ok Stopped, True)" "t_Delete deleting_env () True = (Ok (), False)"
    "c_Task deletable () False = (Err (ErrExt [XNotFound] ''no task''), False)" "cerr_IsNotFound (ErrExt [XNotFound] ''no task'')"
    by (simp_all add: deletable_def one_task_def deleting_env_def ret_def cerr_IsNotFound_def)
  from logs_of_stopped [OF this] show ?thesis by blast
qed

end
