(* ===== verification/Stats.thy ===== *)
theory Stats
  imports Container_Api "HOL-Library.Word"
begin

text \<open>
  Container statistics: \<open>stats.go\<close> of \<open>src/internal/service/container\<close> and \<open>src/pkg/statsutil\<close>. Counters are 64-bit
  words, as in the source. The cgroup metrics that containerd reports, the clock, the netlink calls and the file
  \<open>/proc/stat\<close> are the record \<open>stats_env\<close>.
\<close>

type_synonym uint64 = "64 word"

section \<open>Statistics\<close>

record pids_stats = pids_Current :: uint64  pids_Limit :: uint64

record cpu_usage =
  TotalUsage :: uint64
  PercpuUsage :: "uint64 list"
  UsageInKernelmode :: uint64
  UsageInUsermode :: uint64

record CPUStats =
  CPUUsage :: cpu_usage
  SystemUsage :: uint64
  OnlineCPUs :: "32 word"

record memory_stats =
  ms_Usage :: uint64
  ms_MaxUsage :: uint64
  ms_Failcnt :: uint64
  ms_Limit :: uint64

record blkio_entry =
  be_Major :: uint64
  be_Minor :: uint64
  be_Op :: string
  be_Value :: uint64

record blkio_stats =
  IoServiceBytesRecursive :: "blkio_entry list"
  IoServicedRecursive :: "blkio_entry list"
  IoQueuedRecursive :: "blkio_entry list"
  IoServiceTimeRecursive :: "blkio_entry list"
  IoWaitTimeRecursive :: "blkio_entry list"
  IoMergedRecursive :: "blkio_entry list"
  IoTimeRecursive :: "blkio_entry list"
  SectorsRecursive :: "blkio_entry list"

record network_stats =
  RxBytes :: uint64
  RxPackets :: uint64
  RxErrors :: uint64
  RxDropped :: uint64
  TxBytes :: uint64
  TxPackets :: uint64
  TxErrors :: uint64
  TxDropped :: uint64

text \<open>Times are nanoseconds since the zero time.\<close>

record StatsJSON =
  st_Read :: int
  st_PreRead :: int
  st_PidsStats :: pids_stats
  st_BlkioStats :: blkio_stats
  st_CPUStats :: CPUStats
  st_PreCPUStats :: CPUStats
  st_MemoryStats :: memory_stats
  st_Name :: string
  st_ID :: string
  st_Networks :: "network_stats gomap"

definition zero_cpu :: CPUStats where
  "zero_cpu = \<lparr>CPUUsage = \<lparr>TotalUsage = 0, PercpuUsage = [], UsageInKernelmode = 0, UsageInUsermode = 0\<rparr>, SystemUsage = 0, OnlineCPUs = 0\<rparr>"

definition zero_blkio :: blkio_stats where
  "zero_blkio = \<lparr>IoServiceBytesRecursive = [], IoServicedRecursive = [], IoQueuedRecursive = [], IoServiceTimeRecursive = [],
     IoWaitTimeRecursive = [], IoMergedRecursive = [], IoTimeRecursive = [], SectorsRecursive = []\<rparr>"

definition zero_stats :: StatsJSON where
  "zero_stats = \<lparr>st_Read = 0, st_PreRead = 0, st_PidsStats = \<lparr>pids_Current = 0, pids_Limit = 0\<rparr>, st_BlkioStats = zero_blkio,
     st_CPUStats = zero_cpu, st_PreCPUStats = zero_cpu,
     st_MemoryStats = \<lparr>ms_Usage = 0, ms_MaxUsage = 0, ms_Failcnt = 0, ms_Limit = 0\<rparr>, st_Name = [], st_ID = [], st_Networks = []\<rparr>"

section \<open>Metrics\<close>

text \<open>What the code reads of the metrics of cgroups version 1 and 2; \<open>None\<close> is a nil pointer.\<close>

record v1_cpu = v1_Total :: uint64  v1_PerCPU :: "uint64 list"  v1_Kernel :: uint64  v1_User :: uint64

record v1_blkio =
  v1_IoServiceBytesRecursive :: "blkio_entry list"
  v1_IoServicedRecursive :: "blkio_entry list"
  v1_IoQueuedRecursive :: "blkio_entry list"
  v1_IoServiceTimeRecursive :: "blkio_entry list"
  v1_IoWaitTimeRecursive :: "blkio_entry list"
  v1_IoMergedRecursive :: "blkio_entry list"
  v1_IoTimeRecursive :: "blkio_entry list"
  v1_SectorsRecursive :: "blkio_entry list"

record v1_metrics =
  v1_Pids :: "pids_stats option"
  v1_CPU :: "v1_cpu option option"
  v1_Memory :: "memory_stats option option"
  v1_Blkio :: "v1_blkio option"

record v2_cpu = v2_UsageUsec :: uint64  v2_UserUsec :: uint64  v2_SystemUsec :: uint64

record v2_io = v2_Major :: uint64  v2_Minor :: uint64  v2_Rbytes :: uint64  v2_Wbytes :: uint64

record v2_metrics =
  v2_Pids :: "pids_stats option"
  v2_CPU :: "v2_cpu option"
  v2_Memory :: "(uint64 \<times> uint64) option"
  v2_MemoryEvents :: "uint64 option"
  v2_Io :: "v2_io list option"

datatype metrics = MetricsV1 v1_metrics | MetricsV2 v2_metrics | MetricsOther

definition translateBlkioEntry :: "blkio_entry list \<Rightarrow> blkio_entry list" where
  "translateBlkioEntry entries =
     map (\<lambda>re. \<lparr>be_Major = be_Major re, be_Minor = be_Minor re, be_Op = be_Op re, be_Value = be_Value re\<rparr>) entries"

definition collectCgroup1Stats :: "v1_metrics \<Rightarrow> StatsJSON" where
  "collectCgroup1Stats data =
     (let st = zero_stats;
          st = (case v1_Pids data of None \<Rightarrow> st
                | Some p \<Rightarrow> st\<lparr>st_PidsStats := \<lparr>pids_Current = pids_Current p, pids_Limit = pids_Limit p\<rparr>\<rparr>);
          st = (case v1_CPU data of
                  Some (Some u) \<Rightarrow>
                    st\<lparr>st_CPUStats := \<lparr>CPUUsage = \<lparr>TotalUsage = v1_Total u, PercpuUsage = v1_PerCPU u, UsageInKernelmode = v1_Kernel u,
                                                  UsageInUsermode = v1_User u\<rparr>,
                                      SystemUsage = 0, OnlineCPUs = of_nat (length (v1_PerCPU u))\<rparr>\<rparr>
                | _ \<Rightarrow> st);
          st = (case v1_Memory data of
                  Some (Some m) \<Rightarrow> st\<lparr>st_MemoryStats := \<lparr>ms_Usage = ms_Usage m, ms_MaxUsage = ms_MaxUsage m, ms_Failcnt = ms_Failcnt m,
                                                        ms_Limit = ms_Limit m\<rparr>\<rparr>
                | _ \<Rightarrow> st)
      in case v1_Blkio data of
           None \<Rightarrow> st
         | Some b \<Rightarrow> st\<lparr>st_BlkioStats :=
             \<lparr>IoServiceBytesRecursive = translateBlkioEntry (v1_IoServiceBytesRecursive b),
              IoServicedRecursive = translateBlkioEntry (v1_IoServicedRecursive b),
              IoQueuedRecursive = translateBlkioEntry (v1_IoQueuedRecursive b),
              IoServiceTimeRecursive = translateBlkioEntry (v1_IoServiceTimeRecursive b),
              IoWaitTimeRecursive = translateBlkioEntry (v1_IoWaitTimeRecursive b),
              IoMergedRecursive = translateBlkioEntry (v1_IoMergedRecursive b),
              IoTimeRecursive = translateBlkioEntry (v1_IoTimeRecursive b),
              SectorsRecursive = translateBlkioEntry (v1_SectorsRecursive b)\<rparr>\<rparr>)"

definition collectCgroup2Stats :: "v2_metrics \<Rightarrow> StatsJSON" where
  "collectCgroup2Stats data =
     (let st = zero_stats;
          st = (case v2_Pids data of None \<Rightarrow> st
                | Some p \<Rightarrow> st\<lparr>st_PidsStats := \<lparr>pids_Current = pids_Current p, pids_Limit = pids_Limit p\<rparr>\<rparr>);
          st = (case v2_CPU data of None \<Rightarrow> st
                | Some c \<Rightarrow>
                    st\<lparr>st_CPUStats := \<lparr>CPUUsage = \<lparr>TotalUsage = v2_UsageUsec c * 1000, PercpuUsage = [],
                                                  UsageInKernelmode = v2_SystemUsec c * 1000, UsageInUsermode = v2_UserUsec c * 1000\<rparr>,
                                      SystemUsage = 0, OnlineCPUs = 0\<rparr>\<rparr>);
          st = (case v2_Memory data of None \<Rightarrow> st
                | Some (usage, limit) \<Rightarrow>
                    st\<lparr>st_MemoryStats := \<lparr>ms_Usage = usage, ms_MaxUsage = 0,
                                         ms_Failcnt = (case v2_MemoryEvents data of None \<Rightarrow> 0 | Some oom \<Rightarrow> oom), ms_Limit = limit\<rparr>\<rparr>)
      in case v2_Io data of
           None \<Rightarrow> st
         | Some usage \<Rightarrow> st\<lparr>st_BlkioStats := zero_blkio\<lparr>IoServiceBytesRecursive :=
             concat (map (\<lambda>re. [\<lparr>be_Major = v2_Major re, be_Minor = v2_Minor re, be_Op = ''read'', be_Value = v2_Rbytes re\<rparr>,
                               \<lparr>be_Major = v2_Major re, be_Minor = v2_Minor re, be_Op = ''write'', be_Value = v2_Wbytes re\<rparr>]) usage)\<rparr>\<rparr>)"

section \<open>statsutil\<close>

text \<open>
  \<open>/proc/stat\<close> is read line by line; what follows the last newline is not looked at. A line without a field
  makes \<open>parts[0]\<close> panic.
\<close>

fun sum_ticks :: "string list \<Rightarrow> uint64 \<Rightarrow> uint64 res" where
  "sum_ticks [] acc = Ok acc"
| "sum_ticks (i # is) acc =
     (case ParseUint 64 i of
        None \<Rightarrow> Err (ErrMsg (''unable to convert value '' @ i @ '' to int: '' @ ParseUint_error 64 i))
      | Some v \<Rightarrow> sum_ticks is (acc + of_nat v))"

fun scan_stat :: "string list \<Rightarrow> uint64 res" where
  "scan_stat [] = Err (ErrMsg (''invalid stat format. Error trying to parse the '' @ [CHR 0x27] @ ''/proc/stat'' @ [CHR 0x27] @ '' file''))"
| "scan_stat (line # lines) =
     (let parts = Fields line
      in if parts = [] then Panic ''index out of range''
         else if parts ! 0 = ''cpu'' then
           (if length parts < 8 then Err (ErrMsg ''invalid number of cpu fields'')
            else (case sum_ticks (take 7 (drop 1 parts)) 0 of
                    Ok totalClockTicks \<Rightarrow> Ok ((totalClockTicks * 1000000000) div 100)
                  | r \<Rightarrow> r))
         else scan_stat lines)"

definition GetSystemCPUUsage :: "string res \<Rightarrow> uint64 res" where
  "GetSystemCPUUsage procStat =
     (case procStat of
        Ok content \<Rightarrow> scan_stat (butlast (Split content (CHR 0x0A)))
      | Err err \<Rightarrow> Err err
      | Panic p \<Rightarrow> Panic p
      | Hang \<Rightarrow> Hang)"

record link_attrs =
  la_Flags :: nat
  la_Name :: string
  la_Statistics :: "network_stats option"

definition zero_net :: network_stats where
  "zero_net = \<lparr>RxBytes = 0, RxPackets = 0, RxErrors = 0, RxDropped = 0, TxBytes = 0, TxPackets = 0, TxErrors = 0, TxDropped = 0\<rparr>"

text \<open>\<open>net.FlagUp\<close> is bit 0 and \<open>net.FlagLoopback\<close> bit 2 of the flags. Interfaces are pairs of a name and an index.\<close>

fun collect_links :: "string \<Rightarrow> (int \<Rightarrow> ('w, link_attrs) io) \<Rightarrow> (string \<times> int) list \<Rightarrow> network_stats gomap \<Rightarrow> ('w, network_stats gomap) io" where
  "collect_links ns LinkByIndex [] networks = ret networks"
| "collect_links ns LinkByIndex ((name, index) # interfaces) networks =
     or_else (LinkByIndex index)
       (\<lambda>err. fail (ErrMsg (''failed to retrieve the statistics for '' @ name @ '' in netns '' @ ns @ '': '' @ Error err)))
       (\<lambda>attrs.
          if bit (la_Flags attrs) 0 then
            (if bit (la_Flags attrs) 2 \<or> HasPrefix (la_Name attrs) ''lo'' then collect_links ns LinkByIndex interfaces networks
             else collect_links ns LinkByIndex interfaces
                    (map_put name (case la_Statistics attrs of None \<Rightarrow> zero_net | Some s \<Rightarrow> s) networks))
          else collect_links ns LinkByIndex interfaces networks)"

text \<open>\<open>GetFromPid\<close> opens the network namespace of a process, shown as it prints, and \<open>NewHandleAt\<close> a netlink handle in it; both are closed at the end.\<close>

definition CollectNetworkStats :: "(int \<Rightarrow> ('w, string) io) \<Rightarrow> (string \<Rightarrow> ('w, int \<Rightarrow> ('w, link_attrs) io) io) \<Rightarrow> int \<Rightarrow> (string \<times> int) list \<Rightarrow>
    ('w, network_stats gomap) io" where
  "CollectNetworkStats GetFromPid NewHandleAt pid interfaces =
     or_else (GetFromPid pid) (\<lambda>err. fail (ErrMsg (''failed to get network namespace from pid '' @ Itoa pid @ '': '' @ Error err))) (\<lambda>ns.
     or_else (NewHandleAt ns) (\<lambda>err. fail (ErrMsg (''failed to retrieve the statistics in netns '' @ ns @ '': '' @ Error err)))
       (\<lambda>LinkByIndex. collect_links ns LinkByIndex interfaces []))"

section \<open>Collecting the statistics of a container\<close>

record ('w, 'c) stats_env =
  t_Metrics :: "'c \<Rightarrow> ('w, metrics) io"
  procStat :: "('w, string) io"
  online_CPUs :: "('w, nat) io"
  InspectNetNS :: "int \<Rightarrow> ('w, (string \<times> int) list) io"
  GetFromPid :: "int \<Rightarrow> ('w, string) io"
  NewHandleAt :: "string \<Rightarrow> ('w, int \<Rightarrow> ('w, link_attrs) io) io"
  now :: "('w, int) io"

definition GetNumberOnlineCPUs :: "('w, 'c) stats_env \<Rightarrow> ('w, 32 word) io" where
  "GetNumberOnlineCPUs env = and_then (online_CPUs env) (\<lambda>n. ret (of_nat n))"

definition read_SystemCPUUsage :: "('w, 'c) stats_env \<Rightarrow> ('w, uint64) io" where
  "read_SystemCPUUsage env w =
     (case procStat env w of
        (Ok s, w1) \<Rightarrow> (GetSystemCPUUsage (Ok s), w1)
      | (Err e, w1) \<Rightarrow> (GetSystemCPUUsage (Err e), w1)
      | (Panic p, w1) \<Rightarrow> (Panic p, w1)
      | (Hang, w1) \<Rightarrow> (Hang, w1))"

definition metrics_stats :: "metrics \<Rightarrow> StatsJSON res" where
  "metrics_stats m =
     (case m of
        MetricsV1 v \<Rightarrow> Ok (collectCgroup1Stats v)
      | MetricsV2 v \<Rightarrow> Ok (collectCgroup2Stats v)
      | MetricsOther \<Rightarrow> Err (ErrMsg ''cannot convert metric data to cgroups.Metrics''))"

definition collectContainerStats :: "('w, 'c) containerd_client \<Rightarrow> ('w, 'c) stats_env \<Rightarrow> 'c \<Rightarrow> ('w, StatsJSON option) io" where
  "collectContainerStats cl env con =
     or_else (c_Task cl con) (\<lambda>err. if cerr_IsNotFound err then ret None else fail err) (\<lambda>task_Pid.
     and_then (t_Status cl con) (\<lambda>status.
       if status = Created \<or> status = Stopped \<or> status = UnknownStatus then ret None
       else
         and_then (t_Metrics env con) (\<lambda>anydata.
         and_then (lift_res (metrics_stats anydata)) (\<lambda>st.
         and_then (read_SystemCPUUsage env) (\<lambda>systemUsage.
         and_then (GetNumberOnlineCPUs env) (\<lambda>onlineCPUs.
           let st = st\<lparr>st_CPUStats := (st_CPUStats st)\<lparr>SystemUsage := systemUsage, OnlineCPUs := onlineCPUs\<rparr>\<rparr>;
               pid = int task_Pid
           in and_then (InspectNetNS env pid) (\<lambda>interfaces.
              and_then (CollectNetworkStats (GetFromPid env) (NewHandleAt env) pid interfaces) (\<lambda>networks.
                ret (Some (if networks \<noteq> [] then st\<lparr>st_Networks := networks\<rparr> else st))))))))))"

text \<open>
  The goroutine behind the channel: it selects ticks of the clock until the container is removed, the subscription
  fails or the request is cancelled. The result is what it sends, in order; after the last event of the list it is still waiting.
\<close>

datatype stats_event = Tick | RemoveErr "gerr option" | Removed | CtxDone

fun stats_loop :: "('w, 'c) containerd_client \<Rightarrow> ('w, 'c) stats_env \<Rightarrow> 'c \<Rightarrow> string \<Rightarrow> StatsJSON \<Rightarrow> stats_event list \<Rightarrow>
    ('w, StatsJSON list) io" where
  "stats_loop cl env con name preStats [] = ret []"
| "stats_loop cl env con name preStats (Tick # evs) =
     (let empty = zero_stats\<lparr>st_ID := c_ID cl con, st_Name := name\<rparr>;
          send = (\<lambda>st. and_then (stats_loop cl env con name st evs) (\<lambda>rest. ret (st # rest)))
      in or_else (collectContainerStats cl env con) (\<lambda>_. send empty)
           (\<lambda>r. case r of
                  None \<Rightarrow> send empty
                | Some statsJSON \<Rightarrow>
                    and_then (now env) (\<lambda>t.
                      send (statsJSON\<lparr>st_Read := t, st_PreRead := st_Read preStats, st_PreCPUStats := st_CPUStats preStats,
                                      st_ID := c_ID cl con, st_Name := name\<rparr>))))"
| "stats_loop cl env con name preStats (_ # evs) = ret []"

definition Stats :: "('w, 'c) containerd_client \<Rightarrow> ('w, 'c) stats_env \<Rightarrow> stats_event list \<Rightarrow> string \<Rightarrow> ('w, StatsJSON list) io" where
  "Stats cl env evs cid =
     and_then (getContainer cl cid) (\<lambda>con.
     and_then (c_Labels cl con) (\<lambda>lab.
       stats_loop cl env con (''/'' @ map_str lab (L_Name cl)) zero_stats evs))"

section \<open>The stream of statistics\<close>

text \<open>How a value of the stream continues the one before it.\<close>

definition continues :: "string \<Rightarrow> string \<Rightarrow> StatsJSON \<Rightarrow> StatsJSON \<Rightarrow> bool" where
  "continues cid name before st \<longleftrightarrow>
     st_ID st = cid \<and> st_Name st = name \<and>
     (st = zero_stats\<lparr>st_ID := cid, st_Name := name\<rparr> \<or>
      st_PreRead st = st_Read before \<and> st_PreCPUStats st = st_CPUStats before)"

lemma and_then_send:
  "and_then m (\<lambda>rest. ret (x # rest)) w = (Ok xs, w') \<Longrightarrow> \<exists>rest. m w = (Ok rest, w') \<and> xs = x # rest"
  by (auto simp: and_then_def ret_def split: prod.splits res.splits)

lemma stats_loop_step:
  assumes "stats_loop cl env con name pre (Tick # evs) w = (Ok xs, w')"
  shows "\<exists>st rest w1. xs = st # rest \<and> continues (c_ID cl con) name pre st \<and> stats_loop cl env con name st evs w1 = (Ok rest, w')"
proof -
  let ?send = "\<lambda>st. and_then (stats_loop cl env con name st evs) (\<lambda>rest. ret (st # rest))"
  let ?empty = "zero_stats\<lparr>st_ID := c_ID cl con, st_Name := name\<rparr>"
  let ?next = "\<lambda>t st. st\<lparr>st_Read := t, st_PreRead := st_Read pre, st_PreCPUStats := st_CPUStats pre, st_ID := c_ID cl con, st_Name := name\<rparr>"
  have empty: "continues (c_ID cl con) name pre ?empty" by (simp add: continues_def)
  have full: "continues (c_ID cl con) name pre (?next t st)" for t st by (simp add: continues_def)
  obtain r w1 where c: "collectContainerStats cl env con w = (r, w1)" by fastforce
  have "\<exists>st w2. ?send st w2 = (Ok xs, w') \<and> continues (c_ID cl con) name pre st"
  proof (cases r)
    case (Ok res)
    show ?thesis
    proof (cases res)
      case None
      with assms c Ok have "?send ?empty w1 = (Ok xs, w')" by (simp add: or_else_def Let_def)
      with empty show ?thesis by blast
    next
      case (Some st)
      with assms c Ok have "and_then (now env) (\<lambda>t. ?send (?next t st)) w1 = (Ok xs, w')" by (simp add: or_else_def Let_def)
      then obtain t w2 where "?send (?next t st) w2 = (Ok xs, w')" using and_then_OkD by fast
      with full show ?thesis by blast
    qed
  next
    case (Err e)
    with assms c have "?send ?empty w1 = (Ok xs, w')" by (simp add: or_else_def Let_def)
    with empty show ?thesis by blast
  qed (use assms c in \<open>simp_all add: or_else_def Let_def\<close>)
  then show ?thesis using and_then_send by metis
qed

text \<open>
  C31: The stream has one value for each tick until the container is removed, its subscription fails or the
  request ends, and none after that. Every value names the container; it is either the empty value, sent when the container does not run or
  its metrics cannot be read, or its previous reading is the reading of the value sent before it.
\<close>

theorem stats_stream:
  assumes "stats_loop cl env con name pre evs w = (Ok xs, w')"
  shows "length xs = length (takeWhile (\<lambda>ev. ev = Tick) evs) \<and>
    (\<forall>i < length xs. continues (c_ID cl con) name ((pre # xs) ! i) (xs ! i))"
  using assms
proof (induction evs arbitrary: pre w xs)
  case Nil
  then show ?case by (simp add: ret_def)
next
  case (Cons ev evs)
  show ?case
  proof (cases "ev = Tick")
    case True
    from stats_loop_step [OF Cons.prems [unfolded True]]
    obtain st rest w1 where st: "xs = st # rest" "continues (c_ID cl con) name pre st"
      and run: "stats_loop cl env con name st evs w1 = (Ok rest, w')" by blast
    have "continues (c_ID cl con) name ((pre # xs) ! i) (xs ! i)" if "i < length xs" for i
      using that Cons.IH [OF run] st by (cases i) simp_all
    then show ?thesis using Cons.IH [OF run] st True by simp
  next
    case False
    with Cons.prems show ?thesis by (cases ev) (auto simp: ret_def)
  qed
qed

section \<open>Counters\<close>

lemma ParseUint_digits: "v < 2 ^ bits \<Longrightarrow> ParseUint bits (dec_digits v) = Some v"
  by (simp add: ParseUint_def)

lemma sum_ticks_digits:
  "\<forall>v\<in>set vs. v < 2 ^ 64 \<Longrightarrow> sum_ticks (map dec_digits vs) acc = Ok (acc + of_nat (sum_list vs))"
  by (induction vs arbitrary: acc) (simp_all add: ParseUint_digits add.assoc)

lemma mod_div_exact:
  fixes x m :: nat
  assumes that: "100 dvd x" "0 < m"
  shows "x mod m div 100 = x div 100 \<longleftrightarrow> x < m"
proof
  assume eq: "x mod m div 100 = x div 100"
  have "x = 100 * (x mod m div 100)" using that(1) eq by simp
  also have "\<dots> \<le> x mod m" by simp
  also have "\<dots> < m" using that(2) by simp
  finally show "x < m" .
qed simp

lemma usage_of_line:
  assumes content: "Split content (CHR 0x0A) = line # rest" "rest \<noteq> []" and line: "Fields line = ''cpu'' # map dec_digits ticks @ further"
    and ticks: "length ticks = 7" "\<forall>v\<in>set ticks. v < 2 ^ 64"
  shows "GetSystemCPUUsage (Ok content) = Ok ((of_nat (sum_list ticks) * 1000000000 :: uint64) div 100)"
proof -
  have "GetSystemCPUUsage (Ok content) = scan_stat (line # butlast rest)"
    using content by (simp add: GetSystemCPUUsage_def)
  also have "\<dots> = Ok ((of_nat (sum_list ticks) * 1000000000 :: uint64) div 100)"
    using line ticks sum_ticks_digits [OF ticks(2), of 0] by (simp add: Let_def)
  finally show ?thesis .
qed

text \<open>
  C32: With the seven counters of a well-formed \<open>cpu\<close> line in \<open>/proc/stat\<close>, the system's processor time is their sum times ten
  million nanoseconds, but the product is formed at 64 bits before the division: the value is right if and only if the sum
  of the ticks times a thousand million is less than \<open>2^64\<close>.
\<close>

theorem system_usage_exact:
  assumes content: "Split content (CHR 0x0A) = line # rest" "rest \<noteq> []" and line: "Fields line = ''cpu'' # map dec_digits ticks @ further"
    and ticks: "length ticks = 7" "\<forall>v\<in>set ticks. v < 2 ^ 64"
  shows "\<exists>usage. GetSystemCPUUsage (Ok content) = Ok usage \<and>
    (unat usage = sum_list ticks * 10000000 \<longleftrightarrow> sum_list ticks * 1000000000 < 2 ^ 64)"
proof -
  let ?usage = "(of_nat (sum_list ticks) * 1000000000 :: uint64) div 100"
  have "unat ?usage = (sum_list ticks * 1000000000) mod 2 ^ 64 div 100"
    by (simp add: unat_div unat_word_ariths unat_of_nat mod_mult_left_eq)
  moreover have "sum_list ticks * 1000000000 div 100 = sum_list ticks * 10000000" by simp
  ultimately have "unat ?usage = sum_list ticks * 10000000 \<longleftrightarrow> sum_list ticks * 1000000000 < 2 ^ 64"
    using mod_div_exact [of "sum_list ticks * 1000000000" "2 ^ 64"] by (simp only: zero_less_power) simp
  then show ?thesis using usage_of_line [OF assms] by blast
qed

text \<open>Two processors in every state, and a container that is read twice and then removed.\<close>

definition demo_metrics :: v2_metrics where
  "demo_metrics = \<lparr>v2_Pids = None, v2_CPU = Some \<lparr>v2_UsageUsec = 5, v2_UserUsec = 3, v2_SystemUsec = 2\<rparr>, v2_Memory = None,
     v2_MemoryEvents = None, v2_Io = None\<rparr>"

definition demo_stats :: "(ProcessStatus, unit) stats_env" where
  "demo_stats = \<lparr>t_Metrics = (\<lambda>_. ret (MetricsV2 demo_metrics)), procStat = ret (''cpu 1 2 3 4 5 6 7 8'' @ [CHR 0x0A]),
     online_CPUs = ret 2, InspectNetNS = (\<lambda>_. ret []), GetFromPid = (\<lambda>_. ret ''4''), NewHandleAt = (\<lambda>_. ret (\<lambda>_. fail (ErrMsg []))), now = ret 11\<rparr>"

lemma demo_line: "Fields ''cpu 1 2 3 4 5 6 7 8'' = ''cpu'' # map dec_digits [1, 2, 3, 4, 5, 6, 7] @ [''8'']"
  by code_simp

lemma demo_content: "Split (''cpu 1 2 3 4 5 6 7 8'' @ [CHR 0x0A]) (CHR 0x0A) = ''cpu 1 2 3 4 5 6 7 8'' # [[]]"
  by code_simp

theorem system_usage_exact_witness:
  "\<exists>usage. GetSystemCPUUsage (Ok (''cpu 1 2 3 4 5 6 7 8'' @ [CHR 0x0A])) = Ok usage \<and> unat usage = 280000000"
  using system_usage_exact [OF demo_content _ demo_line] by simp

lemma demo_usage: "\<exists>u. read_SystemCPUUsage demo_stats w = (Ok u, w)"
proof -
  have "procStat demo_stats w = (Ok (''cpu 1 2 3 4 5 6 7 8'' @ [CHR 0x0A]), w)" by (simp add: demo_stats_def ret_def)
  moreover have "\<exists>u. GetSystemCPUUsage (Ok (''cpu 1 2 3 4 5 6 7 8'' @ [CHR 0x0A])) = Ok u"
    using usage_of_line [OF demo_content _ demo_line] by simp
  ultimately show ?thesis by (auto simp: read_SystemCPUUsage_def)
qed

lemma demo_simps: "c_Task one_status c = ret 7" "t_Status one_status c w = (Ok w, w)" "t_Metrics demo_stats c = ret (MetricsV2 demo_metrics)"
  "GetNumberOnlineCPUs demo_stats = ret 2" "InspectNetNS demo_stats p = ret []" "CollectNetworkStats (GetFromPid demo_stats) (NewHandleAt demo_stats) p [] = ret []"
  "now demo_stats = ret 11"
  by (simp_all add: one_status_def demo_stats_def GetNumberOnlineCPUs_def CollectNetworkStats_def or_else_def fun_eq_iff ret_def)

lemma demo_run: "\<exists>xs w'. stats_loop one_status demo_stats () ''/web'' zero_stats [Tick, Tick, Removed, Tick] Running = (Ok xs, w')"
proof -
  obtain u where u: "read_SystemCPUUsage demo_stats Running = (Ok u, Running)" using demo_usage by blast
  have "\<exists>st. collectContainerStats one_status demo_stats () Running = (Ok (Some st), Running)"
    using u by (simp add: collectContainerStats_def demo_simps or_else_def and_then_def metrics_stats_def Let_def ret_def)
  then show ?thesis by (auto simp: demo_simps or_else_def and_then_def ret_def Let_def)
qed

theorem stats_stream_witness:
  "\<exists>xs w'. stats_loop one_status demo_stats () ''/web'' zero_stats [Tick, Tick, Removed, Tick] Running = (Ok xs, w') \<and>
    length xs = 2 \<and> continues ''abc'' ''/web'' (xs ! 0) (xs ! 1)"
proof -
  obtain xs w' where run: "stats_loop one_status demo_stats () ''/web'' zero_stats [Tick, Tick, Removed, Tick] Running = (Ok xs, w')"
    using demo_run by blast
  have "c_ID one_status () = ''abc''" by (simp add: one_status_def)
  with run stats_stream [OF run] show ?thesis by auto
qed

end
