(* ===== verification/Volumes.thy ===== *)
theory Volumes
  imports Container_Api
begin

text \<open>
  Volumes: the service (\<open>src/internal/service/volume\<close>) over nerdctl's volume commands, which are a parameter record, and the
  handlers (\<open>src/api/handlers/volume\<close>).
\<close>

section \<open>Service\<close>

record ('w, 'v) nerdctl_volumes =
  CreateVolume :: "string \<Rightarrow> string list \<Rightarrow> ('w, 'v) io"
  ListVolumes :: "bool \<Rightarrow> string list \<Rightarrow> ('w, 'v gomap) io"
  RemoveVolume :: "string \<Rightarrow> bool \<Rightarrow> ('w, unit) io"
  GetVolume :: "string \<Rightarrow> ('w, 'v) io"

definition volume_Create :: "('w, 'v) nerdctl_volumes \<Rightarrow> string \<Rightarrow> string list \<Rightarrow> ('w, 'v) io" where
  "volume_Create nv name labels = and_then (CreateVolume nv name labels) ret"

definition volume_List :: "('w, 'v) nerdctl_volumes \<Rightarrow> string list \<Rightarrow> ('w, 'v list) io" where
  "volume_List nv filters = and_then (ListVolumes nv False filters) (\<lambda>vols. ret (map snd vols))"

definition volume_Inspect :: "('w, 'v) nerdctl_volumes \<Rightarrow> string \<Rightarrow> ('w, 'v) io" where
  "volume_Inspect nv name =
     or_else (GetVolume nv name) (\<lambda>err. fail (if Contains (Error err) ''not found'' then NewNotFound err else err)) ret"

text \<open>The kind of an error of nerdctl is read off its message.\<close>

definition volume_error :: "gerr \<Rightarrow> gerr" where
  "volume_error err =
     (if Contains (Error err) ''not found'' then NewNotFound err
      else if Contains (Error err) ''in use'' then NewConflict err
      else if Contains (Error err) ''could not be removed'' then NewInvalidFormat err
      else err)"

definition volume_Remove :: "('w, 'v) nerdctl_volumes \<Rightarrow> string \<Rightarrow> bool \<Rightarrow> ('w, unit) io" where
  "volume_Remove nv volName force = or_else (RemoveVolume nv volName force) (\<lambda>err. fail (volume_error err)) ret"

section \<open>Handlers\<close>

record ('w, 'v) volume_Service =
  vs_Create :: "string \<Rightarrow> string list \<Rightarrow> ('w, 'v) io"
  vs_List :: "string list \<Rightarrow> ('w, 'v list) io"
  vs_Remove :: "string \<Rightarrow> bool \<Rightarrow> ('w, unit) io"
  vs_Inspect :: "string \<Rightarrow> ('w, 'v) io"

definition daemon_volume :: "('w, 'v) nerdctl_volumes \<Rightarrow> ('w, 'v) volume_Service" where
  "daemon_volume nv = \<lparr>vs_Create = volume_Create nv, vs_List = volume_List nv, vs_Remove = volume_Remove nv, vs_Inspect = volume_Inspect nv\<rparr>"

record CreateVolumeRequest =
  cv_Name :: string
  cv_Driver :: string
  cv_DriverOpts :: "string gomap"
  cv_Labels :: "string gomap"

definition labelMapToSlice :: "string gomap \<Rightarrow> string list" where
  "labelMapToSlice inputMap = map (\<lambda>(key, val). key @ ''='' @ val) inputMap"

definition volume_handler_create :: "('w, 'v) volume_Service \<Rightarrow> CreateVolumeRequest res \<Rightarrow> ('w, 'v) handler" where
  "volume_handler_create svc body =
     parsed body (\<lambda>err. JSON 500 (CErr (NewError err)))
       (\<lambda>req. serve (vs_Create svc (cv_Name req) (labelMapToSlice (cv_Labels req))) (\<lambda>vol. JSON 200 (CData vol))
          (\<lambda>err. JSON 500 (CErr (NewError err))))"

definition volume_handler_inspect :: "('w, 'v) volume_Service \<Rightarrow> http_req \<Rightarrow> ('w, 'v) handler" where
  "volume_handler_inspect svc r =
     serve (vs_Inspect svc (mux_var r ''name'')) (\<lambda>resp. JSON 200 (CData resp)) (\<lambda>err. JSON (missing_code err) (CErr (NewError err)))"

record filterJSONRequest =
  fj_Name :: "string list"
  fj_Driver :: "string list"
  fj_Labels :: "string list"
  fj_Dangling :: "string list"

definition createFilterExpressions :: "string \<Rightarrow> string list \<Rightarrow> string list" where
  "createFilterExpressions key vals = map (\<lambda>val. key @ ''='' @ val) vals"

definition rawJSONFiltersToSlice :: "(string \<Rightarrow> filterJSONRequest res) \<Rightarrow> string \<Rightarrow> string list res" where
  "rawJSONFiltersToSlice unmarshal rawJSONFilters =
     (case unmarshal rawJSONFilters of
        Ok filtersJSON \<Rightarrow>
          Ok (createFilterExpressions ''dangling'' (fj_Dangling filtersJSON) @ createFilterExpressions ''driver'' (fj_Driver filtersJSON) @
              createFilterExpressions ''label'' (fj_Labels filtersJSON) @ createFilterExpressions ''name'' (fj_Name filtersJSON))
      | Err err \<Rightarrow> Err err
      | Panic p \<Rightarrow> Panic p
      | Hang \<Rightarrow> Hang)"

text \<open>The handler goes on after it has answered that the filters are wrong; the filters are then nil.\<close>

definition volume_handler_list :: "('w, 'v) volume_Service \<Rightarrow> (string \<Rightarrow> filterJSONRequest res) \<Rightarrow> http_req \<Rightarrow> ('w, 'v list) handler" where
  "volume_handler_list svc unmarshal r rw =
     (let rawJSONFilters = query_get r ''filters'';
          list = (\<lambda>filters. serve (vs_List svc filters) (\<lambda>resp. JSON 200 (CData resp)) (\<lambda>err. JSON 500 (CErr (NewError err))))
      in case rawJSONFiltersToSlice unmarshal rawJSONFilters of
           Ok filtersSlice \<Rightarrow> list filtersSlice rw
         | Err err \<Rightarrow> list [] (if rawJSONFilters \<noteq> [] then JSON 500 (CErr (NewError err)) rw else rw)
         | Panic p \<Rightarrow> panic p
         | Hang \<Rightarrow> (\<lambda>w. (Hang, w)))"

definition volume_code :: "gerr \<Rightarrow> int" where
  "volume_code err =
     (if IsNotFound err then 404 else if IsConflict err then 409 else if IsInvalidFormat err then 400 else 500)"

interpretation volume_code: status_map volume_code
  by unfold_locales (auto simp: volume_code_def errdefs_defs)

definition volume_handler_remove :: "('w, 'v) volume_Service \<Rightarrow> http_req \<Rightarrow> ('w, 'a) handler" where
  "volume_handler_remove svc r =
     (let force = (case ParseBool (query_get r ''force'') of None \<Rightarrow> False | Some b \<Rightarrow> b)
      in serve (vs_Remove svc (mux_var r ''name'') force) (\<lambda>_. Status 204) (\<lambda>err. SendErrorResponse (volume_code err) err))"

section \<open>Properties\<close>

text \<open>
  A list request with filters that are not valid JSON is answered with status 500, but the handler does not return there:
  it lists every volume without filters and appends that list, or the error of listing, to the body as a second JSON value.
\<close>

theorem volume_list_bad_filters:
  assumes fresh: "w_sent rw = None" "w_broken rw = None" "w_body rw = []"
    and raw: "query_get r ''filters'' \<noteq> []" and bad: "unmarshal (query_get r ''filters'') = Err err"
    and list: "ListVolumes nv False [] w = (lr, w1)" "lr = Ok vols \<or> lr = Err e"
  shows "\<exists>rw'. volume_handler_list (daemon_volume nv) unmarshal r rw w = (Ok rw', w1) \<and> status_of rw' = Some 500 \<and>
    w_body rw' = [CErr (NewError err), case lr of Ok vols \<Rightarrow> CData (map snd vols) | _ \<Rightarrow> CErr (NewError e)]"
  using assms
  by (auto simp: volume_handler_list_def rawJSONFiltersToSlice_def daemon_volume_def volume_List_def serve_def or_else_def and_then_def
      JSON_def put_chunk_def WriteHeader_def header_set_def status_of_def)

text \<open>
  Removing a volume is answered 204 exactly when nerdctl removes it. Its refusals become 404, 409, 400 and 500 by the words
  of the message alone, in this order, so that a message about a volume whose name contains those of an earlier case is answered
  with the code of that case.
\<close>

theorem volume_remove_codes:
  assumes fresh: "w_sent rw = None" and run: "RemoveVolume nv (mux_var r ''name'') force w = (rr, w1)" "rr = Ok () \<or> rr = Err e"
    and typed: "as_errWithType e = None"
    and force: "force = (ParseBool (query_get r ''force'') = Some True)"
  shows "\<exists>rw'. volume_handler_remove (daemon_volume nv) r rw w = (Ok rw', w1) \<and>
    status_of rw' = Some (if rr = Ok () then 204
      else if Contains (Error e) ''not found'' then 404
      else if Contains (Error e) ''in use'' then 409
      else if Contains (Error e) ''could not be removed'' then 400 else 500)"
proof -
  have "(case ParseBool (query_get r ''force'') of None \<Rightarrow> False | Some b \<Rightarrow> b) = force"
    using force by (auto split: option.splits)
  moreover have "volume_code (volume_error e) =
      (if Contains (Error e) ''not found'' then 404 else if Contains (Error e) ''in use'' then 409
       else if Contains (Error e) ''could not be removed'' then 400 else 500)"
    using typed by (auto simp: volume_code_def volume_error_def errdefs_defs)
  moreover have "status_of rw = None" using fresh by (simp add: status_of_def)
  ultimately show ?thesis
    using run by (auto simp: volume_handler_remove_def daemon_volume_def volume_Remove_def serve_def or_else_def Status_def fail_def ret_def)
qed

text \<open>One volume, which is in use.\<close>

definition one_volume :: "(unit, string) nerdctl_volumes" where
  "one_volume = \<lparr>CreateVolume = (\<lambda>name _. ret name), ListVolumes = (\<lambda>_ _. ret [(''v'', ''v'')]),
     RemoveVolume = (\<lambda>name _. fail (ErrMsg (''volume '' @ name @ '' is in use''))), GetVolume = ret\<rparr>"

theorem volume_list_bad_filters_witness:
  "\<exists>rw'. volume_handler_list (daemon_volume one_volume) (\<lambda>_. Err (ErrMsg ''invalid character'')) \<lparr>vars = [], query = [(''filters'', [''x''])], req_header = []\<rparr>
      (new_respw True) () = (Ok rw', ()) \<and> status_of rw' = Some 500 \<and> length (w_body rw') = 2"
  using volume_list_bad_filters [of "new_respw True" "\<lparr>vars = [], query = [(''filters'', [''x''])], req_header = []\<rparr>"
      "\<lambda>_. Err (ErrMsg ''invalid character'')" "ErrMsg ''invalid character''" one_volume "()" "Ok [(''v'', ''v'')]" "()" "[(''v'', ''v'')]"]
  by (auto simp: new_respw_def query_get_def one_volume_def ret_def)

theorem volume_remove_codes_witness:
  "\<exists>rw'. volume_handler_remove (daemon_volume one_volume) \<lparr>vars = [(''name'', ''v'')], query = [], req_header = []\<rparr>
      (new_respw True :: unit respw) () = (Ok rw', ()) \<and> status_of rw' = Some 409"
  using volume_remove_codes [of "new_respw True :: unit respw" one_volume "\<lparr>vars = [(''name'', ''v'')], query = [], req_header = []\<rparr>" False "()"
      "Err (ErrMsg ''volume v is in use'')" "()" "ErrMsg ''volume v is in use''"]
  by (simp add: new_respw_def query_get_def mux_var_def map_str_def one_volume_def ret_def fail_def errdefs_defs ParseBool_def HasPrefix_def)

end
