(* ===== verification/Distribution.thy ===== *)
theory Distribution
  imports Images
begin

text \<open>
  Inspecting an image in its registry: \<open>src/internal/service/distribution\<close> and \<open>src/api/handlers/distribution\<close>. The registry (resolver and
  fetcher), digests and the decoding of manifests are the record \<open>dist_env\<close>; references and credentials are those of \<open>Images\<close>.
\<close>

record descriptor =
  d_MediaType :: string
  d_Digest :: string
  d_Size :: int

record 'a DistributionInspect =
  di_Descriptor :: descriptor
  di_Platforms :: "'a list"

text \<open>\<open>FromBytes dg b\<close> is \<open>dg.Algorithm().FromBytes(b)\<close>, which panics for a malformed digest.\<close>

record ('w, 'v, 'f, 'rc, 'a) dist_env =
  r_Resolve :: "'v \<Rightarrow> string \<Rightarrow> ('w, descriptor) io"
  r_Fetcher :: "'v \<Rightarrow> string \<Rightarrow> ('w, 'f) io"
  f_Fetch :: "'f \<Rightarrow> descriptor \<Rightarrow> ('w, 'rc) io"
  ReadAll :: "'rc \<Rightarrow> ('w, string) io"
  FromBytes :: "string \<Rightarrow> string \<Rightarrow> string res"
  manifest_Config :: "string \<Rightarrow> descriptor res"
  image_Platform :: "string \<Rightarrow> 'a res"
  index_Platforms :: "string \<Rightarrow> 'a option list res"
  MediaTypeImageManifest :: string
  MediaTypeDockerSchema2Manifest :: string
  MediaTypeImageIndex :: string
  MediaTypeDockerSchema2ManifestList :: string

section \<open>Service\<close>

definition resolve_error :: "gerr \<Rightarrow> gerr" where
  "resolve_error err =
     (if cerr_IsNotFound err then NewNotFound err
      else if XInvalidAuthorization \<in> set (ext_kinds err) then NewUnauthenticated err
      else if list_ex (\<lambda>k. case k of XUnexpectedStatus _ \<Rightarrow> True | _ \<Rightarrow> False) (ext_kinds err) then NewUnauthenticated err
      else err)"

definition fetch_error :: "gerr \<Rightarrow> gerr" where
  "fetch_error err = (if cerr_IsNotFound err then NewNotFound err else err)"

text \<open>Fetching a blob, reading it and comparing its digest; \<open>what\<close> and \<open>mismatch\<close> are the two error messages.\<close>

definition fetch_checked :: "('w, 'v, 'f, 'rc, 'a) dist_env \<Rightarrow> 'f \<Rightarrow> descriptor \<Rightarrow> string \<Rightarrow> string \<Rightarrow> ('w, string) io" where
  "fetch_checked env fetcher desc what mismatch =
     or_else (f_Fetch env fetcher desc) (\<lambda>err. fail (fetch_error err)) (\<lambda>rc.
     or_else (ReadAll env rc) (\<lambda>err. fail (ErrWrap (''failed to read '' @ what @ '': '') err [])) (\<lambda>res.
     and_then (lift_res (FromBytes env (d_Digest desc) res)) (\<lambda>dgst.
       if dgst \<noteq> d_Digest desc then fail (ErrMsg (mismatch @ '': '' @ dgst @ '' != '' @ d_Digest desc)) else ret res)))"

definition unmarshal_as :: "string \<Rightarrow> 'x res \<Rightarrow> ('w, 'x) io" where
  "unmarshal_as what r = or_else (lift_res r) (\<lambda>err. fail (ErrWrap (''failed to unmarshal '' @ what @ '': '') err [])) ret"

text \<open>The loop dereferences the platform of every manifest of an index.\<close>

fun deref_platforms :: "'a option list \<Rightarrow> 'a list \<Rightarrow> 'a list res" where
  "deref_platforms [] platforms = Ok platforms"
| "deref_platforms (None # ms) platforms = Panic ''nil pointer dereference''"
| "deref_platforms (Some p # ms) platforms = deref_platforms ms (platforms @ [p])"

definition platforms_of :: "('w, 'v, 'f, 'rc, 'a) dist_env \<Rightarrow> 'f \<Rightarrow> descriptor \<Rightarrow> string \<Rightarrow> ('w, 'a list) io" where
  "platforms_of env fetcher desc res =
     (if d_MediaType desc = MediaTypeImageManifest env \<or> d_MediaType desc = MediaTypeDockerSchema2Manifest env
      then and_then (unmarshal_as ''manifest'' (manifest_Config env res)) (\<lambda>config.
           and_then (fetch_checked env fetcher config ''image'' ''image digest mismatch'') (\<lambda>imageRes.
           and_then (unmarshal_as ''image'' (image_Platform env imageRes)) (\<lambda>platform. ret [platform])))
      else if d_MediaType desc = MediaTypeImageIndex env \<or> d_MediaType desc = MediaTypeDockerSchema2ManifestList env
      then and_then (unmarshal_as ''index'' (index_Platforms env res)) (\<lambda>manifests. lift_res (deref_platforms manifests []))
      else ret [])"

definition distribution_Inspect :: "'r ref_lib \<Rightarrow> ('w, 'i, 'p, 'v) image_env \<Rightarrow> ('w, 'v, 'f, 'rc, 'a) dist_env \<Rightarrow> string \<Rightarrow> AuthConfig option \<Rightarrow>
    ('w, 'a DistributionInspect) io" where
  "distribution_Inspect lib ie env name ac =
     or_else (lift_res (Canonicalize lib name [])) (\<lambda>err. fail (NewInvalidFormat err)) (\<lambda>rawRef.
     or_else (lift_res (ie_ParseDockerRef ie rawRef)) (\<lambda>err. fail (NewInvalidFormat err)) (\<lambda>(namedRef, refDomain).
     and_then (lift_res (creds_of ie refDomain ac)) (\<lambda>creds.
     or_else (ie_Resolver ie refDomain creds) (\<lambda>err. fail (ErrMsg (''failed to initialize remotes resolver: '' @ Error err))) (\<lambda>resolver.
     or_else (r_Resolve env resolver namedRef) (\<lambda>err. fail (resolve_error err)) (\<lambda>desc.
     and_then (r_Fetcher env resolver namedRef) (\<lambda>fetcher.
     and_then (fetch_checked env fetcher desc ''fetch result'' ''digest mismatch'') (\<lambda>res.
     and_then (platforms_of env fetcher desc res) (\<lambda>platforms.
       ret \<lparr>di_Descriptor = \<lparr>d_MediaType = d_MediaType desc, d_Digest = d_Digest desc, d_Size = d_Size desc\<rparr>,
            di_Platforms = platforms\<rparr>))))))))"

section \<open>Handler\<close>

definition distribution_code :: "gerr \<Rightarrow> int" where
  "distribution_code err =
     (if IsInvalidFormat err then 400 else if IsUnauthenticated err \<or> IsNotFound err then 403 else 500)"

definition distribution_handler_inspect :: "(string \<Rightarrow> AuthConfig res) \<Rightarrow> (string \<Rightarrow> AuthConfig option \<Rightarrow> ('w, 'a) io) \<Rightarrow> http_req \<Rightarrow>
    ('w, 'a) handler" where
  "distribution_handler_inspect dec svc_Inspect r rw =
     (case DecodeAuthConfig dec (map_str (req_header r) AuthHeader) of
        (_, Some err) \<Rightarrow> ret (SendErrorResponse 400 (ErrMsg (''failed to decode auth header: '' @ Error err)) rw)
      | (authCfg, None) \<Rightarrow>
          serve (svc_Inspect (mux_var r ''name'') (Some authCfg)) (\<lambda>x. JSON 200 (CData x))
            (\<lambda>err. SendErrorResponse (distribution_code err) err) rw)"

section \<open>Integrity\<close>

lemma fetch_checked_Ok:
  assumes "fetch_checked env fetcher desc what mismatch w = (Ok res, w')"
  shows "FromBytes env (d_Digest desc) res = Ok (d_Digest desc) \<and> (\<exists>rc v v1. f_Fetch env fetcher desc v = (Ok rc, v1) \<and> ReadAll env rc v1 = (Ok res, w'))"
  using assms unfolding fetch_checked_def
  by (auto simp: or_else_def and_then_def fail_def ret_def split: prod.splits res.splits if_splits)

lemma unmarshal_as_Ok: "unmarshal_as what r w = (Ok x, w') \<Longrightarrow> r = Ok x \<and> w' = w"
  by (auto simp: unmarshal_as_def or_else_def fail_def ret_def split: res.splits)

lemma deref_platforms_eq:
  "deref_platforms ms ps = (if None \<in> set ms then Panic ''nil pointer dereference'' else Ok (ps @ map the ms))"
  by (induction ms ps rule: deref_platforms.induct) auto

lemma or_else_fail_OkD:
  "or_else m (\<lambda>e. fail (f e)) k w = (Ok y, w2) \<Longrightarrow> \<exists>x w1. m w = (Ok x, w1) \<and> k x w1 = (Ok y, w2)"
  by (auto simp: or_else_def fail_def split: prod.splits res.splits)

lemma distribution_steps:
  assumes "distribution_Inspect lib ie env name ac w = (Ok out, w')"
  obtains resolver ref v v1 desc fetcher v2 v3 res v4 platforms where
    "r_Resolve env resolver ref v = (Ok desc, v1)" "fetch_checked env fetcher desc ''fetch result'' ''digest mismatch'' v2 = (Ok res, v3)"
    "platforms_of env fetcher desc res v3 = (Ok platforms, v4)" "out = \<lparr>di_Descriptor = desc, di_Platforms = platforms\<rparr>"
proof -
  let ?fetched = "\<lambda>desc fetcher. and_then (fetch_checked env fetcher desc ''fetch result'' ''digest mismatch'') (\<lambda>res.
     and_then (platforms_of env fetcher desc res) (\<lambda>platforms.
       ret \<lparr>di_Descriptor = \<lparr>d_MediaType = d_MediaType desc, d_Digest = d_Digest desc, d_Size = d_Size desc\<rparr>,
            di_Platforms = platforms\<rparr>))"
  from assms[unfolded distribution_Inspect_def, THEN or_else_fail_OkD] obtain rawRef u1 where
    "or_else (lift_res (ie_ParseDockerRef ie rawRef)) (\<lambda>err. fail (NewInvalidFormat err)) (\<lambda>(namedRef, refDomain).
     and_then (lift_res (creds_of ie refDomain ac)) (\<lambda>creds.
     or_else (ie_Resolver ie refDomain creds) (\<lambda>err. fail (ErrMsg (''failed to initialize remotes resolver: '' @ Error err))) (\<lambda>resolver.
     or_else (r_Resolve env resolver namedRef) (\<lambda>err. fail (resolve_error err)) (\<lambda>desc.
     and_then (r_Fetcher env resolver namedRef) (?fetched desc))))) u1 = (Ok out, w')" by blast
  then obtain namedRef refDomain u2 where cr:
    "and_then (lift_res (creds_of ie refDomain ac)) (\<lambda>creds.
     or_else (ie_Resolver ie refDomain creds) (\<lambda>err. fail (ErrMsg (''failed to initialize remotes resolver: '' @ Error err))) (\<lambda>resolver.
     or_else (r_Resolve env resolver namedRef) (\<lambda>err. fail (resolve_error err)) (\<lambda>desc.
     and_then (r_Fetcher env resolver namedRef) (?fetched desc)))) u2 = (Ok out, w')"
    by (auto dest!: or_else_fail_OkD)
  from and_then_OkD [OF cr] obtain creds u2' where
    "or_else (ie_Resolver ie refDomain creds) (\<lambda>err. fail (ErrMsg (''failed to initialize remotes resolver: '' @ Error err))) (\<lambda>resolver.
     or_else (r_Resolve env resolver namedRef) (\<lambda>err. fail (resolve_error err)) (\<lambda>desc.
     and_then (r_Fetcher env resolver namedRef) (?fetched desc))) u2' = (Ok out, w')" by blast
  from or_else_fail_OkD [OF this] obtain resolver u3 where
    "or_else (r_Resolve env resolver namedRef) (\<lambda>err. fail (resolve_error err)) (\<lambda>desc.
     and_then (r_Fetcher env resolver namedRef) (?fetched desc)) u3 = (Ok out, w')"
    by blast
  from or_else_fail_OkD [OF this] obtain desc u4 where r1: "r_Resolve env resolver namedRef u3 = (Ok desc, u4)"
    "and_then (r_Fetcher env resolver namedRef) (?fetched desc) u4 = (Ok out, w')" by blast
  from and_then_OkD [OF r1(2)] r1(1) obtain fetcher u5 where r: "r_Resolve env resolver namedRef u3 = (Ok desc, u4)" "?fetched desc fetcher u5 = (Ok out, w')"
    by blast
  then obtain res u6 platforms u7 where "fetch_checked env fetcher desc ''fetch result'' ''digest mismatch'' u5 = (Ok res, u6)"
    "platforms_of env fetcher desc res u6 = (Ok platforms, u7)" "out = \<lparr>di_Descriptor = desc, di_Platforms = platforms\<rparr>"
    by (auto dest!: and_then_OkD simp: ret_def)
  with r(1) that show thesis by blast
qed

text \<open>
  C34: An answer describes content that was checked: the descriptor is the one the registry resolved the reference to, the bytes
  fetched for it have its digest, and for an image manifest the platform is that of a configuration whose bytes have the digest
  the manifest names. For an index there is one platform for each manifest, in order.
\<close>

theorem distribution_checked:
  assumes run: "distribution_Inspect lib ie env name ac w = (Ok out, w')"
  shows "\<exists>desc res. di_Descriptor out = desc \<and> FromBytes env (d_Digest desc) res = Ok (d_Digest desc) \<and>
    (\<exists>resolver ref v v1. r_Resolve env resolver ref v = (Ok desc, v1)) \<and>
    (d_MediaType desc = MediaTypeImageManifest env \<or> d_MediaType desc = MediaTypeDockerSchema2Manifest env \<longrightarrow>
       (\<exists>config image p. manifest_Config env res = Ok config \<and> FromBytes env (d_Digest config) image = Ok (d_Digest config) \<and>
          image_Platform env image = Ok p \<and> di_Platforms out = [p])) \<and>
    (\<not> (d_MediaType desc = MediaTypeImageManifest env \<or> d_MediaType desc = MediaTypeDockerSchema2Manifest env) \<and>
     (d_MediaType desc = MediaTypeImageIndex env \<or> d_MediaType desc = MediaTypeDockerSchema2ManifestList env) \<longrightarrow>
       index_Platforms env res = Ok (map Some (di_Platforms out)))"
proof -
  from run obtain resolver ref v v1 desc fetcher v2 v3 res v4 platforms where steps:
    "r_Resolve env resolver ref v = (Ok desc, v1)" "fetch_checked env fetcher desc ''fetch result'' ''digest mismatch'' v2 = (Ok res, v3)"
    "platforms_of env fetcher desc res v3 = (Ok platforms, v4)" "out = \<lparr>di_Descriptor = desc, di_Platforms = platforms\<rparr>"
    by (rule distribution_steps)
  have digest: "FromBytes env (d_Digest desc) res = Ok (d_Digest desc)" using fetch_checked_Ok [OF steps(2)] by blast
  have manifest: "\<exists>config image p. manifest_Config env res = Ok config \<and> FromBytes env (d_Digest config) image = Ok (d_Digest config) \<and>
      image_Platform env image = Ok p \<and> platforms = [p]"
    if "d_MediaType desc = MediaTypeImageManifest env \<or> d_MediaType desc = MediaTypeDockerSchema2Manifest env"
    using steps(3) that unfolding platforms_of_def
    by (auto simp: ret_def dest!: and_then_OkD unmarshal_as_Ok fetch_checked_Ok) blast+
  have index: "index_Platforms env res = Ok (map Some platforms)"
    if "\<not> (d_MediaType desc = MediaTypeImageManifest env \<or> d_MediaType desc = MediaTypeDockerSchema2Manifest env)"
      "d_MediaType desc = MediaTypeImageIndex env \<or> d_MediaType desc = MediaTypeDockerSchema2ManifestList env"
  proof -
    have "and_then (unmarshal_as ''index'' (index_Platforms env res)) (\<lambda>manifests. lift_res (deref_platforms manifests [])) v3 = (Ok platforms, v4)"
      using steps(3) unfolding platforms_of_def if_not_P [OF that(1)] if_P [OF that(2)] .
    then obtain ms where ms: "index_Platforms env res = Ok ms" "deref_platforms ms [] = Ok platforms"
      by (auto dest!: and_then_OkD unmarshal_as_Ok)
    then have "None \<notin> set ms" "platforms = map the ms" by (auto simp: deref_platforms_eq split: if_splits)
    moreover have "map Some (map the ms) = ms" if "None \<notin> set ms" using that by (induction ms) auto
    ultimately show ?thesis using ms(1) by simp
  qed
  show ?thesis
    unfolding steps(4) DistributionInspect.simps
    by (rule exI [of _ desc], rule exI [of _ res], intro conjI impI refl) (use steps(1) digest manifest index in \<open>blast+\<close>)
qed

text \<open>
  An index with a manifest that names no platform, which the image specification allows, makes the request panic.
\<close>

theorem distribution_nil_platform:
  assumes "\<not> (d_MediaType desc = MediaTypeImageManifest env \<or> d_MediaType desc = MediaTypeDockerSchema2Manifest env)"
    and "d_MediaType desc = MediaTypeImageIndex env \<or> d_MediaType desc = MediaTypeDockerSchema2ManifestList env"
    and "index_Platforms env res = Ok ms" "None \<in> set ms"
  shows "platforms_of env fetcher desc res w = (Panic ''nil pointer dereference'', w)"
  using assms by (simp add: platforms_of_def unmarshal_as_def or_else_def and_then_def ret_def deref_platforms_eq)

section \<open>Witnesses\<close>

text \<open>A registry with one image index; a digest is the content behind its algorithm.\<close>

definition string_refs :: "string ref_lib" where
  "string_refs = \<lparr>ParseAnyReference = Ok, ref_Named = (\<lambda>_. True), ref_Tagged = (\<lambda>_. True), ref_Digested = (\<lambda>_. False),
     WithTag = (\<lambda>r _. Ok r), ref_String = (\<lambda>r. r)\<rparr>"

definition one_index :: "(image_world, unit, unit, string, string) dist_env" where
  "one_index = \<lparr>r_Resolve = (\<lambda>_ _. ret \<lparr>d_MediaType = ''index'', d_Digest = ''raw:multi'', d_Size = 5\<rparr>), r_Fetcher = (\<lambda>_ _. ret ()),
     f_Fetch = (\<lambda>_ d. ret (drop 4 (d_Digest d))), ReadAll = ret, FromBytes = (\<lambda>_ b. Ok (''raw:'' @ b)),
     manifest_Config = (\<lambda>_. Err (ErrMsg [])), image_Platform = Ok, index_Platforms = (\<lambda>_. Ok [Some ''linux/amd64'', Some ''linux/arm64'']),
     MediaTypeImageManifest = ''manifest'', MediaTypeDockerSchema2Manifest = ''docker manifest'', MediaTypeImageIndex = ''index'',
     MediaTypeDockerSchema2ManifestList = ''docker list''\<rparr>"

lemma index_run: "distribution_Inspect string_refs two_images one_index ''app:v1'' None w =
   (Ok \<lparr>di_Descriptor = \<lparr>d_MediaType = ''index'', d_Digest = ''raw:multi'', d_Size = 5\<rparr>, di_Platforms = [''linux/amd64'', ''linux/arm64'']\<rparr>, w)"
  by (simp add: distribution_Inspect_def Canonicalize_def raw_reference_def string_refs_def refNeedsTag_def two_images_def creds_of_def
      one_index_def fetch_checked_def platforms_of_def unmarshal_as_def or_else_def and_then_def ret_def)

theorem distribution_checked_witness:
  "\<exists>res. FromBytes one_index ''raw:multi'' res = Ok ''raw:multi'' \<and> index_Platforms one_index res = Ok [Some ''linux/amd64'', Some ''linux/arm64'']"
  using distribution_checked [OF index_run] by (auto simp: one_index_def)

theorem distribution_nil_platform_witness:
  "platforms_of (one_index\<lparr>index_Platforms := (\<lambda>_. Ok [Some ''linux/amd64'', None])\<rparr>) ()
     \<lparr>d_MediaType = ''index'', d_Digest = ''raw:multi'', d_Size = 5\<rparr> ''multi'' image_world0 = (Panic ''nil pointer dereference'', image_world0)"
  by (rule distribution_nil_platform [where ms = "[Some ''linux/amd64'', None]"]) (simp_all add: one_index_def)

end
