(* ===== verification/System.thy ===== *)
theory System
  imports Builder Container_Api
begin

text \<open>
  The system endpoints: logging in to registries, the event stream and version information
  (\<open>src/internal/service/system\<close>, \<open>src/api/handlers/system\<close>, \<open>src/api/events\<close>, \<open>src/version\<close>).
\<close>

section \<open>Logging in to a registry\<close>

text \<open>
  A registry host as the code uses it: \<open>rh_Do\<close> sends the request for a path and gives the status code,
  \<open>rh_AddResponses\<close> gets the codes so far.
\<close>

record 'w registry_host =
  rh_Host :: string
  rh_Path :: string
  rh_Authorizer :: bool
  rh_NewRequest :: "string \<Rightarrow> ('w, unit) io"
  rh_Authorize :: "('w, unit) io"
  rh_Do :: "string \<Rightarrow> ('w, int) io"
  rh_AddResponses :: "int list \<Rightarrow> ('w, unit) io"

fun first_status :: "ext_kind list \<Rightarrow> int option" where
  "first_status [] = None"
| "first_status (XUnexpectedStatus c # ks) = Some c"
| "first_status (_ # ks) = first_status ks"

definition authorize_error :: "gerr \<Rightarrow> gerr" where
  "authorize_error err = (if first_status (ext_kinds err) = Some 401 then NewUnauthenticated err else err)"

text \<open>The loop with the trials that are left and the responses so far.\<close>

fun login_trials :: "'w registry_host \<Rightarrow> string \<Rightarrow> nat \<Rightarrow> int list \<Rightarrow> ('w, unit) io" where
  "login_trials rh path 0 resps = fail (NewUnauthenticated (ErrMsg ''too many 401 (probably)''))"
| "login_trials rh path (Suc n) resps =
     or_else (rh_NewRequest rh path) (\<lambda>err. fail (ErrWrap ''failed to create request: '' err [])) (\<lambda>_.
     or_else (rh_Authorize rh) (\<lambda>err. fail (ErrWrap ''failed to call rh.Authorizer.Authorize: '' (authorize_error err) [])) (\<lambda>_.
     or_else (rh_Do rh path) (\<lambda>err. fail (ErrWrap ''failed to call rh.Client.Do: '' err [])) (\<lambda>code.
       if code = 401 then
         or_else (rh_AddResponses rh (resps @ [code])) (\<lambda>err. fail (ErrWrap ''failed to call rh.Authorizer.AddResponses: '' err []))
           (\<lambda>_. login_trials rh path n (resps @ [code]))
       else if code div 100 \<noteq> 2 then fail (ErrMsg (''unexpected status code '' @ Itoa code))
       else ret ())))"

definition loginRegHost :: "'w registry_host \<Rightarrow> ('w, unit) io" where
  "loginRegHost rh =
     (if \<not> rh_Authorizer rh then fail (ErrMsg ''got nil Authorizer'')
      else login_trials rh (if rh_Path rh = ''/v2'' then ''/v2/'' else rh_Path rh) 3 [])"

definition defaultRegHost :: string where
  "defaultRegHost = ''https://index.docker.io/v1/''"

text \<open>The loop over the hosts: the first that accepts wins; otherwise the error of the last one, \<open>last_err\<close>, is wrapped.\<close>

fun login_hosts :: "(string \<Rightarrow> ('w, string) io) \<Rightarrow> 'w registry_host list \<Rightarrow> gerr \<Rightarrow> ('w, string) io" where
  "login_hosts fetched [] last_err = fail (ErrWrap ''failed to log in to all the registry hosts, last err: '' last_err [])"
| "login_hosts fetched (rh # rhs) last_err =
     or_else (loginRegHost rh) (\<lambda>err. login_hosts fetched rhs err) (\<lambda>_. fetched (rh_Host rh))"

text \<open>\<open>se_Token\<close> reads the refresh token that the authorizer has fetched for a host.\<close>

record 'w auth_env =
  se_Parse :: "string \<Rightarrow> string res"
  se_NewHostOptions :: "string \<Rightarrow> (string \<Rightarrow> (string \<times> string) res) \<Rightarrow> ('w, unit) io"
  se_ConfigureHosts :: "string \<Rightarrow> ('w, 'w registry_host list) io"
  se_Token :: "string \<Rightarrow> ('w, string) io"

definition auth_creds :: "string \<Rightarrow> string \<Rightarrow> string \<Rightarrow> string \<Rightarrow> (string \<times> string) res" where
  "auth_creds host username password acArg =
     (if acArg = host then Ok (username, password)
      else Err (ErrMsg (''expected acArg to be '' @ Quote host @ '', got '' @ Quote acArg)))"

definition system_Auth :: "'w auth_env \<Rightarrow> string \<Rightarrow> string \<Rightarrow> string \<Rightarrow> ('w, string) io" where
  "system_Auth env username password serverAddr =
     (let serverAddr = (if serverAddr = [] then defaultRegHost else serverAddr)
      in or_else (lift_res (se_Parse env serverAddr)) (\<lambda>err. fail (ErrMsg (''failed to parse server address: '' @ Error err))) (\<lambda>host.
         or_else (se_NewHostOptions env host (auth_creds host username password))
           (\<lambda>err. fail (ErrMsg (''failed to initialize host options: '' @ Error err))) (\<lambda>_.
         or_else (se_ConfigureHosts env host) (\<lambda>err. fail (ErrWrap ''failed to configure registry host: '' err [])) (\<lambda>regHosts.
           login_hosts (se_Token env) regHosts (ErrMsg ''%!w(<nil>)'')))))"

record authReq =
  ar_Username :: string
  ar_Password :: string
  ar_ServerAddress :: string

record authResp =
  as_Status :: string
  as_IdentityToken :: string

definition handler_auth :: "(string \<Rightarrow> string \<Rightarrow> string \<Rightarrow> ('w, string) io) \<Rightarrow> authReq res \<Rightarrow> ('w, authResp) handler" where
  "handler_auth svc_Auth body =
     parsed body (\<lambda>err. JSON 400 (CErr (NewError err))) (\<lambda>req rw.
       if ar_Username req = [] then ret (JSON 400 (CErr (NewErrorFromMsg ''username is required'')) rw)
       else if ar_Password req = [] then ret (JSON 400 (CErr (NewErrorFromMsg ''password is required'')) rw)
       else serve (svc_Auth (ar_Username req) (ar_Password req) (ar_ServerAddress req))
              (\<lambda>token. JSON 200 (CData \<lparr>as_Status = ''Login Succeeded'', as_IdentityToken = token\<rparr>))
              (\<lambda>err. JSON (if IsUnauthenticated err then 401 else 500) (CErr (NewError (ErrWrap ''failed to authenticate: '' err [])))) rw)"

section \<open>Events\<close>

definition CompatibleTopicPrefix :: string where
  "CompatibleTopicPrefix = ''dockercompat''"

record sent_event = event +
  ev_Scope :: string
  ev_Time :: int
  ev_TimeNano :: int

definition topic_filter :: "string \<Rightarrow> string" where
  "topic_filter sub = ''topic~='' @ [CHR 0x22] @ ''/'' @ CompatibleTopicPrefix @ ''/'' @ sub @ ''*'' @ [CHR 0x22]"

fun filter_loop :: "string list gomap \<Rightarrow> string list \<Rightarrow> string list res" where
  "filter_loop [] containerdFilters = Ok containerdFilters"
| "filter_loop ((filterType, filterList) # filters) containerdFilters =
     (if filterType = ''type'' then
        (if containerdFilters = [] then Panic ''slice bounds out of range''
         else filter_loop filters (drop 1 containerdFilters @ map (\<lambda>eventType. topic_filter (eventType @ ''/'')) filterList))
      else filter_loop filters containerdFilters)"

definition containerdFiltersFromAPIFilters :: "string list gomap \<Rightarrow> string list res" where
  "containerdFiltersFromAPIFilters filters = filter_loop filters [topic_filter []]"

text \<open>
  An envelope carries no event, one that cannot be decoded, one of another type than the daemon's own, or an event.
  Its time is in nanoseconds since the epoch.
\<close>

datatype payload = NoEvent | BadEvent gerr | ForeignEvent string | OwnEvent event

record envelope =
  en_Timestamp :: int
  en_Event :: payload

datatype sub_event = SubEnvelope "envelope option" | SubErr "gerr option" | SubDone gerr

definition stamp :: "int \<Rightarrow> event \<Rightarrow> sent_event" where
  "stamp t e = event.extend e \<lparr>ev_Scope = ''local'', ev_Time = t div 1000000000, ev_TimeNano = t\<rparr>"

text \<open>The goroutine: what it sends on the event channel, and the error it sends at the end. A foreign event fails the type assertion.\<close>

fun subscribe_loop :: "sub_event list \<Rightarrow> sent_event list \<Rightarrow> (sent_event list \<times> gerr option option) res" where
  "subscribe_loop [] sent = Ok (sent, None)"
| "subscribe_loop (SubErr err # evs) sent = Ok (sent, Some err)"
| "subscribe_loop (SubDone cerr # evs) sent = Ok (sent, Some (Some cerr))"
| "subscribe_loop (SubEnvelope None # evs) sent = subscribe_loop evs sent"
| "subscribe_loop (SubEnvelope (Some e) # evs) sent =
     (case en_Event e of
        NoEvent \<Rightarrow> subscribe_loop evs sent
      | BadEvent err \<Rightarrow> subscribe_loop evs sent
      | ForeignEvent t \<Rightarrow> Panic (''interface conversion: '' @ t)
      | OwnEvent ev \<Rightarrow> subscribe_loop evs (sent @ [stamp (en_Timestamp e) ev]))"

text \<open>\<open>SubscribeToEvents\<close> is containerd's subscription, which delivers the events its filters select.\<close>

definition SubscribeEvents :: "(string list \<Rightarrow> sub_event list) \<Rightarrow> string list gomap \<Rightarrow> (sent_event list \<times> gerr option option) res" where
  "SubscribeEvents SubscribeToEvents filters =
     (case containerdFiltersFromAPIFilters filters of
        Ok fs \<Rightarrow> subscribe_loop (SubscribeToEvents fs) []
      | Err e \<Rightarrow> Err e
      | Panic p \<Rightarrow> Panic p
      | Hang \<Rightarrow> Hang)"

fun encode_events :: "'e list \<Rightarrow> 'e respw \<Rightarrow> 'e respw" where
  "encode_events [] rw = rw"
| "encode_events (e # es) rw = (case put_chunk (CData e) rw of (Some err, rw1) \<Rightarrow> rw1 | (None, rw1) \<Rightarrow> encode_events es rw1)"

definition handler_events :: "(string list gomap \<Rightarrow> (sent_event list \<times> gerr option option) res) \<Rightarrow> (string \<Rightarrow> json res) \<Rightarrow> http_req \<Rightarrow>
    ('w, sent_event) handler" where
  "handler_events svc_Subscribe parse r =
     parsed (ParseFilterArgs parse r) (\<lambda>err. JSON 400 (CErr (NewErrorFromMsg (''invalid filter: '' @ Error err)))) (\<lambda>filters rw.
       case svc_Subscribe (ToLegacyFormat filters) of
         Ok (sent, end) \<Rightarrow>
           if \<not> w_flusher rw then panic ''interface conversion: not http.Flusher''
           else (case end of
                   None \<Rightarrow> (\<lambda>w. (Hang, w))
                 | Some _ \<Rightarrow> ret (encode_events sent (WriteHeader 200 rw)))
       | Err e \<Rightarrow> fail e
       | Panic p \<Rightarrow> panic p
       | Hang \<Rightarrow> (\<lambda>w. (Hang, w)))"

section \<open>Version and information\<close>

definition DefaultApiVersion :: string where "DefaultApiVersion = ''1.43''"
definition MinimumApiVersion :: string where "MinimumApiVersion = ''1.35''"

record component_version =
  cp_Name :: string
  cp_Version :: string
  cp_Details :: "string gomap"

record VersionInfo =
  vi_Platform :: string
  vi_Version :: string
  vi_ApiVersion :: string
  vi_MinAPIVersion :: string
  vi_GitCommit :: string
  vi_Os :: string
  vi_Arch :: string
  vi_KernelVersion :: string
  vi_Experimental :: bool
  vi_Components :: "component_version list"

definition trim_newlines :: "string \<Rightarrow> string" where
  "trim_newlines s = rev (dropWhile (\<lambda>c. c = CHR 0x0A) (rev (dropWhile (\<lambda>c. c = CHR 0x0A) s)))"

definition getCmdOutput :: "(string list \<Rightarrow> ('w, string) io) \<Rightarrow> string list \<Rightarrow> ('w, string) io" where
  "getCmdOutput runCmd args = or_else (runCmd args) (\<lambda>_. ret []) (\<lambda>out. ret (trim_newlines out))"

definition GetPlatformName :: "string \<Rightarrow> string" where
  "GetPlatformName version = ''Finch Daemon - '' @ version"

definition GetVersion :: "string \<Rightarrow> string \<Rightarrow> (string list \<Rightarrow> ('w, string) io) \<Rightarrow> ('w, component_version list) io \<Rightarrow> ('w, VersionInfo) io" where
  "GetVersion version gitCommit runCmd GetServerVersion =
     and_then (getCmdOutput runCmd [''uname'']) (\<lambda>os.
     and_then (getCmdOutput runCmd [''uname'', ''-m'']) (\<lambda>arch.
     and_then (getCmdOutput runCmd [''uname'', ''-r'']) (\<lambda>kernel.
     and_then GetServerVersion (\<lambda>components.
       ret \<lparr>vi_Platform = GetPlatformName version, vi_Version = version, vi_ApiVersion = DefaultApiVersion, vi_MinAPIVersion = MinimumApiVersion,
            vi_GitCommit = gitCommit, vi_Os = os, vi_Arch = arch, vi_KernelVersion = kernel, vi_Experimental = False,
            vi_Components = map (\<lambda>c. \<lparr>cp_Name = cp_Name c, cp_Version = cp_Version c, cp_Details = cp_Details c\<rparr>) components\<rparr>))))"

definition handler_version :: "('w, 'v) io \<Rightarrow> ('w, 'v) handler" where
  "handler_version svc_GetVersion = serve svc_GetVersion (\<lambda>v. JSON 200 (CData v)) (\<lambda>err. SendErrorResponse 500 err)"

definition handler_info :: "('w, 'v) io \<Rightarrow> ('w, 'v) handler" where
  "handler_info svc_GetInfo = serve svc_GetInfo (\<lambda>v. JSON 200 (CData v)) (\<lambda>err. JSON 500 (CErr (NewError err)))"

definition handler_ping :: "('w, 'v) handler" where
  "handler_ping rw = ret (header_set ''API-Version'' DefaultApiVersion rw)"

section \<open>Outcome of a login\<close>

text \<open>\<open>pending\<close>: the status codes with which the registry will answer the next requests; only sending a request takes one away.\<close>

definition answers :: "('w \<Rightarrow> int list) \<Rightarrow> 'w registry_host \<Rightarrow> bool" where
  "answers pending rh \<longleftrightarrow>
     (\<forall>p w c cs. pending w = c # cs \<longrightarrow> (\<exists>w'. rh_Do rh p w = (Ok c, w') \<and> pending w' = cs)) \<and>
     (\<forall>p w. \<exists>w'. rh_NewRequest rh p w = (Ok (), w') \<and> pending w' = pending w) \<and>
     (\<forall>w. \<exists>w'. rh_Authorize rh w = (Ok (), w') \<and> pending w' = pending w) \<and>
     (\<forall>rs w. \<exists>w'. rh_AddResponses rh rs w = (Ok (), w') \<and> pending w' = pending w)"

definition login_result :: "int list \<Rightarrow> unit res" where
  "login_result codes =
     (case dropWhile (\<lambda>c. c = 401) codes of
        [] \<Rightarrow> Err (NewUnauthenticated (ErrMsg ''too many 401 (probably)''))
      | c # _ \<Rightarrow> if c div 100 = 2 then Ok () else Err (ErrMsg (''unexpected status code '' @ Itoa c)))"

lemma login_trials_result:
  assumes "answers pending rh" "n \<le> length (pending w)"
  shows "fst (login_trials rh path n resps w) = login_result (take n (pending w))"
  using assms(2)
proof (induction n arbitrary: w resps)
  case 0
  then show ?case by (simp add: login_result_def fail_def)
next
  case (Suc n)
  then obtain c cs where w: "pending w = c # cs" by (cases "pending w") auto
  obtain w1 where w1: "rh_NewRequest rh path w = (Ok (), w1)" "pending w1 = c # cs" using assms(1) w unfolding answers_def by metis
  obtain w2 where w2: "rh_Authorize rh w1 = (Ok (), w2)" "pending w2 = c # cs" using assms(1) w1(2) unfolding answers_def by metis
  obtain w3 where w3: "rh_Do rh path w2 = (Ok c, w3)" "pending w3 = cs" using assms(1) w2(2) unfolding answers_def by metis
  obtain w4 where w4: "rh_AddResponses rh (resps @ [c]) w3 = (Ok (), w4)" "pending w4 = cs" using assms(1) w3(2) unfolding answers_def by metis
  show ?case
  proof (cases "c = 401")
    case True
    then have "login_trials rh path (Suc n) resps w = login_trials rh path n (resps @ [c]) w4"
      using w1 w2 w3 w4 by (simp add: or_else_def)
    with Suc w w4 True show ?thesis by (simp add: login_result_def)
  next
    case False
    with w w1 w2 w3 show ?thesis by (simp add: or_else_def login_result_def fail_def ret_def)
  qed
qed

text \<open>
  C35: A login to a registry makes at most three requests. It succeeds exactly when the first answer among them that is not 401
  is a success; three answers 401 make it 401 for the client, any other answer an internal error. Requests without user name or password
  are refused before any of this.
\<close>

theorem login_outcome:
  assumes rh: "answers pending rh" "rh_Authorizer rh" and codes: "3 \<le> length (pending w)" and fresh: "w_sent rw = None"
    and host: "se_Parse env (if addr = [] then defaultRegHost else addr) = Ok host"
      "se_NewHostOptions env host (auth_creds host user pass) w = (Ok (), w)" "se_ConfigureHosts env host w = (Ok [rh], w)"
    and tok: "\<And>w. \<exists>t w'. se_Token env (rh_Host rh) w = (Ok t, w')"
  shows "\<exists>rw' w'. handler_auth (system_Auth env) (Ok \<lparr>ar_Username = user, ar_Password = pass, ar_ServerAddress = addr\<rparr>) rw w = (Ok rw', w') \<and>
    status_of rw' = Some (if user = [] \<or> pass = [] then 400
      else case dropWhile (\<lambda>c. c = 401) (take 3 (pending w)) of [] \<Rightarrow> 401 | c # _ \<Rightarrow> if c div 100 = 2 then 200 else 500)"
proof -
  have st: "status_of rw = None" using fresh by (simp add: status_of_def)
  obtain r w1 where login: "loginRegHost rh w = (r, w1)" by fastforce
  then have r: "r = login_result (take 3 (pending w))"
    using login_trials_result [OF rh(1) codes] rh(2) by (metis fst_conv loginRegHost_def)
  obtain t w2 where t: "se_Token env (rh_Host rh) w1 = (Ok t, w2)" using tok by blast
  have auth: "system_Auth env user pass addr w =
      (case r of Ok _ \<Rightarrow> (Ok t, w2) | Err e \<Rightarrow> (Err (ErrWrap ''failed to log in to all the registry hosts, last err: '' e []), w1)
       | Panic p \<Rightarrow> (Panic p, w1) | Hang \<Rightarrow> (Hang, w1))"
    using host login t by (cases r) (simp_all add: system_Auth_def Let_def or_else_def fail_def)
  have codes': "IsUnauthenticated (ErrWrap a (NewUnauthenticated e) b)" "\<not> IsUnauthenticated (ErrWrap a (ErrMsg m) b)" for a b e m
    by (simp_all add: errdefs_defs)
  obtain ds where ds: "dropWhile (\<lambda>c. c = 401) (take 3 (pending w)) = ds" by blast
  show ?thesis
    using auth r st codes' unfolding login_result_def ds
    by (cases ds) (auto simp: handler_auth_def parsed_def serve_def or_else_def ret_def)
qed

section \<open>The event stream\<close>

lemma ToLegacyFormat_ok:
  "gomap_ok (ToLegacyFormat f) \<and> [] \<notin> ran (map_of (ToLegacyFormat f))"
proof -
  let ?step = "\<lambda>key result. let vals = getFiltersKeys f key in if length vals > 0 then map_put key (sort vals) result else result"
  have "gomap_ok m \<and> [] \<notin> ran (map_of m) \<Longrightarrow> gomap_ok (fold ?step ks m) \<and> [] \<notin> ran (map_of (fold ?step ks m))" for ks and m :: "string list gomap"
  proof (induction ks arbitrary: m)
    case (Cons k ks)
    have "[] \<notin> ran (map_of (map_put k (sort (v # vs)) m))" for v vs
      using Cons.prems by (auto simp: ran_def)
    then have "gomap_ok (?step k m) \<and> [] \<notin> ran (map_of (?step k m))"
      using Cons.prems by (cases "getFiltersKeys f k") simp_all
    then show ?case using Cons.IH by simp
  qed simp
  from this [of "[]"] show ?thesis by (simp add: ToLegacyFormat_def)
qed

lemma filter_loop_no_type:
  "''type'' \<notin> fst ` set fs \<Longrightarrow> filter_loop fs acc = Ok acc"
  by (induction fs acc rule: filter_loop.induct) auto

lemma filter_loop_one:
  assumes "gomap_ok fs"
  shows "filter_loop fs [t] =
    Ok (case map_of fs ''type'' of None \<Rightarrow> [t] | Some vs \<Rightarrow> map (\<lambda>eventType. topic_filter (eventType @ ''/'')) vs)"
  using assms
proof (induction fs)
  case (Cons kv fs)
  obtain k vs where kv: "kv = (k, vs)" by fastforce
  show ?case
  proof (cases "k = ''type''")
    case True
    with Cons.prems kv have "''type'' \<notin> fst ` set fs" by simp
    with True kv show ?thesis by (simp add: filter_loop_no_type)
  next
    case False
    with Cons kv show ?thesis by simp
  qed
qed simp

text \<open>The events before the subscription ends, and the daemon's own among them.\<close>

definition live :: "sub_event list \<Rightarrow> envelope list" where
  "live evs = List.map_filter (\<lambda>e. case e of SubEnvelope x \<Rightarrow> x | _ \<Rightarrow> None)
     (takeWhile (\<lambda>e. case e of SubEnvelope _ \<Rightarrow> True | _ \<Rightarrow> False) evs)"

definition own_events :: "envelope list \<Rightarrow> sent_event list" where
  "own_events = List.map_filter (\<lambda>e. case en_Event e of OwnEvent ev \<Rightarrow> Some (stamp (en_Timestamp e) ev) | _ \<Rightarrow> None)"

definition foreign :: "envelope \<Rightarrow> bool" where
  "foreign e \<longleftrightarrow> (case en_Event e of ForeignEvent _ \<Rightarrow> True | _ \<Rightarrow> False)"

lemma live_simps [simp]:
  "live [] = []" "live (SubErr err # evs) = []" "live (SubDone c # evs) = []" "live (SubEnvelope None # evs) = live evs"
  "live (SubEnvelope (Some e) # evs) = e # live evs"
  by (simp_all add: live_def map_filter_simps)

lemma subscribe_loop_result:
  "if list_ex foreign (live evs) then \<exists>p. subscribe_loop evs sent = Panic p
   else \<exists>end. subscribe_loop evs sent = Ok (sent @ own_events (live evs), end)"
  by (induction evs sent rule: subscribe_loop.induct)
    (auto simp: own_events_def foreign_def map_filter_simps split: payload.splits)


section \<open>Witness\<close>

text \<open>A registry that answers the first request with 401 and accepts the second.\<close>

definition token_registry :: "int list registry_host" where
  "token_registry = \<lparr>rh_Host = ''r'', rh_Path = ''/v2'', rh_Authorizer = True, rh_NewRequest = (\<lambda>_. ret ()), rh_Authorize = ret (),
     rh_Do = (\<lambda>_ w. (case w of [] \<Rightarrow> (Err (ErrMsg ''closed''), w) | c # cs \<Rightarrow> (Ok c, cs))), rh_AddResponses = (\<lambda>_. ret ())\<rparr>"

definition token_env :: "int list auth_env" where
  "token_env = \<lparr>se_Parse = Ok, se_NewHostOptions = (\<lambda>_ _. ret ()), se_ConfigureHosts = (\<lambda>_. ret [token_registry]), se_Token = (\<lambda>_. ret ''t'')\<rparr>"

theorem login_outcome_witness:
  "\<exists>rw' w'. handler_auth (system_Auth token_env) (Ok \<lparr>ar_Username = ''u'', ar_Password = ''p'', ar_ServerAddress = ''r''\<rparr>) (new_respw True) [401, 200, 200] =
     (Ok rw', w') \<and> status_of rw' = Some 200"
proof -
  have "answers (\<lambda>w. w) token_registry" by (simp add: answers_def token_registry_def ret_def)
  moreover have "rh_Authorizer token_registry" by (simp add: token_registry_def)
  ultimately show ?thesis
    using login_outcome [of "\<lambda>w. w" token_registry "[401, 200, 200]" "new_respw True" token_env "''r''" "''r''" "''u''" "''p''"]
    by (simp add: new_respw_def token_env_def ret_def)
qed

end
