(* ===== verification/Router.thy ===== *)
theory Router
  imports System
begin

text \<open>
  The router (\<open>src/api/router/router.go\<close>, \<open>src/api/types/router_types.go\<close>): the table of routes that the handler packages register,
  the version check and the authorization policy in front of every handler.

  Matching of templates and the choice of a route are gorilla's \<open>mux\<close> and a parameter; so are docker's comparison of versions and the
  evaluation of the Rego policy.
\<close>

section \<open>Routes\<close>

text \<open>A handler is named by its package and its method there.\<close>

record route =
  rt_Methods :: "string list"
  rt_Template :: string
  rt_Handler :: "string \<times> string"

text \<open>\<open>VersionedRouter.HandleFunc\<close> adds every route twice. The router is passed by value, so a prefix holds for one package.\<close>

definition HandleFunc :: "string \<Rightarrow> string \<Rightarrow> string \<times> string \<Rightarrow> string list \<Rightarrow> route list" where
  "HandleFunc prefix path f methods =
     [\<lparr>rt_Methods = methods, rt_Template = prefix @ path, rt_Handler = f\<rparr>,
      \<lparr>rt_Methods = methods, rt_Template = ''/v{version}'' @ prefix @ path, rt_Handler = f\<rparr>]"

definition register :: "string \<Rightarrow> string \<Rightarrow> (string \<times> string \<times> string list) list \<Rightarrow> route list" where
  "register pkg prefix rs = concat (map (\<lambda>(path, f, methods). HandleFunc prefix path (pkg, f) methods) rs)"

definition system_routes :: "route list" where
  "system_routes =
     register ''system'' ''''
     [(''/info'', ''info'', [''GET'']),
      (''/version'', ''version'', [''GET'']),
      (''/_ping'', ''ping'', [''HEAD'', ''GET'']),
      (''/auth'', ''auth'', [''POST'']),
      (''/events'', ''events'', [''GET''])]"

definition image_routes :: "route list" where
  "image_routes =
     register ''image'' ''/images''
     [(''/create'', ''pull'', [''POST'']),
      (''/load'', ''load'', [''POST'']),
      (''/json'', ''list'', [''GET'']),
      (''/{name:.*}'', ''remove'', [''DELETE'']),
      (''/{name:.*}/get'', ''export'', [''GET'']),
      (''/{name:.*}/push'', ''push'', [''POST'']),
      (''/{name:.*}/tag'', ''tag'', [''POST'']),
      (''/{name:.*}/json'', ''inspect'', [''GET''])]"

definition container_routes :: "route list" where
  "container_routes =
     register ''container'' ''/containers''
     [(''/{id:.*}'', ''remove'', [''DELETE'']),
      (''/{id:.*}/start'', ''start'', [''POST'']),
      (''/{id:.*}/stop'', ''stop'', [''POST'']),
      (''/{id:.*}/restart'', ''restart'', [''POST'']),
      (''/{id:.*}/remove'', ''remove'', [''POST'']),
      (''/{id:.*}/wait'', ''wait'', [''POST'']),
      (''/create'', ''create'', [''POST'']),
      (''/{id:.*}/json'', ''inspect'', [''GET'']),
      (''/{id:.*}/archive'', ''getArchive'', [''GET'']),
      (''/{id:.*}/attach'', ''attach'', [''POST'']),
      (''/json'', ''list'', [''GET'']),
      (''/{id:.*}/rename'', ''rename'', [''POST'']),
      (''/{id:.*}/logs'', ''logs'', [''GET'']),
      (''/{id:.*}/archive'', ''putArchive'', [''PUT'']),
      (''/{id:.*}/stats'', ''stats'', [''GET'']),
      (''/{id:.*}/exec'', ''exec'', [''POST'']),
      (''/{id:.*}/kill'', ''kill'', [''POST'']),
      (''/{id:.*}/pause'', ''pause'', [''POST'']),
      (''/{id:.*}/unpause'', ''unpause'', [''POST'']),
      (''/{id:.*}/top'', ''top'', [''GET''])]"

definition network_routes :: "route list" where
  "network_routes =
     register ''network'' ''/networks''
     [(''/create'', ''create'', [''POST'']),
      (''/{id:.*}/connect'', ''connect'', [''POST'']),
      (''/{id}'', ''inspect'', [''GET'']),
      (''/{id}'', ''remove'', [''DELETE'']),
      (''/'', ''list'', [''GET'']),
      ('''', ''list'', [''GET''])]"

definition builder_routes :: "route list" where
  "builder_routes =
     register ''builder'' ''''
     [(''/build'', ''build'', [''POST''])]"

definition volume_routes :: "route list" where
  "volume_routes =
     register ''volume'' ''/volumes''
     [('''', ''list'', [''GET'']),
      (''/{name:.*}'', ''inspect'', [''GET'']),
      (''/{name:.*}'', ''remove'', [''DELETE'']),
      (''/create'', ''create'', [''POST''])]"

definition exec_routes :: "route list" where
  "exec_routes =
     register ''exec'' ''/exec''
     [(''/{id:.*}/start'', ''start'', [''POST'']),
      (''/{id:.*}/resize'', ''resize'', [''POST'']),
      (''/{id:.*}/json'', ''inspect'', [''GET''])]"

definition distribution_routes :: "route list" where
  "distribution_routes =
     register ''distribution'' ''''
     [(''/distribution/{name:.*}/json'', ''inspect'', [''GET''])]"

text \<open>The order of registration in \<open>router.New\<close>.\<close>

definition all_routes :: "route list" where
  "all_routes = system_routes @ image_routes @ container_routes @ network_routes @ builder_routes @ volume_routes @ exec_routes @ distribution_routes"

section \<open>The table is well formed\<close>

definition versioned :: "route \<Rightarrow> route" where
  "versioned rt = rt\<lparr>rt_Template := ''/v{version}'' @ rt_Template rt\<rparr>"

definition route_keys :: "route list \<Rightarrow> (string \<times> string) list" where
  "route_keys rts = concat (map (\<lambda>rt. map (\<lambda>m. (m, rt_Template rt)) (rt_Methods rt)) rts)"

definition route_ok :: "route \<Rightarrow> bool" where
  "route_ok rt \<longleftrightarrow> rt_Methods rt \<noteq> [] \<and> list_all (\<lambda>m. List.member [''GET'', ''HEAD'', ''POST'', ''PUT'', ''DELETE''] m) (rt_Methods rt) \<and>
     HasPrefix (rt_Template rt) ''/'' \<and> \<not> HasPrefix (rt_Template rt) ''/v{''"

definition plain_routes :: "route list" where
  "plain_routes = filter (\<lambda>rt. \<not> HasPrefix (rt_Template rt) ''/v{'') all_routes"

lemma plain_ok: "list_all route_ok plain_routes"
  by code_simp

lemma plain_distinct: "distinct (route_keys plain_routes)"
  by code_simp

abbreviation twice :: "route list \<Rightarrow> route list" where
  "twice rts \<equiv> concat (map (\<lambda>rt. [rt, versioned rt]) rts)"

abbreviation plain :: "route list \<Rightarrow> route list" where
  "plain rts \<equiv> filter (\<lambda>rt. \<not> HasPrefix (rt_Template rt) ''/v{'') rts"

lemma register_twice:
  "list_all (\<lambda>(path, f, ms). \<not> HasPrefix (prefix @ path) ''/v{'') rs \<Longrightarrow> register pkg prefix rs = twice (plain (register pkg prefix rs))"
  by (induction rs) (auto simp: register_def HandleFunc_def versioned_def HasPrefix_def)

lemma twice_append: "as = twice (plain as) \<Longrightarrow> bs = twice (plain bs) \<Longrightarrow> as @ bs = twice (plain (as @ bs))"
  by simp

lemma all_routes_twice: "all_routes = twice plain_routes"
  unfolding plain_routes_def all_routes_def system_routes_def image_routes_def container_routes_def network_routes_def
    builder_routes_def volume_routes_def exec_routes_def distribution_routes_def
  by (intro twice_append register_twice) (simp_all add: HasPrefix_def)

lemma route_keys_versioned: "route_keys [versioned rt] = map (apsnd ((@) ''/v{version}'')) (route_keys [rt])"
  by (simp add: route_keys_def versioned_def)

lemma route_keys_Cons: "route_keys (rt # rts) = route_keys [rt] @ route_keys rts"
  by (simp add: route_keys_def)

lemma route_keys_twice:
  "mset (route_keys (twice rts)) = mset (route_keys rts) + mset (map (apsnd ((@) ''/v{version}'')) (route_keys rts))"
proof (induction rts)
  case (Cons rt rts)
  have "route_keys (twice (rt # rts)) = route_keys [rt] @ route_keys [versioned rt] @ route_keys (twice rts)"
    by (simp add: route_keys_def)
  then show ?case
    unfolding route_keys_versioned route_keys_Cons [of rt rts] by (simp only: mset_append map_append Cons.IH ac_simps)
qed (simp add: route_keys_def)

lemma distinct_twice:
  assumes "distinct (route_keys rts)" "\<And>k. k \<in> set (route_keys rts) \<Longrightarrow> \<not> HasPrefix (snd k) ''/v{''"
  shows "distinct (route_keys (twice rts))"
proof -
  define pre :: "string \<times> string \<Rightarrow> string \<times> string" where "pre = apsnd ((@) ''/v{version}'')"
  have "pre k \<notin> set (route_keys rts)" for k
  proof
    assume "pre k \<in> set (route_keys rts)"
    from assms(2) [OF this] show False by (simp add: pre_def HasPrefix_def)
  qed
  then have "set (route_keys rts) \<inter> set (map pre (route_keys rts)) = {}" by auto
  moreover have "inj pre" by (simp add: pre_def inj_on_def)
  then have "distinct (map pre (route_keys rts))" using assms(1) by (metis distinct_map inj_on_subset subset_UNIV)
  ultimately have "distinct (route_keys rts @ map pre (route_keys rts))" using assms(1) by simp
  moreover have "mset (route_keys (twice rts)) = mset (route_keys rts @ map pre (route_keys rts))"
    using route_keys_twice [of rts] by (simp only: mset_append pre_def)
  ultimately show ?thesis using mset_eq_imp_distinct_iff by blast
qed

lemma plain_keys:
  assumes "k \<in> set (route_keys plain_routes)"
  shows "\<not> HasPrefix (snd k) ''/v{''"
proof -
  from assms obtain rt where "rt \<in> set plain_routes" "snd k = rt_Template rt" by (auto simp: route_keys_def)
  then show ?thesis by (simp add: plain_routes_def)
qed


section \<open>Middleware\<close>

record request =
  rq_Method :: string
  rq_Path :: string
  rq_vars :: "string gomap"
  rq_APIVersion :: "string option"

type_synonym ('w, 'a) http_handler = "request \<Rightarrow> ('w, 'a) handler"

text \<open>\<open>lt\<close> is docker's \<open>versions.LessThan\<close>; \<open>GreaterThan\<close> is its converse.\<close>

definition VersionMiddleware :: "(string \<Rightarrow> string \<Rightarrow> bool) \<Rightarrow> ('w, 'a) http_handler \<Rightarrow> ('w, 'a) http_handler" where
  "VersionMiddleware lt next r rw =
     (case map_of (rq_vars r) ''version'' of
        None \<Rightarrow> next (r\<lparr>rq_APIVersion := Some DefaultApiVersion\<rparr>) rw
      | Some APIVersion \<Rightarrow>
          if lt APIVersion MinimumApiVersion
          then ret (SendErrorResponse 400 (ErrMsg (''your api version, v'' @ APIVersion @ '', is below the minimum supported version, v'' @ MinimumApiVersion)) rw)
          else if lt DefaultApiVersion APIVersion
          then ret (SendErrorResponse 400 (ErrMsg (''your api version, v'' @ APIVersion @ '', is newer than the server'' @ [CHR 0x27] @ ''s version, v'' @ DefaultApiVersion)) rw)
          else next (r\<lparr>rq_APIVersion := Some APIVersion\<rparr>) rw)"

definition errRego :: gerr where "errRego = ErrMsg ''error in rego policy file''"
definition errInput :: gerr where "errInput = ErrMsg ''error in HTTP request''"

text \<open>A prepared policy is evaluated on the method and the path of a request; the result says whether it is allowed.\<close>

type_synonym 'w policy = "string \<times> string \<Rightarrow> ('w, bool) io"

definition rego_middleware :: "'w policy \<Rightarrow> ('w, 'a) http_handler \<Rightarrow> ('w, 'a) http_handler" where
  "rego_middleware Eval next r rw =
     or_else (Eval (rq_Method r, rq_Path r)) (\<lambda>err. ret (SendErrorResponse 500 errInput rw))
       (\<lambda>allowed. if \<not> allowed
          then ret (SendErrorResponse 403 (ErrMsg (''method '' @ rq_Method r @ '' not allowed for path '' @ rq_Path r)) rw)
          else next r rw)"

definition CreateRegoMiddleware :: "(string \<Rightarrow> 'w policy res) \<Rightarrow> string \<Rightarrow> (('w, 'a) http_handler \<Rightarrow> ('w, 'a) http_handler) res" where
  "CreateRegoMiddleware PrepareForEval regoFilePath =
     (if regoFilePath = [] then Err errRego
      else case PrepareForEval regoFilePath of
             Ok preppedQuery \<Rightarrow> Ok (rego_middleware preppedQuery)
           | Err err \<Rightarrow> Err err
           | Panic p \<Rightarrow> Panic p
           | Hang \<Rightarrow> Hang)"

text \<open>The router that \<open>New\<close> returns: its routes and its middlewares, the outermost first.\<close>

record ('w, 'a) mux_router =
  r_routes :: "route list"
  r_middlewares :: "(('w, 'a) http_handler \<Rightarrow> ('w, 'a) http_handler) list"

definition New :: "(string \<Rightarrow> string \<Rightarrow> bool) \<Rightarrow> (string \<Rightarrow> 'w policy res) \<Rightarrow> string \<Rightarrow> ('w, 'a) mux_router res" where
  "New lt PrepareForEval regoFilePath =
     (if regoFilePath \<noteq> [] then
        (case CreateRegoMiddleware PrepareForEval regoFilePath of
           Ok mw \<Rightarrow> Ok \<lparr>r_routes = all_routes, r_middlewares = [VersionMiddleware lt, mw]\<rparr>
         | Err err \<Rightarrow> Err err
         | Panic p \<Rightarrow> Panic p
         | Hang \<Rightarrow> Hang)
      else Ok \<lparr>r_routes = all_routes, r_middlewares = [VersionMiddleware lt]\<rparr>)"

text \<open>A matched handler behind the middlewares.\<close>

definition guarded :: "('w, 'a) mux_router \<Rightarrow> ('w, 'a) http_handler \<Rightarrow> ('w, 'a) http_handler" where
  "guarded router h = foldr (\<lambda>mw next. mw next) (r_middlewares router) h"

section \<open>Which requests reach a handler\<close>

definition version_ok :: "(string \<Rightarrow> string \<Rightarrow> bool) \<Rightarrow> request \<Rightarrow> bool" where
  "version_ok lt r \<longleftrightarrow>
     (case map_of (rq_vars r) ''version'' of None \<Rightarrow> True | Some v \<Rightarrow> \<not> lt v MinimumApiVersion \<and> \<not> lt DefaultApiVersion v)"

definition api_version :: "request \<Rightarrow> string" where
  "api_version r = (case map_of (rq_vars r) ''version'' of None \<Rightarrow> DefaultApiVersion | Some v \<Rightarrow> v)"

lemma version_refused:
  assumes "\<not> version_ok lt r"
  shows "\<exists>err. \<forall>next. VersionMiddleware lt next r rw w = (Ok (SendErrorResponse 400 err rw), w)"
proof -
  obtain v where v: "map_of (rq_vars r) ''version'' = Some v" "lt v MinimumApiVersion \<or> lt DefaultApiVersion v"
    using assms by (auto simp: version_ok_def split: option.splits)
  let ?low = "ErrMsg (''your api version, v'' @ v @ '', is below the minimum supported version, v'' @ MinimumApiVersion)"
  let ?high = "ErrMsg (''your api version, v'' @ v @ '', is newer than the server'' @ [CHR 0x27] @ ''s version, v'' @ DefaultApiVersion)"
  have "\<forall>next. VersionMiddleware lt next r rw w = (Ok (SendErrorResponse 400 (if lt v MinimumApiVersion then ?low else ?high) rw), w)"
    using v by (auto simp: VersionMiddleware_def ret_def)
  then show ?thesis by blast
qed

lemma version_accepted:
  assumes "version_ok lt r"
  shows "VersionMiddleware lt g r rw w = g (r\<lparr>rq_APIVersion := Some (api_version r)\<rparr>) rw w"
  using assms by (auto simp: VersionMiddleware_def version_ok_def api_version_def split: option.splits)

lemma router_gate:
  assumes router: "New lt PrepareForEval file = Ok router" and fresh: "w_sent rw = None"
    and eval: "file \<noteq> [] \<longrightarrow> (\<exists>policy. PrepareForEval file = Ok policy \<and> policy (rq_Method r, rq_Path r) w = (er, w1))"
    and er: "file = [] \<longrightarrow> w1 = w \<and> er = Ok True" "er = Ok allowed \<or> er = Err e"
  shows "if version_ok lt r \<and> er = Ok True then \<forall>h. guarded router h r rw w = h (r\<lparr>rq_APIVersion := Some (api_version r)\<rparr>) rw w1
    else \<exists>rw'. (\<forall>h. guarded router h r rw w = (Ok rw', if version_ok lt r then w1 else w)) \<and>
      status_of rw' = Some (if \<not> version_ok lt r then 400 else if er = Ok False then 403 else 500)"
proof (cases "version_ok lt r")
  case False
  have "\<exists>rest. r_middlewares router = VersionMiddleware lt # rest"
    using router by (auto simp: New_def split: if_splits res.splits)
  then obtain rest where "r_middlewares router = VersionMiddleware lt # rest" by blast
  then have "guarded router h r rw w = VersionMiddleware lt (foldr (\<lambda>mw next. mw next) rest h) r rw w" for h
    by (simp add: guarded_def)
  with version_refused [OF False] obtain err where "\<forall>h. guarded router h r rw w = (Ok (SendErrorResponse 400 err rw), w)" by metis
  moreover have "status_of (SendErrorResponse 400 err rw) = Some 400" using fresh by (simp add: status_of_def [of rw])
  ultimately show ?thesis using False by auto
next
  case True
  note inner = version_accepted [OF True]
  show ?thesis
  proof (cases "file = []")
    case True
    then have "guarded router h r rw w = h (r\<lparr>rq_APIVersion := Some (api_version r)\<rparr>) rw w" for h
      using router inner by (auto simp: New_def guarded_def)
    with True er(1) \<open>version_ok lt r\<close> show ?thesis by simp
  next
    case False
    then obtain policy where p: "PrepareForEval file = Ok policy" "policy (rq_Method r, rq_Path r) w = (er, w1)" using eval by blast
    then have "guarded router h r rw w = rego_middleware policy h (r\<lparr>rq_APIVersion := Some (api_version r)\<rparr>) rw w" for h
      using router inner False by (auto simp: New_def guarded_def CreateRegoMiddleware_def)
    then have run: "guarded router h r rw w =
        (case er of Ok ok \<Rightarrow> if ok then h (r\<lparr>rq_APIVersion := Some (api_version r)\<rparr>) rw w1
             else (Ok (SendErrorResponse 403 (ErrMsg (''method '' @ rq_Method r @ '' not allowed for path '' @ rq_Path r)) rw), w1)
         | Err _ \<Rightarrow> (Ok (SendErrorResponse 500 errInput rw), w1) | Panic x \<Rightarrow> (Panic x, w1) | Hang \<Rightarrow> (Hang, w1))" for h
      using p(2) by (simp add: rego_middleware_def or_else_def ret_def split: res.splits)
    have st: "status_of (SendErrorResponse c x rw) = Some c" for c x using fresh by (simp add: status_of_def [of rw])
    from er(2) show ?thesis
    proof
      assume "er = Ok allowed"
      with run st \<open>version_ok lt r\<close> show ?thesis by (cases allowed) auto
    next
      assume "er = Err e"
      with run st \<open>version_ok lt r\<close> show ?thesis by auto
    qed
  qed
qed

text \<open>
  C13: A request reaches its handler only if its version is in the supported range and, when the daemon was started with a
  policy file, the policy allows its method and path; the handler then sees the same request with the version in its context. Otherwise the answer is
  400, 403 or, when the policy cannot be evaluated, 500, whatever the handler.
\<close>

theorem request_gate:
  assumes "New lt PrepareForEval file = Ok router" and "w_sent rw = None"
    and "file \<noteq> [] \<longrightarrow> (\<exists>policy. PrepareForEval file = Ok policy \<and> policy (rq_Method r, rq_Path r) w = (er, w1))"
    and "file = [] \<longrightarrow> w1 = w \<and> er = Ok True" "er = Ok allowed \<or> er = Err e"
  shows "if version_ok lt r \<and> er = Ok True then \<forall>h. guarded router h r rw w = h (r\<lparr>rq_APIVersion := Some (api_version r)\<rparr>) rw w1
    else \<exists>rw'. (\<forall>h. guarded router h r rw w = (Ok rw', if version_ok lt r then w1 else w)) \<and>
      status_of rw' = Some (if \<not> version_ok lt r then 400 else if er = Ok False then 403 else 500)"
  by (rule router_gate [OF assms])

section \<open>Shadowed routes\<close>

text \<open>What \<open>mux\<close> documents: routes are tested in the order they were added, and the first that matches is taken.\<close>

definition first_match :: "(string \<Rightarrow> string \<Rightarrow> string gomap option) \<Rightarrow>
    (route list \<Rightarrow> string \<Rightarrow> string \<Rightarrow> ((string \<times> string) \<times> string gomap) option) \<Rightarrow> bool" where
  "first_match match pick \<longleftrightarrow>
     (\<forall>rt rts meth path vs. meth \<in> set (rt_Methods rt) \<longrightarrow> match (rt_Template rt) path = Some vs \<longrightarrow>
        pick (rt # rts) meth path = Some (rt_Handler rt, vs)) \<and>
     (\<forall>rt rts meth path. match (rt_Template rt) path = None \<longrightarrow> pick (rt # rts) meth path = pick rts meth path)"

text \<open>
  The volume named \<open>info\<close> cannot be inspected without a version in the path: \<open>/volumes/info\<close> matches the earlier route
  \<open>/v{version}/info\<close> with the version \<open>olumes\<close>, and the version check refuses it.
\<close>

theorem volume_info_shadowed:
  assumes mux: "first_match match pick"
    and plain: "match ''/info'' ''/volumes/info'' = None"
    and versioned: "match ''/v{version}/info'' ''/volumes/info'' = Some [(''version'', ''olumes'')]"
    and router: "New lt PrepareForEval file = Ok router"
    and old: "lt ''olumes'' MinimumApiVersion" and fresh: "w_sent rw = None"
  shows "pick (r_routes router) ''GET'' ''/volumes/info'' = Some ((''system'', ''info''), [(''version'', ''olumes'')]) \<and>
    (\<exists>rw'. (\<forall>h. guarded router h \<lparr>rq_Method = ''GET'', rq_Path = ''/volumes/info'', rq_vars = [(''version'', ''olumes'')], rq_APIVersion = None\<rparr> rw w = (Ok rw', w)) \<and>
       status_of rw' = Some 400)"
proof -
  have rts: "r_routes router = all_routes"
    and mws: "\<exists>rest. r_middlewares router = VersionMiddleware lt # rest"
    using router by (auto simp: New_def split: if_splits res.splits)
  obtain rest where all: "all_routes = \<lparr>rt_Methods = [''GET''], rt_Template = ''/info'', rt_Handler = (''system'', ''info'')\<rparr> #
      \<lparr>rt_Methods = [''GET''], rt_Template = ''/v{version}/info'', rt_Handler = (''system'', ''info'')\<rparr> # rest"
    by (simp add: all_routes_def system_routes_def register_def HandleFunc_def)
  have "pick (r_routes router) ''GET'' ''/volumes/info'' = Some ((''system'', ''info''), [(''version'', ''olumes'')])"
    using mux plain versioned unfolding first_match_def rts all by simp
  moreover
  let ?r = "\<lparr>rq_Method = ''GET'', rq_Path = ''/volumes/info'', rq_vars = [(''version'', ''olumes'')], rq_APIVersion = None\<rparr>"
  have bad: "\<not> version_ok lt ?r" using old by (simp add: version_ok_def)
  obtain mws' where m: "r_middlewares router = VersionMiddleware lt # mws'" using mws by blast
  have "guarded router h ?r rw w = VersionMiddleware lt (foldr (\<lambda>mw next. mw next) mws' h) ?r rw w" for h
    by (simp add: guarded_def m)
  with version_refused [OF bad] obtain err where "\<forall>h. guarded router h ?r rw w = (Ok (SendErrorResponse 400 err rw), w)" by metis
  moreover have "status_of (SendErrorResponse 400 err rw) = Some 400" using fresh by (simp add: status_of_def [of rw])
  ultimately show ?thesis by blast
qed

section \<open>Witnesses\<close>

definition no_compare :: "string \<Rightarrow> string \<Rightarrow> bool" where
  "no_compare v u \<longleftrightarrow> v = ''olumes''"

theorem request_gate_witness:
  "\<exists>router rw'. New no_compare (\<lambda>_. Ok (\<lambda>(meth, path). ret (meth = ''GET''))) ''p.rego'' = Ok router \<and>
    guarded router (\<lambda>r rw. panic ''reached'') \<lparr>rq_Method = ''DELETE'', rq_Path = ''/images/x'', rq_vars = [], rq_APIVersion = None\<rparr>
      (new_respw True :: unit respw) () = (Ok rw', ()) \<and> status_of rw' = Some 403"
proof -
  let ?P = "\<lambda>_ :: string. Ok (\<lambda>(meth :: string, path :: string). ret (meth = ''GET'')) :: unit policy res"
  obtain router :: "(unit, unit) mux_router" where router: "New no_compare ?P ''p.rego'' = Ok router"
    by (simp add: New_def CreateRegoMiddleware_def)
  from request_gate [OF router, of "new_respw True" "\<lparr>rq_Method = ''DELETE'', rq_Path = ''/images/x'', rq_vars = [], rq_APIVersion = None\<rparr>" "()" "Ok False" "()" False]
  have "\<exists>rw'. (\<forall>h. guarded router h \<lparr>rq_Method = ''DELETE'', rq_Path = ''/images/x'', rq_vars = [], rq_APIVersion = None\<rparr> (new_respw True) () = (Ok rw', ())) \<and>
      status_of rw' = Some 403"
    by (simp add: new_respw_def ret_def version_ok_def)
  with router show ?thesis by blast
qed

definition demo_match :: "string \<Rightarrow> string \<Rightarrow> string gomap option" where
  "demo_match template path =
     (if template = path then Some []
      else if template = ''/v{version}/info'' \<and> path = ''/volumes/info'' then Some [(''version'', ''olumes'')] else None)"

fun demo_pick :: "route list \<Rightarrow> string \<Rightarrow> string \<Rightarrow> ((string \<times> string) \<times> string gomap) option" where
  "demo_pick [] meth path = None"
| "demo_pick (rt # rts) meth path =
     (case demo_match (rt_Template rt) path of
        None \<Rightarrow> demo_pick rts meth path
      | Some vs \<Rightarrow> if meth \<in> set (rt_Methods rt) then Some (rt_Handler rt, vs) else demo_pick rts meth path)"

theorem volume_info_shadowed_witness:
  "\<exists>router :: (unit, unit) mux_router. New no_compare (\<lambda>_. Err errRego) [] = Ok router \<and>
    demo_pick (r_routes router) ''GET'' ''/volumes/info'' = Some ((''system'', ''info''), [(''version'', ''olumes'')])"
proof -
  obtain router :: "(unit, unit) mux_router" where router: "New no_compare (\<lambda>_. Err errRego) [] = Ok router" by (simp add: New_def)
  have "first_match demo_match demo_pick" by (simp add: first_match_def)
  from volume_info_shadowed [OF this _ _ router, of "new_respw True" "()"] router show ?thesis
    by (simp add: demo_match_def no_compare_def new_respw_def)
qed

end
