(* ===== verification/Passwd.thy ===== *)
theory Passwd
  imports Effects
begin

text \<open>
  The user database: \<open>internal/fs/passwd/passwd.go\<close> (\<open>parse\<close>, \<open>Walk\<close>), and its one client, \<open>defineDockerConfig\<close> of
  \<open>cmd/finch-daemon/main.go\<close>, which points \<open>DOCKER_CONFIG\<close> of the daemon's process to the home directory of a user.

  The process environment is part of the world \<open>process\<close>; the rest of the world belongs to the operating system, whose calls are
  the fields of \<open>passwd_env\<close>. The lines of a file are what \<open>bufio.Scanner\<close> delivers: without the newline and a carriage return before
  it, up to the first line of 64 KiB or more, whose error \<open>Walk\<close> does not ask for. The reason that \<open>strconv\<close> adds to its errors is left out.
\<close>

section \<open>Entries\<close>

record Entry =
  en_Username :: string
  en_UID :: int
  en_GID :: int
  en_Home :: string
  en_Shell :: string

definition zero_entry :: Entry where
  "zero_entry = \<lparr>en_Username = [], en_UID = 0, en_GID = 0, en_Home = [], en_Shell = []\<rparr>"

definition index_error :: "'a res" where
  "index_error = Panic ''index out of range''"

definition passwd_parse :: "string \<Rightarrow> Entry res" where
  "passwd_parse s =
     (let parts = Split s (CHR '':'')
      in if length parts \<le> 2 then index_error
         else case ParseInt 32 (parts ! 2) of
           None \<Rightarrow> Err (ErrMsg (''strconv.ParseInt: parsing '' @ Quote (parts ! 2)))
         | Some uid \<Rightarrow>
             if length parts \<le> 3 then index_error
             else case ParseInt 32 (parts ! 3) of
               None \<Rightarrow> Ok zero_entry
             | Some gid \<Rightarrow>
                 if length parts \<le> 6 then index_error
                 else Ok \<lparr>en_Username = parts ! 0, en_UID = uid, en_GID = gid, en_Home = parts ! 5, en_Shell = parts ! 6\<rparr>)"

section \<open>Walking the database\<close>

definition drop_CR :: "string \<Rightarrow> string" where
  "drop_CR l = (if l \<noteq> [] \<and> last l = CHR 0x0D then butlast l else l)"

definition ScanLines :: "string \<Rightarrow> string list" where
  "ScanLines content =
     (let ls = Split content (CHR 0x0A)
      in map drop_CR (takeWhile (\<lambda>l. length l < 65536) (if last ls = [] then butlast ls else ls)))"

fun walk_lines :: "(Entry \<Rightarrow> ('w, bool) io) \<Rightarrow> string list \<Rightarrow> ('w, unit) io" where
  "walk_lines f [] = ret ()"
| "walk_lines f (l # ls) =
     and_then (lift_res (passwd_parse l)) (\<lambda>entry.
     and_then (f entry) (\<lambda>continue. if \<not> continue then ret () else walk_lines f ls))"

definition Walk :: "('w, string) io \<Rightarrow> (Entry \<Rightarrow> ('w, bool) io) \<Rightarrow> ('w, unit) io" where
  "Walk open_file f = and_then open_file (\<lambda>content. walk_lines f (ScanLines content))"

section \<open>The docker configuration of the process\<close>

record 'w process =
  pr_Env :: "string gomap"
  pr_CredentialAddr :: string
  pr_Outside :: 'w

definition Setenv :: "string \<Rightarrow> string \<Rightarrow> ('w process, unit) io" where
  "Setenv k v w = (Ok (), w\<lparr>pr_Env := map_put k v (pr_Env w)\<rparr>)"

record 'w passwd_env =
  pe_open :: "('w process, string) io"
  pe_LookPath :: "string \<Rightarrow> ('w process, string) io"
  pe_MkdirAll :: "string \<Rightarrow> nat \<Rightarrow> ('w process, unit) io"
  pe_WriteFile :: "string \<Rightarrow> string \<Rightarrow> nat \<Rightarrow> ('w process, unit) io"

definition config_content :: string where
  "config_content = ''{'' @ [CHR 0x0A] @ ''    '' @ Quote ''credsStore'' @ '': '' @ Quote ''finch'' @ [CHR 0x0A] @ ''}''"

definition docker_config_entry :: "'w passwd_env \<Rightarrow> int \<Rightarrow> Entry \<Rightarrow> ('w process, bool) io" where
  "docker_config_entry env uid e =
     (if en_UID e = uid
      then or_else (pe_LookPath env ''docker-credential-finch'')
        (\<lambda>_. and_then (Setenv ''DOCKER_CONFIG'' (en_Home e @ ''/.finch'')) (\<lambda>_. ret False))
        (\<lambda>_. let dockerConfigDir = en_Home e @ ''/.finch/.finch-daemon''
             in or_else (pe_MkdirAll env dockerConfigDir 448) (\<lambda>err. ret True) (\<lambda>_.
                or_else (pe_WriteFile env (path_Join [dockerConfigDir, ''config.json'']) config_content 384) (\<lambda>err. ret True) (\<lambda>_.
                and_then (Setenv ''DOCKER_CONFIG'' dockerConfigDir) (\<lambda>_. ret False))))
      else ret True)"

definition defineDockerConfig :: "'w passwd_env \<Rightarrow> int \<Rightarrow> ('w process, unit) io" where
  "defineDockerConfig env uid = Walk (pe_open env) (docker_config_entry env uid)"

section \<open>Lines of the database\<close>

definition entry_line :: "Entry \<Rightarrow> string \<Rightarrow> string \<Rightarrow> string \<Rightarrow> string" where
  "entry_line e password gid gecos =
     Join [en_Username e, password, Itoa (en_UID e), gid, gecos, en_Home e, en_Shell e] '':''"

lemma Split_Join_colon:
  "list_all (\<lambda>p. CHR '':'' \<notin> set p) ps \<Longrightarrow> ps \<noteq> [] \<Longrightarrow> Split (Join ps '':'') (CHR '':'') = ps"
proof (induction ps)
  case (Cons p ps)
  then show ?case by (cases ps) (simp_all add: Split_append_sep)
qed simp

lemma Itoa_no_colon [simp]: "CHR '':'' \<notin> set (Itoa i)"
proof -
  have "CHR '':'' \<notin> set (dec_digits n)" for n
  proof
    assume "CHR '':'' \<in> set (dec_digits n)"
    moreover have "list_all is_digit (dec_digits n)" using dec_digits_digits [of n] by (simp add: list_all_iff)
    ultimately have "is_digit (CHR '':'')" by (auto simp: list_all_iff)
    then show False by (simp add: is_digit_def)
  qed
  then show ?thesis by (simp add: Itoa_def)
qed


lemma Split_entry_line:
  assumes "list_all (\<lambda>p. CHR '':'' \<notin> set p) [en_Username e, password, g, gecos, en_Home e, en_Shell e]"
  shows "Split (entry_line e password g gecos) (CHR '':'') = [en_Username e, password, Itoa (en_UID e), g, gecos, en_Home e, en_Shell e]"
  unfolding entry_line_def using assms by (subst Split_Join_colon) simp_all

text \<open>
  A line of the user database is read back as the entry it was written from; but if its group is not a number the line is no error: it is read as the
  zero entry, which has the user id and the group id of root and an empty home directory.
\<close>

theorem passwd_round_trip:
  assumes "list_all (\<lambda>p. CHR '':'' \<notin> set p) [en_Username e, password, gid, gecos, en_Home e, en_Shell e]"
    and "- (2 ^ 31) \<le> en_UID e" "en_UID e < 2 ^ 31" "- (2 ^ 31) \<le> en_GID e" "en_GID e < 2 ^ 31"
  shows "passwd_parse (entry_line e password (Itoa (en_GID e)) gecos) = Ok e \<and>
    (ParseInt 32 gid = None \<longrightarrow> passwd_parse (entry_line e password gid gecos) = Ok zero_entry)"
proof -
  note split = Split_entry_line [of e password _ gecos]
  have ids: "ParseInt 32 (Itoa (en_UID e)) = Some (en_UID e)" "ParseInt 32 (Itoa (en_GID e)) = Some (en_GID e)"
    using assms by (simp_all add: ParseInt_Itoa)
  show ?thesis
    using split assms(1) ids by (simp add: passwd_parse_def)
qed

text \<open>What the operating system must do for the directory to be set: the calls return, and none touches the environment of the process.\<close>

definition fs_works :: "'w passwd_env \<Rightarrow> bool \<Rightarrow> bool" where
  "fs_works env helper \<longleftrightarrow>
     (\<forall>p w. \<exists>w'. pe_LookPath env p w = (if helper then Ok p else Err (ErrMsg ''not found''), w') \<and> pr_Env w' = pr_Env w) \<and>
     (\<forall>d m w. \<exists>w'. pe_MkdirAll env d m w = (Ok (), w') \<and> pr_Env w' = pr_Env w) \<and>
     (\<forall>f c m w. \<exists>w'. pe_WriteFile env f c m w = (Ok (), w') \<and> pr_Env w' = pr_Env w)"

definition config_dir :: "bool \<Rightarrow> Entry \<Rightarrow> string" where
  "config_dir helper e = en_Home e @ (if helper then ''/.finch/.finch-daemon'' else ''/.finch'')"

lemma docker_config_match:
  assumes "fs_works env helper" "en_UID e = uid"
  shows "\<exists>w'. docker_config_entry env uid e w = (Ok False, w') \<and> pr_Env w' = map_put ''DOCKER_CONFIG'' (config_dir helper e) (pr_Env w)"
proof -
  obtain w1 where look: "pe_LookPath env ''docker-credential-finch'' w = (if helper then Ok ''docker-credential-finch'' else Err (ErrMsg ''not found''), w1)"
    "pr_Env w1 = pr_Env w"
    using assms(1) unfolding fs_works_def by meson
  obtain w2 where mkdir: "pe_MkdirAll env (en_Home e @ ''/.finch/.finch-daemon'') 448 w1 = (Ok (), w2)" "pr_Env w2 = pr_Env w1"
    using assms(1) unfolding fs_works_def by meson
  obtain w3 where wr: "pe_WriteFile env (path_Join [en_Home e @ ''/.finch/.finch-daemon'', ''config.json'']) config_content 384 w2 = (Ok (), w3)"
    "pr_Env w3 = pr_Env w2"
    using assms(1) unfolding fs_works_def by meson
  show ?thesis
    using assms(2) look mkdir wr
    by (cases helper) (simp_all add: docker_config_entry_def config_dir_def or_else_def and_then_def Setenv_def Let_def)
qed

lemma walk_docker_config:
  assumes "fs_works env helper" "map passwd_parse ls = map Ok es"
  shows "\<exists>w'. walk_lines (docker_config_entry env uid) ls w = (Ok (), w') \<and>
    pr_Env w' = (case find (\<lambda>e. en_UID e = uid) es of None \<Rightarrow> pr_Env w | Some e \<Rightarrow> map_put ''DOCKER_CONFIG'' (config_dir helper e) (pr_Env w))"
  using assms(2)
proof (induction ls arbitrary: es)
  case (Cons l ls)
  then obtain e es' where es: "es = e # es'" and l: "passwd_parse l = Ok e" and rest: "map passwd_parse ls = map Ok es'"
    by (cases es) auto
  show ?case
  proof (cases "en_UID e = uid")
    case True
    from docker_config_match [OF assms(1) this, of w] obtain w' where
      "docker_config_entry env uid e w = (Ok False, w')" "pr_Env w' = map_put ''DOCKER_CONFIG'' (config_dir helper e) (pr_Env w)" by blast
    then show ?thesis using l True by (simp add: es and_then_def)
  next
    case False
    then have "docker_config_entry env uid e = ret True" by (simp add: docker_config_entry_def)
    then have "walk_lines (docker_config_entry env uid) (l # ls) w = walk_lines (docker_config_entry env uid) ls w"
      using l by (simp add: and_then_def)
    with Cons.IH [OF rest] False show ?thesis by (simp add: es)
  qed
qed simp

text \<open>
  \<open>DOCKER_CONFIG\<close> is set to the directory of the first entry with the user id of the socket's owner; without such an entry the daemon
  starts all the same, and the environment is as it was. For an owner 0 that entry may be a line with a malformed group, whose home directory is empty.
\<close>

theorem docker_config_of_owner:
  assumes "fs_works env helper" "pe_open env w = (Ok content, w0)" "pr_Env w0 = pr_Env w"
    and "map passwd_parse (ScanLines content) = map Ok es"
  shows "\<exists>w'. defineDockerConfig env uid w = (Ok (), w') \<and>
    map_of (pr_Env w') ''DOCKER_CONFIG'' =
      (case find (\<lambda>e. en_UID e = uid) es of
         None \<Rightarrow> map_of (pr_Env w) ''DOCKER_CONFIG''
       | Some e \<Rightarrow> Some (config_dir helper e))"
proof -
  from walk_docker_config [OF assms(1,4), of uid w0] obtain w' where
    w': "walk_lines (docker_config_entry env uid) (ScanLines content) w0 = (Ok (), w')"
    "pr_Env w' = (case find (\<lambda>e. en_UID e = uid) es of None \<Rightarrow> pr_Env w0 | Some e \<Rightarrow> map_put ''DOCKER_CONFIG'' (config_dir helper e) (pr_Env w0))"
    by blast
  then have "defineDockerConfig env uid w = (Ok (), w')" using assms(2) by (simp add: defineDockerConfig_def Walk_def and_then_def)
  with w'(2) assms(3) show ?thesis by (auto split: option.splits)
qed

section \<open>Witnesses\<close>

definition a_user :: Entry where
  "a_user = \<lparr>en_Username = ''user'', en_UID = 1000, en_GID = 1000, en_Home = ''/home/user'', en_Shell = ''/bin/bash''\<rparr>"

theorem passwd_round_trip_witness:
  "passwd_parse (entry_line a_user ''x'' (Itoa 1000) []) = Ok a_user \<and> passwd_parse (entry_line a_user ''x'' ''users'' []) = Ok zero_entry"
proof -
  have "ParseInt 32 ''users'' = None" by code_simp
  with passwd_round_trip [of a_user "''x''" "''users''" "[]"] show ?thesis by (simp add: a_user_def)
qed

lemma parse_1000: "ParseInt 32 ''1000'' = Some 1000"
  by code_simp

definition quiet_os :: "string \<Rightarrow> unit passwd_env" where
  "quiet_os content = \<lparr>pe_open = ret content, pe_LookPath = (\<lambda>p. ret p), pe_MkdirAll = (\<lambda>d m. ret ()), pe_WriteFile = (\<lambda>f c m. ret ())\<rparr>"

theorem docker_config_of_owner_witness:
  "\<exists>w'. defineDockerConfig (quiet_os ''user:x:1000:1000::/home/user:/bin/bash'') 1000 \<lparr>pr_Env = [], pr_CredentialAddr = [], pr_Outside = ()\<rparr> = (Ok (), w') \<and>
    map_of (pr_Env w') ''DOCKER_CONFIG'' = Some ''/home/user/.finch/.finch-daemon''"
proof -
  have parsed: "map passwd_parse (ScanLines ''user:x:1000:1000::/home/user:/bin/bash'') = map Ok [a_user]"
    by (simp add: ScanLines_def drop_CR_def passwd_parse_def a_user_def Let_def parse_1000)
  have "fs_works (quiet_os c) True" for c by (simp add: fs_works_def quiet_os_def)
  from docker_config_of_owner [OF this _ _ parsed, where w = "\<lparr>pr_Env = [], pr_CredentialAddr = [], pr_Outside = ()\<rparr>" and uid = 1000] show ?thesis
    by (simp add: quiet_os_def a_user_def zero_entry_def config_dir_def)
qed

end
