(* ===== verification/Backend.thy ===== *)
theory Backend
  imports Effects
begin

text \<open>
  The wrappers around containerd and nerdctl (\<open>internal/backend/nerdctl.go\<close>, \<open>container.go\<close>, \<open>image.go\<close>, \<open>volume.go\<close> and the calls of \<open>containerd.go\<close> that
  the other theories take as parameters): which arguments and options a call hands on, and what becomes of its result. The library functions
  themselves are the arguments of the definitions.
\<close>

section \<open>The wrapper\<close>

text \<open>nerdctl's configuration, as far as the daemon looks at it.\<close>

record 'g finch_config =
  cf_Debug :: bool
  cf_Address :: string
  cf_Namespace :: string
  cf_Snapshotter :: string
  cf_DataRoot :: string
  cf_CNIPath :: string
  cf_CNINetConfPath :: string
  cf_HostsDir :: "string list"
  cf_Rest :: 'g

record CNIEnv =
  ce_Path :: string
  ce_NetconfPath :: string
  ce_Namespace :: string

record ('g, 'c) NerdctlWrapper =
  nw_clientWrapper :: 'c
  nw_globalOptions :: "'g finch_config"
  nw_nerdctlExe :: string
  nw_netClient :: CNIEnv
  nw_CNI :: "string list"

definition NewNerdctlWrapper :: "'c \<Rightarrow> 'g finch_config \<Rightarrow> ('g, 'c) NerdctlWrapper" where
  "NewNerdctlWrapper cl options =
     \<lparr>nw_clientWrapper = cl, nw_globalOptions = options, nw_nerdctlExe = [],
      nw_netClient = \<lparr>ce_Path = cf_CNIPath options, ce_NetconfPath = cf_CNINetConfPath options, ce_Namespace = cf_Namespace options\<rparr>,
      nw_CNI = [cf_CNIPath options]\<rparr>"

text \<open>The path of the nerdctl binary is looked up until it has been found once.\<close>

definition GetNerdctlExe :: "(string \<Rightarrow> ('w, string) io) \<Rightarrow> ('g, 'c) NerdctlWrapper \<Rightarrow> ('w, string \<times> ('g, 'c) NerdctlWrapper) io" where
  "GetNerdctlExe LookPath nw =
     (if nw_nerdctlExe nw \<noteq> [] then ret (nw_nerdctlExe nw, nw)
      else and_then (LookPath ''nerdctl'') (\<lambda>exe. ret (exe, nw\<lparr>nw_nerdctlExe := exe\<rparr>)))"

lemma exe_found_once:
  assumes "GetNerdctlExe LookPath nw w = (Ok (exe, nw'), w')" "exe \<noteq> []"
  shows "GetNerdctlExe LookPath' nw' v = (Ok (exe, nw'), v)"
  using assms by (auto simp: GetNerdctlExe_def and_then_def split: if_splits prod.splits res.splits)

section \<open>Containers\<close>

text \<open>A command on one container: nerdctl takes a list of them.\<close>

type_synonym ('w, 'c, 'o) command = "'c \<Rightarrow> string list \<Rightarrow> 'o \<Rightarrow> ('w, unit) io"

definition StartContainer :: "('w, 'c, 'o) command \<Rightarrow> ('g, 'c) NerdctlWrapper \<Rightarrow> string \<Rightarrow> 'o \<Rightarrow> ('w, unit) io" where
  "StartContainer cmd_Start nw cid options = cmd_Start (nw_clientWrapper nw) [cid] options"

definition StopContainer :: "('w, 'c, 'o) command \<Rightarrow> ('g, 'c) NerdctlWrapper \<Rightarrow> string \<Rightarrow> 'o \<Rightarrow> ('w, unit) io" where
  "StopContainer cmd_Stop nw cid options = cmd_Stop (nw_clientWrapper nw) [cid] options"

definition RemoveContainer :: "('k \<Rightarrow> 'g finch_config \<Rightarrow> bool \<Rightarrow> bool \<Rightarrow> 'c \<Rightarrow> ('w, unit) io) \<Rightarrow> ('g, 'c) NerdctlWrapper \<Rightarrow> 'k \<Rightarrow> bool \<Rightarrow> bool \<Rightarrow> ('w, unit) io" where
  "RemoveContainer cmd_Remove nw con force removeVolumes =
     cmd_Remove con (nw_globalOptions nw) force removeVolumes (nw_clientWrapper nw)"

definition KillContainer :: "('w, 'c, 'o) command \<Rightarrow> ('g, 'c) NerdctlWrapper \<Rightarrow> string \<Rightarrow> 'o \<Rightarrow> ('w, unit) io" where
  "KillContainer cmd_Kill nw cid options = cmd_Kill (nw_clientWrapper nw) [cid] options"

definition ContainerWait :: "('w, 'c, 'o) command \<Rightarrow> ('g, 'c) NerdctlWrapper \<Rightarrow> string \<Rightarrow> 'o \<Rightarrow> ('w, unit) io" where
  "ContainerWait cmd_Wait nw cid options = cmd_Wait (nw_clientWrapper nw) [cid] options"

definition PauseContainer :: "('w, 'c, 'o) command \<Rightarrow> ('g, 'c) NerdctlWrapper \<Rightarrow> string \<Rightarrow> 'o \<Rightarrow> ('w, unit) io" where
  "PauseContainer cmd_Pause nw cid options = cmd_Pause (nw_clientWrapper nw) [cid] options"

definition UnpauseContainer :: "('w, 'c, 'o) command \<Rightarrow> ('g, 'c) NerdctlWrapper \<Rightarrow> string \<Rightarrow> 'o \<Rightarrow> ('w, unit) io" where
  "UnpauseContainer cmd_Unpause nw cid options = cmd_Unpause (nw_clientWrapper nw) [cid] options"

definition ContainerTop :: "('w, 'c, 'o) command \<Rightarrow> ('g, 'c) NerdctlWrapper \<Rightarrow> string \<Rightarrow> 'o \<Rightarrow> ('w, unit) io" where
  "ContainerTop cmd_Top nw cid options = cmd_Top (nw_clientWrapper nw) [cid] options"

definition CreateContainer :: "('c \<Rightarrow> string list \<Rightarrow> 'n \<Rightarrow> 'o \<Rightarrow> ('w, 'r) io) \<Rightarrow> ('g, 'c) NerdctlWrapper \<Rightarrow> string list \<Rightarrow> 'n \<Rightarrow> 'o \<Rightarrow> ('w, 'r) io" where
  "CreateContainer cmd_Create nw args netManager options = cmd_Create (nw_clientWrapper nw) args netManager options"

definition ListContainers :: "('c \<Rightarrow> 'o \<Rightarrow> ('w, 'r) io) \<Rightarrow> ('g, 'c) NerdctlWrapper \<Rightarrow> 'o \<Rightarrow> ('w, 'r) io" where
  "ListContainers cmd_List nw options = cmd_List (nw_clientWrapper nw) options"

definition RenameContainer :: "('c \<Rightarrow> string \<Rightarrow> string \<Rightarrow> 'o \<Rightarrow> ('w, unit) io) \<Rightarrow> ('k \<Rightarrow> string) \<Rightarrow> ('g, 'c) NerdctlWrapper \<Rightarrow> 'k \<Rightarrow> string \<Rightarrow> 'o \<Rightarrow> ('w, unit) io" where
  "RenameContainer cmd_Rename con_ID nw con newName options = cmd_Rename (nw_clientWrapper nw) (con_ID con) newName options"

definition GetDataStore :: "(string \<Rightarrow> string \<Rightarrow> ('w, string) io) \<Rightarrow> ('g, 'c) NerdctlWrapper \<Rightarrow> ('w, string) io" where
  "GetDataStore DataStore nw = DataStore (cf_DataRoot (nw_globalOptions nw)) (cf_Address (nw_globalOptions nw))"

record 'g inspect_options =
  io_Mode :: string
  io_Size :: bool
  io_GOptions :: "'g finch_config"

text \<open>What nerdctl's inspection gives: docker's form of a container, or a value of another type, of which only the name matters.\<close>

datatype 'd inspect_result = DockerCompat 'd | OtherType string

definition InspectContainer :: "('c \<Rightarrow> string list \<Rightarrow> 'g inspect_options \<Rightarrow> ('w, 'd inspect_result list) io) \<Rightarrow> ('g, 'c) NerdctlWrapper \<Rightarrow>
    string \<Rightarrow> bool \<Rightarrow> ('w, 'd) io" where
  "InspectContainer cmd_Inspect nw cid sizeFlag =
     and_then (cmd_Inspect (nw_clientWrapper nw) [cid]
         \<lparr>io_Mode = ''dockercompat'', io_Size = sizeFlag, io_GOptions = nw_globalOptions nw\<rparr>) (\<lambda>results.
       if length results \<noteq> 1
       then fail (ErrMsg (''expected 1 container, got '' @ Itoa (int (length results))))
       else case results ! 0 of
              DockerCompat container \<Rightarrow> ret container
            | OtherType t \<Rightarrow> fail (ErrMsg (''unexpected inspect result type: '' @ t)))"

lemma InspectContainer_Ok_iff:
  "InspectContainer cmd_Inspect nw cid sizeFlag w = (Ok c, w') \<longleftrightarrow>
     cmd_Inspect (nw_clientWrapper nw) [cid] \<lparr>io_Mode = ''dockercompat'', io_Size = sizeFlag, io_GOptions = nw_globalOptions nw\<rparr> w = (Ok [DockerCompat c], w')"
  by (auto simp: InspectContainer_def and_then_def length_Suc_conv split: prod.splits res.splits if_splits inspect_result.splits)

section \<open>Images\<close>

definition InspectImage :: "('c \<Rightarrow> string \<Rightarrow> 's) \<Rightarrow> ('c \<Rightarrow> 'k \<Rightarrow> 's \<Rightarrow> ('w, 'n) io) \<Rightarrow> ('n \<Rightarrow> 'i res) \<Rightarrow> ('g, 'c) NerdctlWrapper \<Rightarrow> 'k \<Rightarrow> ('w, 'i) io" where
  "InspectImage SnapshotService Inspect ImageFromNative nw img =
     and_then (Inspect (nw_clientWrapper nw) img (SnapshotService (nw_clientWrapper nw) (cf_Snapshotter (nw_globalOptions nw))))
       (\<lambda>n. lift_res (ImageFromNative n))"

datatype 'a resolver_opt = WithHostsDirs "string list" | WithAuthCreds 'a

text \<open>The resolver shares its tracker with the caller.\<close>

definition GetDockerResolver :: "(string \<Rightarrow> 'a resolver_opt list \<Rightarrow> ('w, 'h) io) \<Rightarrow> ('w, 't) io \<Rightarrow> ('t \<Rightarrow> 'h \<Rightarrow> 'v) \<Rightarrow> ('g, 'c) NerdctlWrapper \<Rightarrow>
    string \<Rightarrow> 'a option \<Rightarrow> ('w, 'v \<times> 't) io" where
  "GetDockerResolver NewHostOptions NewInMemoryTracker NewResolver nw refDomain creds =
     (let dOpts = [WithHostsDirs (cf_HostsDir (nw_globalOptions nw))] @ (case creds of None \<Rightarrow> [] | Some c \<Rightarrow> [WithAuthCreds c])
      in and_then (NewHostOptions refDomain dOpts) (\<lambda>hostOpts.
         and_then NewInMemoryTracker (\<lambda>tracker. ret (NewResolver tracker hostOpts, tracker))))"

record ('g, 'p) pull_options =
  po_GOptions :: "'g finch_config"
  po_Unpack :: "bool option"
  po_OCISpecPlatform :: "'p list"
  po_Mode :: string
  po_Quiet :: bool

definition PullImage :: "('c \<Rightarrow> 'v \<Rightarrow> string \<Rightarrow> ('g, 'p) pull_options \<Rightarrow> ('w, 'e) io) \<Rightarrow> ('g, 'c) NerdctlWrapper \<Rightarrow> 'v \<Rightarrow> string \<Rightarrow> 'p list \<Rightarrow> ('w, 'e) io" where
  "PullImage lib_PullImage nw resolver ref platforms =
     lib_PullImage (nw_clientWrapper nw) resolver ref
       \<lparr>po_GOptions = nw_globalOptions nw, po_Unpack = None, po_OCISpecPlatform = platforms, po_Mode = ''always'', po_Quiet = False\<rparr>"

definition PushImage :: "('c \<Rightarrow> 'v \<Rightarrow> 't \<Rightarrow> string \<Rightarrow> string \<Rightarrow> 'm \<Rightarrow> bool \<Rightarrow> bool \<Rightarrow> ('w, unit) io) \<Rightarrow> ('g, 'c) NerdctlWrapper \<Rightarrow> 'v \<Rightarrow> 't \<Rightarrow> string \<Rightarrow> string \<Rightarrow> 'm \<Rightarrow> ('w, unit) io" where
  "PushImage lib_Push nw resolver tracker pushRef ref platMC = lib_Push (nw_clientWrapper nw) resolver tracker pushRef ref platMC False False"

record 'g load_options =
  lo_GOptions :: "'g finch_config"
  lo_Input :: string
  lo_AllPlatforms :: bool
  lo_Quiet :: bool

definition LoadImage :: "('c \<Rightarrow> 'g load_options \<Rightarrow> ('w, 'e) io) \<Rightarrow> ('g, 'c) NerdctlWrapper \<Rightarrow> string \<Rightarrow> bool \<Rightarrow> ('w, unit) io" where
  "LoadImage FromArchive nw img q =
     and_then (FromArchive (nw_clientWrapper nw)
         \<lparr>lo_GOptions = nw_globalOptions nw, lo_Input = img, lo_AllPlatforms = True, lo_Quiet = q\<rparr>) (\<lambda>_. ret ())"

record 'g save_options =
  so_GOptions :: "'g finch_config"
  so_AllPlatforms :: bool
  so_Platform :: "string list"

definition ExportImage :: "('p \<Rightarrow> string) \<Rightarrow> ('c \<Rightarrow> string list \<Rightarrow> 'g save_options \<Rightarrow> ('w, unit) io) \<Rightarrow> ('g, 'c) NerdctlWrapper \<Rightarrow> string list \<Rightarrow> 'p option \<Rightarrow> ('w, unit) io" where
  "ExportImage Format Save nw imageNames platform =
     Save (nw_clientWrapper nw) imageNames
       (case platform of
          Some p \<Rightarrow> \<lparr>so_GOptions = nw_globalOptions nw, so_AllPlatforms = False, so_Platform = [Format p]\<rparr>
        | None \<Rightarrow> \<lparr>so_GOptions = nw_globalOptions nw, so_AllPlatforms = True, so_Platform = []\<rparr>)"

section \<open>Volumes\<close>

record 'g volume_create_options =
  vc_Labels :: "string list"
  vc_GOptions :: "'g finch_config"

definition CreateVolume :: "(string \<Rightarrow> 'g volume_create_options \<Rightarrow> ('w, 'v) io) \<Rightarrow> ('g, 'c) NerdctlWrapper \<Rightarrow> string \<Rightarrow> string list \<Rightarrow> ('w, 'v) io" where
  "CreateVolume lib_Create nw name labels = lib_Create name \<lparr>vc_Labels = labels, vc_GOptions = nw_globalOptions nw\<rparr>"

definition ListVolumes :: "(string \<Rightarrow> string \<Rightarrow> string \<Rightarrow> bool \<Rightarrow> string list \<Rightarrow> ('w, 'v gomap) io) \<Rightarrow> ('g, 'c) NerdctlWrapper \<Rightarrow> bool \<Rightarrow> string list \<Rightarrow> ('w, 'v gomap) io" where
  "ListVolumes lib_Volumes nw sized filters =
     (let g = nw_globalOptions nw in and_then (lib_Volumes (cf_Namespace g) (cf_DataRoot g) (cf_Address g) sized filters) ret)"

definition GetVolume :: "(string \<Rightarrow> string \<Rightarrow> string \<Rightarrow> ('w, 's) io) \<Rightarrow> ('s \<Rightarrow> string \<Rightarrow> bool \<Rightarrow> ('w, 'v) io) \<Rightarrow> ('g, 'c) NerdctlWrapper \<Rightarrow> string \<Rightarrow> ('w, 'v) io" where
  "GetVolume lib_Store store_Get nw name =
     (let g = nw_globalOptions nw
      in and_then (lib_Store (cf_Namespace g) (cf_DataRoot g) (cf_Address g)) (\<lambda>volStore. and_then (store_Get volStore name False) ret))"

record 'g volume_remove_options =
  vr_GOptions :: "'g finch_config"
  vr_Force :: bool

definition RemoveVolume :: "('c \<Rightarrow> string list \<Rightarrow> 'g volume_remove_options \<Rightarrow> ('w, unit) io) \<Rightarrow> ('g, 'c) NerdctlWrapper \<Rightarrow> string \<Rightarrow> bool \<Rightarrow> ('w, unit) io" where
  "RemoveVolume lib_Remove nw name force =
     lib_Remove (nw_clientWrapper nw) [name] \<lparr>vr_GOptions = nw_globalOptions nw, vr_Force = force\<rparr>"

section \<open>Calls of the containerd client\<close>

text \<open>The named results: on an error the reference and its domain are empty.\<close>

definition ParseDockerRef :: "(string \<Rightarrow> 'n res) \<Rightarrow> ('n \<Rightarrow> string) \<Rightarrow> ('n \<Rightarrow> string) \<Rightarrow> string \<Rightarrow> (string \<times> string) res" where
  "ParseDockerRef parse named_String named_Domain rawRef =
     (case parse rawRef of
        Ok named \<Rightarrow> Ok (named_String named, named_Domain named)
      | Err err \<Rightarrow> Err err
      | Panic p \<Rightarrow> Panic p
      | Hang \<Rightarrow> Hang)"

text \<open>Both the task and the channel it is waited for with; a task that cannot be waited for is returned beside the error.\<close>

definition GetContainerTaskWait :: "('k \<Rightarrow> ('w, 't) io) \<Rightarrow> ('t \<Rightarrow> ('w, 'h) io) \<Rightarrow> 'k \<Rightarrow> ('w, 't option \<times> 'h option \<times> gerr option) io" where
  "GetContainerTaskWait Task task_Wait con =
     or_else (Task con) (\<lambda>err. ret (None, None, Some err)) (\<lambda>task.
     or_else (task_Wait task) (\<lambda>err. ret (Some task, None, Some err)) (\<lambda>waitCh. ret (Some task, Some waitCh, None)))"

definition GetContainerRemoveEvent :: "(string list \<Rightarrow> 'e) \<Rightarrow> string \<Rightarrow> 'e" where
  "GetContainerRemoveEvent Subscribe cid =
     Subscribe [''topic=='' @ Quote ''/containers/delete'' @ '',event.id=='' @ [CHR 0x22] @ cid @ [CHR 0x22]]"

end
