(* ===== verification/Daemon.thy ===== *)
theory Daemon
  imports Router Passwd Backend
begin

unbundle bit_operations_syntax

text \<open>
  The daemon's process: \<open>run\<close>, \<open>getListener\<close>, \<open>newRouter\<close> and \<open>handleSignal\<close> of \<open>cmd/finch-daemon/main.go\<close>, the configuration and the
  checks of the policy file in \<open>cmd/finch-daemon/router_utils.go\<close>, and the credential address of \<open>pkg/config/config.go\<close>.

  The calls of the operating system, of systemd and of containerd are the fields of \<open>daemon_env\<close> and \<open>router_env\<close>. A server runs beside the
  others from the call that starts it; \<open>de_Wait\<close> returns when both have stopped. \<open>log.Fatal\<close> ends the process at once: like a call that
  never returns it runs no deferred function, and is \<open>Hang\<close> here. Log messages are left out.
\<close>

section \<open>Options and configuration\<close>

record DaemonOptions =
  do_debug :: bool
  do_socketAddr :: string
  do_credentialAddr :: string
  do_socketOwner :: int
  do_credentialSocketOwner :: int
  do_debugAddress :: string
  do_configPath :: string
  do_pidFile :: string
  do_regoFilePath :: string
  do_enableExperimental :: bool
  do_skipRegoPermCheck :: bool

definition default_options :: DaemonOptions where
  "default_options =
     \<lparr>do_debug = False, do_socketAddr = ''/run/finch.sock'', do_credentialAddr = ''/run/finch-credential.sock'',
      do_socketOwner = -1, do_credentialSocketOwner = 0, do_debugAddress = [], do_configPath = ''/etc/finch/finch.toml'',
      do_pidFile = ''/run/finch.pid'', do_regoFilePath = [], do_enableExperimental = False, do_skipRegoPermCheck = False\<rparr>"

record ('w, 'g, 'c, 'r) router_env =
  ne_NewConfig :: "'g finch_config"
  ne_Open :: "string \<Rightarrow> ('w process, string) io"
  ne_Decode :: "string \<Rightarrow> 'g finch_config \<Rightarrow> 'g finch_config res"
  ne_NewClient :: "string \<Rightarrow> string \<Rightarrow> ('w process, 'c) io"
  ne_LookPath :: "string \<Rightarrow> ('w process, string) io"
  ne_Stat :: "string \<Rightarrow> ('w process, nat) io"
  ne_LessThan :: "string \<Rightarrow> string \<Rightarrow> bool"
  ne_PrepareForEval :: "string \<Rightarrow> 'r policy res"

definition handleConfigOptions :: "('w, 'g, 'c, 'r) router_env \<Rightarrow> 'g finch_config \<Rightarrow> DaemonOptions \<Rightarrow> ('w process, 'g finch_config) io" where
  "handleConfigOptions env cfg options =
     or_else (ne_Open env (do_configPath options))
       (\<lambda>err. if XNotExist \<in> set (ext_kinds err) then ret cfg else fail err)
       (\<lambda>content. or_else (lift_res (ne_Decode env content cfg))
          (\<lambda>err. fail (ErrWrap (''failed to load config from '' @ Quote (do_configPath options) @ '' : '') err []))
          ret)"

definition DefaultNamespace :: string where
  "DefaultNamespace = ''finch''"

definition initializeConfig :: "('w, 'g, 'c, 'r) router_env \<Rightarrow> DaemonOptions \<Rightarrow> ('w process, 'g finch_config) io" where
  "initializeConfig env options =
     and_then (handleConfigOptions env (ne_NewConfig env) options) (\<lambda>conf.
       let conf1 = (if do_debug options then conf\<lparr>cf_Debug := do_debug options\<rparr> else conf)
       in ret (if cf_Namespace conf1 = [] \<or> cf_Namespace conf1 = ''default'' then conf1\<lparr>cf_Namespace := DefaultNamespace\<rparr> else conf1))"

definition createContainerdClient :: "('w, 'g, 'c, 'r) router_env \<Rightarrow> 'g finch_config \<Rightarrow> ('w process, 'c) io" where
  "createContainerdClient env conf =
     or_else (ne_NewClient env (cf_Address conf) (cf_Namespace conf))
       (\<lambda>err. fail (ErrWrap ''failed to create containerd client: '' err [])) ret"

definition createNerdctlWrapper :: "('w, 'g, 'c, 'r) router_env \<Rightarrow> 'c \<Rightarrow> 'g finch_config \<Rightarrow> ('w process, ('g, 'c) NerdctlWrapper) io" where
  "createNerdctlWrapper env cl conf =
     or_else (GetNerdctlExe (ne_LookPath env) (NewNerdctlWrapper cl conf))
       (\<lambda>err. fail (ErrWrap ''failed to find nerdctl binary: '' err [])) (\<lambda>(exe, nw). ret nw)"

section \<open>The policy file\<close>

fun octal :: "nat \<Rightarrow> string" where
  "octal n = (if n < 8 then [digit_char n] else octal (n div 8) @ [digit_char (n mod 8)])"

declare octal.simps [simp del]

definition rego_mode_check :: "('w, 'g, 'c, 'r) router_env \<Rightarrow> DaemonOptions \<Rightarrow> ('w process, string) io" where
  "rego_mode_check env options =
     (if \<not> do_skipRegoPermCheck options
      then or_else (ne_Stat env (do_regoFilePath options))
            (\<lambda>err. fail (ErrMsg (''error checking rego file permissions: '' @ Error err)))
            (\<lambda>perm. if perm AND 127 \<noteq> 0
               then fail (ErrMsg (''rego file permissions '' @ octal perm @ '' are too permissive (maximum allowable permissions: 0600)''))
               else ret (do_regoFilePath options))
      else ret (do_regoFilePath options))"

definition rego_file_checks :: "('w, 'g, 'c, 'r) router_env \<Rightarrow> DaemonOptions \<Rightarrow> ('w process, string) io" where
  "rego_file_checks env options =
     (if ToLower (path_Ext (do_regoFilePath options)) \<noteq> ''.rego''
      then fail (ErrMsg ''invalid file extension for Rego file. Only .rego files are supported'')
      else rego_mode_check env options)"

definition checkRegoFileValidity :: "('w, 'g, 'c, 'r) router_env \<Rightarrow> DaemonOptions \<Rightarrow> ('w process, string) io" where
  "checkRegoFileValidity env options =
     (if do_regoFilePath options = []
      then fail (ErrMsg ''rego file path not provided, please provide the policy file path using the --rego-file flag'')
      else or_else (ne_Stat env (do_regoFilePath options))
           (\<lambda>err. if os_IsNotExist err then fail (ErrMsg (''provided Rego file path does not exist: '' @ do_regoFilePath options))
              else rego_file_checks env options)
           (\<lambda>_. rego_file_checks env options))"

definition no_experimental :: gerr where
  "no_experimental = ErrMsg (''rego file provided without experimental flag - OPA middleware is an experimental feature, '' @
     ''please enable it with '' @ [CHR 0x27] @ ''--experimental'' @ [CHR 0x27] @ '' flag'')"

definition policy_path :: "('w, 'g, 'c, 'r) router_env \<Rightarrow> DaemonOptions \<Rightarrow> ('w process, string) io" where
  "policy_path env options =
     (if do_regoFilePath options \<noteq> []
      then if \<not> do_enableExperimental options then fail no_experimental else checkRegoFileValidity env options
      else ret [])"

definition newRouter :: "('w, 'g, 'c, 'r) router_env \<Rightarrow> DaemonOptions \<Rightarrow> ('w process, ('r, 'a) mux_router) io" where
  "newRouter env options =
     and_then (initializeConfig env options) (\<lambda>conf.
     and_then (createContainerdClient env conf) (\<lambda>clientWrapper.
     and_then (createNerdctlWrapper env clientWrapper conf) (\<lambda>ncWrapper.
     and_then (policy_path env options) (\<lambda>regoFilePath.
     lift_res (New (ne_LessThan env) (ne_PrepareForEval env) regoFilePath)))))"

section \<open>The process\<close>

record ('w, 'l, 'r, 'a) daemon_env =
  de_os :: "'w passwd_env"
  de_Getpid :: int
  de_TryLock :: "string \<Rightarrow> ('w process, bool) io"
  de_Unlock :: "string \<Rightarrow> ('w process, unit) io"
  de_WritePid :: "string \<Rightarrow> int \<Rightarrow> ('w process, unit) io"
  de_Remove :: "string \<Rightarrow> ('w process, unit) io"
  de_Stat :: "string \<Rightarrow> ('w process, unit) io"
  de_Listen :: "string \<Rightarrow> ('w process, 'l) io"
  de_Activation :: "('w process, 'l list) io"
  de_Chmod :: "string \<Rightarrow> nat \<Rightarrow> ('w process, unit) io"
  de_Chown :: "string \<Rightarrow> int \<Rightarrow> int \<Rightarrow> ('w process, unit) io"
  de_ServeCredentials :: "'l \<Rightarrow> ('w process, unit) io"
  de_CloseCredentials :: "('w process, unit) io"
  de_ServeDebug :: "string \<Rightarrow> ('w process, unit) io"
  de_Serve :: "'l \<Rightarrow> ('r, 'a) mux_router \<Rightarrow> ('w process, unit) io"
  de_Notify :: "string \<Rightarrow> ('w process, unit) io"
  de_Wait :: "('w process, unit) io"

definition SetCredentialAddr :: "string \<Rightarrow> ('w process, unit) io" where
  "SetCredentialAddr addr w = (Ok (), w\<lparr>pr_CredentialAddr := addr\<rparr>)"

definition GetCredentialAddr :: "('w process, string) io" where
  "GetCredentialAddr w = (Ok (pr_CredentialAddr w), w)"

definition getListener :: "('w, 'l, 'r, 'a) daemon_env \<Rightarrow> DaemonOptions \<Rightarrow> ('w process, 'l) io" where
  "getListener env options =
     (if do_socketAddr options = ''fd://''
      then if do_socketOwner options \<noteq> -1 then fail (ErrMsg ''socket-owner is not supported while using socket activation using fd://'')
           else or_else (de_Activation env) (\<lambda>err. fail (ErrWrap ''cannot retrieve listeners: '' err [])) (\<lambda>listeners.
             if length listeners \<noteq> 1
             then fail (ErrMsg (''unexpected number of socket activations ('' @ Itoa (int (length listeners)) @ '' != 1)''))
             else ret (listeners ! 0))
      else or_else (de_Listen env (do_socketAddr options))
             (\<lambda>err. fail (ErrWrap (''failed to listen on '' @ do_socketAddr options @ '': '') err [])) (\<lambda>listener.
           or_else (de_Chown env (do_socketAddr options) (do_socketOwner options) (do_socketOwner options))
             (\<lambda>err. fail (ErrWrap ''failed to chown the socket: '' err [])) (\<lambda>_. ret listener)))"

definition own_credentials :: "('w, 'l, 'r, 'a) daemon_env \<Rightarrow> DaemonOptions \<Rightarrow> 'l \<Rightarrow> ('w process, 'l) io" where
  "own_credentials env options l =
     (let owner = do_credentialSocketOwner options
      in if owner \<ge> 0
         then or_else (de_Chown env (do_credentialAddr options) owner owner)
                (\<lambda>err. fail (ErrWrap ''failed to chown the credential socket: '' err [])) (\<lambda>_. ret l)
         else ret l)"

definition listen_credentials :: "('w, 'l, 'r, 'a) daemon_env \<Rightarrow> DaemonOptions \<Rightarrow> ('w process, 'l) io" where
  "listen_credentials env options =
     or_else (de_Listen env (do_credentialAddr options)) (\<lambda>err. fail (ErrWrap ''failed to listen on credential socket: '' err [])) (\<lambda>l.
     or_else (de_Chmod env (do_credentialAddr options) 384) (\<lambda>err. fail (ErrWrap ''failed to set permissions on credential socket: '' err []))
       (\<lambda>_. own_credentials env options l))"

definition credential_listener :: "('w, 'l, 'r, 'a) daemon_env \<Rightarrow> DaemonOptions \<Rightarrow> ('w process, 'l) io" where
  "credential_listener env options =
     and_then (SetCredentialAddr (do_credentialAddr options)) (\<lambda>_.
       or_else (de_Stat env (do_credentialAddr options)) (\<lambda>_. listen_credentials env options) (\<lambda>_.
         or_else (de_Remove env (do_credentialAddr options)) (\<lambda>err. fail (ErrWrap ''failed to remove existing credential socket: '' err []))
           (\<lambda>_. listen_credentials env options)))"

definition close_credentials :: "('w, 'l, 'r, 'a) daemon_env \<Rightarrow> DaemonOptions \<Rightarrow> ('w process, unit) io" where
  "close_credentials env options =
     and_then (ignore_err (de_CloseCredentials env)) (\<lambda>_. ignore_err (de_Remove env (do_credentialAddr options)))"

definition serve_daemon :: "('w, 'l, 'r, 'a) daemon_env \<Rightarrow> DaemonOptions \<Rightarrow> ('r, 'a) mux_router \<Rightarrow> ('w process, unit) io" where
  "serve_daemon env options r =
     or_else (getListener env options) (\<lambda>err. fail (ErrWrap ''failed to create a listener: '' err [])) (\<lambda>listener.
     and_then (if do_debugAddress options \<noteq> [] then de_ServeDebug env (do_debugAddress options) else ret ()) (\<lambda>_.
     and_then (de_Serve env listener r) (\<lambda>_.
     and_then (ignore_err (de_Notify env ''READY=1'')) (\<lambda>_. de_Wait env))))"

definition run_servers :: "('w, 'l, 'r, 'a) daemon_env \<Rightarrow> ('w, 'g, 'c, 'r) router_env \<Rightarrow> DaemonOptions \<Rightarrow> ('w process, unit) io" where
  "run_servers env renv options =
     or_else (newRouter renv options) (\<lambda>err. fail (ErrWrap ''failed to create a router: '' err [])) (\<lambda>r.
     or_else (if do_credentialSocketOwner options \<ge> 0 then defineDockerConfig (de_os env) (do_credentialSocketOwner options) else ret ())
       (\<lambda>err. fail (ErrWrap ''failed to get finch config: '' err [])) (\<lambda>_.
     and_then (credential_listener env options) (\<lambda>credListener.
     defer_cleanup (Some (close_credentials env options))
       (and_then (de_ServeCredentials env credListener) (\<lambda>_. serve_daemon env options r)))))"

definition claim_pid_file :: "('w, 'l, 'r, 'a) daemon_env \<Rightarrow> DaemonOptions \<Rightarrow> ('w process, unit) io" where
  "claim_pid_file env options =
     (let f = do_pidFile options;
          taken = fail (ErrMsg (''failed to acquire lock on PID file ('' @ f @ ''); ensure only one instance is using the PID file path''))
      in or_else (de_TryLock env f) (\<lambda>_. taken) (\<lambda>isLocked. if \<not> isLocked then taken
         else or_else (de_WritePid env f (de_Getpid env))
           (\<lambda>err. fail (ErrWrap (''failed to start daemon, ensure finch daemon is not running or delete '' @ f @ '' '') err []))
           (\<lambda>_. ignore_err (de_Unlock env f))))"

definition run :: "('w, 'l, 'r, 'a) daemon_env \<Rightarrow> ('w, 'g, 'c, 'r) router_env \<Rightarrow> DaemonOptions \<Rightarrow> ('w process, unit) io" where
  "run env renv options =
     (let f = do_pidFile options
      in if f = [] then run_servers env renv options
         else or_else (pe_MkdirAll (de_os env) (Dir f) 384)
                (\<lambda>err. fail (ErrMsg (''failed to create pidfile directory '' @ Error err))) (\<lambda>_.
              defer_cleanup (Some (ignore_err (de_Unlock env f)))
                (and_then (claim_pid_file env options) (\<lambda>_.
                 defer_cleanup (Some (ignore_err (de_Remove env f))) (run_servers env renv options)))))"

section \<open>Signals\<close>

datatype os_signal = Interrupt | SIGTERM

text \<open>What one server does at the first signal; \<open>log.Fatal\<close> of an error is \<open>Hang\<close>.\<close>

definition fatal :: "gerr \<Rightarrow> ('w, 'a) io" where
  "fatal err w = (Hang, w)"

definition handleSignal :: "('w process, unit) io \<Rightarrow> ('w process, unit) io \<Rightarrow> (string \<Rightarrow> ('w process, unit) io) \<Rightarrow> (string \<Rightarrow> ('w process, unit) io) \<Rightarrow>
    string \<Rightarrow> os_signal \<Rightarrow> ('w process, unit) io" where
  "handleSignal Shutdown Close rm Notify socket sig =
     and_then (ignore_err (Notify ''STOPPING=1'')) (\<lambda>_.
       case sig of
         Interrupt \<Rightarrow> or_else Shutdown fatal ret
       | SIGTERM \<Rightarrow> or_else Close fatal (\<lambda>_. ignore_err (rm socket)))"


section \<open>The policy is enforced\<close>

lemma and_127: "n AND 127 = n mod 128" for n :: nat
  using take_bit_eq_mask [of 7 n] by (simp add: take_bit_eq_mod mask_eq_exp_minus_1)

lemma mode_cases: "n < 512 \<Longrightarrow> n AND 127 = 0 \<Longrightarrow> n \<in> {0, 128, 256, 384}" for n :: nat
  unfolding and_127 by simp presburger

lemma rego_mode_check_OkD:
  assumes "rego_mode_check env options w = (Ok p, w')"
  shows "p = do_regoFilePath options \<and>
    (do_skipRegoPermCheck options \<or> (\<exists>v v' perm. ne_Stat env p v = (Ok perm, v') \<and> perm AND 127 = 0))"
proof (cases "do_skipRegoPermCheck options")
  case False
  from or_else_OkD [OF assms [unfolded rego_mode_check_def, simplified False not_False_eq_True if_True]]
  show ?thesis by (auto split: if_splits)
qed (use assms in \<open>simp add: rego_mode_check_def\<close>)

lemma rego_file_checks_OkD:
  assumes "rego_file_checks env options w = (Ok p, w')"
  shows "rego_mode_check env options w = (Ok p, w') \<and> ToLower (path_Ext (do_regoFilePath options)) = ''.rego''"
  using assms by (simp add: rego_file_checks_def split: if_splits)

lemma policy_path_OkD:
  assumes "policy_path env options w = (Ok p, w')" "do_regoFilePath options \<noteq> []"
  shows "do_enableExperimental options \<and> (\<exists>v. rego_file_checks env options v = (Ok p, w'))"
proof -
  have "do_enableExperimental options" and "checkRegoFileValidity env options w = (Ok p, w')"
    using assms by (simp_all add: policy_path_def split: if_splits)
  with or_else_OkD [of "ne_Stat env (do_regoFilePath options)"] assms(2) show ?thesis
    unfolding checkRegoFileValidity_def by (fastforce split: if_splits)
qed

lemma newRouter_OkD:
  assumes "newRouter env options w = (Ok router, w')" "do_regoFilePath options \<noteq> []"
  obtains u policy where "do_enableExperimental options" "rego_file_checks env options u = (Ok (do_regoFilePath options), w')"
    "ne_PrepareForEval env (do_regoFilePath options) = Ok policy"
    "\<And>h. guarded router h = VersionMiddleware (ne_LessThan env) (rego_middleware policy h)"
proof -
  from assms(1) obtain p v where path: "policy_path env options v = (Ok p, w')"
    and router: "New (ne_LessThan env) (ne_PrepareForEval env) p = Ok router"
    unfolding newRouter_def by (fastforce dest!: and_then_OkD simp: lift_res_def)
  from policy_path_OkD [OF path assms(2)] obtain u where exp: "do_enableExperimental options"
    and checks: "rego_file_checks env options u = (Ok p, w')" by blast
  have p: "p = do_regoFilePath options" using rego_mode_check_OkD [OF rego_file_checks_OkD [OF checks, THEN conjunct1]] by simp
  from router assms(2) obtain policy where "ne_PrepareForEval env (do_regoFilePath options) = Ok policy"
    "r_middlewares router = [VersionMiddleware (ne_LessThan env), rego_middleware policy]"
    by (auto simp: p New_def CreateRegoMiddleware_def split: if_splits res.splits)
  then show thesis using that exp checks p by (simp add: guarded_def)
qed

text \<open>
  C14: A policy is never dropped: a daemon that was given a policy file and starts all the same runs in experimental mode, with a \<open>.rego\<close> file that gives no
  rights to group and others and is not executable (unless this check is switched off), and asks that file's policy before every handler.
\<close>

theorem policy_never_dropped:
  assumes "newRouter env options w = (Ok router, w')" "do_regoFilePath options \<noteq> []"
    and modes: "\<And>p v perm v'. ne_Stat env p v = (Ok perm, v') \<Longrightarrow> perm < 512"
  shows "do_enableExperimental options \<and> ToLower (path_Ext (do_regoFilePath options)) = ''.rego'' \<and>
    (do_skipRegoPermCheck options \<or> (\<exists>v v' perm. ne_Stat env (do_regoFilePath options) v = (Ok perm, v') \<and> perm \<in> {0, 128, 256, 384})) \<and>
    (\<exists>policy. ne_PrepareForEval env (do_regoFilePath options) = Ok policy \<and>
       (\<forall>h. guarded router h = VersionMiddleware (ne_LessThan env) (rego_middleware policy h)))"
proof -
  from newRouter_OkD [OF assms(1,2)] obtain u policy where exp: "do_enableExperimental options"
    and checks: "rego_file_checks env options u = (Ok (do_regoFilePath options), w')"
    and policy: "ne_PrepareForEval env (do_regoFilePath options) = Ok policy"
      "\<And>h. guarded router h = VersionMiddleware (ne_LessThan env) (rego_middleware policy h)" by blast
  note ext = rego_file_checks_OkD [OF checks]
  have "do_skipRegoPermCheck options \<or> (\<exists>v v' perm. ne_Stat env (do_regoFilePath options) v = (Ok perm, v') \<and> perm \<in> {0, 128, 256, 384})"
    using rego_mode_check_OkD [OF ext [THEN conjunct1]] modes mode_cases by meson
  with exp ext policy show ?thesis by simp
qed

section \<open>The credential socket\<close>

text \<open>
  \<open>sock\<close> reads the permissions and the owner of the socket file. A new socket belongs to the daemon's user \<open>self\<close>; its permissions are those of the umask.
  No other call of \<open>credential_listener\<close> sets the address for credential helpers.
\<close>

definition same_addr :: "'w process \<Rightarrow> 'w process \<Rightarrow> bool" where
  "same_addr w w' \<longleftrightarrow> pr_CredentialAddr w' = pr_CredentialAddr w"

definition socket_laws :: "('w process \<Rightarrow> nat \<times> int) \<Rightarrow> int \<Rightarrow> ('w, 'l, 'r, 'a) daemon_env \<Rightarrow> string \<Rightarrow> bool" where
  "socket_laws sock self env addr \<longleftrightarrow>
     (\<forall>w l w'. de_Listen env addr w = (Ok l, w') \<longrightarrow> snd (sock w') = self) \<and>
     (\<forall>m w w'. de_Chmod env addr m w = (Ok (), w') \<longrightarrow> sock w' = (m, snd (sock w))) \<and>
     (\<forall>u g w w'. de_Chown env addr u g w = (Ok (), w') \<longrightarrow> sock w' = (fst (sock w), u)) \<and>
     moves same_addr (de_Listen env addr) \<and> (\<forall>m. moves same_addr (de_Chmod env addr m)) \<and>
     (\<forall>u g. moves same_addr (de_Chown env addr u g)) \<and> moves same_addr (de_Stat env addr) \<and> moves same_addr (de_Remove env addr)"

lemma or_else_fails_OkD:
  assumes "or_else m (\<lambda>err. fail (f err)) k w = (Ok y, w')"
  obtains x w1 where "m w = (Ok x, w1)" "k x w1 = (Ok y, w')"
  using or_else_OkD [OF assms] by auto

lemma socket_lawsD:
  assumes "socket_laws sock self env addr"
  shows "moves same_addr (de_Stat env addr)" "moves same_addr (de_Remove env addr)"
    "de_Listen env addr w = (Ok l, w1) \<Longrightarrow> snd (sock w1) = self \<and> pr_CredentialAddr w1 = pr_CredentialAddr w"
    "de_Chown env addr u g w = (Ok (), w1) \<Longrightarrow> sock w1 = (fst (sock w), u) \<and> pr_CredentialAddr w1 = pr_CredentialAddr w"
    "de_Chmod env addr m w = (Ok (), w1) \<Longrightarrow> sock w1 = (m, snd (sock w)) \<and> pr_CredentialAddr w1 = pr_CredentialAddr w"
  using assms movesD [of same_addr "de_Listen env addr" w] movesD [of same_addr "de_Chown env addr u g" w] movesD [of same_addr "de_Chmod env addr m" w]
  by (auto simp: socket_laws_def same_addr_def)

lemma listen_credentials_OkD:
  assumes laws: "socket_laws sock self env (do_credentialAddr options)"
    and run: "listen_credentials env options w = (Ok l, w')"
  shows "sock w' = (384, if do_credentialSocketOwner options \<ge> 0 then do_credentialSocketOwner options else self) \<and>
    pr_CredentialAddr w' = pr_CredentialAddr w"
proof -
  from run obtain l1 w1 where listen: "de_Listen env (do_credentialAddr options) w = (Ok l1, w1)"
    and rest: "or_else (de_Chmod env (do_credentialAddr options) 384) (\<lambda>err. fail (ErrWrap ''failed to set permissions on credential socket: '' err []))
      (\<lambda>_. own_credentials env options l1) w1 = (Ok l, w')"
    unfolding listen_credentials_def by (rule or_else_fails_OkD)
  from rest obtain u w2 where chmod: "de_Chmod env (do_credentialAddr options) 384 w1 = (Ok u, w2)"
    and own: "own_credentials env options l1 w2 = (Ok l, w')" by (rule or_else_fails_OkD)
  have w1: "snd (sock w1) = self" "pr_CredentialAddr w1 = pr_CredentialAddr w"
    and w2: "sock w2 = (384, snd (sock w1))" "pr_CredentialAddr w2 = pr_CredentialAddr w1"
    using socket_lawsD [OF laws] listen chmod by auto
  show ?thesis
  proof (cases "do_credentialSocketOwner options \<ge> 0")
    case True
    with own have "or_else (de_Chown env (do_credentialAddr options) (do_credentialSocketOwner options) (do_credentialSocketOwner options))
        (\<lambda>err. fail (ErrWrap ''failed to chown the credential socket: '' err [])) (\<lambda>_. ret l1) w2 = (Ok l, w')"
      by (simp add: own_credentials_def Let_def)
    then obtain w3 where "de_Chown env (do_credentialAddr options) (do_credentialSocketOwner options) (do_credentialSocketOwner options) w2 = (Ok (), w3)" "w' = w3"
      by (rule or_else_fails_OkD) auto
    then show ?thesis using True w1 w2 socket_lawsD(4) [OF laws] by auto
  qed (use own w1 w2 in \<open>simp add: own_credentials_def Let_def\<close>)
qed


text \<open>
  C23: Before the credential server starts, its socket can be used by its owner alone, who is the configured one (or the daemon's user when none is), and the credential
  helpers of later builds are given this socket's address.
\<close>

theorem credential_socket_private:
  assumes "socket_laws sock self env (do_credentialAddr options)" "credential_listener env options w = (Ok l, w')"
  shows "sock w' = (384, if do_credentialSocketOwner options \<ge> 0 then do_credentialSocketOwner options else self) \<and>
    GetCredentialAddr w' = (Ok (do_credentialAddr options), w')"
proof -
  let ?v = "w\<lparr>pr_CredentialAddr := do_credentialAddr options\<rparr>"
  have run: "or_else (de_Stat env (do_credentialAddr options)) (\<lambda>_. listen_credentials env options) (\<lambda>_.
      or_else (de_Remove env (do_credentialAddr options)) (\<lambda>err. fail (ErrWrap ''failed to remove existing credential socket: '' err []))
        (\<lambda>_. listen_credentials env options)) ?v = (Ok l, w')"
    using assms(2) by (simp add: credential_listener_def and_then_def SetCredentialAddr_def)
  obtain u where "listen_credentials env options u = (Ok l, w')" "pr_CredentialAddr u = pr_CredentialAddr ?v"
    using or_else_OkD [OF run]
  proof (elim disjE exE conjE)
    fix e w1 assume "de_Stat env (do_credentialAddr options) ?v = (Err e, w1)" "listen_credentials env options w1 = (Ok l, w')"
    with that show thesis using movesD [OF socket_lawsD(1) [OF assms(1)]] by (auto simp: same_addr_def)
  next
    fix x w1 assume stat: "de_Stat env (do_credentialAddr options) ?v = (Ok x, w1)"
      and rest: "or_else (de_Remove env (do_credentialAddr options)) (\<lambda>err. fail (ErrWrap ''failed to remove existing credential socket: '' err []))
        (\<lambda>_. listen_credentials env options) w1 = (Ok l, w')"
    from rest obtain y w2 where "de_Remove env (do_credentialAddr options) w1 = (Ok y, w2)" "listen_credentials env options w2 = (Ok l, w')"
      by (rule or_else_fails_OkD)
    with that stat show thesis
      using movesD [OF socket_lawsD(1) [OF assms(1)]] movesD [OF socket_lawsD(2) [OF assms(1)]] by (metis same_addr_def)
  qed
  with listen_credentials_OkD [OF assms(1)] show ?thesis by (simp add: GetCredentialAddr_def)
qed


section \<open>The pid file\<close>

abbreviation keeps_pid :: "('w \<Rightarrow> int option) \<Rightarrow> ('w process, 'b) io \<Rightarrow> bool" where
  "keeps_pid pid \<equiv> moves (\<lambda>w w'. pid (pr_Outside w') = pid (pr_Outside w))"

interpretation keeps_pid: io_effect "\<lambda>w w' :: 'w process. pid (pr_Outside w') = pid (pr_Outside w)" for pid :: "'w \<Rightarrow> int option"
  by unfold_locales simp_all

text \<open>\<open>pid\<close> reads the process id in the file \<open>f\<close>. Only writing and removing this file changes it.\<close>

definition pid_laws :: "('w \<Rightarrow> int option) \<Rightarrow> ('w, 'l, 'r, 'a) daemon_env \<Rightarrow> string \<Rightarrow> bool" where
  "pid_laws pid env f \<longleftrightarrow>
     comes_back (de_TryLock env f) \<and> comes_back (de_WritePid env f (de_Getpid env)) \<and> comes_back (pe_MkdirAll (de_os env) (Dir f) 384) \<and>
     comes_back (de_Unlock env f) \<and>
     (\<forall>w x w'. de_WritePid env f (de_Getpid env) w = (Ok x, w') \<longrightarrow> pid (pr_Outside w') = Some (de_Getpid env)) \<and>
     (\<forall>w e w'. de_WritePid env f (de_Getpid env) w = (Err e, w') \<longrightarrow> pid (pr_Outside w') = pid (pr_Outside w)) \<and>
     (\<forall>w. pid (pr_Outside (snd (de_Remove env f w))) = None) \<and>
     (\<forall>p. keeps_pid pid (de_TryLock env p)) \<and> (\<forall>p. keeps_pid pid (de_Unlock env p)) \<and> (\<forall>p. p \<noteq> f \<longrightarrow> keeps_pid pid (de_Remove env p)) \<and>
     (\<forall>p. keeps_pid pid (de_Stat env p)) \<and> (\<forall>p. keeps_pid pid (de_Listen env p)) \<and> keeps_pid pid (de_Activation env) \<and>
     (\<forall>p m. keeps_pid pid (de_Chmod env p m)) \<and> (\<forall>p u g. keeps_pid pid (de_Chown env p u g)) \<and>
     (\<forall>l. keeps_pid pid (de_ServeCredentials env l)) \<and> keeps_pid pid (de_CloseCredentials env) \<and> (\<forall>p. keeps_pid pid (de_ServeDebug env p)) \<and>
     (\<forall>l r. keeps_pid pid (de_Serve env l r)) \<and> (\<forall>m. keeps_pid pid (de_Notify env m)) \<and> keeps_pid pid (de_Wait env)"

definition pid_os :: "('w \<Rightarrow> int option) \<Rightarrow> 'w passwd_env \<Rightarrow> bool" where
  "pid_os pid env \<longleftrightarrow> keeps_pid pid (pe_open env) \<and> (\<forall>p. keeps_pid pid (pe_LookPath env p)) \<and>
     (\<forall>d m. keeps_pid pid (pe_MkdirAll env d m)) \<and> (\<forall>p c m. keeps_pid pid (pe_WriteFile env p c m))"

definition pid_router :: "('w \<Rightarrow> int option) \<Rightarrow> ('w, 'g, 'c, 'r) router_env \<Rightarrow> bool" where
  "pid_router pid env \<longleftrightarrow> (\<forall>p. keeps_pid pid (ne_Open env p)) \<and> (\<forall>a n. keeps_pid pid (ne_NewClient env a n)) \<and>
     (\<forall>p. keeps_pid pid (ne_LookPath env p)) \<and> (\<forall>p. keeps_pid pid (ne_Stat env p))"

lemma moves_if: "moves R m \<Longrightarrow> moves R n \<Longrightarrow> moves R (if b then m else n)"
  by simp

lemma keeps_pid_value [simp]: "keeps_pid pid (Pair r)"
  by (simp add: moves_def)

lemma newRouter_keeps:
  assumes "pid_router pid env"
  shows "keeps_pid pid (newRouter env options)"
proof -
  note laws = assms [unfolded pid_router_def]
  have config: "keeps_pid pid (initializeConfig env options)"
    unfolding initializeConfig_def handleConfigOptions_def Let_def
    by (intro keeps_pid.moves_rules moves_if) (use laws in simp)
  have client: "keeps_pid pid (createContainerdClient env conf)" for conf
    unfolding createContainerdClient_def by (intro keeps_pid.moves_rules) (use laws in simp)
  have wrapper: "keeps_pid pid (createNerdctlWrapper env c conf)" for c conf
    unfolding createNerdctlWrapper_def GetNerdctlExe_def
    by (intro keeps_pid.moves_rules moves_if) (use laws in \<open>auto intro: keeps_pid.moves_rules\<close>)
  have policy: "keeps_pid pid (policy_path env options)"
    unfolding policy_path_def checkRegoFileValidity_def rego_file_checks_def rego_mode_check_def
    by (intro keeps_pid.moves_rules moves_if) (use laws in simp_all)
  show ?thesis
    unfolding newRouter_def by (intro keeps_pid.moves_rules config client wrapper policy)
qed

lemma defineDockerConfig_keeps:
  assumes "pid_os pid env"
  shows "keeps_pid pid (defineDockerConfig env uid)"
proof -
  note laws = assms [unfolded pid_os_def]
  have setenv: "keeps_pid pid (Setenv k v)" for k v by (rule movesI) (simp add: Setenv_def)
  have entry: "keeps_pid pid (docker_config_entry env uid e)" for e
    unfolding docker_config_entry_def Let_def
    by (intro keeps_pid.moves_rules moves_if setenv) (use laws in simp_all)
  have "keeps_pid pid (walk_lines (docker_config_entry env uid) ls)" for ls
    by (induction ls) (auto intro!: keeps_pid.moves_rules entry simp del: and_then_ret)
  then show ?thesis unfolding defineDockerConfig_def Walk_def by (intro keeps_pid.moves_rules) (use laws in simp)
qed


lemma pid_lawsD:
  assumes "pid_laws pid env f"
  shows "keeps_pid pid (de_TryLock env p)" "keeps_pid pid (de_Unlock env p)" "p \<noteq> f \<Longrightarrow> keeps_pid pid (de_Remove env p)"
    "keeps_pid pid (de_Stat env p)" "keeps_pid pid (de_Listen env p)" "keeps_pid pid (de_Activation env)" "keeps_pid pid (de_Chmod env p m)"
    "keeps_pid pid (de_Chown env p u g)" "keeps_pid pid (de_ServeCredentials env l)" "keeps_pid pid (de_CloseCredentials env)"
    "keeps_pid pid (de_ServeDebug env p)" "keeps_pid pid (de_Serve env l r)" "keeps_pid pid (de_Notify env n)" "keeps_pid pid (de_Wait env)"
  using assms by (simp_all add: pid_laws_def)

lemma run_servers_keeps:
  assumes laws: "pid_laws pid env f" "pid_os pid (de_os env)" "pid_router pid renv" and other: "do_credentialAddr options \<noteq> f"
  shows "keeps_pid pid (run_servers env renv options)"
proof -
  note calls = pid_lawsD [OF laws(1)]
  have addr: "keeps_pid pid (SetCredentialAddr a)" for a by (rule movesI) (simp add: SetCredentialAddr_def)
  have listener: "keeps_pid pid (credential_listener env options)"
    unfolding credential_listener_def listen_credentials_def own_credentials_def Let_def
    by (intro keeps_pid.moves_rules moves_if calls addr other)
  have closing: "keeps_pid pid (close_credentials env options)"
    unfolding close_credentials_def by (intro keeps_pid.moves_rules calls other)
  have serving: "keeps_pid pid (serve_daemon env options r)" for r
    unfolding serve_daemon_def getListener_def
    by (intro keeps_pid.moves_rules moves_if calls)
  show ?thesis
    unfolding run_servers_def
    by (intro keeps_pid.moves_rules keeps_pid.moves_defer moves_if newRouter_keeps defineDockerConfig_keeps laws listener serving calls)
      (use closing in simp)
qed

definition pid_claimed :: "('w, 'l, 'r, 'a) daemon_env \<Rightarrow> DaemonOptions \<Rightarrow> 'w process \<Rightarrow> bool" where
  "pid_claimed env options w \<longleftrightarrow>
     fst (and_then (pe_MkdirAll (de_os env) (Dir (do_pidFile options)) 384) (\<lambda>_. claim_pid_file env options) w) = Ok ()"

lemma comes_backE:
  assumes "comes_back m"
  obtains x w1 where "m w = (Ok x, w1)" | e w1 where "m w = (Err e, w1)"
  using assms unfolding comes_back_def by (metis prod.collapse)

lemma claim_pid_file_cases:
  assumes laws: "pid_laws pid env (do_pidFile options)"
  obtains w1 where "claim_pid_file env options w = (Ok (), w1)" "pid (pr_Outside w1) = Some (de_Getpid env)"
  | e w1 where "claim_pid_file env options w = (Err e, w1)" "pid (pr_Outside w1) = pid (pr_Outside w)"
proof -
  let ?f = "do_pidFile options"
  have comes: "comes_back (de_TryLock env ?f)" "comes_back (de_WritePid env ?f (de_Getpid env))" "comes_back (de_Unlock env ?f)"
    using laws by (simp_all add: pid_laws_def)
  have wrote: "de_WritePid env ?f (de_Getpid env) u = (Ok x, v) \<Longrightarrow> pid (pr_Outside v) = Some (de_Getpid env)"
    "de_WritePid env ?f (de_Getpid env) u = (Err e, v) \<Longrightarrow> pid (pr_Outside v) = pid (pr_Outside u)" for u v x e
    using laws unfolding pid_laws_def by simp_all
  note kept = movesD [OF pid_lawsD(1) [OF laws]] movesD [OF pid_lawsD(2) [OF laws]]
  from comes(1) show thesis
  proof (rule comes_backE [of _ w])
    fix locked w1 assume lock: "de_TryLock env ?f w = (Ok locked, w1)"
    note w1 = kept(1) [OF lock]
    show thesis
    proof (cases locked)
      case True
      from comes(2) show thesis
      proof (rule comes_backE [of _ w1])
        fix u w2 assume wr: "de_WritePid env ?f (de_Getpid env) w1 = (Ok u, w2)"
        obtain w3 where "ignore_err (de_Unlock env ?f) w2 = (Ok (), w3)" "pid (pr_Outside w3) = pid (pr_Outside w2)"
        proof (rule comes_backE [OF comes(3), of w2])
          fix x w3 assume "de_Unlock env ?f w2 = (Ok x, w3)"
          with that [of w3] kept(2) show thesis by (simp add: ignore_err_def or_else_def)
        next
          fix e w3 assume "de_Unlock env ?f w2 = (Err e, w3)"
          with that [of w3] kept(2) show thesis by (simp add: ignore_err_def or_else_def)
        qed
        moreover have "pid (pr_Outside w2) = Some (de_Getpid env)" using wrote(1) [OF wr] .
        ultimately show thesis using that(1) lock wr True by (simp add: claim_pid_file_def Let_def or_else_def)
      next
        fix e w2 assume wr: "de_WritePid env ?f (de_Getpid env) w1 = (Err e, w2)"
        then show thesis using that(2) lock True w1 wrote(2) [OF wr] by (simp add: claim_pid_file_def Let_def or_else_def)
      qed
    qed (use that(2) lock w1 in \<open>simp add: claim_pid_file_def Let_def or_else_def\<close>)
  next
    fix e w1 assume lock: "de_TryLock env ?f w = (Err e, w1)"
    with that(2) kept(1) [OF lock] show thesis by (simp add: claim_pid_file_def Let_def or_else_def)
  qed
qed



section \<open>Witnesses\<close>

definition start_world :: "'w \<Rightarrow> 'w process" where
  "start_world w = \<lparr>pr_Env = [], pr_CredentialAddr = [], pr_Outside = w\<rparr>"

definition quiet_router :: "('w, unit, unit, unit) router_env" where
  "quiet_router = \<lparr>ne_NewConfig = \<lparr>cf_Debug = False, cf_Address = ''/run/containerd.sock'', cf_Namespace = ''default'', cf_Snapshotter = [], cf_DataRoot = [], cf_CNIPath = [],
      cf_CNINetConfPath = [], cf_HostsDir = [], cf_Rest = ()\<rparr>,
     ne_Open = (\<lambda>p. fail (ErrExt [XNotExist] ''no such file'')), ne_Decode = (\<lambda>c conf. Ok conf), ne_NewClient = (\<lambda>a n. ret ()),
     ne_LookPath = (\<lambda>p. ret p), ne_Stat = (\<lambda>p. ret 384), ne_LessThan = (\<lambda>v u. False),
     ne_PrepareForEval = (\<lambda>p. Ok (\<lambda>r. ret False))\<rparr>"

lemma quiet_router_simps [simp]:
  "ne_NewConfig quiet_router = \<lparr>cf_Debug = False, cf_Address = ''/run/containerd.sock'', cf_Namespace = ''default'', cf_Snapshotter = [], cf_DataRoot = [], cf_CNIPath = [],
      cf_CNINetConfPath = [], cf_HostsDir = [], cf_Rest = ()\<rparr>"
  "ne_Open quiet_router p = fail (ErrExt [XNotExist] ''no such file'')" "ne_NewClient quiet_router a n = ret ()"
  "ne_LookPath quiet_router p = ret p" "ne_Stat quiet_router p = ret 384" "ne_PrepareForEval quiet_router p = Ok (\<lambda>r. ret False)"
  by (simp_all add: quiet_router_def)

definition policy_options :: DaemonOptions where
  "policy_options = default_options\<lparr>do_regoFilePath := ''p.rego'', do_enableExperimental := True\<rparr>"

lemma rego_ext: "ToLower (path_Ext ''p.rego'') = ''.rego''"
  by code_simp

lemma policy_option_simps [simp]:
  "do_regoFilePath policy_options = ''p.rego''" "do_enableExperimental policy_options" "\<not> do_skipRegoPermCheck policy_options"
  by (simp_all add: policy_options_def default_options_def)

lemma quiet_start:
  "\<exists>router :: (unit, unit) mux_router. newRouter (quiet_router :: (unit, unit, unit, unit) router_env) policy_options (start_world ()) = (Ok router, start_world ())"
proof -
  have path: "policy_path (quiet_router :: (unit, unit, unit, unit) router_env) policy_options w = (Ok ''p.rego'', w)" for w
    by (simp add: policy_path_def checkRegoFileValidity_def rego_file_checks_def rego_mode_check_def rego_ext and_127 io_simps)
  obtain conf :: "unit finch_config" where conf: "initializeConfig (quiet_router :: (unit, unit, unit, unit) router_env) policy_options w = (Ok conf, w)" for w
    by (simp add: initializeConfig_def handleConfigOptions_def and_then_def or_else_def Let_def)
  show ?thesis
    by (simp add: newRouter_def conf path createContainerdClient_def createNerdctlWrapper_def GetNerdctlExe_def NewNerdctlWrapper_def
        New_def CreateRegoMiddleware_def and_then_def or_else_def)
qed

theorem policy_never_dropped_witness:
  "\<exists>(router :: (unit, unit) mux_router) w' policy. newRouter quiet_router policy_options (start_world ()) = (Ok router, w') \<and>
    ne_PrepareForEval (quiet_router :: (unit, unit, unit, unit) router_env) ''p.rego'' = Ok policy \<and>
    (\<forall>h. guarded router h = VersionMiddleware (ne_LessThan (quiet_router :: (unit, unit, unit, unit) router_env)) (rego_middleware policy h))"
proof -
  obtain router :: "(unit, unit) mux_router" where run: "newRouter (quiet_router :: (unit, unit, unit, unit) router_env) policy_options (start_world ()) = (Ok router, start_world ())"
    using quiet_start by blast
  have "\<exists>policy. ne_PrepareForEval (quiet_router :: (unit, unit, unit, unit) router_env) ''p.rego'' = Ok policy \<and>
    (\<forall>h. guarded router h = VersionMiddleware (ne_LessThan (quiet_router :: (unit, unit, unit, unit) router_env)) (rego_middleware policy h))"
    using policy_never_dropped [OF run] by simp
  with run show ?thesis by blast
qed

text \<open>A system whose state is the process id in the pid file \<open>/p\<close>, which is free or locked by another process.\<close>

definition pid_system :: "bool \<Rightarrow> (int option, unit, unit, unit) daemon_env" where
  "pid_system free = \<lparr>de_os = \<lparr>pe_open = ret [], pe_LookPath = (\<lambda>p. ret p), pe_MkdirAll = (\<lambda>d m. ret ()), pe_WriteFile = (\<lambda>f c m. ret ())\<rparr>,
     de_Getpid = 7, de_TryLock = (\<lambda>f. ret free), de_Unlock = (\<lambda>f. ret ()), de_WritePid = (\<lambda>f p w. (Ok (), w\<lparr>pr_Outside := Some p\<rparr>)),
     de_Remove = (\<lambda>f w. (Ok (), if f = ''/p'' then w\<lparr>pr_Outside := None\<rparr> else w)), de_Stat = (\<lambda>f. ret ()), de_Listen = (\<lambda>a. ret ()),
     de_Activation = ret [], de_Chmod = (\<lambda>f m. ret ()), de_Chown = (\<lambda>f u g. ret ()), de_ServeCredentials = (\<lambda>l. ret ()), de_CloseCredentials = ret (),
     de_ServeDebug = (\<lambda>a. ret ()), de_Serve = (\<lambda>l r. ret ()), de_Notify = (\<lambda>m. ret ()), de_Wait = ret ()\<rparr>"

lemma pid_system_laws: "pid_laws id (pid_system free) ''/p''" "pid_os id (de_os (pid_system free))" "pid_router id quiet_router"
  by (simp_all add: pid_laws_def pid_os_def pid_router_def pid_system_def comes_back_def moves_def)

definition pid_options :: DaemonOptions where
  "pid_options = default_options\<lparr>do_pidFile := ''/p''\<rparr>"


text \<open>A system whose state is what the socket file is.\<close>

definition socket_system :: "(nat \<times> int, unit, unit, unit) daemon_env" where
  "socket_system = \<lparr>de_os = \<lparr>pe_open = ret [], pe_LookPath = (\<lambda>p. ret p), pe_MkdirAll = (\<lambda>d m. ret ()), pe_WriteFile = (\<lambda>f c m. ret ())\<rparr>,
     de_Getpid = 7, de_TryLock = (\<lambda>f. ret True), de_Unlock = (\<lambda>f. ret ()), de_WritePid = (\<lambda>f p. ret ()), de_Remove = (\<lambda>f. ret ()),
     de_Stat = (\<lambda>f. fail (ErrExt [XNotExist] ''no such file'')), de_Listen = (\<lambda>a w. (Ok (), w\<lparr>pr_Outside := (493, 0)\<rparr>)),
     de_Activation = ret [], de_Chmod = (\<lambda>f m w. (Ok (), w\<lparr>pr_Outside := (m, snd (pr_Outside w))\<rparr>)),
     de_Chown = (\<lambda>f u g w. (Ok (), w\<lparr>pr_Outside := (fst (pr_Outside w), u)\<rparr>)), de_ServeCredentials = (\<lambda>l. ret ()), de_CloseCredentials = ret (),
     de_ServeDebug = (\<lambda>a. ret ()), de_Serve = (\<lambda>l r. ret ()), de_Notify = (\<lambda>m. ret ()), de_Wait = ret ()\<rparr>"

theorem credential_socket_private_witness:
  "\<exists>w'. credential_listener socket_system (default_options\<lparr>do_credentialSocketOwner := 1000\<rparr>) (start_world (0, 0)) = (Ok (), w') \<and> pr_Outside w' = (384, 1000)"
proof -
  let ?opts = "default_options\<lparr>do_credentialSocketOwner := 1000\<rparr>"
  have laws: "socket_laws pr_Outside 0 socket_system a" for a
    by (simp add: socket_laws_def socket_system_def moves_def same_addr_def)
  obtain w' where run: "credential_listener socket_system ?opts (start_world (0, 0)) = (Ok (), w')"
    by (simp add: credential_listener_def listen_credentials_def own_credentials_def SetCredentialAddr_def socket_system_def
        and_then_def or_else_def Let_def)
  from credential_socket_private [OF laws run] have "pr_Outside w' = (384, 1000)" by simp
  with run show ?thesis by blast
qed

end
