(* ===== verification/Tools.thy ===== *)
theory Tools
  imports Errdefs
begin

text \<open>
  Two small packages that the others are built on: the log levels of \<open>pkg/flog\<close> and the commands of \<open>pkg/ecc\<close>. A level is an \<open>int\<close> of Go; the names
  of the levels are slices of one string, as \<open>stringer\<close> generates them. A command is what \<open>os/exec\<close> is told before it runs.
\<close>

section \<open>Log levels\<close>

type_synonym Level = int

definition Debug_level :: Level where "Debug_level = 0"
definition Panic_level :: Level where "Panic_level = 1"

definition Level_name :: string where
  "Level_name = ''DebugPanic''"

definition Level_index :: "nat list" where
  "Level_index = [0, 5, 10]"

definition Level_String :: "Level \<Rightarrow> string" where
  "Level_String i =
     (if i < 0 \<or> i \<ge> int (length Level_index - 1) then ''Level('' @ Itoa i @ '')''
      else take (Level_index ! (nat i + 1) - Level_index ! nat i) (drop (Level_index ! nat i) Level_name))"

text \<open>The two levels of logrus that the wrapper knows; any other level leaves the logger as it is.\<close>

datatype logrus_level = LogrusDebug | LogrusPanic

definition SetLevel :: "(logrus_level \<Rightarrow> 'w \<Rightarrow> 'w) \<Rightarrow> Level \<Rightarrow> 'w \<Rightarrow> 'w" where
  "SetLevel logrus_SetLevel level =
     (if level = Debug_level then logrus_SetLevel LogrusDebug
      else if level = Panic_level then logrus_SetLevel LogrusPanic else id)"

lemma Level_String_simps [simp]:
  "Level_String Debug_level = ''Debug''" "Level_String Panic_level = ''Panic''"
  "i \<noteq> Debug_level \<Longrightarrow> i \<noteq> Panic_level \<Longrightarrow> Level_String i = ''Level('' @ Itoa i @ '')''"
  by (auto simp: Level_String_def Level_index_def Level_name_def Debug_level_def Panic_level_def)

text \<open>No two levels have the same name, declared or not.\<close>

lemma Level_String_inject:
  assumes "- (2 ^ 63) \<le> i" "i < 2 ^ 63" "- (2 ^ 63) \<le> j" "j < 2 ^ 63" "Level_String i = Level_String j"
  shows "i = j"
proof (cases "i \<in> {Debug_level, Panic_level} \<or> j \<in> {Debug_level, Panic_level}")
  case True
  moreover have "(i = Debug_level \<or> i = Panic_level \<or> Level_String i = ''Level('' @ Itoa i @ '')'')"
    "(j = Debug_level \<or> j = Panic_level \<or> Level_String j = ''Level('' @ Itoa j @ '')'')" using Level_String_simps(3) by blast+
  ultimately show ?thesis using assms(5) by auto
next
  case False
  then show ?thesis using assms Itoa_inject [of i j] by simp
qed

section \<open>Commands\<close>

record ('i, 'o) exec_cmd =
  cmd_Name :: string
  cmd_Args :: "string list"
  cmd_Dir :: string
  cmd_Stdin :: "'i option"
  cmd_Stdout :: "'o option"
  cmd_Stderr :: "'o option"

definition Command :: "string \<Rightarrow> string list \<Rightarrow> ('i, 'o) exec_cmd" where
  "Command name args = \<lparr>cmd_Name = name, cmd_Args = args, cmd_Dir = [], cmd_Stdin = None, cmd_Stdout = None, cmd_Stderr = None\<rparr>"

definition SetDir :: "string \<Rightarrow> ('i, 'o) exec_cmd \<Rightarrow> ('i, 'o) exec_cmd" where
  "SetDir path c = c\<lparr>cmd_Dir := path\<rparr>"

definition SetStdout :: "'o \<Rightarrow> ('i, 'o) exec_cmd \<Rightarrow> ('i, 'o) exec_cmd" where
  "SetStdout writer c = c\<lparr>cmd_Stdout := Some writer\<rparr>"

definition SetStderr :: "'o \<Rightarrow> ('i, 'o) exec_cmd \<Rightarrow> ('i, 'o) exec_cmd" where
  "SetStderr writer c = c\<lparr>cmd_Stderr := Some writer\<rparr>"

definition SetStdin :: "'i \<Rightarrow> ('i, 'o) exec_cmd \<Rightarrow> ('i, 'o) exec_cmd" where
  "SetStdin reader c = c\<lparr>cmd_Stdin := Some reader\<rparr>"

definition GetDir :: "('i, 'o) exec_cmd \<Rightarrow> string" where
  "GetDir c = cmd_Dir c"

definition cmd_Run :: "(('i, 'o) exec_cmd \<Rightarrow> ('w, unit) io) \<Rightarrow> ('i, 'o) exec_cmd \<Rightarrow> ('w, unit) io" where
  "cmd_Run os_exec c = os_exec c"

lemma setters_commute:
  "SetDir d (SetStdin r c) = SetStdin r (SetDir d c)" "SetDir d (SetStdout o1 c) = SetStdout o1 (SetDir d c)"
  "SetStdin r (SetStdout o1 c) = SetStdout o1 (SetStdin r c)" "SetStdout o1 (SetStderr o2 c) = SetStderr o2 (SetStdout o1 c)"
  "GetDir (SetDir d c) = d"
  by (simp_all add: SetDir_def SetStdin_def SetStdout_def SetStderr_def GetDir_def)

end
