(* ===== verification/Spec2Isabelle.thy ===== *)
theory Spec2Isabelle
  imports Network_Api Net_Registry Net_Ends Image_Store Container_Create Logs Stats Volumes Distribution Daemon Tools
begin

text \<open>
  finch-daemon is a daemon with a Docker-compatible HTTP API over containerd and nerdctl. This development models its Go code,
  translated file by file, and proves what the parts promise. All paths are under \<open>src/\<close>.

  The program. \<open>cmd/finch-daemon\<close> reads its configuration, claims a pid file, opens two sockets and serves a router on the one and build credentials on
  the other. The router (\<open>api/router\<close>) checks the version and the policy of a request and hands it to a handler (\<open>api/handlers\<close>); a handler
  decodes the request, calls one operation of a service (\<open>internal/service\<close>) and maps the result to a status and a body (\<open>api/response\<close>,
  \<open>pkg/errdefs\<close>). Services call containerd and nerdctl through the backend (\<open>internal/backend\<close>). Buildkit, started for an image build, fetches registry
  credentials by a helper process over the second socket (\<open>pkg/credential\<close>, \<open>api/credential\<close>, \<open>cmd/finch-credential-helper\<close>).

  Shape of the model. A call that may fail or change anything outside its variables is a function from a world to a result and a world:
  \<open>('w, 'a) io\<close> of \<open>Errdefs\<close>, with the results \<open>Ok\<close>, \<open>Err\<close> (Go's error value, an error chain), \<open>Panic\<close> (a run-time panic) and \<open>Hang\<close> (a call that does not return).
  Early returns are \<open>and_then\<close> and \<open>or_else\<close>, deferred calls \<open>defer_cleanup\<close>. Code outside the repository (containerd, nerdctl, buildkit, mux, the policy
  engine, parsers of URLs and references, JSON decoding, the operating system) is a field of a record of parameters (\<open>containerd_client\<close>, \<open>nerdctl_containers\<close>, \<open>net_env\<close>,
  \<open>bk_env\<close>, \<open>image_env\<close>, \<open>archive_env\<close>, \<open>exec_env\<close>, \<open>logs_env\<close>, \<open>stats_env\<close>, \<open>router_env\<close>, \<open>daemon_env\<close> and others). Properties that need
  such code to behave name what they need in a definition (for example \<open>temp_laws\<close>, \<open>conn_laws\<close>, \<open>pid_laws\<close>, \<open>socket_laws\<close>, \<open>fs_works\<close>, \<open>keeps_registry\<close>), and a witness shows each on a
  concrete system. A goroutine is either part of the call that waits for it, or the list of events it reacts to; interleavings matter for the network locks, where they are
  modelled as a step relation.

  Theories, in the order of the layers, and what their lemmas show.

  \<^item> \<open>Go_Prelude\<close>: Go's strings, numbers, maps, paths and JSON values. \<open>Paths\<close>: cleaning, joining and the parents of paths. \<open>Effects\<close>: what a computation
    may do to the world; the locale \<open>io_effect\<close> closes a preorder on worlds under the composition of computations.
  \<^item> \<open>Tools\<close>: log levels (\<open>pkg/flog\<close>) and commands (\<open>pkg/ecc\<close>). \<open>Errdefs\<close> (\<open>pkg/errdefs\<close>): domain types of errors, decided by the outermost type and kept by wrapping. \<open>Response\<close> (\<open>api/response\<close>): the first status wins; the stream
    writers send one status line, by the locale \<open>status_once\<close>. \<open>Handlers\<close>: the locale \<open>status_map\<close> of the mappings from errors to status codes.
  \<^item> \<open>Net_Locks\<close> (locks of \<open>internal/service/network\<close>): \<open>inductive\<close> interleavings of requests, exclusion, exact counters, progress. \<open>Iptables\<close>, \<open>Bridge\<close>
    (\<open>network/driver\<close>): packet filter chains before and after each rule, bridge names in the configuration files under the directory lock. \<open>Network\<close> (create, remove, list,
    inspect, the lookup as the locale \<open>unique_lookup\<close>), \<open>Net_Registry\<close> (creation and removal refine an abstract registry, \<open>registry_step\<close>), \<open>Net_Ends\<close> (which
    requests come to an end), \<open>Net_Connect\<close> (connect and
    its roll-back), \<open>Network_Api\<close> (handlers).
  \<^item> \<open>Containerd\<close> (searches, states, used images), \<open>Backend\<close> (the wrappers and the options they hand on).
  \<^item> \<open>Container_Types\<close>, \<open>Containers\<close> (service, refined by the abstract life cycle of a container), \<open>Filters\<close>, \<open>Container_Api\<close> (handlers), \<open>Container_Create\<close>
    (the create request, its checks and translation).
  \<^item> \<open>Archives\<close> (copying in and out of containers: paths, read-only mounts, temporary directories), \<open>Exec\<close> (processes in containers and the hijacked connection, whose output is
    a list of chunks in \<open>conn_world\<close>), \<open>Logs\<close> (attach and logs on such a connection), \<open>Stats\<close> (the stream of statistics, with counters at 64 bits).
  \<^item> \<open>Credentials\<close> (the cache as the locale \<open>keyed_store\<close>, the peer check, the helper), \<open>Builder\<close> (buildctl's arguments, the build and the lifetime of its credentials), \<open>Images\<close>
    and \<open>Image_Store\<close> (tags and removals refine a map from names to digests, \<open>image_step\<close>), \<open>Distribution\<close> (digest-checked answers), \<open>Volumes\<close>, \<open>System\<close> (login, events, version).
  \<^item> \<open>Router\<close> (the route table and the middlewares), \<open>Passwd\<close> and \<open>Daemon\<close> (start and end of the process), and this theory, which leads from the command line to a request.

  Every locale is interpreted on the definitions of the code: \<open>status_once\<close> on both stream writers, \<open>status_map\<close> on the mapping of every handler, \<open>unique_lookup\<close> on containers and
  networks, \<open>keyed_store\<close> on the credential cache, \<open>io_effect\<close> on the temporary directories, the connection's output, the pid file and the registry
  of networks.

  Bounds and totality. Machine integers that can overflow are words (\<open>Stats\<close>) or reduced by \<open>wrap64\<close>. Loops are structural recursions, over
  lists of events where the code waits for events, so no fuel is used; the parent search of \<open>Archives\<close>, which need not end, and the retry loop of the directory lock are \<open>partial_function\<close>,
  with theorems that they return, or that they do not. A lock that is taken twice by one request is \<open>Hang\<close>, and so is \<open>log.Fatal\<close>, because neither runs deferred functions.

  Assumptions of the translation. Strings are ASCII. A map is an association list with distinct keys, where the order is that of an iteration. A JSON text is the value it denotes
  or an error, decoded by the code's own structure, with keys matched exactly. Nil and empty slices are distinguished only where the code does. Requests are matched to handlers by
  mux; the theorem on shadowed routes states the rule it relies on. Contexts are cancelled only where the model has an event for it. In messages, what
  \<open>%#v\<close> prints of a library's value is left out or the text of the error.

  Not modelled. Log messages (\<open>pkg/flog\<close>, of which \<open>Tools\<close> has the levels, forwards them to logrus), the constructors of services and handlers and
  \<open>createRouterOptions\<close>, which only store their arguments; the command line parser; the access log of the router; \<open>internal/backend/system.go\<close>, one call of
  nerdctl; mocks and tests.
\<close>

section \<open>From the command line to a request\<close>

text \<open>
  C15: A request that the daemon's policy denies changes nothing: in a daemon that was started with a policy file, no handler of any component
  is run for it, only the policy itself. The answer is 403, or 400 for an unsupported version, which is looked at first.
\<close>

theorem denied_request_changes_nothing:
  assumes start: "newRouter env options w = (Ok router, w')" "do_regoFilePath options \<noteq> []"
    and policy: "ne_PrepareForEval env (do_regoFilePath options) = Ok policy"
    and denied: "policy (rq_Method r, rq_Path r) v = (Ok False, v1)" and fresh: "w_sent rw = None"
  shows "\<exists>rw'. (\<forall>h. guarded router h r rw v = (Ok rw', if version_ok (ne_LessThan env) r then v1 else v)) \<and>
    status_of rw' = Some (if version_ok (ne_LessThan env) r then 403 else 400)"
proof -
  from newRouter_OkD [OF start] policy
  have guard: "guarded router h = VersionMiddleware (ne_LessThan env) (rego_middleware policy h)" for h by (metis res.inject(1))
  have status: "status_of (SendErrorResponse c err rw) = Some c" for c err using fresh by (simp add: status_of_def [of rw])
  show ?thesis
  proof (cases "version_ok (ne_LessThan env) r")
    case True
    have "guarded router h r rw v = (Ok (SendErrorResponse 403 (ErrMsg (''method '' @ rq_Method r @ '' not allowed for path '' @ rq_Path r)) rw), v1)" for h
      using denied by (simp add: guard version_accepted [OF True] rego_middleware_def or_else_def)
    with True status show ?thesis by auto
  next
    case False
    from version_refused [OF this, of rw v] obtain err where "\<forall>h. guarded router h r rw v = (Ok (SendErrorResponse 400 err rw), v)"
      unfolding guard by blast
    with False status show ?thesis by auto
  qed
qed

theorem denied_request_changes_nothing_witness:
  "\<exists>(router :: (unit, unit) mux_router) w' rw'. newRouter quiet_router policy_options (start_world ()) = (Ok router, w') \<and>
    (\<forall>h. guarded router h \<lparr>rq_Method = ''DELETE'', rq_Path = ''/images/x'', rq_vars = [], rq_APIVersion = None\<rparr> (new_respw True) () = (Ok rw', ())) \<and>
    status_of rw' = Some 403"
proof -
  obtain router :: "(unit, unit) mux_router" where run: "newRouter (quiet_router :: (unit, unit, unit, unit) router_env) policy_options (start_world ()) = (Ok router, start_world ())"
    using quiet_start by blast
  let ?r = "\<lparr>rq_Method = ''DELETE'', rq_Path = ''/images/x'', rq_vars = [], rq_APIVersion = None\<rparr>"
  have "do_regoFilePath policy_options = ''p.rego''" by (simp add: policy_options_def)
  with denied_request_changes_nothing [OF run, of "\<lambda>r. ret False" ?r "()" "()" "new_respw True"]
  have "\<exists>rw'. (\<forall>h. guarded router h ?r (new_respw True) () = (Ok rw', ())) \<and> status_of rw' = Some 403"
    by (simp add: new_respw_def version_ok_def)
  with run show ?thesis by blast
qed

section \<open>A request through all layers\<close>



end
